(* ===== verification/Prelude.thy ===== *)
theory Prelude
  imports Main "HOL-Library.AList" "HOL-Library.List_Lexorder" "HOL-Library.Char_ord"
begin

text \<open>
  Shared vocabulary of the development: the exceptions the service raises
  (\<open>src/app/archive/exceptions.py\<close> and the exception classes of the other modules), the
  state-exception monad in which the methods are written, a Hoare triple for it with its
  rules in the collection \<open>wp\<close>, Python's insertion-ordered dictionaries as association
  lists, and the string operations of the Python library the code calls.
\<close>

named_theorems wp \<open>rules for triples over the state-exception monad\<close>
named_theorems io_simps \<open>unfolding of monadic programs on a given state\<close>

section \<open>Exceptions\<close>

text \<open>
  One constructor per exception class. The message the code passes is kept, because one
  class is often raised by several branches. \<open>ValidationError\<close> is pydantic's;
  \<open>DriverError\<close> stands for an exception of a database driver or of a cloud client that the
  code lets through.
\<close>

datatype exc =
    MetadataValidationError string
  | DuplicateArchiveRequestConflict string
  | DocumentNotFoundError
  | ArchiveDocumentLookupUnavailableError
  | ArchiveDocumentLookupTimeoutError
  | DocumentChecksumMismatchError string
  | DeclaredChecksumMismatchError string string
  | ArtifactIdentityCollisionError string string string
  | LegalHoldActiveError
  | LegalHoldNotFoundError
  | PurgeAlreadyStartedError
  | PurgeNotEligibleError
  | SupersessionConflictError string
  | UnsupportedLifecycleTransitionError string
  | HistoricalIntegrityError
  | StorageWriteFailedError string
  | StorageReadFailedError string
  | RuntimeConfigurationError string
  | AuthorizationFailedError string
  | CallerContextMissingError "string list"
  | CallerScopeMissingError "string list"
  | LifecycleDecisionConflictError
  | LifecycleDecisionTenantError string
  | LifecycleDecisionSigningKeyRevokedError
  | LifecycleDecisionDocumentError string
  | UnsupportedChecksumAlgorithmError string
  | ValidationError string
  | ValueError string
  | KeyError
  | OverflowError
  | DriverError string
  | LoopBoundExceeded

section \<open>The state-exception monad\<close>

text \<open>
  A method that reads and writes the state \<open>'w\<close> and returns an \<open>'a\<close> or raises. As in
  Python, what was written before the exception stays written.
\<close>

type_synonym ('w, 'a) io = "'w \<Rightarrow> (exc + 'a) \<times> 'w"

definition ret :: "'a \<Rightarrow> ('w, 'a) io" where
  "ret x = (\<lambda>w. (Inr x, w))"

definition raise :: "exc \<Rightarrow> ('w, 'a) io" where
  "raise e = (\<lambda>w. (Inl e, w))"

definition bind_io :: "('w, 'a) io \<Rightarrow> ('a \<Rightarrow> ('w, 'b) io) \<Rightarrow> ('w, 'b) io" where
  "bind_io m f = (\<lambda>w. case m w of (Inl e, w') \<Rightarrow> (Inl e, w') | (Inr x, w') \<Rightarrow> f x w')"

definition seq_io :: "('w, 'a) io \<Rightarrow> ('w, 'b) io \<Rightarrow> ('w, 'b) io" where
  "seq_io m k = bind_io m (\<lambda>_. k)"

definition gets :: "('w \<Rightarrow> 'a) \<Rightarrow> ('w, 'a) io" where
  "gets f = (\<lambda>w. (Inr (f w), w))"

definition modify_io :: "('w \<Rightarrow> 'w) \<Rightarrow> ('w, unit) io" where
  "modify_io f = (\<lambda>w. (Inr (), f w))"

definition of_result :: "exc + 'a \<Rightarrow> ('w, 'a) io" where
  "of_result r = (\<lambda>w. (r, w))"

definition try_except :: "('w, 'a) io \<Rightarrow> (exc \<Rightarrow> ('w, 'a) io) \<Rightarrow> ('w, 'a) io" where
  "try_except m h = (\<lambda>w. case m w of (Inl e, w') \<Rightarrow> h e w' | (Inr x, w') \<Rightarrow> (Inr x, w'))"

definition skip_io :: "('w, unit) io" where
  "skip_io = ret ()"

lemma ret_bind [simp]: "bind_io (ret x) f = f x"
  by (simp add: bind_io_def ret_def)

lemma raise_bind [simp]: "bind_io (raise e) f = raise e"
  by (simp add: bind_io_def raise_def)

lemma bind_io_assoc: "bind_io (bind_io m f) g = bind_io m (\<lambda>x. bind_io (f x) g)"
  by (auto simp: bind_io_def fun_eq_iff split: prod.splits sum.splits)

lemma skip_seq [simp]: "seq_io skip_io k = k" "seq_io (ret x) k = k" "seq_io (raise e) k = raise e"
  by (simp_all add: seq_io_def skip_io_def)

declare ret_def [io_simps] raise_def [io_simps] bind_io_def [io_simps] seq_io_def [io_simps]
  gets_def [io_simps] modify_io_def [io_simps] of_result_def [io_simps]
  try_except_def [io_simps] skip_io_def [io_simps]

lemma run_ret: "ret x w = (Inr x, w)"
  by (simp add: ret_def)

lemma run_raise: "raise e w = (Inl e, w)"
  by (simp add: raise_def)

lemma run_bind_Inr: "m w = (Inr x, w') \<Longrightarrow> bind_io m f w = f x w'"
  by (simp add: bind_io_def)

lemma run_bind_Inl: "m w = (Inl e, w') \<Longrightarrow> bind_io m f w = (Inl e, w')"
  by (simp add: bind_io_def)

lemma bind_io_cases:
  assumes "bind_io m f w = (r, w')"
  obtains (err) e where "m w = (Inl e, w')" "r = Inl e"
    | (ok) x w1 where "m w = (Inr x, w1)" "f x w1 = (r, w')"
  using assms by (auto simp: bind_io_def split: prod.splits sum.splits)

section \<open>Triples\<close>

text \<open>
  \<open>triple P m Q E\<close>: run from a state with \<open>P\<close>, \<open>m\<close> either returns with \<open>Q\<close> of its value and
  the final state, or raises with \<open>E\<close> of the exception and the final state.
\<close>

definition triple ::
    "('w \<Rightarrow> bool) \<Rightarrow> ('w, 'a) io \<Rightarrow> ('a \<Rightarrow> 'w \<Rightarrow> bool) \<Rightarrow> (exc \<Rightarrow> 'w \<Rightarrow> bool) \<Rightarrow> bool" where
  "triple P m Q E \<longleftrightarrow>
     (\<forall>w. P w \<longrightarrow> (case m w of (Inr x, w') \<Rightarrow> Q x w' | (Inl e, w') \<Rightarrow> E e w'))"

lemma tripleI:
  assumes "\<And>w x w'. P w \<Longrightarrow> m w = (Inr x, w') \<Longrightarrow> Q x w'"
    and "\<And>w e w'. P w \<Longrightarrow> m w = (Inl e, w') \<Longrightarrow> E e w'"
  shows "triple P m Q E"
  using assms by (auto simp: triple_def split: prod.splits sum.splits)

lemma triple_returns: "triple P m Q E \<Longrightarrow> P w \<Longrightarrow> m w = (Inr x, w') \<Longrightarrow> Q x w'"
  by (auto simp: triple_def)

lemma triple_raises: "triple P m Q E \<Longrightarrow> P w \<Longrightarrow> m w = (Inl e, w') \<Longrightarrow> E e w'"
  by (auto simp: triple_def)

lemma triple_pre: "triple P m Q E \<Longrightarrow> (\<And>w. P' w \<Longrightarrow> P w) \<Longrightarrow> triple P' m Q E"
  by (auto simp: triple_def)

lemma triple_post:
  "triple P m Q E \<Longrightarrow> (\<And>x w. Q x w \<Longrightarrow> Q' x w) \<Longrightarrow> (\<And>e w. E e w \<Longrightarrow> E' e w) \<Longrightarrow> triple P m Q' E'"
  by (auto simp: triple_def split: prod.splits sum.splits)

lemma triple_ret [wp]: "(\<And>w. P w \<Longrightarrow> Q x w) \<Longrightarrow> triple P (ret x) Q E"
  by (simp add: triple_def ret_def)

lemma triple_raise [wp]: "(\<And>w. P w \<Longrightarrow> E e w) \<Longrightarrow> triple P (raise e) Q E"
  by (simp add: triple_def raise_def)

lemma triple_bind:
  "triple P m R E \<Longrightarrow> (\<And>x. triple (R x) (f x) Q E) \<Longrightarrow> triple P (bind_io m f) Q E"
  by (fastforce simp: triple_def bind_io_def split: prod.splits sum.splits)

lemma triple_seq:
  "triple P m (\<lambda>_. R) E \<Longrightarrow> triple R k Q E \<Longrightarrow> triple P (seq_io m k) Q E"
  by (simp add: seq_io_def triple_bind)

lemma triple_try:
  "triple P m Q R \<Longrightarrow> (\<And>e. triple (R e) (h e) Q E) \<Longrightarrow> triple P (try_except m h) Q E"
  by (fastforce simp: triple_def try_except_def split: prod.splits sum.splits)

lemma triple_if [wp]:
  "(b \<Longrightarrow> triple P m Q E) \<Longrightarrow> (\<not> b \<Longrightarrow> triple P k Q E) \<Longrightarrow> triple P (if b then m else k) Q E"
  by simp

lemma triple_option [wp]:
  "(x = None \<Longrightarrow> triple P m Q E) \<Longrightarrow> (\<And>y. x = Some y \<Longrightarrow> triple P (f y) Q E)
    \<Longrightarrow> triple P (case x of None \<Rightarrow> m | Some y \<Rightarrow> f y) Q E"
  by (cases x) auto

lemma triple_gets [wp]: "(\<And>w. P w \<Longrightarrow> Q (f w) w) \<Longrightarrow> triple P (gets f) Q E"
  by (simp add: triple_def gets_def)

lemma triple_of_result [wp]:
  "(\<And>x. r = Inr x \<Longrightarrow> triple P (ret x) Q E) \<Longrightarrow> (\<And>e. r = Inl e \<Longrightarrow> triple P (raise e) Q E)
    \<Longrightarrow> triple P (of_result r) Q E"
  by (cases r) (auto simp: of_result_def ret_def raise_def)

lemma triple_prop: "(p \<Longrightarrow> triple P m Q E) \<Longrightarrow> triple (\<lambda>w. p \<and> P w) m Q E"
  by (auto simp: triple_def)

text \<open>\<open>keeps I m\<close>: \<open>m\<close> preserves the invariant \<open>I\<close>, whether it returns or raises.\<close>

definition keeps :: "('w \<Rightarrow> bool) \<Rightarrow> ('w, 'a) io \<Rightarrow> bool" where
  "keeps I m \<longleftrightarrow> triple I m (\<lambda>_. I) (\<lambda>_. I)"

lemma keeps_iff: "keeps I m \<longleftrightarrow> (\<forall>w. I w \<longrightarrow> I (snd (m w)))"
  by (simp add: keeps_def triple_def split_def split: sum.split)

lemma keepsD: "keeps I m \<Longrightarrow> I w \<Longrightarrow> I (snd (m w))"
  by (simp add: keeps_iff)

lemma keeps_ret [wp]: "keeps I (ret x)" and keeps_raise [wp]: "keeps I (raise e)"
  and keeps_gets [wp]: "keeps I (gets f)" and keeps_of_result [wp]: "keeps I (of_result r)"
  and keeps_skip [wp]: "keeps I skip_io"
  by (simp_all add: keeps_iff ret_def raise_def gets_def of_result_def skip_io_def)

lemma keeps_bind [wp]: "keeps I m \<Longrightarrow> (\<And>x. keeps I (f x)) \<Longrightarrow> keeps I (bind_io m f)"
  by (auto simp: keeps_def intro: triple_bind)

lemma keeps_seq [wp]: "keeps I m \<Longrightarrow> keeps I k \<Longrightarrow> keeps I (seq_io m k)"
  by (simp add: seq_io_def keeps_bind)

lemma keeps_try [wp]: "keeps I m \<Longrightarrow> (\<And>e. keeps I (h e)) \<Longrightarrow> keeps I (try_except m h)"
  by (auto simp: keeps_def intro: triple_try)

lemma keeps_if [wp]: "(b \<Longrightarrow> keeps I m) \<Longrightarrow> (\<not> b \<Longrightarrow> keeps I k) \<Longrightarrow> keeps I (if b then m else k)"
  by simp

lemma keeps_option [wp]:
  "(x = None \<Longrightarrow> keeps I m) \<Longrightarrow> (\<And>y. x = Some y \<Longrightarrow> keeps I (f y))
    \<Longrightarrow> keeps I (case x of None \<Rightarrow> m | Some y \<Rightarrow> f y)"
  by (cases x) auto

section \<open>Python dictionaries\<close>

text \<open>
  A Python dictionary iterates in insertion order, and assigning to a key it already holds
  keeps that key's place: this is \<open>AList.update\<close> on an association list.
\<close>

type_synonym ('k, 'v) dict = "('k \<times> 'v) list"

definition dict_get :: "('k, 'v) dict \<Rightarrow> 'k \<Rightarrow> 'v option" where
  "dict_get d k = map_of d k"

definition dict_set :: "'k \<Rightarrow> 'v \<Rightarrow> ('k, 'v) dict \<Rightarrow> ('k, 'v) dict" where
  "dict_set k v d = AList.update k v d"

definition dict_values :: "('k, 'v) dict \<Rightarrow> 'v list" where
  "dict_values d = map snd d"

definition dict_ok :: "('k, 'v) dict \<Rightarrow> bool" where
  "dict_ok d \<longleftrightarrow> distinct (map fst d)"

lemma dict_get_set [simp]: "dict_get (dict_set k v d) = (dict_get d)(k \<mapsto> v)"
  by (simp add: dict_get_def dict_set_def update_conv' fun_eq_iff)

lemma dict_ok_set [simp, intro]: "dict_ok d \<Longrightarrow> dict_ok (dict_set k v d)"
  by (simp add: dict_ok_def dict_set_def distinct_update)

lemma dict_empty [simp]: "dict_ok []" "dict_get [] k = None" "dict_values [] = []"
  by (simp_all add: dict_ok_def dict_get_def dict_values_def)

lemma dict_get_iff: "dict_ok d \<Longrightarrow> dict_get d k = Some v \<longleftrightarrow> (k, v) \<in> set d"
  by (simp add: dict_ok_def dict_get_def)

lemma dict_values_iff: "dict_ok d \<Longrightarrow> v \<in> set (dict_values d) \<longleftrightarrow> (\<exists>k. dict_get d k = Some v)"
  by (force simp: dict_get_iff dict_values_def)

lemma finite_dom_dict_get [simp]: "finite (dom (dict_get d))"
  by (simp add: dict_get_def[abs_def] finite_dom_map_of)

lemma card_dict_values:
  assumes "dict_ok d"
  shows "length (filter P (dict_values d)) = card {k. \<exists>v. dict_get d k = Some v \<and> P v}"
proof -
  have "{k. \<exists>v. dict_get d k = Some v \<and> P v} = fst ` set (filter (P \<circ> snd) d)"
    using assms by (force simp: dict_get_iff)
  moreover have "inj_on fst (set (filter (P \<circ> snd) d))"
    using assms by (auto simp: dict_ok_def distinct_map intro: inj_on_subset)
  moreover have "distinct d"
    using assms by (simp add: dict_ok_def distinct_map)
  ultimately show ?thesis
    by (simp add: card_image dict_values_def filter_map comp_def distinct_card [symmetric])
qed

section \<open>Python strings\<close>

text \<open>
  Python strings are modelled as lists of characters; case mapping and whitespace are those
  of ASCII, which is what region codes, formats, header names and digests are written in.
\<close>

definition ascii_lower :: "char \<Rightarrow> char" where
  "ascii_lower c = (if 65 \<le> (of_char c :: nat) \<and> (of_char c :: nat) \<le> 90
                    then char_of ((of_char c :: nat) + 32) else c)"

definition ascii_upper :: "char \<Rightarrow> char" where
  "ascii_upper c = (if 97 \<le> (of_char c :: nat) \<and> (of_char c :: nat) \<le> 122
                    then char_of ((of_char c :: nat) - 32) else c)"

definition py_lower :: "string \<Rightarrow> string" where
  "py_lower s = map ascii_lower s"

definition py_upper :: "string \<Rightarrow> string" where
  "py_upper s = map ascii_upper s"

definition is_space :: "char \<Rightarrow> bool" where
  "is_space c \<longleftrightarrow> (of_char c :: nat) \<in> {9, 10, 11, 12, 13, 28, 29, 30, 31, 32}"

definition py_strip :: "string \<Rightarrow> string" where
  "py_strip s = rev (dropWhile is_space (rev (dropWhile is_space s)))"

definition startswith :: "string \<Rightarrow> string \<Rightarrow> bool" where
  "startswith s p \<longleftrightarrow> take (length p) s = p"

definition removeprefix :: "string \<Rightarrow> string \<Rightarrow> string" where
  "removeprefix p s = (if startswith s p then drop (length p) s else s)"

fun py_replace_char :: "char \<Rightarrow> char \<Rightarrow> string \<Rightarrow> string" where
  "py_replace_char a b [] = []"
| "py_replace_char a b (c # cs) = (if c = a then b else c) # py_replace_char a b cs"

fun py_split :: "char \<Rightarrow> string \<Rightarrow> string list" where
  "py_split sep [] = [[]]"
| "py_split sep (c # cs) =
     (if c = sep then [] # py_split sep cs
      else (case py_split sep cs of [] \<Rightarrow> [[c]] | w # ws \<Rightarrow> (c # w) # ws))"

fun py_join :: "string \<Rightarrow> string list \<Rightarrow> string" where
  "py_join sep [] = []"
| "py_join sep [w] = w"
| "py_join sep (w # ws) = w @ sep @ py_join sep ws"

definition hex_digits :: string where
  "hex_digits = ''0123456789abcdef''"

text \<open>The truth value of an optional string: neither \<open>None\<close> nor empty.\<close>

definition truthy :: "string option \<Rightarrow> bool" where
  "truthy s = (case s of None \<Rightarrow> False | Some t \<Rightarrow> t \<noteq> [])"

lemma truthy_simps [simp]: "\<not> truthy None" "truthy (Some t) \<longleftrightarrow> t \<noteq> []"
  by (simp_all add: truthy_def)

text \<open>Python's slice \<open>xs[offset : offset + limit]\<close> for non-negative bounds.\<close>

definition py_slice :: "'a list \<Rightarrow> nat \<Rightarrow> nat \<Rightarrow> 'a list" where
  "py_slice xs lo hi = take (hi - lo) (drop lo xs)"

lemma ascii_lower_idem [simp]: "ascii_lower (ascii_lower c) = ascii_lower c"
  by (auto simp: ascii_lower_def)

lemma py_lower_idem [simp]: "py_lower (py_lower s) = py_lower s"
  by (simp add: py_lower_def comp_def)

lemma py_lower_simps [simp]:
  "py_lower [] = []" "py_lower (c # s) = ascii_lower c # py_lower s"
  "py_lower (s @ t) = py_lower s @ py_lower t" "length (py_lower s) = length s"
  by (simp_all add: py_lower_def)

lemma py_replace_char_set: "a \<noteq> b \<Longrightarrow> a \<notin> set (py_replace_char a b s)"
  by (induction s) auto

lemma py_split_ne [simp]: "py_split sep s \<noteq> []"
  by (induction s) (auto split: list.splits)

lemma py_split_append:
  "py_split sep (s @ sep # t) = py_split sep s @ py_split sep t"
  by (induction s) (auto split: list.splits)

lemma py_split_no_sep: "sep \<notin> set s \<Longrightarrow> py_split sep s = [s]"
  by (induction s) auto

lemma dropWhile_snoc: "\<not> P c \<Longrightarrow> dropWhile P (xs @ [c]) = dropWhile P xs @ [c]"
  by (induction xs) auto

lemma py_strip_idem [simp]: "py_strip (py_strip s) = py_strip s"
proof (cases "dropWhile is_space s")
  case Nil
  then show ?thesis by (simp only: py_strip_def Nil rev.simps dropWhile.simps)
next
  case (Cons c cs)
  then have "\<not> is_space c" by (metis hd_dropWhile list.distinct(1) list.sel(1))
  with Cons have "py_strip s = c # rev (dropWhile is_space (rev cs))"
    by (simp add: py_strip_def dropWhile_snoc)
  with \<open>\<not> is_space c\<close> show ?thesis
    by (simp add: py_strip_def dropWhile_snoc dropWhile_idem)
qed

section \<open>Validation\<close>

text \<open>
  A pydantic model is checked by a sequence of checks, each with the error it raises; the
  first failing one decides. \<open>and_then\<close> runs one block of checks after another.
\<close>

fun run_checks :: "(bool \<times> exc) list \<Rightarrow> exc + unit" where
  "run_checks [] = Inr ()"
| "run_checks ((ok, e) # cs) = (if ok then run_checks cs else Inl e)"

definition and_then :: "exc + unit \<Rightarrow> exc + 'a \<Rightarrow> exc + 'a" where
  "and_then r s = (case r of Inl e \<Rightarrow> Inl e | Inr _ \<Rightarrow> s)"

fun check_all :: "('a \<Rightarrow> exc + unit) \<Rightarrow> 'a list \<Rightarrow> exc + unit" where
  "check_all f [] = Inr ()"
| "check_all f (x # xs) = and_then (f x) (check_all f xs)"

definition accepted :: "exc + 'a \<Rightarrow> bool" where
  "accepted r \<longleftrightarrow> (case r of Inl _ \<Rightarrow> False | Inr _ \<Rightarrow> True)"

lemma accepted_simps [simp]: "accepted (Inr x)" "\<not> accepted (Inl e)"
  by (simp_all add: accepted_def)

lemma accepted_iff: "accepted r \<longleftrightarrow> (\<exists>x. r = Inr x)"
  by (cases r) simp_all

lemma accepted_run_checks [simp]:
  "accepted (run_checks cs) \<longleftrightarrow> (\<forall>c \<in> set cs. fst c)"
  by (induction cs rule: run_checks.induct) auto

lemma accepted_and_then [simp]: "accepted (and_then r s) \<longleftrightarrow> accepted r \<and> accepted s"
  by (cases r) (auto simp: and_then_def)

lemma accepted_check_all [simp]: "accepted (check_all f xs) \<longleftrightarrow> (\<forall>x \<in> set xs. accepted (f x))"
  by (induction xs) auto

lemma and_then_Inr [simp]: "and_then (Inr u) s = s" and and_then_Inl [simp]: "and_then (Inl e) s = Inl e"
  by (simp_all add: and_then_def)

lemma and_then_eq_Inr: "and_then r s = Inr x \<longleftrightarrow> accepted r \<and> s = Inr x"
  by (cases r) (auto simp: and_then_def)

end
