(* ===== verification/Calendar.thy ===== *)
theory Calendar
  imports Prelude
begin

text \<open>
  What the code uses of Python's \<open>datetime\<close> and \<open>calendar\<close>: proleptic Gregorian dates with
  their order, \<open>monthrange\<close>, adding one day (which overflows after the last representable
  day), and \<open>strftime("%Y-%m")\<close>. An aware timestamp is its instant, an integer.
\<close>

type_synonym instant = int

datatype date = Date (date_year: int) (date_month: int) (date_day: int)

definition is_leap_year :: "int \<Rightarrow> bool" where
  "is_leap_year y \<longleftrightarrow> (y mod 4 = 0 \<and> y mod 100 \<noteq> 0) \<or> y mod 400 = 0"

definition days_in_month :: "int \<Rightarrow> int \<Rightarrow> int" where
  "days_in_month y m =
     (if m = 2 then (if is_leap_year y then 29 else 28)
      else if m = 4 \<or> m = 6 \<or> m = 9 \<or> m = 11 then 30 else 31)"

definition valid_date :: "date \<Rightarrow> bool" where
  "valid_date d \<longleftrightarrow> 1 \<le> date_year d \<and> date_year d \<le> 9999 \<and> 1 \<le> date_month d \<and> date_month d \<le> 12
     \<and> 1 \<le> date_day d \<and> date_day d \<le> days_in_month (date_year d) (date_month d)"

text \<open>Comparison of dates is lexicographic.\<close>

instantiation date :: linorder
begin

definition less_eq_date :: "date \<Rightarrow> date \<Rightarrow> bool" where
  "less_eq_date a b \<longleftrightarrow> date_year a < date_year b \<or> (date_year a = date_year b \<and>
     (date_month a < date_month b \<or> (date_month a = date_month b \<and> date_day a \<le> date_day b)))"

definition less_date :: "date \<Rightarrow> date \<Rightarrow> bool" where
  "less_date a b \<longleftrightarrow> a \<le> b \<and> \<not> b \<le> (a :: date)"

instance
  by intro_classes (auto simp: less_eq_date_def less_date_def intro: date.expand)

end

text \<open>\<open>d + timedelta(days=1)\<close>; \<open>None\<close> is the \<open>OverflowError\<close> after 9999-12-31.\<close>

definition next_day :: "date \<Rightarrow> date option" where
  "next_day d =
     (if date_day d < days_in_month (date_year d) (date_month d)
      then Some (Date (date_year d) (date_month d) (date_day d + 1))
      else if date_month d < 12 then Some (Date (date_year d) (date_month d + 1) 1)
      else if date_year d < 9999 then Some (Date (date_year d + 1) 1 1)
      else None)"

lemma days_in_month_bounds: "28 \<le> days_in_month y m" "days_in_month y m \<le> 31"
  by (simp_all add: days_in_month_def)

lemma next_day_valid: "valid_date d \<Longrightarrow> next_day d = Some e \<Longrightarrow> valid_date e"
  using days_in_month_bounds(1)[of "date_year d" "date_month d"]
    days_in_month_bounds(1)[of "date_year d" "date_month d + 1"]
    days_in_month_bounds(1)[of "date_year d + 1" 1]
  by (auto simp: next_day_def valid_date_def split: if_splits)

lemma next_day_less: "next_day d = Some e \<Longrightarrow> d < e"
  by (auto simp: next_day_def less_date_def less_eq_date_def split: if_splits)

text \<open>No valid date lies strictly between a day and the next one.\<close>

lemma next_day_least:
  assumes "valid_date d" "valid_date x" "next_day d = Some e" "d < x"
  shows "e \<le> x"
  using assms by (auto simp: next_day_def less_date_def less_eq_date_def valid_date_def split: if_splits)

lemma next_day_None: "valid_date d \<Longrightarrow> next_day d = None \<longleftrightarrow> d = Date 9999 12 31"
  by (cases d) (auto simp: next_day_def valid_date_def days_in_month_def split: if_splits)

text \<open>
  \<open>strftime("%Y-%m")\<close> as the C library of the deployed Linux image prints it: the year in
  decimal without padding, the month with two digits.
\<close>

fun decimal :: "nat \<Rightarrow> string" where
  "decimal n = (if n < 10 then [char_of (48 + n)] else decimal (n div 10) @ [char_of (48 + n mod 10)])"

declare decimal.simps [simp del]

definition two_digits :: "nat \<Rightarrow> string" where
  "two_digits n = [char_of (48 + n div 10 mod 10), char_of (48 + n mod 10)]"

definition year_month :: "date \<Rightarrow> string" where
  "year_month d = decimal (nat (date_year d)) @ ''-'' @ two_digits (nat (date_month d))"

end
