(* ===== verification/CompositeIdentity.thy ===== *)
theory CompositeIdentity
  imports Calendar
begin

text \<open>
  The composite-review custody identities: \<open>composite_identity.py\<close>, \<open>composite_linked.py\<close>,
  \<open>composite_eligibility.py\<close>, \<open>composite_pooled.py\<close>, \<open>composite_amendment.py\<close>,
  \<open>composite_historical.py\<close>, \<open>composite_source_context.py\<close> and \<open>composite_products.py\<close>. Each
  pydantic model is a record (a union is a datatype); its field constraints and model
  validators are one \<open>validate_\<close> function. A field typed \<open>Literal\<close> with one value carries no
  information and is not a field here; \<open>contract_version\<close> is the constructor of
  \<open>composite_custody_identity\<close>. UUIDs are strings.
\<close>

section \<open>Field patterns\<close>

definition is_hex :: "string \<Rightarrow> bool" where
  "is_hex s \<longleftrightarrow> (\<forall>c \<in> set s. c \<in> set hex_digits)"

definition is_hex64 :: "string \<Rightarrow> bool" where
  "is_hex64 s \<longleftrightarrow> length s = 64 \<and> is_hex s"

definition is_digest :: "string \<Rightarrow> bool" where
  "is_digest s \<longleftrightarrow> startswith s ''sha256:'' \<and> is_hex64 (drop 7 s)"

definition is_regex_space :: "char \<Rightarrow> bool" where
  "is_regex_space c \<longleftrightarrow> (of_char c :: nat) \<in> {9, 10, 11, 12, 13, 32}"

definition is_identifier :: "string \<Rightarrow> bool" where
  "is_identifier s \<longleftrightarrow> 1 \<le> length s \<and> length s \<le> 128 \<and> (\<forall>c \<in> set s. \<not> is_regex_space c)"

definition is_upper_letter :: "char \<Rightarrow> bool" where
  "is_upper_letter c \<longleftrightarrow> 65 \<le> (of_char c :: nat) \<and> (of_char c :: nat) \<le> 90"

definition is_lower_letter :: "char \<Rightarrow> bool" where
  "is_lower_letter c \<longleftrightarrow> 97 \<le> (of_char c :: nat) \<and> (of_char c :: nat) \<le> 122"

definition is_digit :: "char \<Rightarrow> bool" where
  "is_digit c \<longleftrightarrow> 48 \<le> (of_char c :: nat) \<and> (of_char c :: nat) \<le> 57"

definition is_currency :: "string \<Rightarrow> bool" where
  "is_currency s \<longleftrightarrow> length s = 3 \<and> (\<forall>c \<in> set s. is_upper_letter c)"

definition is_product_key :: "string \<Rightarrow> bool" where
  "is_product_key s \<longleftrightarrow> s \<noteq> [] \<and> is_lower_letter (hd s) \<and> length (tl s) \<le> 63
     \<and> (\<forall>c \<in> set (tl s). is_lower_letter c \<or> is_digit c \<or> c = CHR ''_'')"

definition is_month :: "string \<Rightarrow> bool" where
  "is_month s \<longleftrightarrow> length s = 7 \<and> (\<forall>c \<in> set (take 4 s). is_digit c) \<and> s ! 4 = CHR ''-''
     \<and> ((s ! 5 = CHR ''0'' \<and> is_digit (s ! 6) \<and> s ! 6 \<noteq> CHR ''0'')
        \<or> (s ! 5 = CHR ''1'' \<and> s ! 6 \<in> set ''012''))"

datatype return_view = GROSS | NET_ACTUAL | NET_MODEL_FEE

section \<open>Windows and the primary selection (composite review v1)\<close>

record composite_window_pin =
  win_materialization_id :: string
  win_period_start :: date
  win_period_end :: date
  win_restatement_sequence :: int
  win_definition_content_hash :: string
  win_membership_content_hash :: string
  win_attestation_content_hash :: string
  win_source_cut_id :: string
  win_method_binding :: "(string, string) dict"
  win_retained_receipt_fingerprint :: string

definition validate_window :: "composite_window_pin \<Rightarrow> exc + unit" where
  "validate_window w = run_checks
    [(1 \<le> win_restatement_sequence w, ValidationError ''restatement_sequence''),
     (is_digest (win_definition_content_hash w), ValidationError ''definition_content_hash''),
     (is_digest (win_membership_content_hash w), ValidationError ''membership_content_hash''),
     (is_digest (win_attestation_content_hash w), ValidationError ''attestation_content_hash''),
     (is_identifier (win_source_cut_id w), ValidationError ''source_cut_id''),
     (win_method_binding w \<noteq> [], ValidationError ''method_binding''),
     (is_digest (win_retained_receipt_fingerprint w), ValidationError ''retained_receipt_fingerprint''),
     (\<not> win_period_end w < win_period_start w,
      ValidationError ''composite window ends before it starts''),
     (\<forall>(k, v) \<in> set (win_method_binding w). py_strip k \<noteq> [] \<and> py_strip v \<noteq> [],
      ValidationError ''method binding requires nonblank source identity'')]"

text \<open>
  The loop over adjacent windows: each must start the day after the previous one ends. The
  addition of a day raises \<open>OverflowError\<close> after the last representable date.
\<close>

fun contiguous_windows :: "exc \<Rightarrow> composite_window_pin list \<Rightarrow> exc + unit" where
  "contiguous_windows e (p # c # ws) =
     (case next_day (win_period_end p) of
        None \<Rightarrow> Inl OverflowError
      | Some d \<Rightarrow> if win_period_start c \<noteq> d then Inl e else contiguous_windows e (c # ws))"
| "contiguous_windows e ws = Inr ()"

record composite_selection =
  sel_tenant_id :: string
  sel_composite_id :: string
  sel_calculation_id :: string
  sel_period_start :: date
  sel_period_end :: date
  sel_reporting_currency :: string
  sel_return_view :: return_view
  sel_methodology :: string
  sel_engine_version :: string
  sel_calculation_fingerprint :: string
  sel_response_digest :: string
  sel_windows :: "composite_window_pin list"

definition validate_selection :: "composite_selection \<Rightarrow> exc + unit" where
  "validate_selection s =
    and_then (run_checks
      [(is_identifier (sel_tenant_id s), ValidationError ''tenant_id''),
       (is_identifier (sel_composite_id s), ValidationError ''composite_id''),
       (is_currency (sel_reporting_currency s), ValidationError ''reporting_currency''),
       (is_identifier (sel_methodology s), ValidationError ''methodology''),
       (is_identifier (sel_engine_version s), ValidationError ''engine_version''),
       (is_digest (sel_calculation_fingerprint s), ValidationError ''calculation_fingerprint''),
       (is_digest (sel_response_digest s), ValidationError ''response_digest''),
       (1 \<le> length (sel_windows s) \<and> length (sel_windows s) \<le> 120, ValidationError ''windows'')])
    (and_then (check_all validate_window (sel_windows s))
    (and_then (run_checks
      [(distinct (map win_materialization_id (sel_windows s)),
        ValidationError ''composite materialization identities must be unique''),
       (win_period_start (hd (sel_windows s)) = sel_period_start s
          \<and> win_period_end (last (sel_windows s)) = sel_period_end s,
        ValidationError ''composite pins must cover the exact report horizon'')])
    (contiguous_windows
      (ValidationError ''composite pins must be chronological and contiguous'') (sel_windows s))))"

text \<open>The three digests every identity carries besides its selection.\<close>

record report_digests =
  rd_series_digest :: string
  rd_source_revision_digest :: string
  rd_factual_content_digest :: string

definition validate_digests :: "'z report_digests_scheme \<Rightarrow> exc + unit" where
  "validate_digests d = run_checks
    [(is_hex64 (rd_series_digest d), ValidationError ''series_digest''),
     (is_hex64 (rd_source_revision_digest d), ValidationError ''source_revision_digest''),
     (is_hex64 (rd_factual_content_digest d), ValidationError ''factual_content_digest'')]"

record identity_v1 = report_digests +
  v1_selection :: composite_selection

definition validate_v1 :: "identity_v1 \<Rightarrow> exc + unit" where
  "validate_v1 i = and_then (validate_selection (v1_selection i)) (validate_digests i)"

section \<open>Source products (v2)\<close>

datatype source_product_pin =
    CalendarReturnPin (pin_product_key: string) (pin_year: int) (pin_selection: composite_selection)
  | TrailingReturnPin (pin_product_key: string) (pin_months: int) (pin_selection: composite_selection)

definition complete_month_window :: "composite_window_pin \<Rightarrow> bool" where
  "complete_month_window w \<longleftrightarrow>
     (let start = win_period_start w; end_date = win_period_end w
      in \<not> (date_day start \<noteq> 1
            \<or> (date_year start, date_month start) \<noteq> (date_year end_date, date_month end_date)
            \<or> date_day end_date \<noteq> days_in_month (date_year end_date) (date_month end_date)))"

definition require_complete_months :: "composite_selection \<Rightarrow> exc + unit" where
  "require_complete_months s = check_all
     (\<lambda>w. run_checks [(complete_month_window w,
        ValidationError ''source products require complete calendar months'')]) (sel_windows s)"

fun validate_pin :: "source_product_pin \<Rightarrow> exc + unit" where
  "validate_pin (CalendarReturnPin key y s) =
    and_then (run_checks
      [(is_product_key key, ValidationError ''product_key''),
       (1 \<le> y \<and> y \<le> 9999, ValidationError ''year'')])
    (and_then (validate_selection s)
    (and_then (run_checks
      [(sel_period_start s = Date y 1 1 \<and> sel_period_end s = Date y 12 31
          \<and> length (sel_windows s) = 12,
        ValidationError ''calendar product must cover its complete named year'')])
    (require_complete_months s)))"
| "validate_pin (TrailingReturnPin key m s) =
    and_then (run_checks
      [(is_product_key key, ValidationError ''product_key''),
       (1 \<le> m \<and> m \<le> 120, ValidationError ''months'')])
    (and_then (validate_selection s)
    (and_then (run_checks
      [(int (length (sel_windows s)) = m,
        ValidationError ''trailing product must cover its named month count'')])
    (require_complete_months s)))"

record composite_source_product =
  sp_pin :: source_product_pin
  sp_source_response_digest :: string

definition validate_source_product :: "composite_source_product \<Rightarrow> exc + unit" where
  "validate_source_product p =
    and_then (validate_pin (sp_pin p))
    (run_checks
      [(is_digest (sp_source_response_digest p), ValidationError ''source_response_digest''),
       (sp_source_response_digest p = sel_response_digest (pin_selection (sp_pin p)),
        ValidationError ''source product response digest must match its selection'')])"

definition same_scope :: "composite_selection \<Rightarrow> composite_selection \<Rightarrow> bool" where
  "same_scope a b \<longleftrightarrow>
     sel_tenant_id a = sel_tenant_id b \<and> sel_composite_id a = sel_composite_id b
     \<and> sel_reporting_currency a = sel_reporting_currency b \<and> sel_return_view a = sel_return_view b
     \<and> sel_methodology a = sel_methodology b \<and> sel_engine_version a = sel_engine_version b"

definition windows_within :: "composite_selection \<Rightarrow> date \<Rightarrow> date \<Rightarrow> composite_window_pin list" where
  "windows_within s start end_date =
     filter (\<lambda>w. win_period_start w \<ge> start \<and> win_period_end w \<le> end_date) (sel_windows s)"

definition is_trailing :: "source_product_pin \<Rightarrow> bool" where
  "is_trailing p = (case p of TrailingReturnPin _ _ _ \<Rightarrow> True | CalendarReturnPin _ _ _ \<Rightarrow> False)"

definition product_scope :: "composite_selection \<Rightarrow> composite_source_product list \<Rightarrow> exc + unit" where
  "product_scope primary products =
    and_then (run_checks
      [(distinct (map (\<lambda>p. pin_product_key (sp_pin p)) products),
        ValidationError ''source product keys must be unique'')])
    (check_all (\<lambda>p. let s = pin_selection (sp_pin p) in run_checks
      [(same_scope s primary, ValidationError ''source products must match primary calculation scope''),
       (sel_windows s = windows_within primary (sel_period_start s) (sel_period_end s),
        ValidationError ''source products must retain the exact primary window subvector''),
       (\<not> (is_trailing (sp_pin p) \<and> sel_period_end s \<noteq> sel_period_end primary),
        ValidationError ''trailing products must end at the primary horizon'')]) products)"

record identity_v2 = report_digests +
  v2_selection :: composite_selection
  v2_source_products :: "composite_source_product list"

definition validate_v2 :: "identity_v2 \<Rightarrow> exc + unit" where
  "validate_v2 i =
    and_then (validate_selection (v2_selection i))
    (and_then (validate_digests i)
    (and_then (run_checks
      [(1 \<le> length (v2_source_products i) \<and> length (v2_source_products i) \<le> 8,
        ValidationError ''source_products'')])
    (and_then (check_all validate_source_product (v2_source_products i))
    (product_scope (v2_selection i) (v2_source_products i)))))"

section \<open>Linked analysis (v3)\<close>

text \<open>
  The two request shapes differ in whether an explicit null \<open>restatement_sequence\<close> was sent.
\<close>

record composite_linked_request =
  lr_composite_id :: string
  lr_calculation_id :: string
  lr_period_start :: date
  lr_period_end :: date
  lr_return_view :: return_view
  lr_reporting_currency :: string
  lr_materialization_ids :: "string list"
  lr_explicit_null_sequence :: bool

definition validate_linked_request :: "composite_linked_request \<Rightarrow> exc + unit" where
  "validate_linked_request r = run_checks
    [(is_identifier (lr_composite_id r), ValidationError ''composite_id''),
     (is_currency (lr_reporting_currency r), ValidationError ''reporting_currency''),
     (1 \<le> length (lr_materialization_ids r) \<and> length (lr_materialization_ids r) \<le> 120,
      ValidationError ''materialization_ids'')]"

record composite_linked_selection =
  ls_tenant_id :: string
  ls_source_request :: composite_linked_request
  ls_windows :: "composite_window_pin list"
  ls_engine_version :: string
  ls_calculation_fingerprint :: string
  ls_response_digest :: string

definition validate_linked_selection :: "composite_linked_selection \<Rightarrow> exc + unit" where
  "validate_linked_selection s =
    and_then (validate_linked_request (ls_source_request s))
    (and_then (run_checks
      [(is_identifier (ls_tenant_id s), ValidationError ''tenant_id''),
       (1 \<le> length (ls_windows s) \<and> length (ls_windows s) \<le> 120, ValidationError ''windows''),
       (is_identifier (ls_engine_version s), ValidationError ''engine_version''),
       (is_digest (ls_calculation_fingerprint s), ValidationError ''calculation_fingerprint''),
       (is_digest (ls_response_digest s), ValidationError ''response_digest'')])
    (and_then (check_all validate_window (ls_windows s))
    (and_then (run_checks
      [(distinct (map win_materialization_id (ls_windows s))
          \<and> map win_materialization_id (ls_windows s) = lr_materialization_ids (ls_source_request s),
        ValidationError ''linked request must name the exact unique ordered window vector''),
       (win_period_start (hd (ls_windows s)) = lr_period_start (ls_source_request s)
          \<and> win_period_end (last (ls_windows s)) = lr_period_end (ls_source_request s),
        ValidationError ''linked pins must cover the exact requested horizon'')])
    (contiguous_windows
      (ValidationError ''linked pins must be chronological and contiguous'') (ls_windows s)))))"

record identity_v3 = report_digests +
  v3_selection :: composite_linked_selection

definition validate_v3 :: "identity_v3 \<Rightarrow> exc + unit" where
  "validate_v3 i = and_then (validate_linked_selection (v3_selection i)) (validate_digests i)"

end
