(* ===== verification/CompositeCustody.thy ===== *)
theory CompositeCustody
  imports CompositeIdentity
begin

text \<open>
  The remaining composite identities: controlled eligibility (v4,
  \<open>composite_eligibility.py\<close>), pooled analysis (v5, \<open>composite_pooled.py\<close>), monthly
  amendments (v6, \<open>composite_amendment.py\<close>), historical policy evidence (v7,
  \<open>composite_historical.py\<close>) and source context (v8, \<open>composite_source_context.py\<close> and the
  end of \<open>composite_products.py\<close>), and the discriminated union of all eight. The amendment
  and historical pins extend the eligibility pins, as the classes do; "popping the extra
  keys" of a dumped pin is truncation of the record.
\<close>

section \<open>Eligibility (v4)\<close>

record evaluated_eligibility_pin =
  ev_month :: string
  ev_evaluation_revision :: string
  ev_proposal_content_hash :: string
  ev_proposal_response_digest :: string
  ev_parent_membership_revision :: string
  ev_parent_membership_content_hash :: string
  ev_source_cut_id :: string

record published_eligibility_pin =
  pu_month :: string
  pu_evaluation_revision :: string
  pu_proposal_content_hash :: string
  pu_approval_content_hash :: string
  pu_receipt_content_hash :: string
  pu_receipt_response_digest :: string
  pu_membership_revision :: string
  pu_membership_content_hash :: string
  pu_membership_response_digest :: string
  pu_attestation_version :: string
  pu_universe_content_hash :: string
  pu_universe_response_digest :: string
  pu_parent_membership_revision :: string
  pu_parent_membership_content_hash :: string
  pu_parent_response_digest :: string
  pu_publication_sequence :: int
  pu_publication_response_digest :: string
  pu_source_cut_id :: string

definition validate_evaluated :: "'z evaluated_eligibility_pin_scheme \<Rightarrow> exc + unit" where
  "validate_evaluated p = run_checks
    [(is_month (ev_month p), ValidationError ''month''),
     (is_identifier (ev_evaluation_revision p), ValidationError ''evaluation_revision''),
     (is_digest (ev_proposal_content_hash p), ValidationError ''proposal_content_hash''),
     (is_digest (ev_proposal_response_digest p), ValidationError ''proposal_response_digest''),
     (is_identifier (ev_parent_membership_revision p), ValidationError ''parent_membership_revision''),
     (is_digest (ev_parent_membership_content_hash p),
      ValidationError ''parent_membership_content_hash''),
     (is_identifier (ev_source_cut_id p), ValidationError ''source_cut_id'')]"

definition validate_published :: "'z published_eligibility_pin_scheme \<Rightarrow> exc + unit" where
  "validate_published p = run_checks
    [(is_month (pu_month p), ValidationError ''month''),
     (is_identifier (pu_evaluation_revision p), ValidationError ''evaluation_revision''),
     (is_digest (pu_proposal_content_hash p), ValidationError ''proposal_content_hash''),
     (is_digest (pu_approval_content_hash p), ValidationError ''approval_content_hash''),
     (is_digest (pu_receipt_content_hash p), ValidationError ''receipt_content_hash''),
     (is_digest (pu_receipt_response_digest p), ValidationError ''receipt_response_digest''),
     (is_identifier (pu_membership_revision p), ValidationError ''membership_revision''),
     (is_digest (pu_membership_content_hash p), ValidationError ''membership_content_hash''),
     (is_digest (pu_membership_response_digest p), ValidationError ''membership_response_digest''),
     (is_identifier (pu_attestation_version p), ValidationError ''attestation_version''),
     (is_digest (pu_universe_content_hash p), ValidationError ''universe_content_hash''),
     (is_digest (pu_universe_response_digest p), ValidationError ''universe_response_digest''),
     (is_identifier (pu_parent_membership_revision p), ValidationError ''parent_membership_revision''),
     (is_digest (pu_parent_membership_content_hash p),
      ValidationError ''parent_membership_content_hash''),
     (is_digest (pu_parent_response_digest p), ValidationError ''parent_response_digest''),
     (pu_publication_sequence p > 0, ValidationError ''publication_sequence''),
     (is_digest (pu_publication_response_digest p), ValidationError ''publication_response_digest''),
     (is_identifier (pu_source_cut_id p), ValidationError ''source_cut_id'')]"

datatype eligibility_month_pin =
    Published published_eligibility_pin
  | Evaluated evaluated_eligibility_pin

fun eligibility_month :: "eligibility_month_pin \<Rightarrow> string" where
  "eligibility_month (Published p) = pu_month p"
| "eligibility_month (Evaluated p) = ev_month p"

fun validate_month_pin :: "eligibility_month_pin \<Rightarrow> exc + unit" where
  "validate_month_pin (Published p) = validate_published p"
| "validate_month_pin (Evaluated p) = validate_evaluated p"

record eligibility_scope =
  el_tenant_id :: string
  el_composite_id :: string
  el_definition_version :: string
  el_reporting_currency :: string
  el_period_start :: date
  el_period_end :: date

record eligibility_selection = eligibility_scope +
  el_months :: "eligibility_month_pin list"

definition validate_eligibility :: "eligibility_selection \<Rightarrow> exc + unit" where
  "validate_eligibility s =
    (let months = map eligibility_month (el_months s) in
    and_then (run_checks
      [(is_identifier (el_tenant_id s), ValidationError ''tenant_id''),
       (is_identifier (el_composite_id s), ValidationError ''composite_id''),
       (is_identifier (el_definition_version s), ValidationError ''definition_version''),
       (is_currency (el_reporting_currency s), ValidationError ''reporting_currency''),
       (1 \<le> length (el_months s) \<and> length (el_months s) \<le> 120, ValidationError ''months'')])
    (and_then (check_all validate_month_pin (el_months s))
    (run_checks
      [(months = sorted_list_of_set (set months) \<and> \<not> el_period_end s < el_period_start s,
        ValidationError ''eligibility months must be unique and chronological''),
       (hd months = year_month (el_period_start s) \<and> last months = year_month (el_period_end s),
        ValidationError ''eligibility pins must match the selected horizon''),
       (date_day (el_period_start s) = 1
          \<and> date_day (el_period_end s)
             = days_in_month (date_year (el_period_end s)) (date_month (el_period_end s)),
        ValidationError ''eligibility selection requires complete calendar months'')])))"

record identity_v4 = report_digests +
  v4_selection :: eligibility_selection

definition validate_v4 :: "identity_v4 \<Rightarrow> exc + unit" where
  "validate_v4 i = and_then (validate_eligibility (v4_selection i)) (validate_digests i)"

section \<open>Pooled analysis (v5)\<close>

record pooled_source_pin =
  po_pin_id :: string
  po_owner :: string
  po_product_name :: string
  po_product_version :: string
  po_revision :: string
  po_source_cut_id :: string
  po_payload_digest :: string
  po_compatibility_group :: string
  po_coverage_from :: date
  po_coverage_to :: date
  po_page_ids :: "string list"
  po_expected_page_count :: int

definition validate_pooled_pin :: "pooled_source_pin \<Rightarrow> exc + unit" where
  "validate_pooled_pin p = run_checks
    [(is_identifier (po_pin_id p), ValidationError ''pin_id''),
     (is_identifier (po_owner p), ValidationError ''owner''),
     (is_identifier (po_product_name p), ValidationError ''product_name''),
     (is_identifier (po_product_version p), ValidationError ''product_version''),
     (is_identifier (po_revision p), ValidationError ''revision''),
     (is_identifier (po_source_cut_id p), ValidationError ''source_cut_id''),
     (is_digest (po_payload_digest p), ValidationError ''payload_digest''),
     (is_identifier (po_compatibility_group p), ValidationError ''compatibility_group''),
     (1 \<le> length (po_page_ids p) \<and> length (po_page_ids p) \<le> 10000
        \<and> list_all is_identifier (po_page_ids p), ValidationError ''page_ids''),
     (1 \<le> po_expected_page_count p, ValidationError ''expected_page_count''),
     (\<not> (po_coverage_to p < po_coverage_from p
         \<or> int (length (po_page_ids p)) \<noteq> po_expected_page_count p
         \<or> card (set (po_page_ids p)) \<noteq> length (po_page_ids p)),
      ValidationError ''COMPOSITE_POOLED_SOURCE_PIN_INCOMPLETE'')]"

datatype day_count_basis = BUS_252 | ACT_365 | ACT_ACT
datatype fallback_policy = REQUIRE_XIRR | ALLOW_MODIFIED_DIETZ

record pooled_analysis_selection =
  pa_tenant_id :: string
  pa_composite_id :: string
  pa_calculation_id :: string
  pa_period_start :: date
  pa_period_end :: date
  pa_reporting_currency :: string
  pa_return_view :: return_view
  pa_fee_basis :: string
  pa_policy_binding_id :: string
  pa_policy_content_hash :: string
  pa_day_count_basis :: day_count_basis
  pa_fallback_policy :: fallback_policy
  pa_engine_version :: string
  pa_source_manifest_id :: string
  pa_input_manifest_digest :: string
  pa_source_bundle_digest :: string
  pa_response_digest :: string
  pa_expected_portfolio_ids :: "string list"
  pa_source_pins :: "pooled_source_pin list"
  pa_correction_of_calculation_id :: "string option"
  pa_predecessor_response_digest :: "string option"

definition validate_pooled :: "pooled_analysis_selection \<Rightarrow> exc + unit" where
  "validate_pooled s =
    and_then (run_checks
      [(is_identifier (pa_tenant_id s), ValidationError ''tenant_id''),
       (is_identifier (pa_composite_id s), ValidationError ''composite_id''),
       (is_currency (pa_reporting_currency s), ValidationError ''reporting_currency''),
       (is_identifier (pa_fee_basis s), ValidationError ''fee_basis''),
       (is_identifier (pa_policy_binding_id s), ValidationError ''policy_binding_id''),
       (is_identifier (pa_policy_content_hash s), ValidationError ''policy_content_hash''),
       (is_identifier (pa_engine_version s), ValidationError ''engine_version''),
       (is_identifier (pa_source_manifest_id s), ValidationError ''source_manifest_id''),
       (is_digest (pa_input_manifest_digest s), ValidationError ''input_manifest_digest''),
       (is_digest (pa_source_bundle_digest s), ValidationError ''source_bundle_digest''),
       (is_digest (pa_response_digest s), ValidationError ''response_digest''),
       (1 \<le> length (pa_expected_portfolio_ids s) \<and> length (pa_expected_portfolio_ids s) \<le> 10000
          \<and> list_all is_identifier (pa_expected_portfolio_ids s),
        ValidationError ''expected_portfolio_ids''),
       (1 \<le> length (pa_source_pins s) \<and> length (pa_source_pins s) \<le> 128,
        ValidationError ''source_pins''),
       (case pa_predecessor_response_digest s of None \<Rightarrow> True | Some d \<Rightarrow> is_digest d,
        ValidationError ''predecessor_response_digest'')])
    (and_then (check_all validate_pooled_pin (pa_source_pins s))
    (run_checks
      [(\<not> pa_period_end s \<le> pa_period_start s,
        ValidationError ''COMPOSITE_POOLED_POSITIVE_INTERVAL_REQUIRED''),
       (card (set (pa_expected_portfolio_ids s)) = length (pa_expected_portfolio_ids s),
        ValidationError ''COMPOSITE_POOLED_DUPLICATE_MEMBER''),
       (card (set (map po_pin_id (pa_source_pins s))) = length (pa_source_pins s),
        ValidationError ''COMPOSITE_POOLED_DUPLICATE_SOURCE_PIN''),
       (\<not> ((pa_correction_of_calculation_id s = None) \<noteq> (pa_predecessor_response_digest s = None)
           \<or> pa_correction_of_calculation_id s = Some (pa_calculation_id s)),
        ValidationError ''COMPOSITE_POOLED_CORRECTION_PIN_REQUIRED'')]))"

record identity_v5 = report_digests +
  v5_selection :: pooled_analysis_selection

definition validate_v5 :: "identity_v5 \<Rightarrow> exc + unit" where
  "validate_v5 i = and_then (validate_pooled (v5_selection i)) (validate_digests i)"

section \<open>Monthly amendments (v6)\<close>

datatype monthly_product_version = Product_v1 | Product_v2

record receipt_fields =
  rc_evaluation_revision :: string
  rc_approval_content_hash :: string
  rc_receipt_content_hash :: string
  rc_receipt_response_digest :: string

definition validate_receipt :: "'z receipt_fields_scheme \<Rightarrow> exc + unit" where
  "validate_receipt r = run_checks
    [(is_identifier (rc_evaluation_revision r), ValidationError ''evaluation_revision''),
     (is_digest (rc_approval_content_hash r), ValidationError ''approval_content_hash''),
     (is_digest (rc_receipt_content_hash r), ValidationError ''receipt_content_hash''),
     (is_digest (rc_receipt_response_digest r), ValidationError ''receipt_response_digest'')]"

record monthly_receipt_pin = receipt_fields +
  mr_product_version :: monthly_product_version

record amendment_evaluated_pin = evaluated_eligibility_pin +
  ae_lineage_receipts :: "monthly_receipt_pin list"

record amendment_published_pin = published_eligibility_pin +
  ap_lineage_receipts :: "monthly_receipt_pin list"
  ap_parent_publication_response_digest :: string

datatype amendment_month_pin =
    AmendmentPublished amendment_published_pin
  | AmendmentEvaluated amendment_evaluated_pin

definition validate_lineage :: "('z receipt_fields_scheme) list \<Rightarrow> exc + unit" where
  "validate_lineage rs =
    and_then (run_checks [(1 \<le> length rs \<and> length rs \<le> 31, ValidationError ''lineage_receipts'')])
             (check_all validate_receipt rs)"

fun validate_amendment_pin :: "amendment_month_pin \<Rightarrow> exc + unit" where
  "validate_amendment_pin (AmendmentPublished p) =
    and_then (validate_published p)
    (and_then (validate_lineage (ap_lineage_receipts p))
    (run_checks [(is_digest (ap_parent_publication_response_digest p),
                  ValidationError ''parent_publication_response_digest'')]))"
| "validate_amendment_pin (AmendmentEvaluated p) =
    and_then (validate_evaluated p) (validate_lineage (ae_lineage_receipts p))"

fun plain_amendment_pin :: "amendment_month_pin \<Rightarrow> eligibility_month_pin" where
  "plain_amendment_pin (AmendmentPublished p) = Published (published_eligibility_pin.truncate p)"
| "plain_amendment_pin (AmendmentEvaluated p) = Evaluated (evaluated_eligibility_pin.truncate p)"

record amendment_selection = eligibility_scope +
  am_months :: "amendment_month_pin list"

definition plain_amendment :: "amendment_selection \<Rightarrow> eligibility_selection" where
  "plain_amendment s =
     eligibility_scope.extend (eligibility_scope.truncate s)
       (eligibility_selection.fields (map plain_amendment_pin (am_months s)))"

definition validate_amendment :: "amendment_selection \<Rightarrow> exc + unit" where
  "validate_amendment s =
    and_then (run_checks
      [(1 \<le> length (am_months s) \<and> length (am_months s) \<le> 120, ValidationError ''months'')])
    (and_then (check_all validate_amendment_pin (am_months s))
              (validate_eligibility (plain_amendment s)))"

record identity_v6 = report_digests +
  v6_selection :: amendment_selection

definition validate_v6 :: "identity_v6 \<Rightarrow> exc + unit" where
  "validate_v6 i = and_then (validate_amendment (v6_selection i)) (validate_digests i)"

section \<open>Historical policy evidence (v7)\<close>

datatype historical_product_version = Product_v3 | Product_v4

record historical_receipt_pin = receipt_fields +
  hr_product_version :: historical_product_version

record historical_evaluated_correction = evaluated_eligibility_pin +
  he_lineage_receipts :: "historical_receipt_pin list"

record historical_published_correction = published_eligibility_pin +
  hp_lineage_receipts :: "historical_receipt_pin list"
  hp_parent_publication_response_digest :: string

text \<open>The four variants the callable discriminator tells apart.\<close>

datatype historical_month_pin =
    HistoricalEvaluatedRoot evaluated_eligibility_pin
  | HistoricalPublishedRoot published_eligibility_pin
  | HistoricalEvaluatedCorrection historical_evaluated_correction
  | HistoricalPublishedCorrection historical_published_correction

fun validate_historical_pin :: "historical_month_pin \<Rightarrow> exc + unit" where
  "validate_historical_pin (HistoricalEvaluatedRoot p) = validate_evaluated p"
| "validate_historical_pin (HistoricalPublishedRoot p) = validate_published p"
| "validate_historical_pin (HistoricalEvaluatedCorrection p) =
    and_then (validate_evaluated p) (validate_lineage (he_lineage_receipts p))"
| "validate_historical_pin (HistoricalPublishedCorrection p) =
    and_then (validate_published p)
    (and_then (validate_lineage (hp_lineage_receipts p))
    (run_checks [(is_digest (hp_parent_publication_response_digest p),
                  ValidationError ''parent_publication_response_digest'')]))"

fun historical_receipts :: "historical_month_pin \<Rightarrow> historical_receipt_pin list" where
  "historical_receipts (HistoricalEvaluatedCorrection p) = he_lineage_receipts p"
| "historical_receipts (HistoricalPublishedCorrection p) = hp_lineage_receipts p"
| "historical_receipts _ = []"

fun plain_historical_pin :: "historical_month_pin \<Rightarrow> eligibility_month_pin" where
  "plain_historical_pin (HistoricalEvaluatedRoot p) = Evaluated p"
| "plain_historical_pin (HistoricalPublishedRoot p) = Published p"
| "plain_historical_pin (HistoricalEvaluatedCorrection p) =
     Evaluated (evaluated_eligibility_pin.truncate p)"
| "plain_historical_pin (HistoricalPublishedCorrection p) =
     Published (published_eligibility_pin.truncate p)"

definition receipts_have_one_root :: "historical_receipt_pin list \<Rightarrow> bool" where
  "receipts_have_one_root rs \<longleftrightarrow>
     \<not> (rs \<noteq> [] \<and> (hr_product_version (last rs) \<noteq> Product_v3
                  \<or> (\<exists>r \<in> set (butlast rs). hr_product_version r \<noteq> Product_v4)))"

record historical_selection = eligibility_scope +
  hi_months :: "historical_month_pin list"

definition plain_historical :: "historical_selection \<Rightarrow> eligibility_selection" where
  "plain_historical s =
     eligibility_scope.extend (eligibility_scope.truncate s)
       (eligibility_selection.fields (map plain_historical_pin (hi_months s)))"

definition validate_historical :: "historical_selection \<Rightarrow> exc + unit" where
  "validate_historical s =
    and_then (run_checks
      [(1 \<le> length (hi_months s) \<and> length (hi_months s) \<le> 120, ValidationError ''months'')])
    (and_then (check_all validate_historical_pin (hi_months s))
    (and_then (check_all (\<lambda>p. run_checks [(receipts_have_one_root (historical_receipts p),
        ValidationError ''Historical corrections require one v3 original root'')]) (hi_months s))
      (validate_eligibility (plain_historical s))))"

record identity_v7 = report_digests +
  v7_selection :: historical_selection

definition validate_v7 :: "identity_v7 \<Rightarrow> exc + unit" where
  "validate_v7 i = and_then (validate_historical (v7_selection i)) (validate_digests i)"

section \<open>Source context (v8)\<close>

record composite_definition_pin =
  dp_definition_version :: string
  dp_content_hash :: string
  dp_response_digest :: string

definition validate_definition_pin :: "composite_definition_pin \<Rightarrow> exc + unit" where
  "validate_definition_pin p = run_checks
    [(is_identifier (dp_definition_version p), ValidationError ''definition_version''),
     (is_digest (dp_content_hash p), ValidationError ''content_hash''),
     (is_digest (dp_response_digest p), ValidationError ''response_digest'')]"

record composite_membership_pin =
  mp_membership_revision :: string
  mp_content_hash :: string
  mp_response_digest :: string

definition validate_membership_pin :: "composite_membership_pin \<Rightarrow> exc + unit" where
  "validate_membership_pin p = run_checks
    [(is_identifier (mp_membership_revision p), ValidationError ''membership_revision''),
     (is_digest (mp_content_hash p), ValidationError ''content_hash''),
     (is_digest (mp_response_digest p), ValidationError ''response_digest'')]"

record source_context_selection =
  sc_definition :: composite_definition_pin
  sc_since_inception :: bool
  sc_memberships :: "composite_membership_pin list"

definition validate_source_context :: "source_context_selection \<Rightarrow> exc + unit" where
  "validate_source_context s =
    and_then (validate_definition_pin (sc_definition s))
    (and_then (run_checks [(length (sc_memberships s) \<le> 2, ValidationError ''memberships'')])
    (and_then (check_all validate_membership_pin (sc_memberships s))
    (run_checks
      [(\<not> (\<not> sc_since_inception s \<and> sc_memberships s = []),
        ValidationError ''source context requires an explicitly selected attachment''),
       (card (set (map mp_membership_revision (sc_memberships s))) = length (sc_memberships s),
        ValidationError ''source context membership revisions must be unique'')])))"

record definition_custody =
  dc_pin :: composite_definition_pin
  dc_source_response_digest :: string

definition validate_definition_custody :: "definition_custody \<Rightarrow> exc + unit" where
  "validate_definition_custody d =
    and_then (validate_definition_pin (dc_pin d))
    (run_checks
      [(is_digest (dc_source_response_digest d), ValidationError ''source_response_digest''),
       (dc_source_response_digest d = dp_response_digest (dc_pin d),
        ValidationError ''definition response digest must match its exact pin'')])"

record identity_v8 = report_digests +
  v8_selection :: composite_selection
  v8_source_context :: source_context_selection
  v8_definition :: definition_custody
  v8_source_products :: "composite_source_product list"

text \<open>The version 2 reading of a version 8 identity, which the validator re-validates.\<close>

definition as_v2 :: "identity_v8 \<Rightarrow> identity_v2" where
  "as_v2 i = report_digests.extend (report_digests.truncate i)
     (identity_v2.fields (v8_selection i) (v8_source_products i))"

definition validate_v8 :: "identity_v8 \<Rightarrow> exc + unit" where
  "validate_v8 i =
    and_then (validate_selection (v8_selection i))
    (and_then (validate_digests i)
    (and_then (validate_source_context (v8_source_context i))
    (and_then (validate_definition_custody (v8_definition i))
    (and_then (run_checks [(length (v8_source_products i) \<le> 8, ValidationError ''source_products'')])
    (and_then (check_all validate_source_product (v8_source_products i))
    (and_then (if v8_source_products i \<noteq> [] then validate_v2 (as_v2 i) else Inr ())
    (run_checks
      [(\<not> (sc_definition (v8_source_context i) \<noteq> dc_pin (v8_definition i)
           \<or> (\<exists>w \<in> set (sel_windows (v8_selection i)).
                win_definition_content_hash w \<noteq> dp_content_hash (dc_pin (v8_definition i)))),
        ValidationError ''source context definition must match primary window pins''),
       (\<not> (sc_memberships (v8_source_context i) \<noteq> []
           \<and> \<not> win_membership_content_hash ` set (sel_windows (v8_selection i))
                \<subseteq> mp_content_hash ` set (sc_memberships (v8_source_context i))),
        ValidationError ''supplied membership pins must cover the financial windows'')])))))))"

section \<open>The discriminated union\<close>

datatype composite_custody_identity =
    IdentityV1 identity_v1 | IdentityV2 identity_v2 | IdentityV3 identity_v3 | IdentityV4 identity_v4
  | IdentityV5 identity_v5 | IdentityV6 identity_v6 | IdentityV7 identity_v7 | IdentityV8 identity_v8

fun validate_identity :: "composite_custody_identity \<Rightarrow> exc + unit" where
  "validate_identity (IdentityV1 i) = validate_v1 i"
| "validate_identity (IdentityV2 i) = validate_v2 i"
| "validate_identity (IdentityV3 i) = validate_v3 i"
| "validate_identity (IdentityV4 i) = validate_v4 i"
| "validate_identity (IdentityV5 i) = validate_v5 i"
| "validate_identity (IdentityV6 i) = validate_v6 i"
| "validate_identity (IdentityV7 i) = validate_v7 i"
| "validate_identity (IdentityV8 i) = validate_v8 i"

fun identity_version :: "composite_custody_identity \<Rightarrow> string" where
  "identity_version (IdentityV1 _) = ''v1''"
| "identity_version (IdentityV2 _) = ''v2''"
| "identity_version (IdentityV3 _) = ''v3''"
| "identity_version (IdentityV4 _) = ''v4''"
| "identity_version (IdentityV5 _) = ''v5''"
| "identity_version (IdentityV6 _) = ''v6''"
| "identity_version (IdentityV7 _) = ''v7''"
| "identity_version (IdentityV8 _) = ''v8''"

definition identity_contract_version :: "composite_custody_identity \<Rightarrow> string" where
  "identity_contract_version i = ''composite_review.'' @ identity_version i"

text \<open>
  The tenant, composite and horizon of an identity's selection, read through the linked
  request where the selection is a linked one.
\<close>

fun identity_scope :: "composite_custody_identity \<Rightarrow> string \<times> string \<times> date \<times> date" where
  "identity_scope (IdentityV1 i) = (let s = v1_selection i in
     (sel_tenant_id s, sel_composite_id s, sel_period_start s, sel_period_end s))"
| "identity_scope (IdentityV2 i) = (let s = v2_selection i in
     (sel_tenant_id s, sel_composite_id s, sel_period_start s, sel_period_end s))"
| "identity_scope (IdentityV3 i) = (let s = v3_selection i; r = ls_source_request s in
     (ls_tenant_id s, lr_composite_id r, lr_period_start r, lr_period_end r))"
| "identity_scope (IdentityV4 i) = (let s = v4_selection i in
     (el_tenant_id s, el_composite_id s, el_period_start s, el_period_end s))"
| "identity_scope (IdentityV5 i) = (let s = v5_selection i in
     (pa_tenant_id s, pa_composite_id s, pa_period_start s, pa_period_end s))"
| "identity_scope (IdentityV6 i) = (let s = v6_selection i in
     (el_tenant_id s, el_composite_id s, el_period_start s, el_period_end s))"
| "identity_scope (IdentityV7 i) = (let s = v7_selection i in
     (el_tenant_id s, el_composite_id s, el_period_start s, el_period_end s))"
| "identity_scope (IdentityV8 i) = (let s = v8_selection i in
     (sel_tenant_id s, sel_composite_id s, sel_period_start s, sel_period_end s))"

end
