(* ===== verification/CompositeWindows.thy ===== *)
theory CompositeWindows
  imports CompositeCustody
begin

text \<open>
  What the composite validators accept: window vectors that tile the report horizon, source
  products that are an uninterrupted block of the primary vector, and calendar products that
  are the twelve months of their year.
\<close>

definition windows_valid :: "composite_window_pin list \<Rightarrow> bool" where
  "windows_valid ws \<longleftrightarrow> list_all (\<lambda>w. valid_date (win_period_start w) \<and> valid_date (win_period_end w)) ws"

definition covers :: "composite_window_pin \<Rightarrow> date \<Rightarrow> bool" where
  "covers w x \<longleftrightarrow> win_period_start w \<le> x \<and> x \<le> win_period_end w"

definition chronological :: "composite_window_pin list \<Rightarrow> bool" where
  "chronological ws \<longleftrightarrow> list_all (\<lambda>w. win_period_start w \<le> win_period_end w) ws
     \<and> sorted_wrt (\<lambda>p c. win_period_end p < win_period_start c) ws"

lemma chronological_Cons:
  assumes "chronological (c # ws)" "win_period_start p \<le> win_period_end p"
    "win_period_end p < win_period_start c"
  shows "chronological (p # c # ws)"
proof -
  have "win_period_end p < win_period_start w" if "w \<in> set ws" for w
  proof -
    have "win_period_start c \<le> win_period_end c" "win_period_end c < win_period_start w"
      using assms(1) that by (auto simp: chronological_def)
    with assms(3) show ?thesis by order
  qed
  with assms show ?thesis by (auto simp: chronological_def)
qed

lemma contiguous_chronological:
  assumes "contiguous_windows e ws = Inr ()" "list_all (\<lambda>w. win_period_start w \<le> win_period_end w) ws"
  shows "chronological ws"
  using assms
proof (induction e ws rule: contiguous_windows.induct)
  case (1 e p c ws)
  then obtain d where d: "next_day (win_period_end p) = Some d" "win_period_start c = d"
    "contiguous_windows e (c # ws) = Inr ()"
    by (auto split: option.splits if_splits)
  then have "chronological (c # ws)" using 1 by simp
  with 1(3) d(1,2) next_day_less [OF d(1)] show ?case
    by (intro chronological_Cons) simp_all
qed (auto simp: chronological_def)

lemma contiguous_covers:
  assumes "contiguous_windows e ws = Inr ()" "ws \<noteq> []" "windows_valid ws" "valid_date x"
    "win_period_start (hd ws) \<le> x" "x \<le> win_period_end (last ws)"
  shows "\<exists>w \<in> set ws. covers w x"
  using assms
proof (induction e ws rule: contiguous_windows.induct)
  case (1 e p c ws)
  obtain d where d: "next_day (win_period_end p) = Some d" "win_period_start c = d"
    "contiguous_windows e (c # ws) = Inr ()"
    using 1(2) by (auto split: option.splits if_splits)
  show ?case
  proof (cases "x \<le> win_period_end p")
    case True
    then show ?thesis using 1(6) by (auto simp: covers_def)
  next
    case False
    then have "d \<le> x"
      using next_day_least [OF _ 1(5) d(1)] 1(4) by (simp add: windows_valid_def)
    then have "\<exists>w \<in> set (c # ws). covers w x"
      using 1(1) [OF d(1)] d(2,3) 1(4,5,7) by (simp add: windows_valid_def)
    then show ?thesis by auto
  qed
qed (auto simp: covers_def)

lemma chronological_unique:
  assumes "chronological ws" "i < length ws" "j < length ws" "covers (ws ! i) x" "covers (ws ! j) x"
  shows "i = j"
proof (rule ccontr)
  have lt: False if "a < b" "b < length ws" "covers (ws ! a) x" "covers (ws ! b) x" for a b
  proof -
    have "win_period_end (ws ! a) < win_period_start (ws ! b)"
      using assms(1) that(1,2) by (simp add: chronological_def sorted_wrt_iff_nth_less)
    with that(3,4) show False by (auto simp: covers_def)
  qed
  assume "i \<noteq> j"
  with lt [of i j] lt [of j i] assms(2-5) show False by (cases i j rule: linorder_cases) auto
qed

lemma accepted_Inr_unit: "accepted r \<longleftrightarrow> r = Inr ()"
  by (cases r) auto

lemma accepted_selection:
  assumes "accepted (validate_selection s)"
  shows "contiguous_windows (ValidationError ''composite pins must be chronological and contiguous'')
      (sel_windows s) = Inr ()"
    "sel_windows s \<noteq> []" "length (sel_windows s) \<le> 120"
    "list_all (\<lambda>w. win_period_start w \<le> win_period_end w) (sel_windows s)"
    "win_period_start (hd (sel_windows s)) = sel_period_start s"
    "win_period_end (last (sel_windows s)) = sel_period_end s"
    "distinct (map win_materialization_id (sel_windows s))"
  using assms
  by (auto simp: validate_selection_def validate_window_def accepted_Inr_unit [symmetric] list_all_iff not_less
      simp del: run_checks.simps)

lemma selection_chronological: "accepted (validate_selection s) \<Longrightarrow> chronological (sel_windows s)"
  by (rule contiguous_chronological [OF accepted_selection(1,4)])

section \<open>Source products\<close>

lemma filter_block:
  assumes "sorted_wrt (\<lambda>a b. Q b \<longrightarrow> Q a) xs" "sorted_wrt (\<lambda>a b. P a \<longrightarrow> P b) xs"
  shows "\<exists>us vs. xs = us @ filter (\<lambda>x. P x \<and> Q x) xs @ vs"
  using assms
proof (induction xs)
  case (Cons x xs)
  then obtain us vs where ih: "xs = us @ filter (\<lambda>x. P x \<and> Q x) xs @ vs" by auto
  show ?case
  proof (cases "P x \<and> Q x")
    case True
    then have p: "\<forall>y \<in> set xs. P y" using Cons.prems by auto
    have "filter (\<lambda>x. P x \<and> Q x) xs = takeWhile Q xs"
      using Cons.prems(1) p by (induction xs) auto
    then have "x # xs = [] @ filter (\<lambda>x. P x \<and> Q x) (x # xs) @ dropWhile Q xs"
      using True by simp
    then show ?thesis by blast
  next
    case False
    then have "x # xs = (x # us) @ filter (\<lambda>x. P x \<and> Q x) (x # xs) @ vs" using ih by auto
    then show ?thesis by blast
  qed
qed simp

lemma windows_within_block:
  assumes "chronological (sel_windows s)"
  shows "\<exists>us vs. sel_windows s = us @ windows_within s a b @ vs"
proof -
  have o: "win_period_start w \<le> win_period_end w" if "w \<in> set (sel_windows s)" for w
    using assms that by (auto simp: chronological_def list_all_iff)
  have w: "sorted_wrt (\<lambda>p c. win_period_end p < win_period_start c) (sel_windows s)"
    using assms by (simp add: chronological_def)
  have "sorted_wrt (\<lambda>p c. win_period_end c \<le> b \<longrightarrow> win_period_end p \<le> b) (sel_windows s)"
    by (rule sorted_wrt_mono_rel [OF _ w]) (use o in \<open>force intro: order_trans less_imp_le\<close>)
  moreover have "sorted_wrt (\<lambda>p c. win_period_start p \<ge> a \<longrightarrow> win_period_start c \<ge> a) (sel_windows s)"
    by (rule sorted_wrt_mono_rel [OF _ w]) (use o in \<open>force intro: order_trans less_imp_le\<close>)
  ultimately show ?thesis
    unfolding windows_within_def by (rule filter_block)
qed

lemma accepted_v2:
  assumes "accepted (validate_v2 i)" "p \<in> set (v2_source_products i)"
  shows "accepted (validate_pin (sp_pin p))" "accepted (validate_selection (v2_selection i))"
    "sel_windows (pin_selection (sp_pin p)) = windows_within (v2_selection i)
       (sel_period_start (pin_selection (sp_pin p))) (sel_period_end (pin_selection (sp_pin p)))"
    "same_scope (pin_selection (sp_pin p)) (v2_selection i)"
    "is_trailing (sp_pin p) \<Longrightarrow> sel_period_end (pin_selection (sp_pin p)) = sel_period_end (v2_selection i)"
  using assms
  by (auto simp: validate_v2_def validate_source_product_def product_scope_def Let_def simp del: run_checks.simps)

section \<open>Calendar products\<close>

lemma complete_month_bounds:
  assumes "complete_month_window w"
  shows "win_period_start w = Date (date_year (win_period_start w)) (date_month (win_period_start w)) 1"
    "win_period_end w = Date (date_year (win_period_start w)) (date_month (win_period_start w))
       (days_in_month (date_year (win_period_start w)) (date_month (win_period_start w)))"
  using assms by (auto simp: complete_month_window_def Let_def intro!: date.expand)

text \<open>Complete months that follow each other, counted from a month of a year.\<close>

lemma contiguous_months:
  assumes "contiguous_windows e ws = Inr ()" "\<forall>w \<in> set ws. complete_month_window w"
    "ws \<noteq> []" "win_period_start (hd ws) = Date y m 1" "m + int (length ws) \<le> 13" "i < length ws"
  shows "win_period_start (ws ! i) = Date y (m + int i) 1
    \<and> win_period_end (ws ! i) = Date y (m + int i) (days_in_month y (m + int i))"
  using assms
proof (induction e ws arbitrary: m i rule: contiguous_windows.induct)
  case (1 e p c ws)
  obtain d where d: "next_day (win_period_end p) = Some d" "win_period_start c = d"
    "contiguous_windows e (c # ws) = Inr ()"
    using 1(2) by (auto split: option.splits if_splits)
  have p: "win_period_start p = Date y m 1" "win_period_end p = Date y m (days_in_month y m)"
    using complete_month_bounds [of p] 1(3,5) by simp_all
  have "d = Date y (m + 1) 1"
    using d(1) p(2) 1(6) by (simp add: next_day_def)
  then have c: "win_period_start (hd (c # ws)) = Date y (m + 1) 1" using d(2) by simp
  show ?case
  proof (cases i)
    case 0
    then show ?thesis using p by simp
  next
    case (Suc k)
    then show ?thesis
      using 1(1) [OF d(1) _ d(3) _ _ c, of k] 1(3,6,7) d(2) by (simp add: add.commute add.left_commute)
  qed
qed (simp_all add: complete_month_bounds(2))

lemma accepted_calendar:
  assumes "accepted (validate_pin (CalendarReturnPin key y s))"
  shows "accepted (validate_selection s)" "sel_period_start s = Date y 1 1" "length (sel_windows s) = 12"
    "\<forall>w \<in> set (sel_windows s). complete_month_window w"
  using assms by (auto simp: require_complete_months_def simp del: run_checks.simps)

end
