(* ===== verification/CompositeSamples.thy ===== *)
theory CompositeSamples
  imports CompositeWindows
begin

text \<open>
  A composite review of the year 2026 from twelve monthly windows, with a calendar product over
  the year and a trailing product over its last three months.
\<close>

definition sample_digest :: string where
  "sample_digest = ''sha256:'' @ replicate 64 CHR ''a''"

definition month_window :: "nat \<Rightarrow> composite_window_pin" where
  "month_window m = \<lparr>win_materialization_id = replicate m CHR ''w'', win_period_start = Date 2026 (int m) 1,
     win_period_end = Date 2026 (int m) (days_in_month 2026 (int m)), win_restatement_sequence = 1,
     win_definition_content_hash = sample_digest, win_membership_content_hash = sample_digest,
     win_attestation_content_hash = sample_digest, win_source_cut_id = ''cut-1'', win_method_binding = [(''method'', ''twr'')],
     win_retained_receipt_fingerprint = sample_digest\<rparr>"

definition months_selection :: "nat \<Rightarrow> nat \<Rightarrow> composite_selection" where
  "months_selection a b = \<lparr>sel_tenant_id = ''tenant-1'', sel_composite_id = ''comp-1'', sel_calculation_id = ''calc-1'',
     sel_period_start = Date 2026 (int a) 1, sel_period_end = Date 2026 (int b) (days_in_month 2026 (int b)),
     sel_reporting_currency = ''USD'', sel_return_view = GROSS, sel_methodology = ''m-1'', sel_engine_version = ''e-1'',
     sel_calculation_fingerprint = sample_digest, sel_response_digest = sample_digest,
     sel_windows = map month_window [a ..< Suc b]\<rparr>"

definition sample_v2 :: identity_v2 where
  "sample_v2 = \<lparr>rd_series_digest = replicate 64 CHR ''b'', rd_source_revision_digest = replicate 64 CHR ''c'',
     rd_factual_content_digest = replicate 64 CHR ''d'', v2_selection = months_selection 1 12,
     v2_source_products =
       [\<lparr>sp_pin = CalendarReturnPin ''calendar'' 2026 (months_selection 1 12), sp_source_response_digest = sample_digest\<rparr>,
        \<lparr>sp_pin = TrailingReturnPin ''trailing_3m'' 3 (months_selection 10 12), sp_source_response_digest = sample_digest\<rparr>]\<rparr>"

lemma sample_digest_ok [simp]: "is_digest sample_digest"
  unfolding sample_digest_def by code_simp

lemma month_window_ok [simp]: "validate_window (month_window m) = Inr ()"
  by (simp add: validate_window_def month_window_def is_identifier_def is_regex_space_def py_strip_def is_space_def
      less_date_def less_eq_date_def days_in_month_def)

lemma sample_months:
  "[Suc 0 ..< 13] = [1, 2, 3, 4, 5, 6, 7, 8, 9, 10, 11, 12]" "[10 ..< 13] = [10, 11, 12]"
  by (simp_all add: upt_rec)

lemma months_contiguous: "b \<le> 13 \<Longrightarrow> contiguous_windows e (map month_window [a ..< b]) = Inr ()"
proof (induction "b - a" arbitrary: a)
  case (Suc n)
  show ?case
  proof (cases "Suc a < b")
    case True
    have next_start: "next_day (win_period_end (month_window a)) = Some (win_period_start (month_window (Suc a)))"
      using True Suc.prems by (simp add: month_window_def next_day_def)
    have "map month_window [a ..< b] = month_window a # month_window (Suc a) # map month_window [Suc (Suc a) ..< b]"
      using True by (simp add: upt_conv_Cons)
    moreover have "contiguous_windows e (month_window (Suc a) # map month_window [Suc (Suc a) ..< b]) = Inr ()"
      using Suc.hyps(1) [of "Suc a"] Suc.hyps(2) Suc.prems True by (simp add: upt_conv_Cons)
    ultimately show ?thesis using next_start by simp
  next
    case False
    then have "b = Suc a" using Suc.hyps(2) by simp
    then show ?thesis by simp
  qed
qed simp

lemma sample_windows [simp]:
  "check_all validate_window (map month_window ms) = Inr ()"
  "distinct (map (win_materialization_id \<circ> month_window) ms) = distinct ms"
proof -
  show "check_all validate_window (map month_window ms) = Inr ()" by (induction ms) simp_all
  have "inj_on (\<lambda>m. replicate m CHR ''w'') (set ms)" by (rule inj_onI) simp
  then show "distinct (map (win_materialization_id \<circ> month_window) ms) = distinct ms"
    by (simp add: month_window_def comp_def distinct_map)
qed

lemma sample_selection_valid:
  assumes "sel_windows s = map month_window ms" "distinct ms" "1 \<le> length ms" "length ms \<le> 120"
    "contiguous_windows (ValidationError ''composite pins must be chronological and contiguous'') (map month_window ms) = Inr ()"
    "sel_period_start s = win_period_start (month_window (hd ms))" "sel_period_end s = win_period_end (month_window (last ms))"
    "is_identifier (sel_tenant_id s)" "is_identifier (sel_composite_id s)" "is_currency (sel_reporting_currency s)"
    "is_identifier (sel_methodology s)" "is_identifier (sel_engine_version s)"
    "sel_calculation_fingerprint s = sample_digest" "sel_response_digest s = sample_digest"
  shows "validate_selection s = Inr ()"
proof -
  have "ms \<noteq> []" using assms(3) by auto
  then show ?thesis
    using assms by (simp add: validate_selection_def and_then_def hd_map last_map)
qed

lemma sample_fields: "is_identifier ''tenant-1''" "is_identifier ''comp-1''" "is_identifier ''m-1''" "is_identifier ''e-1''"
  "is_currency ''USD''" "is_product_key ''calendar''" "is_product_key ''trailing_3m''"
  by (simp_all add: is_identifier_def is_regex_space_def is_currency_def is_upper_letter_def is_product_key_def
      is_lower_letter_def is_digit_def)

lemma months_selection_ok: "a \<le> b \<Longrightarrow> b \<le> 12 \<Longrightarrow> validate_selection (months_selection a b) = Inr ()"
proof (rule sample_selection_valid [of _ "[a ..< Suc b]"])
  assume ab: "a \<le> b" "b \<le> 12"
  show "contiguous_windows (ValidationError ''composite pins must be chronological and contiguous'') (map month_window [a ..< Suc b]) = Inr ()"
    using ab by (intro months_contiguous) simp
  show "sel_period_start (months_selection a b) = win_period_start (month_window (hd [a ..< Suc b]))"
    "sel_period_end (months_selection a b) = win_period_end (month_window (last [a ..< Suc b]))"
    using ab by (simp_all add: months_selection_def month_window_def del: upt_Suc)
qed (simp_all add: months_selection_def sample_fields del: upt_Suc)

lemmas sample_selection_ok = months_selection_ok [of 1 12, simplified] months_selection_ok [of 10 12, simplified]

lemma sample_complete: "1 \<le> a \<Longrightarrow> require_complete_months (months_selection a b) = Inr ()"
proof -
  have "check_all (\<lambda>w. run_checks [(complete_month_window w,
        ValidationError ''source products require complete calendar months'')]) (map month_window ms) = Inr ()" for ms
    by (induction ms) (simp_all add: complete_month_window_def month_window_def)
  then show ?thesis by (simp add: require_complete_months_def months_selection_def)
qed

lemma sample_calendar_ok: "validate_pin (CalendarReturnPin ''calendar'' 2026 (months_selection 1 12)) = Inr ()"
  "validate_pin (TrailingReturnPin ''trailing_3m'' 3 (months_selection 10 12)) = Inr ()"
  by (simp_all add: sample_selection_ok sample_complete and_then_def sample_fields)
     (simp_all add: months_selection_def days_in_month_def)

lemma sample_within:
  "windows_within (months_selection 1 12) (Date 2026 1 1) (Date 2026 12 (days_in_month 2026 12)) = sel_windows (months_selection 1 12)"
  "windows_within (months_selection 1 12) (Date 2026 10 1) (Date 2026 12 (days_in_month 2026 12)) = sel_windows (months_selection 10 12)"
  by (simp_all add: windows_within_def months_selection_def sample_months month_window_def less_eq_date_def less_date_def
      days_in_month_def)

lemma months_selection_sel [simp]:
  "sel_period_start (months_selection a b) = Date 2026 (int a) 1"
  "sel_period_end (months_selection a b) = Date 2026 (int b) (days_in_month 2026 (int b))"
  "sel_response_digest (months_selection a b) = sample_digest"
  "same_scope (months_selection a b) (months_selection c d)"
  by (simp_all add: months_selection_def same_scope_def)

lemma sample_v2_ok: "accepted (validate_v2 sample_v2)"
proof -
  have digests: "validate_digests sample_v2 = Inr ()"
    by (simp add: sample_v2_def validate_digests_def is_hex64_def is_hex_def hex_digits_def)
  have products: "check_all validate_source_product (v2_source_products sample_v2) = Inr ()"
    by (simp add: sample_v2_def validate_source_product_def sample_calendar_ok [unfolded One_nat_def] and_then_def
        del: validate_pin.simps)
  have scope: "product_scope (months_selection 1 12) (v2_source_products sample_v2) = Inr ()"
    by (simp add: sample_v2_def product_scope_def sample_within [unfolded One_nat_def] Let_def and_then_def
        is_trailing_def)
  have parts: "v2_selection sample_v2 = months_selection 1 12" "length (v2_source_products sample_v2) = 2"
    by (simp_all add: sample_v2_def)
  show ?thesis
    using digests products scope by (simp add: validate_v2_def parts sample_selection_ok and_then_def)
qed

end
