(* ===== verification/Models.thy ===== *)
theory Models
  imports CompositeCustody
begin

text \<open>
  The data model of \<open>src/app/archive/models.py\<close>: the enumerations with their wire values,
  the archive summaries, the document input and the stored metadata record that extends it,
  legal-hold and lifecycle-relationship records, and the commands of
  \<open>src/app/archive/commands.py\<close>. The validators of these models are in \<open>InputValidation\<close>.
\<close>

section \<open>Enumerations\<close>

datatype purge_status = NOT_ELIGIBLE | ELIGIBLE | PURGED

fun purge_status_value :: "purge_status \<Rightarrow> string" where
  "purge_status_value NOT_ELIGIBLE = ''not_eligible''"
| "purge_status_value ELIGIBLE = ''eligible''"
| "purge_status_value PURGED = ''purged''"

datatype legal_hold_status = CLEAR | ACTIVE

fun legal_hold_status_value :: "legal_hold_status \<Rightarrow> string" where
  "legal_hold_status_value CLEAR = ''clear''"
| "legal_hold_status_value ACTIVE = ''active''"

datatype lifecycle_transition_type = SUPERSEDE | CORRECT | REISSUE

fun transition_value :: "lifecycle_transition_type \<Rightarrow> string" where
  "transition_value SUPERSEDE = ''supersede''"
| "transition_value CORRECT = ''correct''"
| "transition_value REISSUE = ''reissue''"

fun transition_reason_code :: "lifecycle_transition_type \<Rightarrow> string" where
  "transition_reason_code SUPERSEDE = ''archive_document_supersession_requested''"
| "transition_reason_code CORRECT = ''archive_document_correction_requested''"
| "transition_reason_code REISSUE = ''client_delivery_reissue_requested''"

datatype document_classification = INTERNAL | CONFIDENTIAL | RESTRICTED

datatype generated_report_type =
    COMPOSITE_REVIEW | PORTFOLIO_REVIEW | OUTCOME_REVIEW | PROOF_PACK | REBALANCE_WAVE

fun report_type_value :: "generated_report_type \<Rightarrow> string" where
  "report_type_value COMPOSITE_REVIEW = ''composite_review''"
| "report_type_value PORTFOLIO_REVIEW = ''portfolio_review''"
| "report_type_value OUTCOME_REVIEW = ''outcome_review''"
| "report_type_value PROOF_PACK = ''proof_pack''"
| "report_type_value REBALANCE_WAVE = ''rebalance_wave''"

section \<open>Archive summaries\<close>

record reviewed_narrative =
  rn_package_id :: string
  rn_review_id :: string
  rn_client_ready_status :: string
  rn_policy_version :: string
  rn_source_narrative_hash :: string
  rn_report_data_narrative_hash :: string
  rn_guardrail_status :: string
  rn_section_count :: int
  rn_disclosure_ref_count :: int
  rn_limitation_count :: int
  rn_included_in_render :: bool

record proposal_memo =
  pm_memo_id :: string
  pm_proposal_id :: string
  pm_proposal_version_no :: int
  pm_review_event_id :: string
  pm_review_action :: string
  pm_client_ready_status :: string
  pm_memo_hash :: string
  pm_source_input_hash :: string
  pm_section_count :: int
  pm_blocked_section_count :: int
  pm_included_in_render :: bool

record advisor_commentary =
  ac_run_id :: string
  ac_request_id :: string
  ac_reviewed_by :: string
  ac_reviewed_at :: string
  ac_content_hash :: string
  ac_included_in_render :: bool

record idea_evidence_pack =
  ie_report_evidence_pack_id :: string
  ie_conversion_intent_id :: string
  ie_candidate_id :: string
  ie_evidence_packet_id :: string
  ie_evidence_content_fingerprint :: string
  ie_source_summary_count :: int
  ie_reason_codes :: "string list"
  ie_retention_policy_ref :: string
  ie_included_in_render :: bool

section \<open>Document input and metadata\<close>

record document_input =
  archive_request_id :: string
  report_job_id :: string
  report_request_id :: string
  snapshot_id :: string
  render_job_id :: string
  render_attempt_id :: string
  report_type :: generated_report_type
  portfolio_scope :: string
  portfolio_id :: "string option"
  composite_id :: "string option"
  composite_report_identity :: "composite_custody_identity option"
  client_reference :: "string option"
  as_of_date :: date
  reporting_period_start :: date
  reporting_period_end :: date
  frequency :: string
  template_id :: string
  template_version :: string
  render_service_version :: string
  report_data_contract_version :: string
  mime_type :: string
  output_format :: string
  classification :: document_classification
  region :: string
  tenant_id :: string
  retention_policy_id :: "string option"
  retention_start_date :: "date option"
  retain_until_date :: "date option"
  reviewed_advisory_narrative :: "reviewed_narrative option"
  advisor_proposal_memo :: "proposal_memo option"
  advisor_commentary_summary :: "advisor_commentary option"
  idea_evidence_pack_summary :: "idea_evidence_pack option"
  created_by_service :: string
  created_by_actor :: string
  document_reference :: "string option"
  declared_artifact_sha256 :: "string option"
  render_runtime_engine :: "string option"
  render_runtime_engine_version :: "string option"
  template_digest :: "string option"
  template_publication :: "string option"
  report_revision_id :: "string option"

text \<open>
  \<open>ArchiveDocumentMetadata\<close> extends the input with what Archive adds: the identity of the
  stored object, and the posture that only the owning transitions may move.
\<close>

record document_metadata = document_input +
  document_id :: string
  storage_provider :: string
  storage_namespace :: string
  storage_key :: string
  checksum_algorithm :: string
  checksum :: string
  size_bytes :: int
  purge_eligible_at :: "instant option"
  purge_started_at :: "instant option"
  purged_at :: "instant option"
  purge_status :: purge_status
  legal_hold_status :: legal_hold_status
  legal_hold_count :: int
  supersedes_document_id :: "string option"
  superseded_by_document_id :: "string option"
  correction_of_document_id :: "string option"
  reissue_of_document_id :: "string option"
  created_at :: instant
  updated_at :: instant

text \<open>\<open>existing.model_dump(include=set(ArchiveDocumentInput.model_fields))\<close>\<close>

definition input_fields :: "document_metadata \<Rightarrow> document_input" where
  "input_fields m = document_input.truncate m"

record legal_hold =
  legal_hold_id :: string
  hold_document_id :: string
  hold_status :: legal_hold_status
  hold_reason :: string
  authority_reference :: string
  hold_requested_by :: string
  hold_requested_at :: instant
  released_by :: "string option"
  released_at :: "instant option"
  release_reason :: "string option"

record lifecycle_relationship =
  lifecycle_relationship_id :: string
  source_document_id :: string
  target_document_id :: string
  transition_type :: lifecycle_transition_type
  transition_reason :: string
  relationship_reason_code :: string
  relationship_requested_by :: string
  relationship_requested_at :: instant

text \<open>
  Which field of the target records the origin document: reading it
  (\<open>getattr(target, origin_field)\<close>) and writing it
  (\<open>model_copy(update={origin_field: ...})\<close>).
\<close>

fun origin_field :: "lifecycle_transition_type \<Rightarrow> document_metadata \<Rightarrow> string option" where
  "origin_field SUPERSEDE m = supersedes_document_id m"
| "origin_field CORRECT m = correction_of_document_id m"
| "origin_field REISSUE m = reissue_of_document_id m"

fun set_origin_field ::
    "lifecycle_transition_type \<Rightarrow> string \<Rightarrow> document_metadata \<Rightarrow> document_metadata" where
  "set_origin_field SUPERSEDE d m = m\<lparr>supersedes_document_id := Some d\<rparr>"
| "set_origin_field CORRECT d m = m\<lparr>correction_of_document_id := Some d\<rparr>"
| "set_origin_field REISSUE d m = m\<lparr>reissue_of_document_id := Some d\<rparr>"

section \<open>Commands\<close>

type_synonym bytes = "nat list"

record create_command =
  cc_metadata :: document_input
  cc_content_base64 :: string

record legal_hold_command =
  lh_hold_reason :: string
  lh_authority_reference :: string

record lifecycle_command =
  lc_target_document_id :: string
  lc_transition_reason :: string

section \<open>The immutable part of a document\<close>

text \<open>
  The fields outside \<open>MUTABLE_DOCUMENT_FIELDS\<close>: two snapshots agree on them exactly when
  they are equal after the mutable ones are given common values.
\<close>

definition immutable_part :: "document_metadata \<Rightarrow> document_metadata" where
  "immutable_part m = m\<lparr>purge_status := NOT_ELIGIBLE, purged_at := None, purge_started_at := None,
     purge_eligible_at := None, legal_hold_status := CLEAR, legal_hold_count := 0,
     superseded_by_document_id := None, supersedes_document_id := None,
     correction_of_document_id := None, reissue_of_document_id := None, updated_at := 0\<rparr>"

text \<open>A snapshot up to the time of its last write.\<close>

definition untimed :: "document_metadata \<Rightarrow> document_metadata" where
  "untimed m = m\<lparr>updated_at := 0\<rparr>"

lemma untimed_sel [simp]:
  "document_id (untimed m) = document_id m" "purge_status (untimed m) = purge_status m"
  "purge_started_at (untimed m) = purge_started_at m" "purged_at (untimed m) = purged_at m"
  "purge_eligible_at (untimed m) = purge_eligible_at m" "storage_key (untimed m) = storage_key m"
  "legal_hold_status (untimed m) = legal_hold_status m" "checksum (untimed m) = checksum m"
  "legal_hold_count (untimed m) = legal_hold_count m" "size_bytes (untimed m) = size_bytes m"
  "superseded_by_document_id (untimed m) = superseded_by_document_id m"
  "origin_field t (untimed m) = origin_field t m" "tenant_id (untimed m) = tenant_id m"
  "region (untimed m) = region m" "archive_request_id (untimed m) = archive_request_id m"
  "retain_until_date (untimed m) = retain_until_date m"
  "supersedes_document_id (untimed m) = supersedes_document_id m"
  "correction_of_document_id (untimed m) = correction_of_document_id m"
  "reissue_of_document_id (untimed m) = reissue_of_document_id m"
  "immutable_part (untimed m) = immutable_part m" "untimed (untimed m) = untimed m"
  by (cases t; simp add: untimed_def immutable_part_def)+

lemma immutable_part_sel:
  "document_id (immutable_part m) = document_id m" "storage_key (immutable_part m) = storage_key m"
  "checksum (immutable_part m) = checksum m" "size_bytes (immutable_part m) = size_bytes m"
  "archive_request_id (immutable_part m) = archive_request_id m"
  by (simp_all add: immutable_part_def)

lemma immutable_part_eqD:
  assumes "immutable_part a = immutable_part b"
  shows "document_id a = document_id b" "storage_key a = storage_key b" "checksum a = checksum b"
    "size_bytes a = size_bytes b" "archive_request_id a = archive_request_id b"
  using assms by (metis immutable_part_sel)+

lemma origin_field_set [simp]:
  "origin_field t (set_origin_field t d m) = Some d"
  "document_id (set_origin_field t d m) = document_id m"
  "purge_status (set_origin_field t d m) = purge_status m"
  "purge_started_at (set_origin_field t d m) = purge_started_at m"
  "legal_hold_status (set_origin_field t d m) = legal_hold_status m"
  "legal_hold_count (set_origin_field t d m) = legal_hold_count m"
  "superseded_by_document_id (set_origin_field t d m) = superseded_by_document_id m"
  "immutable_part (set_origin_field t d m) = immutable_part m"
  "untimed (set_origin_field t d m) = set_origin_field t d (untimed m)"
  by (cases t; simp add: immutable_part_def untimed_def)+

end
