(* ===== verification/Lifecycle.thy ===== *)
theory Lifecycle
  imports Models
begin

text \<open>
  The lifecycle-transition decisions of \<open>src/app/archive/lifecycle_transitions.py\<close>. The same
  two functions run in the service on unlocked reads and in each repository on the stored
  rows. The table of origin fields has an entry for every member of the enumeration, so its
  "unsupported transition" branches cannot be reached and have no counterpart here.
\<close>

text \<open>Python's \<open>a or b\<close> on optional strings.\<close>

definition or_opt :: "string option \<Rightarrow> string option \<Rightarrow> string option" where
  "or_opt a b = (if truthy a then a else b)"

definition existing_origin :: "document_metadata \<Rightarrow> string option" where
  "existing_origin target =
     or_opt (or_opt (supersedes_document_id target) (correction_of_document_id target))
            (reissue_of_document_id target)"

definition validate_lifecycle_preconditions ::
    "document_metadata \<Rightarrow> document_metadata \<Rightarrow> exc + unit" where
  "validate_lifecycle_preconditions source target = run_checks
    [(document_id source \<noteq> document_id target,
      UnsupportedLifecycleTransitionError ''document cannot transition to itself''),
     (\<not> (purge_status source = PURGED \<or> purge_status target = PURGED),
      UnsupportedLifecycleTransitionError ''purged documents cannot transition''),
     (superseded_by_document_id source = None,
      SupersessionConflictError ''source document is already historical''),
     (superseded_by_document_id target = None,
      SupersessionConflictError ''target document is already historical''),
     (existing_origin target = None,
      SupersessionConflictError ''target document already has a lifecycle origin'')]"

definition transition_pointers_agree ::
    "document_metadata \<Rightarrow> document_metadata \<Rightarrow> lifecycle_transition_type \<Rightarrow> bool" where
  "transition_pointers_agree source target t \<longleftrightarrow>
     (if superseded_by_document_id source \<noteq> Some (document_id target) then False
      else origin_field t target = Some (document_id source))"

lemma accepted_preconditions [simp]:
  "accepted (validate_lifecycle_preconditions source target) \<longleftrightarrow>
     document_id source \<noteq> document_id target
     \<and> purge_status source \<noteq> PURGED \<and> purge_status target \<noteq> PURGED
     \<and> superseded_by_document_id source = None \<and> superseded_by_document_id target = None
     \<and> existing_origin target = None"
  by (auto simp: validate_lifecycle_preconditions_def)

lemma preconditions_untimed [simp]:
  "validate_lifecycle_preconditions (untimed a) (untimed b) = validate_lifecycle_preconditions a b"
  by (simp add: validate_lifecycle_preconditions_def existing_origin_def)

lemma pointers_untimed [simp]:
  "transition_pointers_agree (untimed a) (untimed b) t = transition_pointers_agree a b t"
  by (simp add: transition_pointers_agree_def)

lemma pointers_agree_iff:
  "transition_pointers_agree source target t \<longleftrightarrow>
     superseded_by_document_id source = Some (document_id target)
     \<and> origin_field t target = Some (document_id source)"
  by (simp add: transition_pointers_agree_def)

text \<open>
  A transition that was applied is recognised as a replay, and is refused as a new one: the
  two decisions never both admit the same pair.
\<close>

lemma replay_not_admissible:
  "transition_pointers_agree source target t
    \<Longrightarrow> \<not> accepted (validate_lifecycle_preconditions source target)"
  by (auto simp: pointers_agree_iff)

end
