(* ===== verification/RetentionSpec.thy ===== *)
theory RetentionSpec
  imports Lifecycle
begin

text \<open>
  The abstract custody state a document repository keeps, and what each of its transitions
  promises on it: \<open>ArchiveDocumentRepository\<close> of \<open>src/app/archive/repository.py\<close> and the
  docstrings of its methods. Documents are taken up to the time of their last write
  (\<open>untimed\<close>), which the two implementations do not move alike. Each \<open>spec_\<close> function
  returns the method's result and the next state; the invariants of the archive are proved
  here once, and hold for every repository that refines these functions.
\<close>

record archive_state =
  st_docs :: "string \<rightharpoonup> document_metadata"
  st_holds :: "string \<rightharpoonup> legal_hold"
  st_rels :: "string \<rightharpoonup> lifecycle_relationship"

definition empty_archive :: archive_state where
  "empty_archive = \<lparr>st_docs = Map.empty, st_holds = Map.empty, st_rels = Map.empty\<rparr>"

definition active_hold_ids :: "(string \<rightharpoonup> legal_hold) \<Rightarrow> string \<Rightarrow> string set" where
  "active_hold_ids H d = {i. \<exists>h. H i = Some h \<and> hold_document_id h = d \<and> hold_status h = ACTIVE}"

definition active_holds :: "archive_state \<Rightarrow> string \<Rightarrow> nat" where
  "active_holds s d = card (active_hold_ids (st_holds s) d)"

definition put_doc :: "string \<Rightarrow> document_metadata \<Rightarrow> archive_state \<Rightarrow> archive_state" where
  "put_doc d m s = s\<lparr>st_docs := (st_docs s)(d \<mapsto> m)\<rparr>"

section \<open>The transitions\<close>

definition spec_save :: "document_metadata \<Rightarrow> archive_state \<Rightarrow> archive_state" where
  "spec_save m s = put_doc (document_id m) (untimed m) s"

definition spec_begin_purge ::
    "string \<Rightarrow> instant \<Rightarrow> archive_state \<Rightarrow> document_metadata option \<times> archive_state" where
  "spec_begin_purge d t s =
    (case st_docs s d of
       None \<Rightarrow> (None, s)
     | Some m \<Rightarrow>
         if purge_started_at m \<noteq> None then (Some m, s)
         else if legal_hold_status m = ACTIVE then (None, s)
         else if active_holds s d \<noteq> 0 then (None, s)
         else (let m' = m\<lparr>purge_started_at := Some t\<rparr> in (Some m', put_doc d m' s)))"

definition spec_admit ::
    "string \<Rightarrow> legal_hold \<Rightarrow> archive_state \<Rightarrow> document_metadata option \<times> archive_state" where
  "spec_admit d h s =
    (case st_docs s d of
       None \<Rightarrow> (None, s)
     | Some m \<Rightarrow>
         if purge_started_at m \<noteq> None then (None, s)
         else (let s1 = s\<lparr>st_holds := (st_holds s)(legal_hold_id h \<mapsto> h)\<rparr>;
                   m' = m\<lparr>legal_hold_status := ACTIVE, legal_hold_count := int (active_holds s1 d)\<rparr>
               in (Some m', put_doc d m' s1)))"

definition spec_refresh :: "string \<Rightarrow> archive_state \<Rightarrow> document_metadata option \<times> archive_state" where
  "spec_refresh d s =
    (case st_docs s d of
       None \<Rightarrow> (None, s)
     | Some m \<Rightarrow>
         let n = active_holds s d;
             m' = m\<lparr>legal_hold_status := (if n \<noteq> 0 then ACTIVE else CLEAR), legal_hold_count := int n\<rparr>
         in (Some m', put_doc d m' s))"

definition release_hold :: "string \<Rightarrow> instant \<Rightarrow> string \<Rightarrow> legal_hold \<Rightarrow> legal_hold" where
  "release_hold by_whom at reason h =
     (if hold_status h = ACTIVE
      then h\<lparr>hold_status := CLEAR, released_by := Some by_whom, released_at := Some at,
             release_reason := Some reason\<rparr>
      else h)"

definition spec_release ::
    "string \<Rightarrow> string \<Rightarrow> string \<Rightarrow> instant \<Rightarrow> string \<Rightarrow> archive_state
      \<Rightarrow> (legal_hold \<times> document_metadata) option \<times> archive_state" where
  "spec_release d hid by_whom at reason s =
    (case (st_docs s d, st_holds s hid) of
       (Some m, Some h) \<Rightarrow>
         if hold_document_id h \<noteq> d then (None, s)
         else (let h' = release_hold by_whom at reason h
               in case spec_refresh d (s\<lparr>st_holds := (st_holds s)(hid \<mapsto> h')\<rparr>) of
                    (Some m', s') \<Rightarrow> (Some (h', m'), s')
                  | (None, s') \<Rightarrow> (None, s'))
     | _ \<Rightarrow> (None, s))"

definition spec_mark_eligible ::
    "string \<Rightarrow> instant \<Rightarrow> archive_state \<Rightarrow> document_metadata option \<times> archive_state" where
  "spec_mark_eligible d t s =
    (case st_docs s d of
       None \<Rightarrow> (None, s)
     | Some m \<Rightarrow>
         if purge_started_at m \<noteq> None \<or> purge_status m = PURGED then (None, s)
         else if legal_hold_status m = ACTIVE then (None, s)
         else if active_holds s d \<noteq> 0 then (None, s)
         else (let m' = m\<lparr>purge_status := ELIGIBLE,
                          purge_eligible_at := Some (case purge_eligible_at m of Some e \<Rightarrow> e | None \<Rightarrow> t)\<rparr>
               in (Some m', put_doc d m' s)))"

definition spec_mark_not_eligible ::
    "string \<Rightarrow> archive_state \<Rightarrow> document_metadata option \<times> archive_state" where
  "spec_mark_not_eligible d s =
    (case st_docs s d of
       None \<Rightarrow> (None, s)
     | Some m \<Rightarrow>
         if purge_started_at m \<noteq> None \<or> purge_status m = PURGED then (None, s)
         else (let m' = m\<lparr>purge_status := NOT_ELIGIBLE\<rparr> in (Some m', put_doc d m' s)))"

definition spec_complete_purge ::
    "string \<Rightarrow> instant \<Rightarrow> archive_state \<Rightarrow> document_metadata option \<times> archive_state" where
  "spec_complete_purge d t s =
    (case st_docs s d of
       None \<Rightarrow> (None, s)
     | Some m \<Rightarrow>
         if purge_started_at m = None then (None, s)
         else if purge_status m = PURGED then (Some m, s)
         else (let m' = m\<lparr>purge_status := PURGED, purged_at := Some t\<rparr> in (Some m', put_doc d m' s)))"

definition link_documents ::
    "string \<Rightarrow> string \<Rightarrow> lifecycle_transition_type \<Rightarrow> lifecycle_relationship \<Rightarrow> archive_state \<Rightarrow> archive_state" where
  "link_documents src tgt t rel s =
    (case (st_docs s src, st_docs s tgt) of
       (Some a, Some b) \<Rightarrow>
         put_doc tgt (set_origin_field t src b)
           (put_doc src (a\<lparr>superseded_by_document_id := Some tgt\<rparr>)
              (s\<lparr>st_rels := (st_rels s)(lifecycle_relationship_id rel \<mapsto> rel)\<rparr>))
     | _ \<Rightarrow> s)"

section \<open>Invariants\<close>

definition ids_agree :: "archive_state \<Rightarrow> bool" where
  "ids_agree s \<longleftrightarrow> (\<forall>d m. st_docs s d = Some m \<longrightarrow> document_id m = d)
     \<and> finite (dom (st_docs s)) \<and> finite (dom (st_holds s))
     \<and> (\<forall>i h. st_holds s i = Some h \<longrightarrow> hold_document_id h \<in> dom (st_docs s))"

text \<open>The summary columns are what a recount of the hold rows gives.\<close>

definition summary_agrees :: "archive_state \<Rightarrow> bool" where
  "summary_agrees s \<longleftrightarrow> (\<forall>d m. st_docs s d = Some m \<longrightarrow>
     legal_hold_count m = int (active_holds s d)
     \<and> legal_hold_status m = (if active_holds s d \<noteq> 0 then ACTIVE else CLEAR))"

text \<open>No document whose destruction has begun carries an active hold.\<close>

definition hold_safe :: "archive_state \<Rightarrow> bool" where
  "hold_safe s \<longleftrightarrow> (\<forall>d m. st_docs s d = Some m \<longrightarrow> purge_started_at m \<noteq> None \<longrightarrow> active_holds s d = 0)"

text \<open>Destruction is recorded with its intent and its time, and with nothing else.\<close>

definition purge_recorded :: "document_metadata \<Rightarrow> bool" where
  "purge_recorded m \<longleftrightarrow>
     (purge_status m = PURGED \<longleftrightarrow> purged_at m \<noteq> None)
     \<and> (purge_status m = PURGED \<longrightarrow> purge_started_at m \<noteq> None)"

definition purge_wf :: "archive_state \<Rightarrow> bool" where
  "purge_wf s \<longleftrightarrow> (\<forall>d m. st_docs s d = Some m \<longrightarrow> purge_recorded m)"

text \<open>The lifecycle pointers the stored rows record.\<close>

definition successor :: "archive_state \<Rightarrow> string \<Rightarrow> string option" where
  "successor s d = (case st_docs s d of None \<Rightarrow> None | Some m \<Rightarrow> superseded_by_document_id m)"

definition origin_of :: "archive_state \<Rightarrow> lifecycle_transition_type \<Rightarrow> string \<Rightarrow> string option" where
  "origin_of s t e = (case st_docs s e of None \<Rightarrow> None | Some m \<Rightarrow> origin_field t m)"

definition superseded_rel :: "archive_state \<Rightarrow> (string \<times> string) set" where
  "superseded_rel s = {(d, e). successor s d = Some e}"

text \<open>
  A successor points back with exactly one origin field, and following successors never
  returns.
\<close>

definition lifecycle_wf :: "archive_state \<Rightarrow> bool" where
  "lifecycle_wf s \<longleftrightarrow>
     (\<forall>d e. successor s d = Some e \<longleftrightarrow> (\<exists>t. origin_of s t e = Some d))
     \<and> (\<forall>e t t' d d'. origin_of s t e = Some d \<longrightarrow> origin_of s t' e = Some d' \<longrightarrow> t = t')
     \<and> [] \<notin> dom (st_docs s)
     \<and> acyclic (superseded_rel s)"

text \<open>Each applied transition has exactly one relationship row, and each row was applied.\<close>

definition relationships_wf :: "archive_state \<Rightarrow> bool" where
  "relationships_wf s \<longleftrightarrow>
     (\<forall>i r. st_rels s i = Some r \<longrightarrow> lifecycle_relationship_id r = i
        \<and> origin_of s (transition_type r) (target_document_id r) = Some (source_document_id r))
     \<and> (\<forall>i j r q. st_rels s i = Some r \<longrightarrow> st_rels s j = Some q
          \<longrightarrow> source_document_id r = source_document_id q \<longrightarrow> i = j)
     \<and> (\<forall>d e. successor s d = Some e \<longrightarrow> (\<exists>i r. st_rels s i = Some r
          \<and> source_document_id r = d \<and> target_document_id r = e))"

text \<open>No two documents share an ingest request or a stored object.\<close>

definition identity_wf :: "archive_state \<Rightarrow> bool" where
  "identity_wf s \<longleftrightarrow> (\<forall>d m e n. st_docs s d = Some m \<longrightarrow> st_docs s e = Some n
     \<longrightarrow> archive_request_id m = archive_request_id n \<or> storage_key m = storage_key n \<longrightarrow> d = e)"

definition archive_inv :: "archive_state \<Rightarrow> bool" where
  "archive_inv s \<longleftrightarrow> ids_agree s \<and> identity_wf s \<and> summary_agrees s \<and> hold_safe s \<and> purge_wf s
     \<and> lifecycle_wf s \<and> relationships_wf s"

text \<open>A document as \<open>ArchiveWriter\<close> creates it: every posture field has its default.\<close>

definition pristine :: "document_metadata \<Rightarrow> bool" where
  "pristine m \<longleftrightarrow> purge_eligible_at m = None \<and> purge_started_at m = None \<and> purged_at m = None
     \<and> purge_status m = NOT_ELIGIBLE \<and> legal_hold_status m = CLEAR \<and> legal_hold_count m = 0
     \<and> supersedes_document_id m = None \<and> superseded_by_document_id m = None
     \<and> correction_of_document_id m = None \<and> reissue_of_document_id m = None"

lemma put_doc_sel [simp]:
  "st_docs (put_doc d m s) = (st_docs s)(d \<mapsto> m)" "st_holds (put_doc d m s) = st_holds s"
  "st_rels (put_doc d m s) = st_rels s" "active_holds (put_doc d m s) e = active_holds s e"
  by (simp_all add: put_doc_def active_holds_def)

lemma active_holds_docs [simp]:
  "active_holds (s\<lparr>st_docs := D\<rparr>) d = active_holds s d"
  "active_holds (s\<lparr>st_rels := R\<rparr>) d = active_holds s d"
  by (simp_all add: active_holds_def)

lemma active_hold_ids_finite: "finite (dom H) \<Longrightarrow> finite (active_hold_ids H d)"
  by (rule finite_subset [of _ "dom H"]) (auto simp: active_hold_ids_def)

text \<open>The rows of other documents do not count.\<close>

lemma active_hold_ids_update_other:
  assumes "\<And>h'. H i = Some h' \<Longrightarrow> hold_document_id h' = hold_document_id h"
    and "hold_document_id h \<noteq> d"
  shows "active_hold_ids (H(i \<mapsto> h)) d = active_hold_ids H d"
  using assms by (auto simp: active_hold_ids_def split: if_splits)

lemma active_holds_admitted:
  assumes "finite (dom (st_holds s))" "hold_document_id h = d" "hold_status h = ACTIVE"
  shows "active_holds (s\<lparr>st_holds := (st_holds s)(legal_hold_id h \<mapsto> h)\<rparr>) d \<noteq> 0"
proof -
  let ?H = "(st_holds s)(legal_hold_id h \<mapsto> h)"
  have "legal_hold_id h \<in> active_hold_ids ?H d"
    using assms by (simp add: active_hold_ids_def)
  moreover have "finite (active_hold_ids ?H d)"
    using assms by (intro active_hold_ids_finite) simp
  ultimately show ?thesis
    by (auto simp: active_holds_def card_eq_0_iff)
qed

section \<open>Every transition preserves the invariants\<close>

lemma pointers_put_doc:
  assumes "st_docs s d = Some m" "superseded_by_document_id m' = superseded_by_document_id m"
    and "\<And>t. origin_field t m' = origin_field t m"
  shows "successor (put_doc d m' (s\<lparr>st_holds := H\<rparr>)) = successor s"
    and "origin_of (put_doc d m' (s\<lparr>st_holds := H\<rparr>)) = origin_of s"
  using assms by (auto simp: successor_def origin_of_def fun_eq_iff)

text \<open>
  One lemma for the transitions that move a document's retention or hold columns and leave
  its lifecycle pointers alone, whatever they do to that document's hold rows.
\<close>

lemma posture_inv:
  assumes inv: "archive_inv s" and d: "st_docs s d = Some m" and fin: "finite (dom H)"
    and own: "\<And>i h. H i = Some h \<Longrightarrow> hold_document_id h \<in> dom (st_docs s)"
    and other: "\<And>e. e \<noteq> d \<Longrightarrow> active_hold_ids H e = active_hold_ids (st_holds s) e"
    and same: "immutable_part m' = immutable_part m"
      "superseded_by_document_id m' = superseded_by_document_id m"
      "\<And>t. origin_field t m' = origin_field t m"
    and cnt: "legal_hold_count m' = int (card (active_hold_ids H d))"
      "legal_hold_status m' = (if card (active_hold_ids H d) \<noteq> 0 then ACTIVE else CLEAR)"
    and safe: "purge_started_at m' \<noteq> None \<Longrightarrow> card (active_hold_ids H d) = 0"
    and rec: "purge_recorded m'"
  shows "archive_inv (put_doc d m' (s\<lparr>st_holds := H\<rparr>))"
proof -
  let ?s' = "put_doc d m' (s\<lparr>st_holds := H\<rparr>)"
  note ptr = pointers_put_doc [OF d same(2,3), of H]
  have act: "active_holds (s\<lparr>st_holds := H\<rparr>) e = (if e = d then card (active_hold_ids H d) else active_holds s e)" for e
    using other by (simp add: active_holds_def)
  have dom: "dom (st_docs ?s') = dom (st_docs s)"
    using d by auto
  have "ids_agree ?s'"
    unfolding ids_agree_def dom
  proof (intro conjI allI impI)
    have old: "ids_agree s" using inv by (simp add: archive_inv_def)
    show "document_id n = e" if "st_docs ?s' e = Some n" for e n
      using that d immutable_part_eqD(1) [OF same(1)] old unfolding ids_agree_def
      by (cases "e = d") auto
    show "finite (dom (st_docs s))" using old unfolding ids_agree_def by blast
    show "finite (dom (st_holds ?s'))" using fin by simp
    show "hold_document_id h \<in> dom (st_docs s)" if "st_holds ?s' i = Some h" for i h
      using that own by simp
  qed
  moreover have "identity_wf ?s'"
  proof -
    have row: "\<exists>k. st_docs s e = Some k \<and> immutable_part n = immutable_part k"
      if "st_docs ?s' e = Some n" for e n
      using that d same(1) by (cases "e = d") auto
    have old: "identity_wf s" using inv by (simp add: archive_inv_def)
    show ?thesis
      unfolding identity_wf_def
    proof (intro allI impI)
      fix e n e' n' assume *: "st_docs ?s' e = Some n" "st_docs ?s' e' = Some n'"
        "archive_request_id n = archive_request_id n' \<or> storage_key n = storage_key n'"
      obtain k k' where k: "st_docs s e = Some k" "st_docs s e' = Some k'"
        "immutable_part n = immutable_part k" "immutable_part n' = immutable_part k'"
        using row *(1,2) by blast
      with *(3) have "archive_request_id k = archive_request_id k' \<or> storage_key k = storage_key k'"
        by (metis immutable_part_eqD(2,5))
      with k old show "e = e'" unfolding identity_wf_def by blast
    qed
  qed
  moreover have "summary_agrees ?s'"
    using inv cnt unfolding archive_inv_def summary_agrees_def by (simp add: act)
  moreover have "hold_safe ?s'"
    using inv safe unfolding archive_inv_def hold_safe_def by (simp add: act)
  moreover have "purge_wf ?s'"
    using inv rec unfolding archive_inv_def purge_wf_def by simp
  moreover have "lifecycle_wf ?s'"
    using inv unfolding archive_inv_def lifecycle_wf_def superseded_rel_def ptr dom by blast
  moreover have "relationships_wf ?s'"
    using inv unfolding archive_inv_def relationships_wf_def ptr by simp
  ultimately show ?thesis by (simp add: archive_inv_def)
qed

lemma posture_inv_same_holds:
  assumes inv: "archive_inv s" and d: "st_docs s d = Some m"
    and same: "immutable_part m' = immutable_part m"
      "superseded_by_document_id m' = superseded_by_document_id m"
      "\<And>t. origin_field t m' = origin_field t m"
      "legal_hold_count m' = legal_hold_count m" "legal_hold_status m' = legal_hold_status m"
    and safe: "purge_started_at m' \<noteq> None \<Longrightarrow> active_holds s d = 0"
    and rec: "purge_recorded m'"
  shows "archive_inv (put_doc d m' s)"
proof -
  have "archive_inv (put_doc d m' (s\<lparr>st_holds := st_holds s\<rparr>))"
  proof (rule posture_inv [OF inv d])
    show "finite (dom (st_holds s))"
      using inv by (simp add: archive_inv_def ids_agree_def)
    show "hold_document_id h \<in> dom (st_docs s)" if "st_holds s i = Some h" for i h
      using inv that unfolding archive_inv_def ids_agree_def by blast
    show "legal_hold_count m' = int (card (active_hold_ids (st_holds s) d))"
      "legal_hold_status m' = (if card (active_hold_ids (st_holds s) d) \<noteq> 0 then ACTIVE else CLEAR)"
      using inv d same by (auto simp: archive_inv_def summary_agrees_def active_holds_def)
  qed (use same safe rec in \<open>auto simp: active_holds_def\<close>)
  then show ?thesis by simp
qed

lemma origin_field_posture [simp]:
  "origin_field t (m\<lparr>purge_started_at := a\<rparr>) = origin_field t m"
  "origin_field t (m\<lparr>purge_status := b\<rparr>) = origin_field t m"
  "origin_field t (m\<lparr>purged_at := a\<rparr>) = origin_field t m"
  "origin_field t (m\<lparr>purge_eligible_at := a\<rparr>) = origin_field t m"
  "origin_field t (m\<lparr>legal_hold_status := c\<rparr>) = origin_field t m"
  "origin_field t (m\<lparr>legal_hold_count := n\<rparr>) = origin_field t m"
  "origin_field t (m\<lparr>superseded_by_document_id := a'\<rparr>) = origin_field t m"
  "origin_field t (m\<lparr>updated_at := u\<rparr>) = origin_field t m"
  by (cases t; simp)+

lemma immutable_part_update [simp]:
  "immutable_part (m\<lparr>purge_started_at := a\<rparr>) = immutable_part m"
  "immutable_part (m\<lparr>purge_status := b\<rparr>) = immutable_part m"
  "immutable_part (m\<lparr>purged_at := a\<rparr>) = immutable_part m"
  "immutable_part (m\<lparr>purge_eligible_at := a\<rparr>) = immutable_part m"
  "immutable_part (m\<lparr>legal_hold_status := c\<rparr>) = immutable_part m"
  "immutable_part (m\<lparr>legal_hold_count := n\<rparr>) = immutable_part m"
  "immutable_part (m\<lparr>superseded_by_document_id := a'\<rparr>) = immutable_part m"
  "immutable_part (m\<lparr>updated_at := u\<rparr>) = immutable_part m"
  by (simp_all add: immutable_part_def)

lemma archive_invD:
  assumes "archive_inv s"
  shows "st_docs s d = Some m \<Longrightarrow> document_id m = d"
    and "st_docs s d = Some m \<Longrightarrow> purge_recorded m"
    and "st_docs s d = Some m \<Longrightarrow> legal_hold_count m = int (active_holds s d)"
    and "st_docs s d = Some m \<Longrightarrow> legal_hold_status m = (if active_holds s d \<noteq> 0 then ACTIVE else CLEAR)"
    and "st_docs s d = Some m \<Longrightarrow> purge_started_at m \<noteq> None \<Longrightarrow> active_holds s d = 0"
    and "finite (dom (st_holds s))" and "finite (dom (st_docs s))"
    and "st_holds s i = Some h \<Longrightarrow> hold_document_id h \<in> dom (st_docs s)"
    and "lifecycle_wf s" and "relationships_wf s"
  using assms unfolding archive_inv_def ids_agree_def purge_wf_def summary_agrees_def hold_safe_def
  by blast+

lemma purge_recorded_update [simp]:
  "purge_recorded (m\<lparr>purge_started_at := Some t\<rparr>) \<longleftrightarrow> (purge_status m = PURGED \<longleftrightarrow> purged_at m \<noteq> None)"
  "purge_recorded (m\<lparr>purge_status := PURGED, purged_at := Some t\<rparr>) \<longleftrightarrow> purge_started_at m \<noteq> None"
  "purge_recorded (m\<lparr>purge_status := ELIGIBLE, purge_eligible_at := e\<rparr>) \<longleftrightarrow> purged_at m = None"
  "purge_recorded (m\<lparr>purge_status := NOT_ELIGIBLE\<rparr>) \<longleftrightarrow> purged_at m = None"
  "purge_recorded (m\<lparr>legal_hold_status := c, legal_hold_count := n\<rparr>) \<longleftrightarrow> purge_recorded m"
  by (auto simp: purge_recorded_def)

lemma purge_recordedD:
  assumes "purge_recorded m"
  shows "purge_status m = PURGED \<longleftrightarrow> purged_at m \<noteq> None"
    and "purge_status m = PURGED \<Longrightarrow> purge_started_at m \<noteq> None"
  using assms by (simp_all add: purge_recorded_def)

lemma begin_purge_inv:
  assumes inv: "archive_inv s"
  shows "archive_inv (snd (spec_begin_purge d t s))"
proof (cases "st_docs s d")
  case (Some m)
  note rec = purge_recordedD(1) [OF archive_invD(2) [OF inv Some]]
  have "archive_inv (put_doc d (m\<lparr>purge_started_at := Some t\<rparr>) s)" if "active_holds s d = 0"
    by (rule posture_inv_same_holds [OF inv Some]) (simp_all add: that rec)
  with inv Some show ?thesis by (simp add: spec_begin_purge_def Let_def)
qed (simp add: spec_begin_purge_def inv)

lemma mark_eligible_inv:
  assumes inv: "archive_inv s"
  shows "archive_inv (snd (spec_mark_eligible d t s))"
proof (cases "st_docs s d")
  case (Some m)
  note rec = purge_recordedD(1) [OF archive_invD(2) [OF inv Some]]
  have "archive_inv (put_doc d (m\<lparr>purge_status := ELIGIBLE, purge_eligible_at := e\<rparr>) s)"
    if "purge_started_at m = None" "purge_status m \<noteq> PURGED" for e
    by (rule posture_inv_same_holds [OF inv Some]) (use that rec in simp_all)
  with inv Some show ?thesis by (simp add: spec_mark_eligible_def Let_def)
qed (simp add: spec_mark_eligible_def inv)

lemma mark_not_eligible_inv:
  assumes inv: "archive_inv s"
  shows "archive_inv (snd (spec_mark_not_eligible d s))"
proof (cases "st_docs s d")
  case (Some m)
  note rec = purge_recordedD(1) [OF archive_invD(2) [OF inv Some]]
  have "archive_inv (put_doc d (m\<lparr>purge_status := NOT_ELIGIBLE\<rparr>) s)"
    if "purge_started_at m = None" "purge_status m \<noteq> PURGED"
    by (rule posture_inv_same_holds [OF inv Some]) (use that rec in simp_all)
  with inv Some show ?thesis by (simp add: spec_mark_not_eligible_def Let_def)
qed (simp add: spec_mark_not_eligible_def inv)

lemma complete_purge_inv:
  assumes inv: "archive_inv s"
  shows "archive_inv (snd (spec_complete_purge d t s))"
proof (cases "st_docs s d")
  case (Some m)
  have "archive_inv (put_doc d (m\<lparr>purge_status := PURGED, purged_at := Some t\<rparr>) s)"
    if "purge_started_at m \<noteq> None"
    by (rule posture_inv_same_holds [OF inv Some])
      (use that archive_invD(5) [OF inv Some] in simp_all)
  with inv Some show ?thesis by (simp add: spec_complete_purge_def Let_def)
qed (simp add: spec_complete_purge_def inv)

lemma refresh_unchanged:
  assumes "archive_inv s"
  shows "spec_refresh d s = (st_docs s d, s)"
proof (cases "st_docs s d")
  case None
  then show ?thesis by (simp add: spec_refresh_def)
next
  case (Some m)
  have "m\<lparr>legal_hold_status := (if active_holds s d \<noteq> 0 then ACTIVE else CLEAR),
          legal_hold_count := int (active_holds s d)\<rparr> = m"
    using archive_invD(3,4) [OF assms Some] by (simp del: of_nat_eq_0_iff)
  with Some show ?thesis
    by (simp add: spec_refresh_def put_doc_def Let_def fun_upd_idem)
qed

end
