(* ===== verification/RetentionSteps.thy ===== *)
theory RetentionSteps
  imports RetentionSpec
begin

text \<open>
  The remaining transitions of the custody state (hold admission and release, creation,
  lifecycle links) preserve its invariants; and no transition ever takes back what a
  document has recorded: \<open>archive_evolves\<close>. The transitions are collected in the step
  relation \<open>repo_step\<close>, over which both facts are rule inductions.
\<close>

section \<open>Hold admission and release\<close>

definition admissible_hold :: "archive_state \<Rightarrow> string \<Rightarrow> legal_hold \<Rightarrow> bool" where
  "admissible_hold s d h \<longleftrightarrow> hold_document_id h = d \<and> hold_status h = ACTIVE
     \<and> st_holds s (legal_hold_id h) = None"

lemma admit_inv:
  assumes inv: "archive_inv s" and adm: "admissible_hold s d h"
  shows "archive_inv (snd (spec_admit d h s))"
proof (cases "st_docs s d")
  case (Some m)
  let ?H = "(st_holds s)(legal_hold_id h \<mapsto> h)"
  let ?n = "active_holds (s\<lparr>st_holds := ?H\<rparr>) d"
  have h: "hold_document_id h = d" "hold_status h = ACTIVE"
    using adm by (simp_all add: admissible_hold_def)
  have n: "?n \<noteq> 0"
    by (rule active_holds_admitted) (use archive_invD(6) [OF inv] h in simp_all)
  have "archive_inv (put_doc d (m\<lparr>legal_hold_status := ACTIVE, legal_hold_count := int ?n\<rparr>) (s\<lparr>st_holds := ?H\<rparr>))"
    if "purge_started_at m = None"
  proof (rule posture_inv [OF inv Some])
    show "finite (dom ?H)" using archive_invD(6) [OF inv] by simp
    show "hold_document_id k \<in> dom (st_docs s)" if "?H i = Some k" for i k
      using that archive_invD(8) [OF inv, of i k] h Some by (auto split: if_splits)
    show "active_hold_ids ?H e = active_hold_ids (st_holds s) e" if "e \<noteq> d" for e
      by (rule active_hold_ids_update_other) (use adm that in \<open>auto simp: admissible_hold_def\<close>)
    show "purge_recorded (m\<lparr>legal_hold_status := ACTIVE, legal_hold_count := int ?n\<rparr>)"
      using archive_invD(2) [OF inv Some] by simp
  qed (use that n in \<open>simp_all add: active_holds_def\<close>)
  with inv Some show ?thesis by (simp add: spec_admit_def Let_def)
qed (simp add: spec_admit_def inv)

lemma release_hold_sel [simp]:
  "hold_document_id (release_hold w a r h) = hold_document_id h"
  "legal_hold_id (release_hold w a r h) = legal_hold_id h"
  "hold_status (release_hold w a r h) = CLEAR"
  by (cases "hold_status h"; simp add: release_hold_def)+

lemma active_hold_ids_released:
  assumes "hold_status h = CLEAR"
  shows "active_hold_ids (H(i \<mapsto> h)) d = active_hold_ids H d - {i}"
  using assms by (auto simp: active_hold_ids_def)

lemma release_refresh_inv:
  assumes inv: "archive_inv s" and h: "st_holds s i = Some h"
    and m: "st_docs s (hold_document_id h) = Some m"
    and h': "hold_status h' = CLEAR" "hold_document_id h' = hold_document_id h"
  shows "archive_inv (snd (spec_refresh (hold_document_id h) (s\<lparr>st_holds := (st_holds s)(i \<mapsto> h')\<rparr>)))"
proof -
  let ?d = "hold_document_id h" and ?H = "(st_holds s)(i \<mapsto> h')"
  let ?n = "active_holds (s\<lparr>st_holds := ?H\<rparr>) ?d"
  let ?m = "m\<lparr>legal_hold_status := (if ?n \<noteq> 0 then ACTIVE else CLEAR), legal_hold_count := int ?n\<rparr>"
  have ids: "active_hold_ids ?H e = active_hold_ids (st_holds s) e - {i}" for e
    by (rule active_hold_ids_released [OF h'(1)])
  have "archive_inv (put_doc ?d ?m (s\<lparr>st_holds := ?H\<rparr>))"
  proof (rule posture_inv [OF inv m])
    show "finite (dom ?H)" using archive_invD(6) [OF inv] by simp
    show "hold_document_id k \<in> dom (st_docs s)" if "?H j = Some k" for j k
      using that archive_invD(8) [OF inv, of j k] h' m by (auto split: if_splits)
    show "active_hold_ids ?H e = active_hold_ids (st_holds s) e" if "e \<noteq> ?d" for e
      using that h unfolding ids by (auto simp: active_hold_ids_def)
    show "card (active_hold_ids ?H ?d) = 0" if "purge_started_at ?m \<noteq> None"
    proof -
      have "active_holds s ?d = 0"
        using archive_invD(5) [OF inv m] that by simp
      then have "active_hold_ids (st_holds s) ?d = {}"
        using active_hold_ids_finite [OF archive_invD(6) [OF inv]] by (auto simp: active_holds_def)
      then show ?thesis unfolding ids by simp
    qed
    show "purge_recorded ?m" using archive_invD(2) [OF inv m] by simp
  qed (simp_all add: active_holds_def)
  with m show ?thesis by (simp add: spec_refresh_def Let_def)
qed

lemma spec_release_eq:
  "spec_release d i w a r s =
    (case (st_docs s d, st_holds s i) of
       (Some m, Some h) \<Rightarrow>
         if hold_document_id h \<noteq> d then (None, s)
         else (let s1 = s\<lparr>st_holds := (st_holds s)(i \<mapsto> release_hold w a r h)\<rparr>;
                   (m', s') = spec_refresh d s1
               in (map_option (Pair (release_hold w a r h)) m', s'))
     | _ \<Rightarrow> (None, s))"
  by (auto simp: spec_release_def Let_def split: option.splits prod.splits)

lemma release_inv:
  assumes inv: "archive_inv s"
  shows "archive_inv (snd (spec_release d i w a r s))"
proof (cases "\<exists>m h. st_docs s d = Some m \<and> st_holds s i = Some h \<and> hold_document_id h = d")
  case True
  then obtain m h where mh: "st_docs s d = Some m" "st_holds s i = Some h" "hold_document_id h = d"
    by blast
  have "archive_inv (snd (spec_refresh d (s\<lparr>st_holds := (st_holds s)(i \<mapsto> release_hold w a r h)\<rparr>)))"
    using release_refresh_inv [OF inv mh(2), of m "release_hold w a r h"] mh by simp
  with mh show ?thesis by (simp add: spec_release_eq Let_def split_def)
next
  case False
  then show ?thesis by (auto simp: spec_release_def inv split: option.splits)
qed

section \<open>Creation\<close>

definition new_document :: "archive_state \<Rightarrow> document_metadata \<Rightarrow> bool" where
  "new_document s m \<longleftrightarrow> pristine m \<and> document_id m \<noteq> [] \<and> st_docs s (document_id m) = None
     \<and> (\<forall>e n. st_docs s e = Some n \<longrightarrow>
          archive_request_id n \<noteq> archive_request_id m \<and> storage_key n \<noteq> storage_key m)"

lemma untimed_eq_iff_pristine [simp]: "pristine (untimed m) = pristine m"
  by (simp add: pristine_def)

lemma pristine_origin: "pristine m \<Longrightarrow> origin_field t m = None"
  by (cases t) (simp_all add: pristine_def)

lemma save_inv:
  assumes inv: "archive_inv s" and doc: "new_document s m"
  shows "archive_inv (spec_save m s)"
proof -
  from doc have new: "st_docs s (document_id m) = None" and pri: "pristine m"
    and ne: "document_id m \<noteq> []"
    and own: "\<And>e n. st_docs s e = Some n \<Longrightarrow>
      archive_request_id n \<noteq> archive_request_id m \<and> storage_key n \<noteq> storage_key m"
    unfolding new_document_def by blast+
  let ?d = "document_id m" and ?s' = "spec_save m s"
  have docs: "st_docs ?s' = (st_docs s)(?d \<mapsto> untimed m)" "st_holds ?s' = st_holds s"
      "st_rels ?s' = st_rels s" "\<And>e. active_holds ?s' e = active_holds s e"
    by (simp_all add: spec_save_def)
  have "active_hold_ids (st_holds s) ?d = {}"
    using archive_invD(8) [OF inv] new by (fastforce simp: active_hold_ids_def)
  then have none: "active_holds s ?d = 0" by (simp add: active_holds_def)
  have ptr: "successor ?s' = successor s" "origin_of ?s' = origin_of s"
    using new pri pristine_origin [OF pri]
    by (auto simp: successor_def origin_of_def docs fun_eq_iff pristine_def)
  have old: "ids_agree s" using inv by (simp add: archive_inv_def)
  have "ids_agree ?s'"
    unfolding ids_agree_def
  proof (intro conjI allI impI)
    show "document_id n = e" if "st_docs ?s' e = Some n" for e n
      using that old unfolding ids_agree_def docs by (cases "e = ?d") auto
    show "finite (dom (st_docs ?s'))" "finite (dom (st_holds ?s'))"
      using old unfolding ids_agree_def docs by simp_all
    show "hold_document_id h \<in> dom (st_docs ?s')" if "st_holds ?s' i = Some h" for i h
      using that archive_invD(8) [OF inv, of i h] by (simp add: docs)
  qed
  moreover have "identity_wf ?s'"
    unfolding identity_wf_def
  proof (intro allI impI)
    fix e n e' n' assume *: "st_docs ?s' e = Some n" "st_docs ?s' e' = Some n'"
      "archive_request_id n = archive_request_id n' \<or> storage_key n = storage_key n'"
    have "identity_wf s" using inv by (simp add: archive_inv_def)
    then show "e = e'"
      using * own [of e n] own [of e' n'] unfolding identity_wf_def docs
      by (cases "e = ?d"; cases "e' = ?d") auto
  qed
  moreover have "summary_agrees ?s'"
    using inv none pri unfolding archive_inv_def summary_agrees_def pristine_def docs by simp
  moreover have "hold_safe ?s'"
    using inv none pri unfolding archive_inv_def hold_safe_def pristine_def docs by simp
  moreover have "purge_wf ?s'"
    using inv pri unfolding archive_inv_def purge_wf_def docs
    by (simp add: purge_recorded_def pristine_def)
  moreover have "lifecycle_wf ?s'"
    using inv ne unfolding archive_inv_def lifecycle_wf_def superseded_rel_def ptr
    by (auto simp: docs)
  moreover have "relationships_wf ?s'"
    using inv unfolding archive_inv_def relationships_wf_def ptr by (simp add: docs)
  ultimately show ?thesis by (simp add: archive_inv_def)
qed

lemma save_touch:
  assumes "archive_inv s" "st_docs s (document_id m) = Some (untimed m)"
  shows "spec_save m s = s"
  using assms(2) by (simp add: spec_save_def put_doc_def fun_upd_idem)

section \<open>Lifecycle links\<close>

definition admissible_link ::
    "archive_state \<Rightarrow> string \<Rightarrow> string \<Rightarrow> lifecycle_transition_type \<Rightarrow> lifecycle_relationship \<Rightarrow> bool" where
  "admissible_link s src tgt t rel \<longleftrightarrow>
     (\<exists>a b. st_docs s src = Some a \<and> st_docs s tgt = Some b
        \<and> accepted (validate_lifecycle_preconditions a b))
     \<and> source_document_id rel = src \<and> target_document_id rel = tgt \<and> transition_type rel = t
     \<and> st_rels s (lifecycle_relationship_id rel) = None"

lemma or_opt_falsy: "\<not> truthy (or_opt a b) \<longleftrightarrow> \<not> truthy a \<and> \<not> truthy b"
  by (simp add: or_opt_def)

lemma existing_origin_None:
  assumes inv: "archive_inv s" and b: "st_docs s e = Some b" and none: "existing_origin b = None"
  shows "origin_of s t e = None"
proof (rule ccontr)
  assume "origin_of s t e \<noteq> None"
  then obtain d where d: "origin_of s t e = Some d" by blast
  have lw: "lifecycle_wf s" by (rule archive_invD(9) [OF inv])
  then have "successor s d = Some e" using d unfolding lifecycle_wf_def by blast
  then have "d \<in> dom (st_docs s)" by (auto simp: successor_def split: option.splits)
  then have "d \<noteq> []" using lw unfolding lifecycle_wf_def by blast
  moreover have "origin_field t b = Some d" using d b by (simp add: origin_of_def)
  moreover have "\<not> truthy (existing_origin b)" using none by simp
  then have "\<not> truthy (origin_field t b)"
    unfolding existing_origin_def or_opt_falsy by (cases t) simp_all
  ultimately show False by simp
qed

lemma linked_pointers:
  assumes a: "st_docs s src = Some a" and b: "st_docs s tgt = Some b" and ne: "src \<noteq> tgt"
  shows "successor (link_documents src tgt t rel s) = (successor s)(src \<mapsto> tgt)"
    and "origin_of (link_documents src tgt t rel s) t' e
         = (if e = tgt \<and> t' = t then Some src else origin_of s t' e)"
    and "st_rels (link_documents src tgt t rel s) = (st_rels s)(lifecycle_relationship_id rel \<mapsto> rel)"
    and "st_holds (link_documents src tgt t rel s) = st_holds s"
    and "dom (st_docs (link_documents src tgt t rel s)) = dom (st_docs s)"
    and "active_holds (link_documents src tgt t rel s) d = active_holds s d"
proof -
  have keep: "origin_field t' (set_origin_field t src b) = (if t' = t then Some src else origin_field t' b)" for t'
    by (cases t; cases t') simp_all
  show "successor (link_documents src tgt t rel s) = (successor s)(src \<mapsto> tgt)"
    using ne a b by (auto simp: successor_def link_documents_def fun_eq_iff)
  show "origin_of (link_documents src tgt t rel s) t' e
         = (if e = tgt \<and> t' = t then Some src else origin_of s t' e)"
    using ne a b by (auto simp: origin_of_def link_documents_def keep)
qed (use ne a b in \<open>auto simp: link_documents_def\<close>)

lemma linked_docs:
  assumes "st_docs s src = Some a" "st_docs s tgt = Some b" "src \<noteq> tgt"
  shows "st_docs (link_documents src tgt t rel s) =
    (st_docs s)(src \<mapsto> a\<lparr>superseded_by_document_id := Some tgt\<rparr>, tgt \<mapsto> set_origin_field t src b)"
  using assms by (simp add: link_documents_def)

lemma set_origin_field_purge [simp]:
  "purged_at (set_origin_field t d m) = purged_at m"
  "purge_recorded (set_origin_field t d m) = purge_recorded m"
  "purge_recorded (m\<lparr>superseded_by_document_id := e\<rparr>) = purge_recorded m"
  by (cases t; simp add: purge_recorded_def)+

lemma set_origin_field_keys:
  "archive_request_id (set_origin_field t d m) = archive_request_id m"
  "storage_key (set_origin_field t d m) = storage_key m"
  by (cases t; simp)+

lemma link_lifecycle_wf:
  assumes inv: "archive_inv s" and adm: "admissible_link s src tgt t rel"
  shows "lifecycle_wf (link_documents src tgt t rel s)"
proof -
  from adm obtain a b where a: "st_docs s src = Some a" and b: "st_docs s tgt = Some b"
    and pre: "accepted (validate_lifecycle_preconditions a b)"
    unfolding admissible_link_def by blast
  have ids: "document_id a = src" "document_id b = tgt" using archive_invD(1) [OF inv] a b by blast+
  with pre have ne: "src \<noteq> tgt" and sa: "superseded_by_document_id a = None"
    and sb: "superseded_by_document_id b = None" and ob: "existing_origin b = None" by simp_all
  note P = linked_pointers [OF a b ne, of t rel]
  have lw: "lifecycle_wf s" by (rule archive_invD(9) [OF inv])
  have free: "successor s src = None" "successor s tgt = None" "\<And>t. origin_of s t tgt = None"
    using a b sa sb existing_origin_None [OF inv b ob] by (simp_all add: successor_def)
  have bij: "\<And>d e. successor s d = Some e \<longleftrightarrow> (\<exists>t. origin_of s t e = Some d)"
    and one: "\<And>e t t' d d'. origin_of s t e = Some d \<Longrightarrow> origin_of s t' e = Some d' \<Longrightarrow> t = t'"
    and dom: "[] \<notin> dom (st_docs s)" and acy: "acyclic (superseded_rel s)"
    using lw unfolding lifecycle_wf_def by blast+
  have rel: "superseded_rel (link_documents src tgt t rel s) = insert (src, tgt) (superseded_rel s)"
    using free(1) unfolding superseded_rel_def P(1) by (auto simp: fun_upd_def split: if_splits)
  have "(tgt, src) \<notin> (superseded_rel s)\<^sup>*"
    using ne free(2) by (auto elim: converse_rtranclE simp: superseded_rel_def)
  then have acy': "acyclic (superseded_rel (link_documents src tgt t rel s))"
    unfolding rel by (simp add: acyclic_insert acy)
  have bij': "(((successor s)(src \<mapsto> tgt)) d = Some e)
      = (\<exists>t'. (if e = tgt \<and> t' = t then Some src else origin_of s t' e) = Some d)" for d e
  proof (cases "e = tgt")
    case True
    then show ?thesis using bij [of d tgt] free by (auto split: if_splits)
  next
    case False
    then show ?thesis using bij [of d e] free ne by (auto split: if_splits)
  qed
  have one': "t1 = t2" if "(if e = tgt \<and> t1 = t then Some src else origin_of s t1 e) = Some d"
      "(if e = tgt \<and> t2 = t then Some src else origin_of s t2 e) = Some d'" for e t1 t2 d d'
    using that free(3) one by (cases "e = tgt") (auto split: if_splits)
  show ?thesis
    unfolding lifecycle_wf_def P(1,2,5) using bij' one' dom acy' by blast
qed

lemma link_relationships_wf:
  assumes inv: "archive_inv s" and adm: "admissible_link s src tgt t rel"
  shows "relationships_wf (link_documents src tgt t rel s)"
proof -
  from adm obtain a b where a: "st_docs s src = Some a" and b: "st_docs s tgt = Some b"
    and pre: "accepted (validate_lifecycle_preconditions a b)"
    and r: "source_document_id rel = src" "target_document_id rel = tgt" "transition_type rel = t"
      "st_rels s (lifecycle_relationship_id rel) = None"
    unfolding admissible_link_def by blast
  have ids: "document_id a = src" "document_id b = tgt" using archive_invD(1) [OF inv] a b by blast+
  with pre have ne: "src \<noteq> tgt" and sa: "superseded_by_document_id a = None"
    and ob: "existing_origin b = None" by simp_all
  note P = linked_pointers [OF a b ne, of t rel]
  have free: "successor s src = None" "\<And>t. origin_of s t tgt = None"
    using a sa existing_origin_None [OF inv b ob] by (simp_all add: successor_def)
  have rw: "relationships_wf s" by (rule archive_invD(10) [OF inv])
  have row: "lifecycle_relationship_id q = i"
      "origin_of s (transition_type q) (target_document_id q) = Some (source_document_id q)"
    if "st_rels s i = Some q" for i q
    using rw that unfolding relationships_wf_def by blast+
  have src: "source_document_id q \<noteq> src" if "st_rels s i = Some q" for i q
  proof
    assume "source_document_id q = src"
    then have "successor s src = Some (target_document_id q)"
      using row(2) [OF that] archive_invD(9) [OF inv] unfolding lifecycle_wf_def by metis
    with free(1) show False by simp
  qed
  show ?thesis
    unfolding relationships_wf_def P(1,2,3)
  proof (intro conjI allI impI)
    fix i q assume q: "((st_rels s)(lifecycle_relationship_id rel \<mapsto> rel)) i = Some q"
    then show "lifecycle_relationship_id q = i" using row by (auto split: if_splits)
    show "(if target_document_id q = tgt \<and> transition_type q = t then Some src
           else origin_of s (transition_type q) (target_document_id q)) = Some (source_document_id q)"
      using q row(2) [of i q] r free(2) by (auto split: if_splits)
  next
    fix i j q p
    assume "((st_rels s)(lifecycle_relationship_id rel \<mapsto> rel)) i = Some q"
      "((st_rels s)(lifecycle_relationship_id rel \<mapsto> rel)) j = Some p"
      "source_document_id q = source_document_id p"
    then show "i = j" using src r rw unfolding relationships_wf_def
      by (auto split: if_splits)
  next
    fix d e assume "((successor s)(src \<mapsto> tgt)) d = Some e"
    then show "\<exists>i q. ((st_rels s)(lifecycle_relationship_id rel \<mapsto> rel)) i = Some q
        \<and> source_document_id q = d \<and> target_document_id q = e"
    proof (cases "d = src")
      case True
      with \<open>((successor s)(src \<mapsto> tgt)) d = Some e\<close> r show ?thesis by auto
    next
      case False
      with \<open>((successor s)(src \<mapsto> tgt)) d = Some e\<close> have "successor s d = Some e" by simp
      then obtain i q where "st_rels s i = Some q" "source_document_id q = d" "target_document_id q = e"
        using rw unfolding relationships_wf_def by blast
      moreover from this r(4) have "i \<noteq> lifecycle_relationship_id rel" by auto
      ultimately show ?thesis by auto
    qed
  qed
qed

lemma link_inv:
  assumes inv: "archive_inv s" and adm: "admissible_link s src tgt t rel"
  shows "archive_inv (link_documents src tgt t rel s)"
proof -
  from adm obtain a b where a: "st_docs s src = Some a" and b: "st_docs s tgt = Some b"
    and "accepted (validate_lifecycle_preconditions a b)"
    unfolding admissible_link_def by blast
  moreover have ids: "document_id a = src" "document_id b = tgt"
    using archive_invD(1) [OF inv] a b by blast+
  ultimately have ne: "src \<noteq> tgt" by simp
  let ?s' = "link_documents src tgt t rel s"
  note P = linked_pointers [OF a b ne, of t rel] and D = linked_docs [OF a b ne, of t rel]
  have row: "\<exists>m. st_docs s e = Some m \<and> document_id n = document_id m
      \<and> archive_request_id n = archive_request_id m \<and> storage_key n = storage_key m
      \<and> legal_hold_count n = legal_hold_count m \<and> legal_hold_status n = legal_hold_status m
      \<and> purge_started_at n = purge_started_at m \<and> purge_recorded n = purge_recorded m"
    if "st_docs ?s' e = Some n" for e n
    using that a b unfolding D by (auto simp: set_origin_field_keys split: if_splits)
  note old = archive_invD [OF inv]
  have "ids_agree ?s'"
    unfolding ids_agree_def P(4,5) using old(1,6,7,8) row by metis
  moreover have "identity_wf s" using inv by (simp add: archive_inv_def)
  then have "identity_wf ?s'"
    unfolding identity_wf_def using row by metis
  moreover have "summary_agrees ?s'"
    unfolding summary_agrees_def P(6) using old(3,4) row by metis
  moreover have "hold_safe ?s'"
    unfolding hold_safe_def P(6) using old(5) row by metis
  moreover have "purge_wf ?s'"
    unfolding purge_wf_def using old(2) row by metis
  ultimately show ?thesis
    using link_lifecycle_wf [OF inv adm] link_relationships_wf [OF inv adm] by (simp add: archive_inv_def)
qed

section \<open>Nothing recorded is taken back\<close>

text \<open>
  What a later snapshot of a document owes to an earlier one: every field outside
  \<open>MUTABLE_DOCUMENT_FIELDS\<close> is unchanged, and a purge intent, a purge time, an eligibility
  time, a purged status and a lifecycle pointer, once recorded, stay.
\<close>

definition settled :: "'a option \<Rightarrow> 'a option \<Rightarrow> bool" where
  "settled x y \<longleftrightarrow> x = None \<or> y = x"

definition evolves :: "document_metadata \<Rightarrow> document_metadata \<Rightarrow> bool" where
  "evolves m n \<longleftrightarrow> immutable_part n = immutable_part m
     \<and> settled (purge_started_at m) (purge_started_at n) \<and> settled (purged_at m) (purged_at n)
     \<and> settled (purge_eligible_at m) (purge_eligible_at n)
     \<and> (purge_status m = PURGED \<longrightarrow> purge_status n = PURGED)
     \<and> settled (superseded_by_document_id m) (superseded_by_document_id n)
     \<and> (\<forall>t. settled (origin_field t m) (origin_field t n))"

definition archive_evolves :: "archive_state \<Rightarrow> archive_state \<Rightarrow> bool" where
  "archive_evolves s s' \<longleftrightarrow>
     (\<forall>d m. st_docs s d = Some m \<longrightarrow> (\<exists>n. st_docs s' d = Some n \<and> evolves m n))
     \<and> (\<forall>i h. st_holds s i = Some h \<longrightarrow> (\<exists>k. st_holds s' i = Some k
          \<and> hold_document_id k = hold_document_id h \<and> (hold_status h = CLEAR \<longrightarrow> k = h)))
     \<and> st_rels s \<subseteq>\<^sub>m st_rels s'"

lemma settled_simps [simp]: "settled None y" "settled x x" "settled (Some a) (Some b) \<longleftrightarrow> b = a"
  by (auto simp: settled_def)

lemma settled_trans: "settled x y \<Longrightarrow> settled y z \<Longrightarrow> settled x z"
  by (auto simp: settled_def)

lemma evolves_refl [simp]: "evolves m m"
  by (simp add: evolves_def)

lemma evolves_trans: "evolves a b \<Longrightarrow> evolves b c \<Longrightarrow> evolves a c"
  unfolding evolves_def by (metis settled_trans)

lemma archive_evolves_refl [simp]: "archive_evolves s s"
  by (auto simp: archive_evolves_def)

lemma archive_evolves_trans:
  assumes "archive_evolves a b" "archive_evolves b c"
  shows "archive_evolves a c"
  unfolding archive_evolves_def
proof (intro conjI allI impI)
  fix d m assume "st_docs a d = Some m"
  then show "\<exists>n. st_docs c d = Some n \<and> evolves m n"
    using assms unfolding archive_evolves_def by (meson evolves_trans)
next
  fix i h assume "st_holds a i = Some h"
  then obtain k where k: "st_holds b i = Some k" "hold_document_id k = hold_document_id h"
      "hold_status h = CLEAR \<longrightarrow> k = h"
    using assms(1) unfolding archive_evolves_def by blast
  then obtain l where "st_holds c i = Some l" "hold_document_id l = hold_document_id k"
      "hold_status k = CLEAR \<longrightarrow> l = k"
    using assms(2) unfolding archive_evolves_def by blast
  with k show "\<exists>k. st_holds c i = Some k \<and> hold_document_id k = hold_document_id h
      \<and> (hold_status h = CLEAR \<longrightarrow> k = h)" by auto
next
  show "st_rels a \<subseteq>\<^sub>m st_rels c"
    using assms unfolding archive_evolves_def by (blast intro: map_le_trans)
qed

lemma evolves_put:
  assumes "st_docs s d = Some m" "evolves m n"
  shows "archive_evolves s (put_doc d n s)"
  using assms unfolding archive_evolves_def by auto

lemma evolves_posture [simp]:
  "purge_started_at m = None \<Longrightarrow> evolves m (m\<lparr>purge_started_at := Some t\<rparr>)"
  "purge_status m \<noteq> PURGED \<Longrightarrow> evolves m (m\<lparr>purge_status := NOT_ELIGIBLE\<rparr>)"
  "purge_status m \<noteq> PURGED \<Longrightarrow> purged_at m = None
    \<Longrightarrow> evolves m (m\<lparr>purge_status := PURGED, purged_at := Some t\<rparr>)"
  "purge_status m \<noteq> PURGED \<Longrightarrow> settled (purge_eligible_at m) e
    \<Longrightarrow> evolves m (m\<lparr>purge_status := ELIGIBLE, purge_eligible_at := e\<rparr>)"
  "evolves m (m\<lparr>legal_hold_status := c, legal_hold_count := n\<rparr>)"
  by (simp_all add: evolves_def)

section \<open>The step relation\<close>

inductive repo_step :: "archive_state \<Rightarrow> archive_state \<Rightarrow> bool" where
  step_save: "new_document s m \<Longrightarrow> repo_step s (spec_save m s)"
| step_begin_purge: "repo_step s (snd (spec_begin_purge d t s))"
| step_admit: "admissible_hold s d h \<Longrightarrow> repo_step s (snd (spec_admit d h s))"
| step_refresh: "repo_step s (snd (spec_refresh d s))"
| step_release: "repo_step s (snd (spec_release d i w a r s))"
| step_mark_eligible: "repo_step s (snd (spec_mark_eligible d t s))"
| step_mark_not_eligible: "repo_step s (snd (spec_mark_not_eligible d s))"
| step_complete_purge: "repo_step s (snd (spec_complete_purge d t s))"
| step_link: "admissible_link s src tgt ty rel \<Longrightarrow> repo_step s (link_documents src tgt ty rel s)"

lemma repo_step_inv: "repo_step s s' \<Longrightarrow> archive_inv s \<Longrightarrow> archive_inv s'"
  by (induction rule: repo_step.induct)
    (simp_all add: save_inv begin_purge_inv admit_inv refresh_unchanged release_inv
      mark_eligible_inv mark_not_eligible_inv complete_purge_inv link_inv)

lemma save_evolves: "new_document s m \<Longrightarrow> archive_evolves s (spec_save m s)"
  by (auto simp: archive_evolves_def new_document_def spec_save_def)

lemma begin_purge_evolves: "archive_evolves s (snd (spec_begin_purge d t s))"
  by (auto simp: spec_begin_purge_def Let_def split: option.split
      intro: evolves_put)

lemma mark_eligible_evolves: "archive_evolves s (snd (spec_mark_eligible d t s))"
  by (auto simp: spec_mark_eligible_def Let_def split: option.split
      intro: evolves_put)

lemma mark_not_eligible_evolves: "archive_evolves s (snd (spec_mark_not_eligible d s))"
  by (auto simp: spec_mark_not_eligible_def Let_def split: option.split
      intro: evolves_put)

lemma complete_purge_evolves:
  assumes "archive_inv s"
  shows "archive_evolves s (snd (spec_complete_purge d t s))"
  using purge_recordedD(1) [OF archive_invD(2) [OF assms, of d]]
  by (auto simp: spec_complete_purge_def Let_def split: option.split
      intro: evolves_put)

lemma admit_evolves:
  assumes "admissible_hold s d h"
  shows "archive_evolves s (snd (spec_admit d h s))"
  using assms
  by (auto simp: spec_admit_def Let_def archive_evolves_def admissible_hold_def map_le_def
      split: option.split)

lemma release_evolves: "archive_evolves s (snd (spec_release d i w a r s))"
  by (auto simp: spec_release_def spec_refresh_def Let_def archive_evolves_def release_hold_def
      split: option.split)

lemma evolves_superseded:
  "superseded_by_document_id m = None \<Longrightarrow> evolves m (m\<lparr>superseded_by_document_id := e\<rparr>)"
  by (simp add: evolves_def)

lemma evolves_origin:
  assumes "\<And>t. origin_field t m = None"
  shows "evolves m (set_origin_field t d m)"
  using assms by (cases t) (simp_all add: evolves_def immutable_part_def)

lemma link_evolves:
  assumes inv: "archive_inv s" and adm: "admissible_link s src tgt t rel"
  shows "archive_evolves s (link_documents src tgt t rel s)"
proof -
  from adm obtain a b where a: "st_docs s src = Some a" and b: "st_docs s tgt = Some b"
    and pre: "accepted (validate_lifecycle_preconditions a b)"
    and r: "st_rels s (lifecycle_relationship_id rel) = None"
    unfolding admissible_link_def by blast
  have ids: "document_id a = src" "document_id b = tgt" using archive_invD(1) [OF inv] a b by blast+
  with pre have ne: "src \<noteq> tgt" and sa: "superseded_by_document_id a = None"
    and ob: "existing_origin b = None" by simp_all
  have "evolves b (set_origin_field t src b)"
    by (rule evolves_origin) (use existing_origin_None [OF inv b ob] b in \<open>simp add: origin_of_def\<close>)
  with evolves_superseded [OF sa] a b ne r show ?thesis
    unfolding archive_evolves_def linked_pointers(3,4) [OF a b ne] linked_docs [OF a b ne]
    by (auto simp: map_le_def)
qed

lemma repo_step_evolves: "repo_step s s' \<Longrightarrow> archive_inv s \<Longrightarrow> archive_evolves s s'"
  by (induction rule: repo_step.induct)
    (simp_all add: save_evolves begin_purge_evolves admit_evolves refresh_unchanged release_evolves
      mark_eligible_evolves mark_not_eligible_evolves complete_purge_evolves link_evolves)

lemma repo_steps_sound:
  assumes "repo_step\<^sup>*\<^sup>* s s'" "archive_inv s"
  shows "archive_inv s' \<and> archive_evolves s s'"
  using assms
proof (induction rule: rtranclp_induct)
  case (step t u)
  then show ?case
    by (meson repo_step_inv repo_step_evolves archive_evolves_trans)
qed simp

lemma empty_archive_inv: "archive_inv empty_archive"
  by (simp add: archive_inv_def empty_archive_def ids_agree_def identity_wf_def summary_agrees_def
      hold_safe_def purge_wf_def lifecycle_wf_def relationships_wf_def successor_def origin_of_def
      superseded_rel_def acyclic_def)

end
