(* ===== verification/Repository.thy ===== *)
theory Repository
  imports RetentionSteps
begin

text \<open>
  \<open>ArchiveDocumentRepository\<close> of \<open>src/app/archive/repository.py\<close> as a record of operations,
  and as the locale \<open>document_repository\<close> that states what the service relies on: every
  operation, run on a repository whose abstraction satisfies the archive invariant, either
  returns what the specification of \<open>RetentionSpec\<close> returns, or raises. An operation that
  raises has not happened, or its commit went through and only the answer was lost;
  \<open>reliable_repository\<close> excludes the second. An operation that reads the clock itself takes
  the reading as its last argument.
\<close>

record batch_lookup =
  lookup_documents :: "(string, document_metadata) dict"
  unavailable_document_ids :: "string list"

record 'r document_repository =
  repo_check_ready :: "('r, unit) io"
  repo_get_by_document_id :: "string \<Rightarrow> ('r, document_metadata option) io"
  repo_get_by_document_ids :: "string list \<Rightarrow> ('r, batch_lookup) io"
  repo_get_by_checksum :: "string \<Rightarrow> ('r, document_metadata list) io"
  repo_get_by_archive_request_id :: "string \<Rightarrow> ('r, document_metadata option) io"
  repo_save :: "document_metadata \<Rightarrow> ('r, document_metadata) io"
  repo_begin_purge :: "string \<Rightarrow> instant \<Rightarrow> ('r, document_metadata option) io"
  repo_admit_and_record_legal_hold ::
    "string \<Rightarrow> legal_hold \<Rightarrow> instant \<Rightarrow> ('r, document_metadata option) io"
  repo_release_and_record_legal_hold ::
    "string \<Rightarrow> string \<Rightarrow> string \<Rightarrow> instant \<Rightarrow> string \<Rightarrow> instant
      \<Rightarrow> ('r, (legal_hold \<times> document_metadata) option) io"
  repo_mark_purge_eligible :: "string \<Rightarrow> instant \<Rightarrow> instant \<Rightarrow> ('r, document_metadata option) io"
  repo_mark_purge_not_eligible :: "string \<Rightarrow> instant \<Rightarrow> ('r, document_metadata option) io"
  repo_complete_purge :: "string \<Rightarrow> instant \<Rightarrow> instant \<Rightarrow> ('r, document_metadata option) io"
  repo_refresh_legal_hold_summary :: "string \<Rightarrow> instant \<Rightarrow> ('r, document_metadata option) io"
  repo_list_legal_holds :: "string \<Rightarrow> ('r, legal_hold list) io"
  repo_apply_lifecycle_transition ::
    "string \<Rightarrow> string \<Rightarrow> lifecycle_transition_type \<Rightarrow> lifecycle_relationship \<Rightarrow> instant
      \<Rightarrow> ('r, lifecycle_relationship \<times> document_metadata \<times> document_metadata) io"
  repo_list_lifecycle_relationships :: "string \<Rightarrow> ('r, lifecycle_relationship list) io"
  repo_size :: "'r \<Rightarrow> nat"

text \<open>The shape of the laws: reading, and refining a transition of the specification.\<close>

definition reads ::
    "('r \<Rightarrow> archive_state) \<Rightarrow> ('r \<Rightarrow> bool) \<Rightarrow> ('r, 'a) io \<Rightarrow> (archive_state \<Rightarrow> 'a \<Rightarrow> bool) \<Rightarrow> bool" where
  "reads absr wfr m P \<longleftrightarrow> (\<forall>r. wfr r \<longrightarrow> archive_inv (absr r) \<longrightarrow>
     (case m r of (x, r') \<Rightarrow> wfr r' \<and> absr r' = absr r
        \<and> (case x of Inl _ \<Rightarrow> True | Inr y \<Rightarrow> P (absr r) y)))"

definition refines ::
    "('r \<Rightarrow> archive_state) \<Rightarrow> ('r \<Rightarrow> bool) \<Rightarrow> (archive_state \<Rightarrow> bool) \<Rightarrow> ('r, 'a) io
      \<Rightarrow> ('a \<Rightarrow> 'b) \<Rightarrow> (archive_state \<Rightarrow> 'b \<times> archive_state) \<Rightarrow> bool" where
  "refines absr wfr pre m g f \<longleftrightarrow> (\<forall>r. wfr r \<longrightarrow> archive_inv (absr r) \<longrightarrow> pre (absr r) \<longrightarrow>
     (case m r of (x, r') \<Rightarrow> wfr r'
        \<and> (case x of Inl _ \<Rightarrow> absr r' = absr r \<or> absr r' = snd (f (absr r))
           | Inr y \<Rightarrow> g y = fst (f (absr r)) \<and> absr r' = snd (f (absr r)))))"

definition untimed_release :: "legal_hold \<times> document_metadata \<Rightarrow> legal_hold \<times> document_metadata" where
  "untimed_release p = (fst p, untimed (snd p))"

text \<open>When \<open>save\<close> accepts a snapshot: it creates, or it touches an identical document.\<close>

definition save_admitted :: "archive_state \<Rightarrow> document_metadata \<Rightarrow> bool" where
  "save_admitted s m \<longleftrightarrow>
     (st_docs s (document_id m) = None \<or> st_docs s (document_id m) = Some (untimed m))
     \<and> (\<forall>e n. st_docs s e = Some n \<longrightarrow> archive_request_id n = archive_request_id m \<longrightarrow> e = document_id m)"

definition transition_replayed ::
    "archive_state \<Rightarrow> string \<Rightarrow> string \<Rightarrow> lifecycle_transition_type \<Rightarrow> lifecycle_relationship \<Rightarrow> bool" where
  "transition_replayed s src tgt t rel \<longleftrightarrow>
     (\<exists>i. st_rels s i = Some rel) \<and> source_document_id rel = src \<and> target_document_id rel = tgt
     \<and> transition_type rel = t"

definition fresh_link ::
    "string \<Rightarrow> string \<Rightarrow> lifecycle_transition_type \<Rightarrow> lifecycle_relationship \<Rightarrow> archive_state \<Rightarrow> bool" where
  "fresh_link src tgt t rel s \<longleftrightarrow> source_document_id rel = src \<and> target_document_id rel = tgt
     \<and> transition_type rel = t \<and> st_rels s (lifecycle_relationship_id rel) = None"

locale document_repository =
  fixes R :: "'r document_repository" and absr :: "'r \<Rightarrow> archive_state" and wfr :: "'r \<Rightarrow> bool"
  assumes check_ready: "reads absr wfr (repo_check_ready R) (\<lambda>s u. True)"
    and get_by_document_id:
      "reads absr wfr (repo_get_by_document_id R d) (\<lambda>s x. map_option untimed x = st_docs s d)"
    and get_by_document_ids: "reads absr wfr (repo_get_by_document_ids R ds)
      (\<lambda>s x. \<forall>d. map_option untimed (dict_get (lookup_documents x) d)
                   = (if d \<in> set ds then st_docs s d else None))"
    and get_by_checksum: "reads absr wfr (repo_get_by_checksum R c)
      (\<lambda>s xs. untimed ` set xs = {m. \<exists>d. st_docs s d = Some m \<and> checksum m = c})"
    and get_by_archive_request_id: "reads absr wfr (repo_get_by_archive_request_id R q)
      (\<lambda>s x. case x of Some m \<Rightarrow> archive_request_id m = q \<and> st_docs s (document_id m) = Some (untimed m)
        | None \<Rightarrow> \<forall>d m. st_docs s d = Some m \<longrightarrow> archive_request_id m \<noteq> q)"
    and save: "wfr r \<Longrightarrow> archive_inv (absr r) \<Longrightarrow> repo_save R m r = (x, r') \<Longrightarrow> wfr r'
      \<and> (case x of Inl _ \<Rightarrow> absr r' = absr r \<or> save_admitted (absr r) m \<and> absr r' = spec_save m (absr r)
         | Inr y \<Rightarrow> untimed y = untimed m \<and> save_admitted (absr r) m \<and> absr r' = spec_save m (absr r))"
    and begin_purge: "refines absr wfr (\<lambda>_. True) (repo_begin_purge R d t) (map_option untimed)
      (spec_begin_purge d t)"
    and admit: "refines absr wfr (\<lambda>s. admissible_hold s d h) (repo_admit_and_record_legal_hold R d h now)
      (map_option untimed) (spec_admit d h)"
    and release: "refines absr wfr (\<lambda>_. True) (repo_release_and_record_legal_hold R d i w t y now)
      (map_option untimed_release) (spec_release d i w t y)"
    and mark_eligible: "refines absr wfr (\<lambda>_. True) (repo_mark_purge_eligible R d t now)
      (map_option untimed) (spec_mark_eligible d t)"
    and mark_not_eligible: "refines absr wfr (\<lambda>_. True) (repo_mark_purge_not_eligible R d now)
      (map_option untimed) (spec_mark_not_eligible d)"
    and complete_purge: "refines absr wfr (\<lambda>_. True) (repo_complete_purge R d t now)
      (map_option untimed) (spec_complete_purge d t)"
    and refresh: "refines absr wfr (\<lambda>_. True) (repo_refresh_legal_hold_summary R d now)
      (map_option untimed) (spec_refresh d)"
    and list_holds: "reads absr wfr (repo_list_legal_holds R d)
      (\<lambda>s xs. set xs = {h. \<exists>i. st_holds s i = Some h \<and> hold_document_id h = d})"
    and link: "wfr r \<Longrightarrow> archive_inv (absr r) \<Longrightarrow> fresh_link src tgt ty rel (absr r)
      \<Longrightarrow> repo_apply_lifecycle_transition R src tgt ty rel now r = (z, r') \<Longrightarrow> wfr r'
      \<and> (case z of
           Inl _ \<Rightarrow> absr r' = absr r
             \<or> admissible_link (absr r) src tgt ty rel \<and> absr r' = link_documents src tgt ty rel (absr r)
         | Inr (rel', a, b) \<Rightarrow>
             (transition_replayed (absr r) src tgt ty rel' \<and> absr r' = absr r
              \<or> rel' = rel \<and> admissible_link (absr r) src tgt ty rel
                 \<and> absr r' = link_documents src tgt ty rel (absr r))
             \<and> st_docs (absr r') src = Some (untimed a) \<and> st_docs (absr r') tgt = Some (untimed b))"
    and list_relationships: "reads absr wfr (repo_list_lifecycle_relationships R d)
      (\<lambda>s xs. set xs = {q. \<exists>i. st_rels s i = Some q
                            \<and> (source_document_id q = d \<or> target_document_id q = d)})"
    and size_docs: "wfr r \<Longrightarrow> repo_size R r = card (dom (st_docs (absr r)))"

text \<open>A repository in which a \<open>save\<close> that raises has not happened.\<close>

locale reliable_repository = document_repository +
  assumes save_atomic: "wfr r \<Longrightarrow> archive_inv (absr r) \<Longrightarrow> repo_save R m r = (Inl e, r') \<Longrightarrow> absr r' = absr r"

section \<open>What follows from the contract\<close>

definition repo_inv :: "('r \<Rightarrow> archive_state) \<Rightarrow> ('r \<Rightarrow> bool) \<Rightarrow> archive_state \<Rightarrow> 'r \<Rightarrow> bool" where
  "repo_inv absr wfr s0 r \<longleftrightarrow> wfr r \<and> archive_inv (absr r) \<and> archive_evolves s0 (absr r)"

lemma reads_keeps: "reads absr wfr m P \<Longrightarrow> keeps (repo_inv absr wfr s0) m"
  unfolding keeps_iff repo_inv_def reads_def split_def by simp

lemma refines_keeps:
  assumes "refines absr wfr pre m g f" "\<And>s. archive_inv s \<Longrightarrow> pre s \<Longrightarrow> repo_step s (snd (f s))"
  shows "triple (\<lambda>r. repo_inv absr wfr s0 r \<and> pre (absr r)) m (\<lambda>_. repo_inv absr wfr s0) (\<lambda>_. repo_inv absr wfr s0)"
proof -
  have step: "repo_inv absr wfr s0 r'"
    if "repo_inv absr wfr s0 r" "pre (absr r)" "wfr r'" "absr r' = absr r \<or> absr r' = snd (f (absr r))" for r r'
  proof -
    have "repo_step\<^sup>*\<^sup>* (absr r) (absr r')"
      using that assms(2) by (auto simp: repo_inv_def)
    then have "archive_inv (absr r') \<and> archive_evolves (absr r) (absr r')"
      using that(1) by (intro repo_steps_sound) (simp_all add: repo_inv_def)
    then show ?thesis
      using that by (auto simp: repo_inv_def intro: archive_evolves_trans)
  qed
  have run: "wfr r' \<and> (absr r' = absr r \<or> absr r' = snd (f (absr r)))"
    if "repo_inv absr wfr s0 r" "pre (absr r)" "m r = (x, r')" for r x r'
    using assms(1) [unfolded refines_def, rule_format, of r] that
    by (cases x) (auto simp: repo_inv_def simp del: split_paired_All)
  have all: "repo_inv absr wfr s0 r'" if "repo_inv absr wfr s0 r \<and> pre (absr r)" "m r = (x, r')" for r x r'
    using step [of r r'] run [of r x r'] that by simp
  show ?thesis
    by (rule tripleI) (erule (1) all)+
qed

lemma refined_step_keeps:
  assumes "refines absr wfr (\<lambda>_. True) m g f" "\<And>s. repo_step s (snd (f s))"
  shows "keeps (repo_inv absr wfr s0) m"
  using refines_keeps [OF assms(1), of s0] assms(2) by (simp add: keeps_def)

context document_repository
begin

lemma reads_keep [wp]:
  "keeps (repo_inv absr wfr s0) (repo_check_ready R)"
  "keeps (repo_inv absr wfr s0) (repo_get_by_document_id R d)"
  "keeps (repo_inv absr wfr s0) (repo_get_by_document_ids R ds)"
  "keeps (repo_inv absr wfr s0) (repo_get_by_checksum R c)"
  "keeps (repo_inv absr wfr s0) (repo_get_by_archive_request_id R q)"
  "keeps (repo_inv absr wfr s0) (repo_list_legal_holds R d)"
  "keeps (repo_inv absr wfr s0) (repo_list_lifecycle_relationships R d)"
  by (rule reads_keeps, rule check_ready get_by_document_id get_by_document_ids get_by_checksum
      get_by_archive_request_id list_holds list_relationships)+

lemma transitions_keep [wp]:
  "keeps (repo_inv absr wfr s0) (repo_begin_purge R d t)"
  "keeps (repo_inv absr wfr s0) (repo_release_and_record_legal_hold R d i w t y now)"
  "keeps (repo_inv absr wfr s0) (repo_mark_purge_eligible R d t now)"
  "keeps (repo_inv absr wfr s0) (repo_mark_purge_not_eligible R d now)"
  "keeps (repo_inv absr wfr s0) (repo_complete_purge R d t now)"
  "keeps (repo_inv absr wfr s0) (repo_refresh_legal_hold_summary R d now)"
  by (rule refined_step_keeps,
      rule begin_purge release mark_eligible mark_not_eligible complete_purge refresh,
      rule repo_step.intros)+

lemma admit_keeps:
  "triple (\<lambda>r. repo_inv absr wfr s0 r \<and> admissible_hold (absr r) d h)
     (repo_admit_and_record_legal_hold R d h now) (\<lambda>_. repo_inv absr wfr s0) (\<lambda>_. repo_inv absr wfr s0)"
  by (rule refines_keeps [OF admit]) (rule step_admit)

lemma repo_inv_step:
  assumes "repo_inv absr wfr s0 r" "wfr r'" "absr r' = absr r \<or> repo_step (absr r) (absr r')"
  shows "repo_inv absr wfr s0 r'"
  using assms by (auto simp: repo_inv_def intro: repo_step_inv repo_step_evolves archive_evolves_trans)

lemma link_keeps:
  "triple (\<lambda>r. repo_inv absr wfr s0 r \<and> fresh_link src tgt ty rel (absr r))
     (repo_apply_lifecycle_transition R src tgt ty rel now)
     (\<lambda>_. repo_inv absr wfr s0) (\<lambda>_. repo_inv absr wfr s0)"
proof (rule tripleI)
  fix r x r' assume pre: "repo_inv absr wfr s0 r \<and> fresh_link src tgt ty rel (absr r)"
  have inv: "wfr r" "archive_inv (absr r)" using pre by (simp_all add: repo_inv_def)
  show "repo_inv absr wfr s0 r'" if "repo_apply_lifecycle_transition R src tgt ty rel now r = (Inr x, r')"
    using link [OF inv _ that] pre step_link [of "absr r" src tgt ty rel]
    by (auto split: prod.splits intro: repo_inv_step)
  show "repo_inv absr wfr s0 r'" if "repo_apply_lifecycle_transition R src tgt ty rel now r = (Inl e, r')" for e
    using link [OF inv _ that] pre step_link [of "absr r" src tgt ty rel]
    by (auto intro: repo_inv_step)
qed

lemma save_keeps:
  "triple (\<lambda>r. repo_inv absr wfr s0 r \<and> pristine m \<and> document_id m \<noteq> []
        \<and> st_docs (absr r) (document_id m) = None
        \<and> (\<forall>e n. st_docs (absr r) e = Some n \<longrightarrow> storage_key n \<noteq> storage_key m))
     (repo_save R m) (\<lambda>_. repo_inv absr wfr s0) (\<lambda>_. repo_inv absr wfr s0)"
proof (rule tripleI)
  fix r x r' assume pre: "repo_inv absr wfr s0 r \<and> pristine m \<and> document_id m \<noteq> []
        \<and> st_docs (absr r) (document_id m) = None
        \<and> (\<forall>e n. st_docs (absr r) e = Some n \<longrightarrow> storage_key n \<noteq> storage_key m)"
  have inv: "wfr r" "archive_inv (absr r)" using pre by (simp_all add: repo_inv_def)
  have step: "repo_step (absr r) (spec_save m (absr r))" if "save_admitted (absr r) m"
    by (rule step_save) (use pre that in \<open>auto simp: new_document_def save_admitted_def\<close>)
  show "repo_inv absr wfr s0 r'" if "repo_save R m r = (Inr x, r')"
    using save [OF inv that] pre step by (auto intro: repo_inv_step)
  show "repo_inv absr wfr s0 r'" if "repo_save R m r = (Inl e, r')" for e
    using save [OF inv that] pre step by (auto intro: repo_inv_step)
qed

end

end
