(* ===== verification/MemoryRepository.thy ===== *)
theory MemoryRepository
  imports Repository
begin

text \<open>
  \<open>InMemoryArchiveDocumentRepository\<close> of \<open>src/app/archive/repository.py\<close>: four dictionaries
  and the methods over them, translated one by one, and the interpretation that shows they
  keep the contract of \<open>Repository\<close>. The seeding methods, which exist for tests and bypass
  every guard, are not part of the protocol; they stand at the end.
\<close>

record memory_repository =
  by_document_id :: "(string, document_metadata) dict"
  by_archive_request_id :: "(string, string) dict"
  legal_holds :: "(string, legal_hold) dict"
  lifecycle_relationships :: "(string, lifecycle_relationship) dict"

definition empty_memory_repository :: memory_repository where
  "empty_memory_repository =
     \<lparr>by_document_id = [], by_archive_request_id = [], legal_holds = [], lifecycle_relationships = []\<rparr>"

definition mem_put :: "string \<Rightarrow> document_metadata \<Rightarrow> memory_repository \<Rightarrow> memory_repository" where
  "mem_put d m r = r\<lparr>by_document_id := dict_set d m (by_document_id r)\<rparr>"

definition mem_get_by_document_id ::
    "string \<Rightarrow> (memory_repository, document_metadata option) io" where
  "mem_get_by_document_id d r = (Inr (dict_get (by_document_id r) d), r)"

definition mem_get_by_document_ids :: "string list \<Rightarrow> (memory_repository, batch_lookup) io" where
  "mem_get_by_document_ids ds r =
     (Inr \<lparr>lookup_documents = fold (\<lambda>d acc. case dict_get (by_document_id r) d of
              None \<Rightarrow> acc | Some m \<Rightarrow> dict_set d m acc) ds [],
           unavailable_document_ids = []\<rparr>, r)"

definition mem_get_by_archive_request_id ::
    "string \<Rightarrow> (memory_repository, document_metadata option) io" where
  "mem_get_by_archive_request_id q r =
     (case dict_get (by_archive_request_id r) q of
        None \<Rightarrow> (Inr None, r)
      | Some d \<Rightarrow> (case dict_get (by_document_id r) d of
          None \<Rightarrow> (Inl KeyError, r)
        | Some m \<Rightarrow> (Inr (Some m), r)))"

definition mem_get_by_checksum :: "string \<Rightarrow> (memory_repository, document_metadata list) io" where
  "mem_get_by_checksum c r =
     (Inr (filter (\<lambda>m. checksum m = c) (dict_values (by_document_id r))), r)"

text \<open>
  \<open>changed\<close> is empty exactly when the two snapshots agree on every field except
  \<open>updated_at\<close>.
\<close>

definition mem_save :: "document_metadata \<Rightarrow> (memory_repository, document_metadata) io" where
  "mem_save m r =
     (let existing_document_id = dict_get (by_archive_request_id r) (archive_request_id m) in
      if truthy existing_document_id \<and> existing_document_id \<noteq> Some (document_id m)
      then (Inl (DuplicateArchiveRequestConflict ''archive_request_id already belongs to another document''), r)
      else (case dict_get (by_document_id r) (document_id m) of
        Some existing \<Rightarrow>
          if untimed existing \<noteq> untimed m then (Inl HistoricalIntegrityError, r)
          else (let touched = existing\<lparr>updated_at := updated_at m\<rparr>
                in (Inr touched, mem_put (document_id m) touched r))
      | None \<Rightarrow>
          (Inr m, (mem_put (document_id m) m r)
             \<lparr>by_archive_request_id :=
                dict_set (archive_request_id m) (document_id m) (by_archive_request_id r)\<rparr>)))"

definition mem_active_hold_count :: "string \<Rightarrow> memory_repository \<Rightarrow> nat" where
  "mem_active_hold_count d r =
     length (filter (\<lambda>h. hold_document_id h = d \<and> hold_status h = ACTIVE) (dict_values (legal_holds r)))"

definition mem_begin_purge ::
    "string \<Rightarrow> instant \<Rightarrow> (memory_repository, document_metadata option) io" where
  "mem_begin_purge d started_at r =
     (case dict_get (by_document_id r) d of
        None \<Rightarrow> (Inr None, r)
      | Some existing \<Rightarrow>
          if purge_started_at existing \<noteq> None then (Inr (Some existing), r)
          else if legal_hold_status existing = ACTIVE then (Inr None, r)
          else if mem_active_hold_count d r \<noteq> 0 then (Inr None, r)
          else (let claimed = existing\<lparr>purge_started_at := Some started_at, updated_at := started_at\<rparr>
                in (Inr (Some claimed), mem_put d claimed r)))"

definition mem_admit_and_record_legal_hold ::
    "string \<Rightarrow> legal_hold \<Rightarrow> instant \<Rightarrow> (memory_repository, document_metadata option) io" where
  "mem_admit_and_record_legal_hold d h now r =
     (case dict_get (by_document_id r) d of
        None \<Rightarrow> (Inr None, r)
      | Some existing \<Rightarrow>
          if purge_started_at existing \<noteq> None then (Inr None, r)
          else (let r1 = r\<lparr>legal_holds := dict_set (legal_hold_id h) h (legal_holds r)\<rparr>;
                    active_count = mem_active_hold_count d r1;
                    admitted = existing\<lparr>legal_hold_status := ACTIVE,
                      legal_hold_count := int active_count, updated_at := now\<rparr>
                in (Inr (Some admitted), mem_put d admitted r1)))"

definition mem_refresh_legal_hold_summary ::
    "string \<Rightarrow> instant \<Rightarrow> (memory_repository, document_metadata option) io" where
  "mem_refresh_legal_hold_summary d now r =
     (case dict_get (by_document_id r) d of
        None \<Rightarrow> (Inr None, r)
      | Some existing \<Rightarrow>
          (let active_count = mem_active_hold_count d r;
               status = (if active_count \<noteq> 0 then ACTIVE else CLEAR)
           in if legal_hold_status existing = status \<and> legal_hold_count existing = int active_count
              then (Inr (Some existing), r)
              else (let updated = existing\<lparr>legal_hold_status := status,
                          legal_hold_count := int active_count, updated_at := now\<rparr>
                    in (Inr (Some updated), mem_put d updated r))))"

definition mem_release_and_record_legal_hold ::
    "string \<Rightarrow> string \<Rightarrow> string \<Rightarrow> instant \<Rightarrow> string \<Rightarrow> instant
      \<Rightarrow> (memory_repository, (legal_hold \<times> document_metadata) option) io" where
  "mem_release_and_record_legal_hold d i by_whom at_time why now r =
     (if dict_get (by_document_id r) d = None then (Inr None, r)
      else (case dict_get (legal_holds r) i of
        None \<Rightarrow> (Inr None, r)
      | Some hold \<Rightarrow>
          if hold_document_id hold \<noteq> d then (Inr None, r)
          else (let hold' = (if hold_status hold = ACTIVE
                   then hold\<lparr>hold_status := CLEAR, released_by := Some by_whom,
                             released_at := Some at_time, release_reason := Some why\<rparr>
                   else hold);
                   r1 = (if hold_status hold = ACTIVE
                         then r\<lparr>legal_holds := dict_set i hold' (legal_holds r)\<rparr> else r)
                in bind_io (mem_refresh_legal_hold_summary d now)
                     (\<lambda>metadata. case metadata of None \<Rightarrow> ret None | Some m \<Rightarrow> ret (Some (hold', m))) r1)))"

definition mem_mark_purge_eligible ::
    "string \<Rightarrow> instant \<Rightarrow> instant \<Rightarrow> (memory_repository, document_metadata option) io" where
  "mem_mark_purge_eligible d eligible_at now r =
     (case dict_get (by_document_id r) d of
        None \<Rightarrow> (Inr None, r)
      | Some existing \<Rightarrow>
          if purge_started_at existing \<noteq> None \<or> purge_status existing = PURGED then (Inr None, r)
          else if legal_hold_status existing = ACTIVE then (Inr None, r)
          else if mem_active_hold_count d r \<noteq> 0 then (Inr None, r)
          else (let updated = existing\<lparr>purge_status := ELIGIBLE,
                      purge_eligible_at := Some (case purge_eligible_at existing of
                        Some e \<Rightarrow> e | None \<Rightarrow> eligible_at), updated_at := now\<rparr>
                in (Inr (Some updated), mem_put d updated r)))"

definition mem_mark_purge_not_eligible ::
    "string \<Rightarrow> instant \<Rightarrow> (memory_repository, document_metadata option) io" where
  "mem_mark_purge_not_eligible d now r =
     (case dict_get (by_document_id r) d of
        None \<Rightarrow> (Inr None, r)
      | Some existing \<Rightarrow>
          if purge_started_at existing \<noteq> None \<or> purge_status existing = PURGED then (Inr None, r)
          else if purge_status existing = NOT_ELIGIBLE then (Inr (Some existing), r)
          else (let updated = existing\<lparr>purge_status := NOT_ELIGIBLE, updated_at := now\<rparr>
                in (Inr (Some updated), mem_put d updated r)))"

definition mem_complete_purge ::
    "string \<Rightarrow> instant \<Rightarrow> instant \<Rightarrow> (memory_repository, document_metadata option) io" where
  "mem_complete_purge d at_time now r =
     (case dict_get (by_document_id r) d of
        None \<Rightarrow> (Inr None, r)
      | Some existing \<Rightarrow>
          if purge_started_at existing = None then (Inr None, r)
          else if purge_status existing = PURGED then (Inr (Some existing), r)
          else (let updated = existing\<lparr>purge_status := PURGED, purged_at := Some at_time, updated_at := now\<rparr>
                in (Inr (Some updated), mem_put d updated r)))"

definition mem_list_legal_holds :: "string \<Rightarrow> (memory_repository, legal_hold list) io" where
  "mem_list_legal_holds d r =
     (Inr (filter (\<lambda>h. hold_document_id h = d) (dict_values (legal_holds r))), r)"

definition mem_apply_lifecycle_transition ::
    "string \<Rightarrow> string \<Rightarrow> lifecycle_transition_type \<Rightarrow> lifecycle_relationship \<Rightarrow> instant
      \<Rightarrow> (memory_repository, lifecycle_relationship \<times> document_metadata \<times> document_metadata) io" where
  "mem_apply_lifecycle_transition src tgt t rel now r =
     (case (dict_get (by_document_id r) src, dict_get (by_document_id r) tgt) of
        (Some source, Some target) \<Rightarrow>
          (let recorded = (if transition_pointers_agree source target t
             then List.find (\<lambda>q. source_document_id q = src \<and> target_document_id q = tgt
                               \<and> transition_type q = t) (dict_values (lifecycle_relationships r))
             else None)
           in case recorded of
                Some existing \<Rightarrow> (Inr (existing, source, target), r)
              | None \<Rightarrow> (case validate_lifecycle_preconditions source target of
                  Inl e \<Rightarrow> (Inl e, r)
                | Inr _ \<Rightarrow>
                    (let updated_source = source\<lparr>superseded_by_document_id := Some tgt, updated_at := now\<rparr>;
                         updated_target = (set_origin_field t src target)\<lparr>updated_at := now\<rparr>
                     in (Inr (rel, updated_source, updated_target),
                         (mem_put tgt updated_target (mem_put src updated_source r))
                           \<lparr>lifecycle_relationships :=
                              dict_set (lifecycle_relationship_id rel) rel (lifecycle_relationships r)\<rparr>))))
      | _ \<Rightarrow> (Inl DocumentNotFoundError, r))"

definition mem_list_lifecycle_relationships ::
    "string \<Rightarrow> (memory_repository, lifecycle_relationship list) io" where
  "mem_list_lifecycle_relationships d r =
     (Inr (filter (\<lambda>q. source_document_id q = d \<or> target_document_id q = d)
             (dict_values (lifecycle_relationships r))), r)"

definition memory_ops :: "memory_repository document_repository" where
  "memory_ops = \<lparr>
     repo_check_ready = ret (),
     repo_get_by_document_id = mem_get_by_document_id,
     repo_get_by_document_ids = mem_get_by_document_ids,
     repo_get_by_checksum = mem_get_by_checksum,
     repo_get_by_archive_request_id = mem_get_by_archive_request_id,
     repo_save = mem_save,
     repo_begin_purge = mem_begin_purge,
     repo_admit_and_record_legal_hold = mem_admit_and_record_legal_hold,
     repo_release_and_record_legal_hold = mem_release_and_record_legal_hold,
     repo_mark_purge_eligible = mem_mark_purge_eligible,
     repo_mark_purge_not_eligible = mem_mark_purge_not_eligible,
     repo_complete_purge = mem_complete_purge,
     repo_refresh_legal_hold_summary = mem_refresh_legal_hold_summary,
     repo_list_legal_holds = mem_list_legal_holds,
     repo_apply_lifecycle_transition = mem_apply_lifecycle_transition,
     repo_list_lifecycle_relationships = mem_list_lifecycle_relationships,
     repo_size = (\<lambda>r. length (by_document_id r))\<rparr>"

section \<open>Abstraction and consistency\<close>

definition mem_abs :: "memory_repository \<Rightarrow> archive_state" where
  "mem_abs r = \<lparr>st_docs = (\<lambda>d. map_option untimed (dict_get (by_document_id r) d)),
                st_holds = dict_get (legal_holds r), st_rels = dict_get (lifecycle_relationships r)\<rparr>"

definition mem_wf :: "memory_repository \<Rightarrow> bool" where
  "mem_wf r \<longleftrightarrow> dict_ok (by_document_id r) \<and> dict_ok (legal_holds r) \<and> dict_ok (lifecycle_relationships r)
     \<and> (\<forall>q d. dict_get (by_archive_request_id r) q = Some d
          \<longleftrightarrow> (\<exists>m. dict_get (by_document_id r) d = Some m \<and> archive_request_id m = q))"

lemma mem_abs_sel [simp]:
  "st_docs (mem_abs r) d = map_option untimed (dict_get (by_document_id r) d)"
  "st_holds (mem_abs r) = dict_get (legal_holds r)"
  "st_rels (mem_abs r) = dict_get (lifecycle_relationships r)"
  by (simp_all add: mem_abs_def)

lemma mem_wfD:
  assumes "mem_wf r"
  shows "dict_ok (by_document_id r)" "dict_ok (legal_holds r)" "dict_ok (lifecycle_relationships r)"
    and "dict_get (by_archive_request_id r) q = Some d
      \<longleftrightarrow> (\<exists>m. dict_get (by_document_id r) d = Some m \<and> archive_request_id m = q)"
  using assms unfolding mem_wf_def by blast+

lemma mem_put_sel [simp]:
  "by_document_id (mem_put d m r) = dict_set d m (by_document_id r)"
  "by_archive_request_id (mem_put d m r) = by_archive_request_id r"
  "legal_holds (mem_put d m r) = legal_holds r"
  "lifecycle_relationships (mem_put d m r) = lifecycle_relationships r"
  by (simp_all add: mem_put_def)

lemma mem_abs_put [simp]: "mem_abs (mem_put d m r) = put_doc d (untimed m) (mem_abs r)"
  by (simp add: mem_abs_def put_doc_def fun_eq_iff)

lemma mem_abs_holds [simp]:
  "mem_abs (r\<lparr>legal_holds := H\<rparr>) = (mem_abs r)\<lparr>st_holds := dict_get H\<rparr>"
  "mem_abs (r\<lparr>lifecycle_relationships := L\<rparr>) = (mem_abs r)\<lparr>st_rels := dict_get L\<rparr>"
  "mem_abs (r\<lparr>by_archive_request_id := Q\<rparr>) = mem_abs r"
  by (simp_all add: mem_abs_def)

lemma mem_wf_put:
  assumes wf: "mem_wf r" and d: "dict_get (by_document_id r) d = Some m"
    and same: "archive_request_id m' = archive_request_id m"
  shows "mem_wf (mem_put d m' r)"
proof -
  have "(\<exists>k. dict_get (by_document_id (mem_put d m' r)) e = Some k \<and> archive_request_id k = q)
      = (\<exists>k. dict_get (by_document_id r) e = Some k \<and> archive_request_id k = q)" for e q
    using d same by auto
  with wf show ?thesis unfolding mem_wf_def by simp
qed

lemma mem_wf_other [simp]:
  "mem_wf r \<Longrightarrow> mem_wf (r\<lparr>legal_holds := dict_set i h (legal_holds r)\<rparr>)"
  "mem_wf r \<Longrightarrow> mem_wf (r\<lparr>lifecycle_relationships := dict_set j q (lifecycle_relationships r)\<rparr>)"
  by (simp_all add: mem_wf_def)

lemma mem_active_hold_count:
  "mem_wf r \<Longrightarrow> mem_active_hold_count d r = active_holds (mem_abs r) d"
  by (simp add: mem_active_hold_count_def active_holds_def active_hold_ids_def card_dict_values mem_wfD)

lemma untimed_upd [simp]:
  "untimed (m\<lparr>updated_at := u\<rparr>) = untimed m"
  "untimed (m\<lparr>purge_started_at := a\<rparr>) = (untimed m)\<lparr>purge_started_at := a\<rparr>"
  "untimed (m\<lparr>purge_status := b\<rparr>) = (untimed m)\<lparr>purge_status := b\<rparr>"
  "untimed (m\<lparr>purged_at := a\<rparr>) = (untimed m)\<lparr>purged_at := a\<rparr>"
  "untimed (m\<lparr>purge_eligible_at := a\<rparr>) = (untimed m)\<lparr>purge_eligible_at := a\<rparr>"
  "untimed (m\<lparr>legal_hold_status := c\<rparr>) = (untimed m)\<lparr>legal_hold_status := c\<rparr>"
  "untimed (m\<lparr>legal_hold_count := n\<rparr>) = (untimed m)\<lparr>legal_hold_count := n\<rparr>"
  "untimed (m\<lparr>superseded_by_document_id := e\<rparr>) = (untimed m)\<lparr>superseded_by_document_id := e\<rparr>"
  by (simp_all add: untimed_def)

lemma existing_origin_untimed [simp]: "existing_origin (untimed m) = existing_origin m"
  by (simp add: existing_origin_def)

lemma archive_request_id_origin [simp]:
  "archive_request_id (set_origin_field t d m) = archive_request_id m"
  by (cases t) simp_all

section \<open>Each method refines its transition\<close>

lemma refinesI:
  assumes "\<And>r. wfr r \<Longrightarrow> archive_inv (absr r) \<Longrightarrow> pre (absr r)
    \<Longrightarrow> \<exists>y r'. m r = (Inr y, r') \<and> wfr r' \<and> g y = fst (f (absr r)) \<and> absr r' = snd (f (absr r))"
  shows "refines absr wfr pre m g f"
  unfolding refines_def using assms by fastforce

lemma readsI:
  assumes "\<And>r. wfr r \<Longrightarrow> archive_inv (absr r) \<Longrightarrow> \<exists>y. m r = (Inr y, r) \<and> P (absr r) y"
  shows "reads absr wfr m P"
  unfolding reads_def using assms by fastforce

lemma mem_begin_purge_refines:
  "refines mem_abs mem_wf (\<lambda>_. True) (mem_begin_purge d t) (map_option untimed) (spec_begin_purge d t)"
proof (rule refinesI)
  fix r assume wf: "mem_wf r"
  then show "\<exists>y r'. mem_begin_purge d t r = (Inr y, r') \<and> mem_wf r'
      \<and> map_option untimed y = fst (spec_begin_purge d t (mem_abs r))
      \<and> mem_abs r' = snd (spec_begin_purge d t (mem_abs r))"
    by (cases "dict_get (by_document_id r) d")
      (auto simp: mem_begin_purge_def spec_begin_purge_def mem_active_hold_count Let_def intro!: mem_wf_put)
qed

lemma mem_mark_eligible_refines:
  "refines mem_abs mem_wf (\<lambda>_. True) (mem_mark_purge_eligible d t now) (map_option untimed)
     (spec_mark_eligible d t)"
proof (rule refinesI)
  fix r assume wf: "mem_wf r"
  then show "\<exists>y r'. mem_mark_purge_eligible d t now r = (Inr y, r') \<and> mem_wf r'
      \<and> map_option untimed y = fst (spec_mark_eligible d t (mem_abs r))
      \<and> mem_abs r' = snd (spec_mark_eligible d t (mem_abs r))"
    by (cases "dict_get (by_document_id r) d")
      (auto simp: mem_mark_purge_eligible_def spec_mark_eligible_def mem_active_hold_count Let_def
        intro!: mem_wf_put)
qed

lemma untimed_same:
  "purge_status m = p \<Longrightarrow> (untimed m)\<lparr>purge_status := p\<rparr> = untimed m"
  by (simp add: untimed_def)

lemma put_doc_same: "st_docs s d = Some m \<Longrightarrow> put_doc d m s = s"
  by (simp add: put_doc_def fun_upd_idem)

lemma mem_mark_not_eligible_refines:
  "refines mem_abs mem_wf (\<lambda>_. True) (mem_mark_purge_not_eligible d now) (map_option untimed)
     (spec_mark_not_eligible d)"
proof (rule refinesI)
  fix r assume wf: "mem_wf r"
  then show "\<exists>y r'. mem_mark_purge_not_eligible d now r = (Inr y, r') \<and> mem_wf r'
      \<and> map_option untimed y = fst (spec_mark_not_eligible d (mem_abs r))
      \<and> mem_abs r' = snd (spec_mark_not_eligible d (mem_abs r))"
    by (cases "dict_get (by_document_id r) d")
      (auto simp: mem_mark_purge_not_eligible_def spec_mark_not_eligible_def Let_def untimed_same
        put_doc_same intro!: mem_wf_put)
qed

lemma mem_complete_purge_refines:
  "refines mem_abs mem_wf (\<lambda>_. True) (mem_complete_purge d t now) (map_option untimed)
     (spec_complete_purge d t)"
proof (rule refinesI)
  fix r assume wf: "mem_wf r"
  then show "\<exists>y r'. mem_complete_purge d t now r = (Inr y, r') \<and> mem_wf r'
      \<and> map_option untimed y = fst (spec_complete_purge d t (mem_abs r))
      \<and> mem_abs r' = snd (spec_complete_purge d t (mem_abs r))"
    by (cases "dict_get (by_document_id r) d")
      (auto simp: mem_complete_purge_def spec_complete_purge_def Let_def intro!: mem_wf_put)
qed

lemma mem_refresh_run:
  assumes wf: "mem_wf r"
  shows "\<exists>y r'. mem_refresh_legal_hold_summary d now r = (Inr y, r') \<and> mem_wf r'
      \<and> map_option untimed y = fst (spec_refresh d (mem_abs r))
      \<and> mem_abs r' = snd (spec_refresh d (mem_abs r))"
proof (cases "dict_get (by_document_id r) d")
  case (Some m)
  let ?n = "active_holds (mem_abs r) d"
  let ?c = "if ?n \<noteq> 0 then ACTIVE else CLEAR"
  have same: "(untimed m)\<lparr>legal_hold_status := ?c, legal_hold_count := int ?n\<rparr> = untimed m"
    if "legal_hold_status m = ?c" "legal_hold_count m = int ?n"
    unfolding that [symmetric] by (simp add: untimed_def)
  show ?thesis
  proof (cases "legal_hold_status m = ?c \<and> legal_hold_count m = int ?n")
    case True
    have "mem_refresh_legal_hold_summary d now r = (Inr (Some m), r)"
      using Some True unfolding mem_refresh_legal_hold_summary_def mem_active_hold_count [OF wf] Let_def
      by (simp only: option.case if_True simp_thms)
    moreover have "spec_refresh d (mem_abs r) = (Some (untimed m), put_doc d (untimed m) (mem_abs r))"
      using Some same True unfolding spec_refresh_def Let_def
      by (simp only: mem_abs_sel option.map option.case)
    moreover have "put_doc d (untimed m) (mem_abs r) = mem_abs r"
      by (rule put_doc_same) (simp add: Some)
    ultimately show ?thesis using wf by simp
  next
    case False
    let ?m = "m\<lparr>legal_hold_status := ?c, legal_hold_count := int ?n, updated_at := now\<rparr>"
    have "mem_refresh_legal_hold_summary d now r = (Inr (Some ?m), mem_put d ?m r)"
      using Some False unfolding mem_refresh_legal_hold_summary_def mem_active_hold_count [OF wf] Let_def
      by (simp only: option.case if_False)
    moreover have "spec_refresh d (mem_abs r) = (Some (untimed ?m), put_doc d (untimed ?m) (mem_abs r))"
      using Some unfolding spec_refresh_def Let_def by simp
    moreover have "mem_wf (mem_put d ?m r)"
      by (rule mem_wf_put [OF wf Some]) simp
    ultimately show ?thesis by simp
  qed
qed (use wf in \<open>simp add: mem_refresh_legal_hold_summary_def spec_refresh_def\<close>)

lemma mem_refresh_refines:
  "refines mem_abs mem_wf (\<lambda>_. True) (mem_refresh_legal_hold_summary d now) (map_option untimed)
     (spec_refresh d)"
  by (rule refinesI) (rule mem_refresh_run)

lemma mem_admit_refines:
  "refines mem_abs mem_wf (\<lambda>s. admissible_hold s d h) (mem_admit_and_record_legal_hold d h now)
     (map_option untimed) (spec_admit d h)"
proof (rule refinesI)
  fix r assume wf: "mem_wf r"
  let ?r1 = "r\<lparr>legal_holds := dict_set (legal_hold_id h) h (legal_holds r)\<rparr>"
  have "mem_active_hold_count d ?r1 = active_holds (mem_abs ?r1) d"
    by (rule mem_active_hold_count) (simp add: wf)
  then have cnt: "mem_active_hold_count d ?r1 = active_holds
      ((mem_abs r)\<lparr>st_holds := (dict_get (legal_holds r))(legal_hold_id h \<mapsto> h)\<rparr>) d" by simp
  show "\<exists>y r'. mem_admit_and_record_legal_hold d h now r = (Inr y, r') \<and> mem_wf r'
      \<and> map_option untimed y = fst (spec_admit d h (mem_abs r))
      \<and> mem_abs r' = snd (spec_admit d h (mem_abs r))"
    using wf by (cases "dict_get (by_document_id r) d")
      (auto simp: mem_admit_and_record_legal_hold_def spec_admit_def Let_def cnt intro!: mem_wf_put)
qed

lemma mem_release_refines:
  "refines mem_abs mem_wf (\<lambda>_. True) (mem_release_and_record_legal_hold d i w t y now)
     (map_option untimed_release) (spec_release d i w t y)"
proof (rule refinesI)
  fix r assume wf: "mem_wf r"
  show "\<exists>z r'. mem_release_and_record_legal_hold d i w t y now r = (Inr z, r') \<and> mem_wf r'
      \<and> map_option untimed_release z = fst (spec_release d i w t y (mem_abs r))
      \<and> mem_abs r' = snd (spec_release d i w t y (mem_abs r))"
  proof (cases "\<exists>m h. dict_get (by_document_id r) d = Some m \<and> dict_get (legal_holds r) i = Some h
      \<and> hold_document_id h = d")
    case False
    with wf show ?thesis
      by (auto simp: mem_release_and_record_legal_hold_def spec_release_def split: option.splits)
  next
    case True
    then obtain m h where mh: "dict_get (by_document_id r) d = Some m"
      "dict_get (legal_holds r) i = Some h" "hold_document_id h = d" by blast
    let ?h = "release_hold w t y h"
    let ?r1 = "if hold_status h = ACTIVE then r\<lparr>legal_holds := dict_set i ?h (legal_holds r)\<rparr> else r"
    have wf1: "mem_wf ?r1" using wf by simp
    have abs1: "mem_abs ?r1 = (mem_abs r)\<lparr>st_holds := (st_holds (mem_abs r))(i \<mapsto> ?h)\<rparr>"
      using mh(2) by (auto simp: release_hold_def fun_upd_idem)
    obtain z r' where z: "mem_refresh_legal_hold_summary d now ?r1 = (Inr z, r')" "mem_wf r'"
      "map_option untimed z = fst (spec_refresh d (mem_abs ?r1))"
      "mem_abs r' = snd (spec_refresh d (mem_abs ?r1))"
      using mem_refresh_run [OF wf1] by blast
    have "mem_release_and_record_legal_hold d i w t y now r = (Inr (map_option (Pair ?h) z), r')"
      using mh z(1) by (cases z) (auto simp: mem_release_and_record_legal_hold_def Let_def bind_io_def
          ret_def release_hold_def split: if_splits)
    moreover have "spec_release d i w t y (mem_abs r)
        = (map_option (Pair ?h) (map_option untimed z), mem_abs r')"
      using mh z(3,4) unfolding abs1 by (auto simp: spec_release_eq Let_def split_def)
    ultimately show ?thesis
      using z(2) by (cases z) (auto simp: untimed_release_def)
  qed
qed

text \<open>Creation, lifecycle transitions and the reads.\<close>

lemma untimed_archive_request_id:
  "untimed a = untimed b \<Longrightarrow> archive_request_id a = archive_request_id b"
  by (metis untimed_sel(15))

lemma mem_save_contract:
  assumes wf: "mem_wf r" and inv: "archive_inv (mem_abs r)" and run: "mem_save m r = (x, r')"
  shows "mem_wf r' \<and> (case x of
      Inl _ \<Rightarrow> mem_abs r' = mem_abs r
    | Inr y \<Rightarrow> untimed y = untimed m \<and> save_admitted (mem_abs r) m
              \<and> mem_abs r' = spec_save m (mem_abs r))"
proof (cases "truthy (dict_get (by_archive_request_id r) (archive_request_id m))
    \<and> dict_get (by_archive_request_id r) (archive_request_id m) \<noteq> Some (document_id m)")
  case True
  with wf run show ?thesis by (auto simp: mem_save_def Let_def)
next
  case False
  let ?d = "document_id m" and ?q = "archive_request_id m"
  note look = mem_wfD(4) [OF wf]
  have owner: "e = ?d" if "dict_get (by_document_id r) e = Some n" "archive_request_id n = ?q" for e n
  proof -
    have "dict_get (by_archive_request_id r) ?q = Some e" using look that by blast
    moreover have "e \<noteq> []"
      using archive_invD(9) [OF inv] that(1) unfolding lifecycle_wf_def by force
    ultimately show ?thesis using False by auto
  qed
  have adm: "save_admitted (mem_abs r) m"
    if "dict_get (by_document_id r) ?d = None \<or> (\<exists>n. dict_get (by_document_id r) ?d = Some n \<and> untimed n = untimed m)"
    unfolding save_admitted_def using that owner by auto
  show ?thesis
  proof (cases "dict_get (by_document_id r) ?d")
    case None
    let ?r' = "(mem_put ?d m r)\<lparr>by_archive_request_id := dict_set ?q ?d (by_archive_request_id r)\<rparr>"
    have res: "x = Inr m" "r' = ?r'" using run False None by (auto simp: mem_save_def Let_def)
    have "mem_wf ?r'"
      unfolding mem_wf_def
    proof (intro conjI allI)
      show "(dict_get (by_archive_request_id ?r') q = Some d)
          = (\<exists>n. dict_get (by_document_id ?r') d = Some n \<and> archive_request_id n = q)" for q d
        using look owner None by (cases "d = ?d"; cases "q = ?q") auto
    qed (simp_all add: mem_wfD(1-3) [OF wf])
    with adm None show ?thesis unfolding res by (simp add: spec_save_def)
  next
    case (Some n)
    show ?thesis
    proof (cases "untimed n = untimed m")
      case True
      let ?t = "n\<lparr>updated_at := updated_at m\<rparr>"
      have res: "x = Inr ?t" "r' = mem_put ?d ?t r"
        using run False Some True by (auto simp: mem_save_def Let_def)
      have "mem_wf (mem_put ?d ?t r)" by (rule mem_wf_put [OF wf Some]) simp
      with adm Some True show ?thesis unfolding res by (simp add: spec_save_def)
    next
      case neq: False
      with run False Some wf show ?thesis by (auto simp: mem_save_def Let_def)
    qed
  qed
qed

lemma find_values:
  assumes "dict_ok q" "List.find P (dict_values q) = Some x"
  shows "P x \<and> (\<exists>k. dict_get q k = Some x)"
  using assms by (metis dict_values_iff find_Some_iff nth_mem)

lemma mem_link_contract:
  assumes wf: "mem_wf r" and inv: "archive_inv (mem_abs r)"
    and fresh: "fresh_link src tgt t rel (mem_abs r)"
    and run: "mem_apply_lifecycle_transition src tgt t rel now r = (z, r')"
  shows "mem_wf r' \<and> (case z of
      Inl _ \<Rightarrow> mem_abs r' = mem_abs r
    | Inr (rel', a, b) \<Rightarrow>
        (transition_replayed (mem_abs r) src tgt t rel' \<and> mem_abs r' = mem_abs r
         \<or> rel' = rel \<and> admissible_link (mem_abs r) src tgt t rel
            \<and> mem_abs r' = link_documents src tgt t rel (mem_abs r))
        \<and> st_docs (mem_abs r') src = Some (untimed a) \<and> st_docs (mem_abs r') tgt = Some (untimed b))"
proof (cases "\<exists>a b. dict_get (by_document_id r) src = Some a \<and> dict_get (by_document_id r) tgt = Some b")
  case False
  with run wf show ?thesis
    by (auto simp: mem_apply_lifecycle_transition_def split: option.splits)
next
  case True
  then obtain a b where a: "dict_get (by_document_id r) src = Some a"
    and b: "dict_get (by_document_id r) tgt = Some b" by blast
  let ?P = "\<lambda>q. source_document_id q = src \<and> target_document_id q = tgt \<and> transition_type q = t"
  let ?f = "if transition_pointers_agree a b t then List.find ?P (dict_values (lifecycle_relationships r)) else None"
  show ?thesis
  proof (cases ?f)
    case (Some q)
    then have "List.find ?P (dict_values (lifecycle_relationships r)) = Some q" by (simp split: if_splits)
    from find_values [OF mem_wfD(3) [OF wf] this]
    have "transition_replayed (mem_abs r) src tgt t q" by (auto simp: transition_replayed_def)
    moreover have "z = Inr (q, a, b)" "r' = r"
      using run a b Some by (auto simp: mem_apply_lifecycle_transition_def)
    ultimately show ?thesis using wf a b by simp
  next
    case None
    show ?thesis
    proof (cases "validate_lifecycle_preconditions a b")
      case (Inl e)
      with run a b None wf show ?thesis by (auto simp: mem_apply_lifecycle_transition_def)
    next
      case (Inr u)
      let ?a = "a\<lparr>superseded_by_document_id := Some tgt, updated_at := now\<rparr>"
      let ?b = "(set_origin_field t src b)\<lparr>updated_at := now\<rparr>"
      let ?r' = "(mem_put tgt ?b (mem_put src ?a r))\<lparr>lifecycle_relationships :=
                 dict_set (lifecycle_relationship_id rel) rel (lifecycle_relationships r)\<rparr>"
      have res: "z = Inr (rel, ?a, ?b)" "r' = ?r'"
        using run a b None Inr by (auto simp: mem_apply_lifecycle_transition_def Let_def)
      have acc: "accepted (validate_lifecycle_preconditions (untimed a) (untimed b))"
        using Inr by simp
      then have adm: "admissible_link (mem_abs r) src tgt t rel"
        using a b fresh unfolding admissible_link_def fresh_link_def by auto
      have ne: "src \<noteq> tgt"
        using acc archive_invD(1) [OF inv, of src "untimed a"] archive_invD(1) [OF inv, of tgt "untimed b"] a b
        by auto
      have "mem_wf (mem_put src ?a r)" by (rule mem_wf_put [OF wf a]) simp
      then have "mem_wf (mem_put tgt ?b (mem_put src ?a r))"
        by (rule mem_wf_put [where m = b]) (use b ne in simp_all)
      then have "mem_wf ?r'"
        using mem_wf_other(2) [of "mem_put tgt ?b (mem_put src ?a r)"] by simp
      moreover have "mem_abs ?r' = link_documents src tgt t rel (mem_abs r)"
        using a b ne by (simp add: link_documents_def put_doc_def)
      moreover have "st_docs (mem_abs ?r') src = Some (untimed ?a)"
        "st_docs (mem_abs ?r') tgt = Some (untimed ?b)"
        using ne by simp_all
      ultimately show ?thesis unfolding res using adm by (simp only: sum.case prod.case simp_thms)
    qed
  qed
qed

lemma dict_get_lookup_fold:
  "dict_get (fold (\<lambda>d acc. case D d of None \<Rightarrow> acc | Some m \<Rightarrow> dict_set d m acc) ds acc) d
     = (if d \<in> set ds \<and> D d \<noteq> None then D d else dict_get acc d)"
  by (induction ds arbitrary: acc) (auto split: option.splits)

lemma mem_reads:
  "reads mem_abs mem_wf (mem_get_by_document_id d) (\<lambda>s x. map_option untimed x = st_docs s d)"
  "reads mem_abs mem_wf (mem_get_by_document_ids ds)
     (\<lambda>s x. \<forall>d. map_option untimed (dict_get (lookup_documents x) d)
                  = (if d \<in> set ds then st_docs s d else None))"
  "reads mem_abs mem_wf (mem_list_legal_holds d)
     (\<lambda>s xs. set xs = {h. \<exists>i. st_holds s i = Some h \<and> hold_document_id h = d})"
  "reads mem_abs mem_wf (mem_list_lifecycle_relationships d)
     (\<lambda>s xs. set xs = {q. \<exists>i. st_rels s i = Some q
                           \<and> (source_document_id q = d \<or> target_document_id q = d)})"
  "reads mem_abs mem_wf (ret ()) (\<lambda>s u. True)"
  by (rule readsI; auto simp: mem_get_by_document_id_def mem_get_by_document_ids_def dict_get_lookup_fold
      mem_list_legal_holds_def mem_list_lifecycle_relationships_def dict_values_iff mem_wfD ret_def)+

lemma mem_get_by_checksum_reads:
  "reads mem_abs mem_wf (mem_get_by_checksum c)
     (\<lambda>s xs. untimed ` set xs = {m. \<exists>d. st_docs s d = Some m \<and> checksum m = c})"
  by (rule readsI) (force simp: mem_get_by_checksum_def dict_values_iff mem_wfD)

lemma mem_get_by_archive_request_id_reads:
  "reads mem_abs mem_wf (mem_get_by_archive_request_id q)
     (\<lambda>s x. case x of Some m \<Rightarrow> archive_request_id m = q \<and> st_docs s (document_id m) = Some (untimed m)
        | None \<Rightarrow> \<forall>d m. st_docs s d = Some m \<longrightarrow> archive_request_id m \<noteq> q)"
proof (rule readsI)
  fix r assume wf: "mem_wf r" and inv: "archive_inv (mem_abs r)"
  note look = mem_wfD(4) [OF wf, of q]
  show "\<exists>y. mem_get_by_archive_request_id q r = (Inr y, r)
      \<and> (case y of Some m \<Rightarrow> archive_request_id m = q
             \<and> st_docs (mem_abs r) (document_id m) = Some (untimed m)
         | None \<Rightarrow> \<forall>d m. st_docs (mem_abs r) d = Some m \<longrightarrow> archive_request_id m \<noteq> q)"
  proof (cases "dict_get (by_archive_request_id r) q")
    case None
    have "archive_request_id m \<noteq> q" if "dict_get (by_document_id r) d = Some m" for d m
      using look [of d] None that by simp
    with None show ?thesis by (auto simp: mem_get_by_archive_request_id_def; blast)
  next
    case (Some d)
    then obtain m where m: "dict_get (by_document_id r) d = Some m" "archive_request_id m = q"
      using look by blast
    moreover have "document_id m = d"
      using archive_invD(1) [OF inv, of d "untimed m"] m by simp
    ultimately show ?thesis using Some by (simp add: mem_get_by_archive_request_id_def)
  qed
qed

lemma mem_size:
  assumes "mem_wf r"
  shows "length (by_document_id r) = card (dom (st_docs (mem_abs r)))"
proof -
  have "dom (st_docs (mem_abs r)) = {k. \<exists>v. dict_get (by_document_id r) k = Some v \<and> True}"
    by auto
  with card_dict_values [OF mem_wfD(1) [OF assms], of "\<lambda>_. True"] show ?thesis
    by (simp add: dict_values_def)
qed

lemma memory_ops_sel [simp]:
  "repo_check_ready memory_ops = ret ()"
  "repo_get_by_document_id memory_ops = mem_get_by_document_id"
  "repo_get_by_document_ids memory_ops = mem_get_by_document_ids"
  "repo_get_by_checksum memory_ops = mem_get_by_checksum"
  "repo_get_by_archive_request_id memory_ops = mem_get_by_archive_request_id"
  "repo_save memory_ops = mem_save" "repo_begin_purge memory_ops = mem_begin_purge"
  "repo_admit_and_record_legal_hold memory_ops = mem_admit_and_record_legal_hold"
  "repo_release_and_record_legal_hold memory_ops = mem_release_and_record_legal_hold"
  "repo_mark_purge_eligible memory_ops = mem_mark_purge_eligible"
  "repo_mark_purge_not_eligible memory_ops = mem_mark_purge_not_eligible"
  "repo_complete_purge memory_ops = mem_complete_purge"
  "repo_refresh_legal_hold_summary memory_ops = mem_refresh_legal_hold_summary"
  "repo_list_legal_holds memory_ops = mem_list_legal_holds"
  "repo_apply_lifecycle_transition memory_ops = mem_apply_lifecycle_transition"
  "repo_list_lifecycle_relationships memory_ops = mem_list_lifecycle_relationships"
  "repo_size memory_ops r = length (by_document_id r)"
  by (simp_all add: memory_ops_def)

interpretation mem: reliable_repository memory_ops mem_abs mem_wf
proof
  fix r m x r' assume *: "mem_wf r" "archive_inv (mem_abs r)" "repo_save memory_ops m r = (x, r')"
  then show "mem_wf r' \<and> (case x of
      Inl _ \<Rightarrow> mem_abs r' = mem_abs r \<or> save_admitted (mem_abs r) m \<and> mem_abs r' = spec_save m (mem_abs r)
    | Inr y \<Rightarrow> untimed y = untimed m \<and> save_admitted (mem_abs r) m \<and> mem_abs r' = spec_save m (mem_abs r))"
    using mem_save_contract [of r m x r'] by (auto split: sum.splits)
next
  fix r src tgt ty rel now z r'
  assume *: "mem_wf r" "archive_inv (mem_abs r)" "fresh_link src tgt ty rel (mem_abs r)"
    "repo_apply_lifecycle_transition memory_ops src tgt ty rel now r = (z, r')"
  show "mem_wf r' \<and> (case z of
           Inl _ \<Rightarrow> mem_abs r' = mem_abs r
             \<or> admissible_link (mem_abs r) src tgt ty rel \<and> mem_abs r' = link_documents src tgt ty rel (mem_abs r)
         | Inr (rel', a, b) \<Rightarrow>
             (transition_replayed (mem_abs r) src tgt ty rel' \<and> mem_abs r' = mem_abs r
              \<or> rel' = rel \<and> admissible_link (mem_abs r) src tgt ty rel
                 \<and> mem_abs r' = link_documents src tgt ty rel (mem_abs r))
             \<and> st_docs (mem_abs r') src = Some (untimed a) \<and> st_docs (mem_abs r') tgt = Some (untimed b))"
    using mem_link_contract [OF *(1-3), of now z r'] *(4) by (cases z) simp_all
next
  fix r m e r'
  assume *: "mem_wf r" "archive_inv (mem_abs r)" "repo_save memory_ops m r = (Inl e, r')"
  then show "mem_abs r' = mem_abs r" using mem_save_contract [of r m "Inl e" r'] by simp
qed (simp_all only: memory_ops_sel mem_reads mem_get_by_checksum_reads mem_get_by_archive_request_id_reads
    mem_begin_purge_refines mem_admit_refines mem_release_refines mem_mark_eligible_refines
    mem_mark_not_eligible_refines mem_complete_purge_refines mem_refresh_refines mem_size)

section \<open>Seeding\<close>

text \<open>
  The two methods that tests seed states with, outside the protocol: they write what they are given,
  guarding nothing.
\<close>

definition mem_seed_document_state :: "document_metadata \<Rightarrow> (memory_repository, document_metadata) io" where
  "mem_seed_document_state m r =
     (Inr m, (mem_put (document_id m) m r)
        \<lparr>by_archive_request_id := dict_set (archive_request_id m) (document_id m) (by_archive_request_id r)\<rparr>)"

definition mem_save_legal_hold :: "legal_hold \<Rightarrow> (memory_repository, legal_hold) io" where
  "mem_save_legal_hold h r = (Inr h, r\<lparr>legal_holds := dict_set (legal_hold_id h) h (legal_holds r)\<rparr>)"

lemma seeding:
  "mem_abs (snd (mem_seed_document_state m r)) = put_doc (document_id m) (untimed m) (mem_abs r)"
  "mem_abs (snd (mem_save_legal_hold h r)) = (mem_abs r)\<lparr>st_holds := (st_holds (mem_abs r))(legal_hold_id h \<mapsto> h)\<rparr>"
  by (simp_all add: mem_seed_document_state_def mem_save_legal_hold_def)

text \<open>Such a hold breaks the invariant that the methods of the protocol keep: the summary is no recount.\<close>

lemma a_seeded_hold_breaks_the_invariant:
  assumes "st_docs (mem_abs r) (hold_document_id h) = Some m" "legal_hold_count m = 0" "hold_status h = ACTIVE"
  shows "\<not> archive_inv (mem_abs (snd (mem_save_legal_hold h r)))"
proof
  let ?s = "mem_abs (snd (mem_save_legal_hold h r))"
  assume "archive_inv ?s"
  then have "int (active_holds ?s (hold_document_id h)) = legal_hold_count m"
    using assms(1) by (auto simp: archive_inv_def summary_agrees_def seeding)
  moreover have "legal_hold_id h \<in> active_hold_ids (st_holds ?s) (hold_document_id h)"
    using assms(3) by (simp add: active_hold_ids_def seeding)
  moreover have "finite (active_hold_ids (st_holds ?s) (hold_document_id h))"
    by (rule active_hold_ids_finite) (simp add: seeding)
  ultimately show False using assms(2) by (auto simp: active_holds_def)
qed

end
