(* ===== verification/PostgresRepository.thy ===== *)
theory PostgresRepository
  imports MemoryRepository
begin

text \<open>
  \<open>PostgresArchiveDocumentRepository\<close> of \<open>src/app/archive/postgres_repository.py\<close>: three tables
  with the keys and unique indexes of the migrations, the SQL statements the code sends, and
  the methods as transactions over them. A transaction commits when its block returns and is
  rolled back when it raises; the driver may also refuse it, or lose the answer after the
  commit, which a schedule of faults decides. Column CHECK constraints and foreign keys are
  not modelled. \<open>instant\<close> columns hold the value they were given.
\<close>

record tables =
  archive_documents :: "document_metadata list"
  archive_legal_holds :: "legal_hold list"
  archive_lifecycle_relationships :: "lifecycle_relationship list"

datatype fault = Served | Refused string | AnswerLost string

record 't database =
  pg_tables :: 't
  pg_faults :: "fault list"

type_synonym postgres = "tables database"

definition unique_violation :: exc where
  "unique_violation = DriverError ''UniqueViolation''"

text \<open>\<open>with self._connect() as connection\<close>\<close>

definition next_fault :: "'t database \<Rightarrow> fault" where
  "next_fault p = (case pg_faults p of [] \<Rightarrow> Served | f # _ \<Rightarrow> f)"

definition transaction :: "('t, 'a) io \<Rightarrow> ('t database, 'a) io" where
  "transaction body p =
     (let p1 = p\<lparr>pg_faults := tl (pg_faults p)\<rparr> in
      case next_fault p of
        Refused e \<Rightarrow> (Inl (DriverError e), p1)
      | Served \<Rightarrow> (case body (pg_tables p) of
          (Inl e, _) \<Rightarrow> (Inl e, p1)
        | (Inr x, t) \<Rightarrow> (Inr x, p1\<lparr>pg_tables := t\<rparr>))
      | AnswerLost e \<Rightarrow> (case body (pg_tables p) of
          (Inl e', _) \<Rightarrow> (Inl e', p1)
        | (Inr _, t) \<Rightarrow> (Inl (DriverError e), p1\<lparr>pg_tables := t\<rparr>)))"

section \<open>Statements\<close>

definition update_rows :: "('a \<Rightarrow> bool) \<Rightarrow> ('a \<Rightarrow> 'a) \<Rightarrow> 'a list \<Rightarrow> 'a list" where
  "update_rows P f rows = map (\<lambda>x. if P x then f x else x) rows"

definition updated_row :: "('a \<Rightarrow> bool) \<Rightarrow> ('a \<Rightarrow> 'a) \<Rightarrow> 'a list \<Rightarrow> 'a option" where
  "updated_row P f rows = map_option f (List.find P rows)"

text \<open>\<open>UPDATE ... SET ... WHERE ... RETURNING *\<close> with \<open>fetchone\<close>\<close>

definition sql_update_documents ::
    "(document_metadata \<Rightarrow> bool) \<Rightarrow> (document_metadata \<Rightarrow> document_metadata)
      \<Rightarrow> (tables, document_metadata option) io" where
  "sql_update_documents P f t =
     (Inr (updated_row P f (archive_documents t)),
      t\<lparr>archive_documents := update_rows P f (archive_documents t)\<rparr>)"

definition sql_update_holds ::
    "(legal_hold \<Rightarrow> bool) \<Rightarrow> (legal_hold \<Rightarrow> legal_hold) \<Rightarrow> (tables, legal_hold option) io" where
  "sql_update_holds P f t =
     (Inr (updated_row P f (archive_legal_holds t)),
      t\<lparr>archive_legal_holds := update_rows P f (archive_legal_holds t)\<rparr>)"

definition sql_select_document :: "(document_metadata \<Rightarrow> bool) \<Rightarrow> (tables, document_metadata option) io" where
  "sql_select_document P = gets (\<lambda>t. List.find P (archive_documents t))"

definition sql_select_documents :: "(document_metadata \<Rightarrow> bool) \<Rightarrow> (tables, document_metadata list) io" where
  "sql_select_documents P = gets (\<lambda>t. filter P (archive_documents t))"

definition active_hold_rows :: "string \<Rightarrow> tables \<Rightarrow> legal_hold list" where
  "active_hold_rows d t = filter (\<lambda>h. hold_document_id h = d \<and> hold_status h = ACTIVE) (archive_legal_holds t)"

text \<open>
  \<open>_SAVE_DOCUMENT_SQL\<close>: an insert that, on a conflicting \<open>document_id\<close>, updates \<open>updated_at\<close>
  where every other column is unchanged; the result is the row count.
\<close>

definition sql_save_document :: "document_metadata \<Rightarrow> (tables, nat) io" where
  "sql_save_document m t =
     (case List.find (\<lambda>n. document_id n = document_id m) (archive_documents t) of
        Some n \<Rightarrow>
          if untimed n = untimed m
          then (Inr 1, t\<lparr>archive_documents := update_rows (\<lambda>k. document_id k = document_id m)
                 (\<lambda>k. k\<lparr>updated_at := updated_at m\<rparr>) (archive_documents t)\<rparr>)
          else (Inr 0, t)
      | None \<Rightarrow>
          if \<exists>n \<in> set (archive_documents t). archive_request_id n = archive_request_id m
               \<or> storage_key n = storage_key m
          then (Inl unique_violation, t)
          else (Inr 1, t\<lparr>archive_documents := archive_documents t @ [m]\<rparr>))"

definition upsert :: "('a \<Rightarrow> 'k) \<Rightarrow> 'a \<Rightarrow> 'a list \<Rightarrow> 'a list" where
  "upsert key x rows =
     (if key x \<in> key ` set rows then update_rows (\<lambda>y. key y = key x) (\<lambda>_. x) rows else rows @ [x])"

definition sql_save_legal_hold :: "legal_hold \<Rightarrow> (tables, unit) io" where
  "sql_save_legal_hold h =
     modify_io (\<lambda>t. t\<lparr>archive_legal_holds := upsert legal_hold_id h (archive_legal_holds t)\<rparr>)"

text \<open>The relationship table has one successor per source and one origin per target.\<close>

definition sql_save_lifecycle :: "lifecycle_relationship \<Rightarrow> (tables, unit) io" where
  "sql_save_lifecycle q t =
     (if \<exists>x \<in> set (archive_lifecycle_relationships t).
            lifecycle_relationship_id x \<noteq> lifecycle_relationship_id q
            \<and> (source_document_id x = source_document_id q \<or> target_document_id x = target_document_id q)
      then (Inl unique_violation, t)
      else (Inr (), t\<lparr>archive_lifecycle_relationships :=
              upsert lifecycle_relationship_id q (archive_lifecycle_relationships t)\<rparr>))"

text \<open>\<open>_REFRESH_HOLD_SUMMARY_SQL\<close>\<close>

definition sql_refresh_summary :: "string \<Rightarrow> instant \<Rightarrow> (tables, document_metadata option) io" where
  "sql_refresh_summary d now t =
     (let n = length (active_hold_rows d t); st = (if n > 0 then ACTIVE else CLEAR) in
      sql_update_documents
        (\<lambda>m. document_id m = d \<and> (legal_hold_status m \<noteq> st \<or> legal_hold_count m \<noteq> int n))
        (\<lambda>m. m\<lparr>legal_hold_status := st, legal_hold_count := int n, updated_at := now\<rparr>) t)"

section \<open>Methods\<close>

definition pg_check_ready :: "(postgres, unit) io" where
  "pg_check_ready = transaction (seq_io (gets (\<lambda>t. take 1 (archive_documents t))) (ret ()))"

definition pg_fetch_document :: "(document_metadata \<Rightarrow> bool) \<Rightarrow> (postgres, document_metadata option) io" where
  "pg_fetch_document P = transaction (sql_select_document P)"

definition pg_get_by_document_id :: "string \<Rightarrow> (postgres, document_metadata option) io" where
  "pg_get_by_document_id d = pg_fetch_document (\<lambda>m. document_id m = d)"

definition pg_get_by_document_ids :: "string list \<Rightarrow> (postgres, batch_lookup) io" where
  "pg_get_by_document_ids ds =
     (if ds = [] then ret \<lparr>lookup_documents = [], unavailable_document_ids = []\<rparr>
      else bind_io (transaction (sql_select_documents (\<lambda>m. document_id m \<in> set ds)))
        (\<lambda>rows. ret \<lparr>lookup_documents = fold (\<lambda>m acc. dict_set (document_id m) m acc) rows [],
                      unavailable_document_ids = []\<rparr>))"

definition pg_get_by_archive_request_id :: "string \<Rightarrow> (postgres, document_metadata option) io" where
  "pg_get_by_archive_request_id q = pg_fetch_document (\<lambda>m. archive_request_id m = q)"

definition pg_get_by_checksum :: "string \<Rightarrow> (postgres, document_metadata list) io" where
  "pg_get_by_checksum c = transaction (sql_select_documents (\<lambda>m. checksum m = c))"

definition pg_save :: "document_metadata \<Rightarrow> (postgres, document_metadata) io" where
  "pg_save m = bind_io (pg_get_by_archive_request_id (archive_request_id m)) (\<lambda>existing.
     if (case existing of Some n \<Rightarrow> document_id n \<noteq> document_id m | None \<Rightarrow> False)
     then raise (DuplicateArchiveRequestConflict ''archive_request_id already belongs to another document'')
     else seq_io
       (try_except
          (transaction (bind_io (sql_save_document m) (\<lambda>rowcount.
             if rowcount = 0 then raise HistoricalIntegrityError else skip_io)))
          (\<lambda>e. if e = unique_violation
               then raise (DuplicateArchiveRequestConflict
                 ''archive request or storage key already belongs to another document'')
               else raise e))
       (ret m))"

definition pg_begin_purge :: "string \<Rightarrow> instant \<Rightarrow> (postgres, document_metadata option) io" where
  "pg_begin_purge d started_at =
     bind_io (transaction (\<lambda>t. bind_io
         (sql_update_documents
            (\<lambda>m. document_id m = d \<and> purge_started_at m = None \<and> legal_hold_status m \<noteq> ACTIVE
                 \<and> active_hold_rows d t = [])
            (\<lambda>m. m\<lparr>purge_started_at := Some started_at, updated_at := started_at\<rparr>))
         (\<lambda>row. case row of
            Some m \<Rightarrow> ret (True, Some m)
          | None \<Rightarrow> bind_io (sql_select_document (\<lambda>m. document_id m = d)) (\<lambda>current. ret (False, current))) t))
       (\<lambda>(updated, row). if updated then ret row
          else ret (case row of None \<Rightarrow> None
                    | Some m \<Rightarrow> if purge_started_at m \<noteq> None then Some m else None))"

definition pg_admit_and_record_legal_hold ::
    "string \<Rightarrow> legal_hold \<Rightarrow> instant \<Rightarrow> (postgres, document_metadata option) io" where
  "pg_admit_and_record_legal_hold d h now = transaction (bind_io
     (sql_update_documents (\<lambda>m. document_id m = d \<and> purge_started_at m = None)
        (\<lambda>m. m\<lparr>legal_hold_status := ACTIVE, updated_at := now\<rparr>))
     (\<lambda>row. case row of
        None \<Rightarrow> ret None
      | Some _ \<Rightarrow> seq_io (sql_save_legal_hold h) (\<lambda>t.
          sql_update_documents (\<lambda>m. document_id m = d)
            (\<lambda>m. m\<lparr>legal_hold_count := int (length (active_hold_rows d t)), updated_at := now\<rparr>) t)))"

definition pg_mark_purge_eligible ::
    "string \<Rightarrow> instant \<Rightarrow> instant \<Rightarrow> (postgres, document_metadata option) io" where
  "pg_mark_purge_eligible d eligible_at now = transaction (\<lambda>t.
     sql_update_documents
       (\<lambda>m. document_id m = d \<and> purge_started_at m = None \<and> purge_status m \<noteq> PURGED
            \<and> legal_hold_status m \<noteq> ACTIVE \<and> active_hold_rows d t = [])
       (\<lambda>m. m\<lparr>purge_status := ELIGIBLE,
              purge_eligible_at := Some (case purge_eligible_at m of Some e \<Rightarrow> e | None \<Rightarrow> eligible_at),
              updated_at := now\<rparr>) t)"

definition pg_mark_purge_not_eligible :: "string \<Rightarrow> instant \<Rightarrow> (postgres, document_metadata option) io" where
  "pg_mark_purge_not_eligible d now = transaction (sql_update_documents
     (\<lambda>m. document_id m = d \<and> purge_started_at m = None \<and> purge_status m \<noteq> PURGED)
     (\<lambda>m. m\<lparr>purge_status := NOT_ELIGIBLE, updated_at := now\<rparr>))"

definition pg_complete_purge :: "string \<Rightarrow> instant \<Rightarrow> instant \<Rightarrow> (postgres, document_metadata option) io" where
  "pg_complete_purge d at_time now = transaction (sql_update_documents
     (\<lambda>m. document_id m = d \<and> purge_started_at m \<noteq> None)
     (\<lambda>m. m\<lparr>purge_status := PURGED,
            purged_at := Some (case purged_at m of Some p \<Rightarrow> p | None \<Rightarrow> at_time), updated_at := now\<rparr>))"

definition pg_refresh_legal_hold_summary :: "string \<Rightarrow> instant \<Rightarrow> (postgres, document_metadata option) io" where
  "pg_refresh_legal_hold_summary d now = transaction (bind_io
     (sql_select_document (\<lambda>m. document_id m = d))
     (\<lambda>locked. case locked of
        None \<Rightarrow> ret None
      | Some m \<Rightarrow> bind_io (sql_refresh_summary d now)
          (\<lambda>row. ret (case row of Some m' \<Rightarrow> Some m' | None \<Rightarrow> Some m))))"

definition pg_release_and_record_legal_hold ::
    "string \<Rightarrow> string \<Rightarrow> string \<Rightarrow> instant \<Rightarrow> string \<Rightarrow> instant
      \<Rightarrow> (postgres, (legal_hold \<times> document_metadata) option) io" where
  "pg_release_and_record_legal_hold d i by_whom at_time why now = transaction (bind_io
     (sql_select_document (\<lambda>m. document_id m = d))
     (\<lambda>locked. if locked = None then ret None else bind_io
       (sql_update_holds (\<lambda>h. legal_hold_id h = i \<and> hold_document_id h = d \<and> hold_status h = ACTIVE)
          (\<lambda>h. h\<lparr>hold_status := CLEAR, released_by := Some by_whom, released_at := Some at_time,
                 release_reason := Some why\<rparr>))
       (\<lambda>hold_row. bind_io
         (case hold_row of
            Some h \<Rightarrow> ret (Some h)
          | None \<Rightarrow> gets (\<lambda>t. List.find (\<lambda>h. legal_hold_id h = i \<and> hold_document_id h = d)
                                          (archive_legal_holds t)))
         (\<lambda>hold_row. case hold_row of
            None \<Rightarrow> ret None
          | Some h \<Rightarrow> bind_io (sql_refresh_summary d now) (\<lambda>document_row. bind_io
              (case document_row of
                 Some m \<Rightarrow> ret (Some m)
               | None \<Rightarrow> sql_select_document (\<lambda>m. document_id m = d))
              (\<lambda>document_row. ret (map_option (Pair h) document_row)))))))"

definition pg_list_legal_holds :: "string \<Rightarrow> (postgres, legal_hold list) io" where
  "pg_list_legal_holds d = transaction (gets (\<lambda>t.
     sort_key hold_requested_at (filter (\<lambda>h. hold_document_id h = d) (archive_legal_holds t))))"

definition lock_document :: "string \<Rightarrow> (tables, document_metadata) io" where
  "lock_document d = bind_io (sql_select_document (\<lambda>m. document_id m = d))
     (\<lambda>row. case row of None \<Rightarrow> raise DocumentNotFoundError | Some m \<Rightarrow> ret m)"

text \<open>
  Both rows are locked in the order of their ids before anything is decided; which comes
  first does not change what is read. A replay returns from inside the block.
\<close>

definition lock_pair ::
    "string \<Rightarrow> string \<Rightarrow> (tables, document_metadata \<times> document_metadata) io" where
  "lock_pair src tgt =
     (if src \<le> tgt
      then bind_io (lock_document src) (\<lambda>a. bind_io (lock_document tgt) (\<lambda>b. ret (a, b)))
      else bind_io (lock_document tgt) (\<lambda>b. bind_io (lock_document src) (\<lambda>a. ret (a, b))))"

definition pg_apply_lifecycle_transition ::
    "string \<Rightarrow> string \<Rightarrow> lifecycle_transition_type \<Rightarrow> lifecycle_relationship \<Rightarrow> instant
      \<Rightarrow> (postgres, lifecycle_relationship \<times> document_metadata \<times> document_metadata) io" where
  "pg_apply_lifecycle_transition src tgt ty rel now =
     bind_io (transaction (bind_io (lock_pair src tgt) (\<lambda>(source, target). bind_io
       (if transition_pointers_agree source target ty
        then gets (\<lambda>t. List.find (\<lambda>q. source_document_id q = src \<and> target_document_id q = tgt
                                    \<and> transition_type q = ty) (archive_lifecycle_relationships t))
        else ret None)
       (\<lambda>existing. case existing of
          Some q \<Rightarrow> ret (q, Some source, Some target)
        | None \<Rightarrow> seq_io (of_result (validate_lifecycle_preconditions source target))
            (try_except
              (bind_io
                (sql_update_documents (\<lambda>m. document_id m = src)
                   (\<lambda>m. m\<lparr>superseded_by_document_id := Some tgt, updated_at := now\<rparr>))
                (\<lambda>source_row. bind_io
                  (sql_update_documents (\<lambda>m. document_id m = tgt)
                     (\<lambda>m. (set_origin_field ty src m)\<lparr>updated_at := now\<rparr>))
                  (\<lambda>target_row. seq_io (sql_save_lifecycle rel)
                     (ret (rel, source_row, target_row)))))
              (\<lambda>e. if e = unique_violation
                   then raise (SupersessionConflictError
                     ''document already has a recorded lifecycle relationship'')
                   else raise e))))))
       (\<lambda>(q, source_row, target_row). case (source_row, target_row) of
          (Some a, Some b) \<Rightarrow> ret (q, a, b)
        | _ \<Rightarrow> raise DocumentNotFoundError)"

definition pg_list_lifecycle_relationships :: "string \<Rightarrow> (postgres, lifecycle_relationship list) io" where
  "pg_list_lifecycle_relationships d = transaction (gets (\<lambda>t.
     sort_key relationship_requested_at
       (filter (\<lambda>q. source_document_id q = d \<or> target_document_id q = d) (archive_lifecycle_relationships t))))"

definition postgres_ops :: "postgres document_repository" where
  "postgres_ops = \<lparr>
     repo_check_ready = pg_check_ready,
     repo_get_by_document_id = pg_get_by_document_id,
     repo_get_by_document_ids = pg_get_by_document_ids,
     repo_get_by_checksum = pg_get_by_checksum,
     repo_get_by_archive_request_id = pg_get_by_archive_request_id,
     repo_save = pg_save,
     repo_begin_purge = pg_begin_purge,
     repo_admit_and_record_legal_hold = pg_admit_and_record_legal_hold,
     repo_release_and_record_legal_hold = pg_release_and_record_legal_hold,
     repo_mark_purge_eligible = pg_mark_purge_eligible,
     repo_mark_purge_not_eligible = pg_mark_purge_not_eligible,
     repo_complete_purge = pg_complete_purge,
     repo_refresh_legal_hold_summary = pg_refresh_legal_hold_summary,
     repo_list_legal_holds = pg_list_legal_holds,
     repo_apply_lifecycle_transition = pg_apply_lifecycle_transition,
     repo_list_lifecycle_relationships = pg_list_lifecycle_relationships,
     repo_size = (\<lambda>p. length (archive_documents (pg_tables p)))\<rparr>"

section \<open>Abstraction\<close>

definition row_of :: "('a \<Rightarrow> 'k) \<Rightarrow> 'a list \<Rightarrow> 'k \<Rightarrow> 'a option" where
  "row_of key rows k = List.find (\<lambda>x. key x = k) rows"

definition tables_abs :: "tables \<Rightarrow> archive_state" where
  "tables_abs t = \<lparr>st_docs = (\<lambda>d. map_option untimed (row_of document_id (archive_documents t) d)),
     st_holds = row_of legal_hold_id (archive_legal_holds t),
     st_rels = row_of lifecycle_relationship_id (archive_lifecycle_relationships t)\<rparr>"

definition tables_wf :: "tables \<Rightarrow> bool" where
  "tables_wf t \<longleftrightarrow> distinct (map document_id (archive_documents t))
     \<and> distinct (map legal_hold_id (archive_legal_holds t))
     \<and> distinct (map lifecycle_relationship_id (archive_lifecycle_relationships t))"

definition pg_abs :: "postgres \<Rightarrow> archive_state" where
  "pg_abs p = tables_abs (pg_tables p)"

definition pg_wf :: "postgres \<Rightarrow> bool" where
  "pg_wf p \<longleftrightarrow> tables_wf (pg_tables p)"

lemma tables_abs_sel [simp]:
  "st_docs (tables_abs t) d = map_option untimed (row_of document_id (archive_documents t) d)"
  "st_holds (tables_abs t) = row_of legal_hold_id (archive_legal_holds t)"
  "st_rels (tables_abs t) = row_of lifecycle_relationship_id (archive_lifecycle_relationships t)"
  by (simp_all add: tables_abs_def)

lemma tables_wfD:
  assumes "tables_wf t"
  shows "distinct (map document_id (archive_documents t))"
    "distinct (map legal_hold_id (archive_legal_holds t))"
    "distinct (map lifecycle_relationship_id (archive_lifecycle_relationships t))"
  using assms by (simp_all add: tables_wf_def)

lemma row_of_dict: "row_of key rows = dict_get (map (\<lambda>x. (key x, x)) rows)"
  unfolding row_of_def dict_get_def by (rule ext, induction rows) auto

lemma row_of_key: "row_of key rows k = Some x \<Longrightarrow> key x = k \<and> x \<in> set rows"
  by (auto simp: row_of_def find_Some_iff)

lemma row_of_iff:
  "distinct (map key rows) \<Longrightarrow> row_of key rows k = Some x \<longleftrightarrow> x \<in> set rows \<and> key x = k"
  by (auto simp: row_of_dict dict_get_iff dict_ok_def comp_def)

lemma row_of_None: "row_of key rows k = None \<longleftrightarrow> k \<notin> key ` set rows"
  by (auto simp: row_of_def find_None_iff)

lemma find_keyed:
  assumes "distinct (map key rows)"
  shows "List.find (\<lambda>x. key x = k \<and> Q x) rows
    = (case row_of key rows k of None \<Rightarrow> None | Some x \<Rightarrow> if Q x then Some x else None)"
proof (cases "row_of key rows k")
  case None
  then have "List.find (\<lambda>x. key x = k \<and> Q x) rows = None"
    by (auto simp: row_of_None find_None_iff)
  with None show ?thesis by simp
next
  case (Some x)
  then have x: "x \<in> set rows" "key x = k" by (auto dest: row_of_key)
  have uniq: "y = x" if "y \<in> set rows" "key y = k" for y
    using assms x that by (auto simp: distinct_map dest: inj_onD)
  show ?thesis
  proof (cases "Q x")
    case True
    then have "List.find (\<lambda>x. key x = k \<and> Q x) rows \<noteq> None"
      using x by (auto simp: find_None_iff)
    then obtain y where y: "List.find (\<lambda>x. key x = k \<and> Q x) rows = Some y" by blast
    then have "y = x" using uniq by (auto simp: find_Some_iff)
    with y Some True show ?thesis by simp
  next
    case False
    then have "List.find (\<lambda>x. key x = k \<and> Q x) rows = None"
      using uniq by (auto simp: find_None_iff)
    with Some False show ?thesis by simp
  qed
qed

lemma updated_row_keyed:
  assumes "distinct (map key rows)"
  shows "updated_row (\<lambda>x. key x = k \<and> Q x) f rows
    = (case row_of key rows k of None \<Rightarrow> None | Some x \<Rightarrow> if Q x then Some (f x) else None)"
  by (auto simp: updated_row_def find_keyed [OF assms] split: option.split)

lemma update_rows_keyed:
  assumes "distinct (map key rows)" "\<And>x. x \<in> set rows \<Longrightarrow> key x = k \<Longrightarrow> key (f x) = k"
  shows "map key (update_rows (\<lambda>x. key x = k \<and> Q x) f rows) = map key rows"
    and "row_of key (update_rows (\<lambda>x. key x = k \<and> Q x) f rows)
      = (case row_of key rows k of None \<Rightarrow> row_of key rows
         | Some x \<Rightarrow> if Q x then (row_of key rows)(k \<mapsto> f x) else row_of key rows)"
proof -
  show "map key (update_rows (\<lambda>x. key x = k \<and> Q x) f rows) = map key rows"
    using assms(2) by (simp add: update_rows_def)
  show "row_of key (update_rows (\<lambda>x. key x = k \<and> Q x) f rows)
      = (case row_of key rows k of None \<Rightarrow> row_of key rows
         | Some x \<Rightarrow> if Q x then (row_of key rows)(k \<mapsto> f x) else row_of key rows)"
    using assms
  proof (induction rows)
    case Nil
    then show ?case by (simp add: row_of_def update_rows_def)
  next
    case (Cons a rows)
    have ih: "row_of key (update_rows (\<lambda>x. key x = k \<and> Q x) f rows)
        = (case row_of key rows k of None \<Rightarrow> row_of key rows
           | Some x \<Rightarrow> if Q x then (row_of key rows)(k \<mapsto> f x) else row_of key rows)"
      by (rule Cons.IH) (use Cons.prems in auto)
    have step: "row_of key (b # bs) = (\<lambda>j. if key b = j then Some b else row_of key bs j)" for b bs
      by (auto simp: row_of_def)
    have same: "update_rows (\<lambda>x. key x = k \<and> Q x) f rows = rows" if "key a = k"
      unfolding update_rows_def by (rule map_idI) (use Cons.prems(1) that in \<open>auto simp: image_iff\<close>)
    show ?case
    proof (cases "key a = k")
      case True
      have "row_of key rows k = None" using Cons.prems(1) True by (auto simp: row_of_None)
      moreover have "key (f a) = k" using Cons.prems(2) [of a] True by simp
      moreover have "update_rows (\<lambda>x. key x = k \<and> Q x) f (a # rows) = (if Q a then f a else a) # rows"
        using True same [OF True] by (simp add: update_rows_def)
      ultimately show ?thesis
        using True by (auto simp: step fun_eq_iff)
    next
      case False
      then have "update_rows (\<lambda>x. key x = k \<and> Q x) f (a # rows) = a # update_rows (\<lambda>x. key x = k \<and> Q x) f rows"
        by (simp add: update_rows_def)
      with False show ?thesis
        by (auto simp: step ih fun_eq_iff split: option.split)
    qed
  qed
qed

lemma update_rows_all:
  assumes "distinct (map key rows)" "\<And>x. x \<in> set rows \<Longrightarrow> key x = k \<Longrightarrow> key (f x) = k"
  shows "row_of key (update_rows (\<lambda>x. key x = k) f rows)
      = (case row_of key rows k of None \<Rightarrow> row_of key rows | Some x \<Rightarrow> (row_of key rows)(k \<mapsto> f x))"
    and "updated_row (\<lambda>x. key x = k) f rows = map_option f (row_of key rows k)"
    and "map key (update_rows (\<lambda>x. key x = k) f rows) = map key rows"
  using update_rows_keyed [of key rows k f "\<lambda>_. True", OF assms(1)]
    updated_row_keyed [of key rows k "\<lambda>_. True" f, OF assms(1)] assms(2)
  by (simp_all split: option.splits)

lemma upsert_keyed:
  assumes "distinct (map key rows)"
  shows "distinct (map key (upsert key x rows))" "row_of key (upsert key x rows) = (row_of key rows)(key x \<mapsto> x)"
proof -
  note all = update_rows_all [OF assms, of "key x" "\<lambda>_. x"]
  show "distinct (map key (upsert key x rows))"
    using assms all(3) by (auto simp: upsert_def)
  show "row_of key (upsert key x rows) = (row_of key rows)(key x \<mapsto> x)"
  proof (cases "key x \<in> key ` set rows")
    case True
    then have "row_of key rows (key x) \<noteq> None" by (simp add: row_of_None)
    with True all(1) show ?thesis by (auto simp: upsert_def)
  next
    case False
    have "row_of key (rows @ [x]) j = (if key x = j then Some x else row_of key rows j)" for j
      using False by (induction rows) (auto simp: row_of_def)
    with False show ?thesis by (auto simp: upsert_def fun_eq_iff)
  qed
qed

lemma active_hold_rows_length:
  assumes "tables_wf t"
  shows "length (active_hold_rows d t) = active_holds (tables_abs t) d"
proof -
  let ?d = "map (\<lambda>h. (legal_hold_id h, h)) (archive_legal_holds t)"
  have "dict_ok ?d" using tables_wfD(2) [OF assms] by (simp add: dict_ok_def comp_def)
  from card_dict_values [OF this, of "\<lambda>h. hold_document_id h = d \<and> hold_status h = ACTIVE"]
  show ?thesis
    by (simp add: active_hold_rows_def active_holds_def active_hold_ids_def row_of_dict
        dict_values_def comp_def)
qed

lemma active_hold_rows_empty:
  "tables_wf t \<Longrightarrow> active_hold_rows d t = [] \<longleftrightarrow> active_holds (tables_abs t) d = 0"
  using active_hold_rows_length [of t d] by auto

section \<open>Running the statements\<close>

definition put_row :: "document_metadata \<Rightarrow> tables \<Rightarrow> tables" where
  "put_row m t = t\<lparr>archive_documents := upsert document_id m (archive_documents t)\<rparr>"

lemma put_row_sel [simp]:
  "archive_legal_holds (put_row m t) = archive_legal_holds t"
  "archive_lifecycle_relationships (put_row m t) = archive_lifecycle_relationships t"
  "active_hold_rows d (put_row m t) = active_hold_rows d t"
  by (simp_all add: put_row_def active_hold_rows_def)

lemma put_row_wf [simp]: "tables_wf t \<Longrightarrow> tables_wf (put_row m t)"
  by (simp add: tables_wf_def put_row_def upsert_keyed)

lemma put_row_docs:
  "tables_wf t \<Longrightarrow> row_of document_id (archive_documents (put_row m t))
     = (row_of document_id (archive_documents t))(document_id m \<mapsto> m)"
  by (simp add: put_row_def upsert_keyed tables_wfD)

lemma put_row_abs: "tables_wf t \<Longrightarrow> tables_abs (put_row m t) = put_doc (document_id m) (untimed m) (tables_abs t)"
  by (simp add: tables_abs_def put_row_docs put_doc_def fun_eq_iff)

lemma holds_row:
  assumes "tables_wf t"
  shows "tables_wf (t\<lparr>archive_legal_holds := upsert legal_hold_id h (archive_legal_holds t)\<rparr>)"
    and "tables_abs (t\<lparr>archive_legal_holds := upsert legal_hold_id h (archive_legal_holds t)\<rparr>)
      = (tables_abs t)\<lparr>st_holds := (st_holds (tables_abs t))(legal_hold_id h \<mapsto> h)\<rparr>"
  using assms by (simp_all add: tables_wf_def upsert_keyed tables_abs_def)

lemma unique_row:
  assumes "distinct (map key rows)" "row_of key rows k = Some m" "x \<in> set rows" "key x = k"
  shows "x = m"
  using assms row_of_iff [OF assms(1), of k m] by (auto simp: distinct_map dest: inj_onD)

lemma update_unmatched:
  assumes "distinct (map key rows)" "\<And>m. row_of key rows k = Some m \<Longrightarrow> \<not> Q m"
  shows "update_rows (\<lambda>x. key x = k \<and> Q x) f rows = rows"
  unfolding update_rows_def
proof (rule map_idI)
  fix x assume x: "x \<in> set rows"
  then have "row_of key rows k = Some x" if "key x = k"
    using row_of_iff [OF assms(1)] that by blast
  with assms(2) show "(if key x = k \<and> Q x then f x else x) = x" by auto
qed

lemma update_matched:
  assumes d: "distinct (map key rows)" and m: "row_of key rows k = Some m" "Q m" and k: "key (f m) = k"
  shows "update_rows (\<lambda>x. key x = k \<and> Q x) f rows = upsert key (f m) rows"
proof -
  have "k \<in> key ` set rows" using row_of_key [OF m(1)] by force
  moreover have "(if key x = k \<and> Q x then f x else x) = (if key x = k then f m else x)"
    if "x \<in> set rows" for x
    using unique_row [OF d m(1) that] m(2) by auto
  ultimately show ?thesis
    unfolding upsert_def update_rows_def by (simp add: k cong: map_cong)
qed

lemma sql_update_documents_run:
  assumes "tables_wf t"
  shows "row_of document_id (archive_documents t) d = None
      \<Longrightarrow> sql_update_documents (\<lambda>m. document_id m = d \<and> Q m) f t = (Inr None, t)"
    and "row_of document_id (archive_documents t) d = Some m \<Longrightarrow> \<not> Q m
      \<Longrightarrow> sql_update_documents (\<lambda>m. document_id m = d \<and> Q m) f t = (Inr None, t)"
    and "row_of document_id (archive_documents t) d = Some m \<Longrightarrow> Q m \<Longrightarrow> document_id (f m) = d
      \<Longrightarrow> sql_update_documents (\<lambda>m. document_id m = d \<and> Q m) f t = (Inr (Some (f m)), put_row (f m) t)"
proof -
  note d = tables_wfD(1) [OF assms]
  have same: "t\<lparr>archive_documents := archive_documents t\<rparr> = t" by simp
  show "sql_update_documents (\<lambda>m. document_id m = d \<and> Q m) f t = (Inr None, t)"
    if "row_of document_id (archive_documents t) d = None"
    unfolding sql_update_documents_def updated_row_keyed [OF d]
    by (subst update_unmatched [OF d]) (use that same in simp_all)
  show "sql_update_documents (\<lambda>m. document_id m = d \<and> Q m) f t = (Inr None, t)"
    if "row_of document_id (archive_documents t) d = Some m" "\<not> Q m"
    unfolding sql_update_documents_def updated_row_keyed [OF d]
    by (subst update_unmatched [OF d]) (use that same in simp_all)
  show "sql_update_documents (\<lambda>m. document_id m = d \<and> Q m) f t = (Inr (Some (f m)), put_row (f m) t)"
    if "row_of document_id (archive_documents t) d = Some m" "Q m" "document_id (f m) = d"
    unfolding sql_update_documents_def updated_row_keyed [OF d]
    by (subst update_matched [OF d, where m = m]) (use that in \<open>simp_all add: put_row_def\<close>)
qed

lemma sql_update_documents_all:
  assumes "tables_wf t" "row_of document_id (archive_documents t) d = Some m" "document_id (f m) = d"
  shows "sql_update_documents (\<lambda>m. document_id m = d) f t = (Inr (Some (f m)), put_row (f m) t)"
  using sql_update_documents_run(3) [OF assms(1,2), of "\<lambda>_. True" f] assms(3) by simp

lemma sql_select_document_run [simp]:
  "sql_select_document (\<lambda>m. document_id m = d) t = (Inr (row_of document_id (archive_documents t) d), t)"
  by (simp add: sql_select_document_def gets_def row_of_def)

lemma row_document_id: "row_of document_id rows d = Some m \<Longrightarrow> document_id m = d"
  using row_of_key by fastforce

section \<open>Transactions\<close>

text \<open>
  A block that, on the tables alone, returns what the specification returns gives a
  transaction that refines it, whatever the schedule of faults.
\<close>

lemma transaction_refines:
  assumes "\<And>t. tables_wf t \<Longrightarrow> archive_inv (tables_abs t) \<Longrightarrow> pre (tables_abs t)
    \<Longrightarrow> \<exists>y t'. body t = (Inr y, t') \<and> tables_wf t' \<and> g y = fst (f (tables_abs t))
              \<and> tables_abs t' = snd (f (tables_abs t))"
  shows "refines pg_abs pg_wf pre (transaction body) g f"
  unfolding refines_def
proof (intro allI impI)
  fix p assume "pg_wf p" "archive_inv (pg_abs p)" "pre (pg_abs p)"
  then obtain y t' where "body (pg_tables p) = (Inr y, t')" "tables_wf t'"
      "g y = fst (f (pg_abs p))" "tables_abs t' = snd (f (pg_abs p))" "tables_wf (pg_tables p)"
    using assms [of "pg_tables p"] by (auto simp: pg_wf_def pg_abs_def)
  then show "case transaction body p of (x, p') \<Rightarrow> pg_wf p'
      \<and> (case x of Inl _ \<Rightarrow> pg_abs p' = pg_abs p \<or> pg_abs p' = snd (f (pg_abs p))
         | Inr y \<Rightarrow> g y = fst (f (pg_abs p)) \<and> pg_abs p' = snd (f (pg_abs p)))"
    by (cases "next_fault p") (simp_all add: transaction_def Let_def pg_wf_def pg_abs_def)
qed

lemma transaction_reads:
  assumes "\<And>t. tables_wf t \<Longrightarrow> archive_inv (tables_abs t)
    \<Longrightarrow> \<exists>y. body t = (Inr y, t) \<and> P (tables_abs t) y"
  shows "reads pg_abs pg_wf (transaction body) P"
  unfolding reads_def
proof (intro allI impI)
  fix p assume "pg_wf p" "archive_inv (pg_abs p)"
  then obtain y where "body (pg_tables p) = (Inr y, pg_tables p)" "P (pg_abs p) y" "tables_wf (pg_tables p)"
    using assms [of "pg_tables p"] by (auto simp: pg_wf_def pg_abs_def)
  then show "case transaction body p of (x, p') \<Rightarrow> pg_wf p' \<and> pg_abs p' = pg_abs p
      \<and> (case x of Inl _ \<Rightarrow> True | Inr y \<Rightarrow> P (pg_abs p) y)"
    by (cases "next_fault p") (simp_all add: transaction_def Let_def pg_wf_def pg_abs_def)
qed

text \<open>What is computed after the block does not touch the tables.\<close>

lemma refines_map:
  assumes "refines absr wfr pre m (g \<circ> h) f"
  shows "refines absr wfr pre (bind_io m (\<lambda>x. ret (h x))) g f"
  unfolding refines_def
proof (intro allI impI)
  fix r assume *: "wfr r" "archive_inv (absr r)" "pre (absr r)"
  obtain x r' where run: "m r = (x, r')" by (cases "m r")
  show "case bind_io m (\<lambda>x. ret (h x)) r of (x, r') \<Rightarrow> wfr r'
      \<and> (case x of Inl _ \<Rightarrow> absr r' = absr r \<or> absr r' = snd (f (absr r))
         | Inr y \<Rightarrow> g y = fst (f (absr r)) \<and> absr r' = snd (f (absr r)))"
    using assms [unfolded refines_def, rule_format, OF *] run
    by (cases x) (simp_all add: bind_io_def ret_def)
qed

lemma reads_map:
  assumes "reads absr wfr m (\<lambda>s x. P s (h x))"
  shows "reads absr wfr (bind_io m (\<lambda>x. ret (h x))) P"
  unfolding reads_def
proof (intro allI impI)
  fix r assume *: "wfr r" "archive_inv (absr r)"
  obtain x r' where run: "m r = (x, r')" by (cases "m r")
  show "case bind_io m (\<lambda>x. ret (h x)) r of (x, r') \<Rightarrow> wfr r' \<and> absr r' = absr r
      \<and> (case x of Inl _ \<Rightarrow> True | Inr y \<Rightarrow> P (absr r) y)"
    using assms [unfolded reads_def, rule_format, OF *] run
    by (cases x) (simp_all add: bind_io_def ret_def)
qed

end
