(* ===== verification/PostgresContract.thy ===== *)
theory PostgresContract
  imports PostgresRepository
begin

text \<open>
  The database-backed repository keeps the contract of \<open>Repository\<close>: each method's block,
  run on the tables, does what the specification says, so its transaction refines it under
  every schedule of faults. Interpreting \<open>document_repository\<close> transfers every consequence of
  the contract to it; without lost answers it is a \<open>reliable_repository\<close> as well.
\<close>

lemmas upd = sql_update_documents_run sql_update_documents_all

lemma pg_begin_purge_refines:
  "refines pg_abs pg_wf (\<lambda>_. True) (pg_begin_purge d t) (map_option untimed) (spec_begin_purge d t)"
proof -
  let ?post = "\<lambda>x. if fst x then snd x else (case snd x of None \<Rightarrow> None
      | Some m \<Rightarrow> if purge_started_at m \<noteq> None then Some m else None)"
  let ?body = "\<lambda>s. bind_io
         (sql_update_documents
            (\<lambda>m. document_id m = d \<and> purge_started_at m = None \<and> legal_hold_status m \<noteq> ACTIVE
                 \<and> active_hold_rows d s = [])
            (\<lambda>m. m\<lparr>purge_started_at := Some t, updated_at := t\<rparr>))
         (\<lambda>row. case row of
            Some m \<Rightarrow> ret (True, Some m)
          | None \<Rightarrow> bind_io (sql_select_document (\<lambda>m. document_id m = d)) (\<lambda>current. ret (False, current))) s"
  have eq: "pg_begin_purge d t = bind_io (transaction ?body) (\<lambda>x. ret (?post x))"
    unfolding pg_begin_purge_def by (intro arg_cong2 [where f = bind_io] refl ext) (auto split: prod.split)
  show ?thesis
    unfolding eq
  proof (rule refines_map, rule transaction_refines)
    fix s assume wf: "tables_wf s"
    note act = active_hold_rows_empty [OF wf, of d]
    show "\<exists>y s'. ?body s = (Inr y, s') \<and> tables_wf s'
        \<and> (map_option untimed \<circ> ?post) y = fst (spec_begin_purge d t (tables_abs s))
        \<and> tables_abs s' = snd (spec_begin_purge d t (tables_abs s))"
    proof (cases "row_of document_id (archive_documents s) d")
      case None
      then show ?thesis
        by (simp add: upd(1) [OF wf] bind_io_def ret_def spec_begin_purge_def wf)
    next
      case (Some m)
      note id = row_document_id [OF Some]
      show ?thesis
      proof (cases "purge_started_at m = None \<and> legal_hold_status m \<noteq> ACTIVE \<and> active_hold_rows d s = []")
        case True
        with Some show ?thesis
          by (simp add: upd(3) [OF wf Some] bind_io_def ret_def spec_begin_purge_def wf id
              put_row_abs act Let_def)
      next
        case False
        with Some show ?thesis
          by (auto simp: upd(2) [OF wf Some] bind_io_def ret_def spec_begin_purge_def wf act)
      qed
    qed
  qed
qed

lemma pg_mark_eligible_refines:
  "refines pg_abs pg_wf (\<lambda>_. True) (pg_mark_purge_eligible d t now) (map_option untimed)
     (spec_mark_eligible d t)"
  unfolding pg_mark_purge_eligible_def
proof (rule transaction_refines)
  fix s assume wf: "tables_wf s"
  let ?Q = "\<lambda>m. purge_started_at m = None \<and> purge_status m \<noteq> PURGED \<and> legal_hold_status m \<noteq> ACTIVE
            \<and> active_hold_rows d s = []"
  let ?f = "\<lambda>m. m\<lparr>purge_status := ELIGIBLE,
              purge_eligible_at := Some (case purge_eligible_at m of Some e \<Rightarrow> e | None \<Rightarrow> t),
              updated_at := now\<rparr>"
  note act = active_hold_rows_empty [OF wf, of d]
  show "\<exists>y s'. sql_update_documents (\<lambda>m. document_id m = d \<and> ?Q m) ?f s = (Inr y, s') \<and> tables_wf s'
      \<and> map_option untimed y = fst (spec_mark_eligible d t (tables_abs s))
      \<and> tables_abs s' = snd (spec_mark_eligible d t (tables_abs s))"
  proof (cases "row_of document_id (archive_documents s) d")
    case None
    then show ?thesis by (simp add: upd(1) [OF wf] spec_mark_eligible_def wf)
  next
    case (Some m)
    show ?thesis
    proof (cases "?Q m")
      case True
      have run: "sql_update_documents (\<lambda>m. document_id m = d \<and> ?Q m) ?f s = (Inr (Some (?f m)), put_row (?f m) s)"
        by (rule upd(3) [OF wf Some]) (use True row_document_id [OF Some] in simp_all)
      show ?thesis
        unfolding run using True Some
        by (simp add: spec_mark_eligible_def wf row_document_id [OF Some] put_row_abs act Let_def)
    next
      case False
      with Some show ?thesis
        by (auto simp: upd(2) [OF wf Some] spec_mark_eligible_def wf act)
    qed
  qed
qed

lemma pg_mark_not_eligible_refines:
  "refines pg_abs pg_wf (\<lambda>_. True) (pg_mark_purge_not_eligible d now) (map_option untimed)
     (spec_mark_not_eligible d)"
  unfolding pg_mark_purge_not_eligible_def
proof (rule transaction_refines)
  fix s assume wf: "tables_wf s"
  let ?Q = "\<lambda>m. purge_started_at m = None \<and> purge_status m \<noteq> PURGED"
  let ?f = "\<lambda>m. m\<lparr>purge_status := NOT_ELIGIBLE, updated_at := now\<rparr>"
  show "\<exists>y s'. sql_update_documents (\<lambda>m. document_id m = d \<and> ?Q m) ?f s = (Inr y, s') \<and> tables_wf s'
      \<and> map_option untimed y = fst (spec_mark_not_eligible d (tables_abs s))
      \<and> tables_abs s' = snd (spec_mark_not_eligible d (tables_abs s))"
  proof (cases "row_of document_id (archive_documents s) d")
    case None
    then show ?thesis by (simp add: upd(1) [OF wf] spec_mark_not_eligible_def wf)
  next
    case (Some m)
    show ?thesis
    proof (cases "?Q m")
      case True
      with Some show ?thesis
        by (simp add: upd(3) [OF wf Some, of ?Q] spec_mark_not_eligible_def wf row_document_id [OF Some]
            put_row_abs Let_def)
    next
      case False
      with Some show ?thesis
        by (auto simp: upd(2) [OF wf Some] spec_mark_not_eligible_def wf)
    qed
  qed
qed

lemma purged_unchanged:
  assumes "purge_recorded m" "purge_status m = PURGED"
  shows "m\<lparr>purge_status := PURGED, purged_at := Some (case purged_at m of Some p \<Rightarrow> p | None \<Rightarrow> t)\<rparr> = m"
  using assms by (auto simp: purge_recorded_def)

lemma pg_complete_purge_refines:
  "refines pg_abs pg_wf (\<lambda>_. True) (pg_complete_purge d t now) (map_option untimed)
     (spec_complete_purge d t)"
  unfolding pg_complete_purge_def
proof (rule transaction_refines)
  fix s assume wf: "tables_wf s" and inv: "archive_inv (tables_abs s)"
  let ?Q = "\<lambda>m. purge_started_at m \<noteq> None"
  let ?g = "\<lambda>m. m\<lparr>purge_status := PURGED, purged_at := Some (case purged_at m of Some p \<Rightarrow> p | None \<Rightarrow> t)\<rparr>"
  let ?f = "\<lambda>m. m\<lparr>purge_status := PURGED, purged_at := Some (case purged_at m of Some p \<Rightarrow> p | None \<Rightarrow> t),
             updated_at := now\<rparr>"
  show "\<exists>y s'. sql_update_documents (\<lambda>m. document_id m = d \<and> ?Q m) ?f s = (Inr y, s') \<and> tables_wf s'
      \<and> map_option untimed y = fst (spec_complete_purge d t (tables_abs s))
      \<and> tables_abs s' = snd (spec_complete_purge d t (tables_abs s))"
  proof (cases "row_of document_id (archive_documents s) d")
    case None
    then show ?thesis by (simp add: upd(1) [OF wf] spec_complete_purge_def wf)
  next
    case (Some m)
    have rec: "purge_recorded (untimed m)"
      by (rule archive_invD(2) [OF inv, of d]) (simp add: Some)
    show ?thesis
    proof (cases "?Q m")
      case False
      with Some show ?thesis by (auto simp: upd(2) [OF wf Some] spec_complete_purge_def wf)
    next
      case True
      have run: "sql_update_documents (\<lambda>m. document_id m = d \<and> ?Q m) ?f s = (Inr (Some (?f m)), put_row (?f m) s)"
        by (rule upd(3) [OF wf Some]) (use True row_document_id [OF Some] in simp_all)
      have u: "untimed (?f m) = ?g (untimed m)" by simp
      have abs: "tables_abs (put_row (?f m) s) = put_doc d (?g (untimed m)) (tables_abs s)"
        using put_row_abs [OF wf, of "?f m"] row_document_id [OF Some] by simp
      have spec: "spec_complete_purge d t (tables_abs s)
          = (Some (?g (untimed m)), put_doc d (?g (untimed m)) (tables_abs s))"
      proof (cases "purge_status m = PURGED")
        case p: True
        have g: "?g (untimed m) = untimed m"
          by (rule purged_unchanged [OF rec]) (simp add: p)
        have "put_doc d (untimed m) (tables_abs s) = tables_abs s"
          by (rule put_doc_same) (simp add: Some)
        with Some True p show ?thesis unfolding g by (simp add: spec_complete_purge_def)
      next
        case p: False
        then have "purged_at m = None" using purge_recordedD(1) [OF rec] by simp
        with Some True p show ?thesis by (simp add: spec_complete_purge_def Let_def)
      qed
      show ?thesis
        by (intro exI conjI, rule run)
          (simp_all only: put_row_wf [OF wf] option.map u spec abs fst_conv snd_conv)
    qed
  qed
qed

section \<open>Holds\<close>

text \<open>The recount statement, whether or not it finds anything to change.\<close>

lemma refresh_summary_run:
  assumes wf: "tables_wf t" and m: "row_of document_id (archive_documents t) d = Some m"
  obtains row t' v where "sql_refresh_summary d now t = (Inr row, t')" "tables_wf t'"
    "v = (case row of Some m' \<Rightarrow> m' | None \<Rightarrow> m)"
    "row_of document_id (archive_documents t') d = Some v"
    "spec_refresh d (tables_abs t) = (Some (untimed v), tables_abs t')"
proof -
  let ?n = "active_holds (tables_abs t) d"
  let ?st = "if ?n > 0 then ACTIVE else CLEAR"
  let ?Q = "\<lambda>m. legal_hold_status m \<noteq> ?st \<or> legal_hold_count m \<noteq> int ?n"
  let ?f = "\<lambda>m. m\<lparr>legal_hold_status := ?st, legal_hold_count := int ?n, updated_at := now\<rparr>"
  let ?new = "(untimed m)\<lparr>legal_hold_status := ?st, legal_hold_count := int ?n\<rparr>"
  have id: "document_id m = d" by (rule row_document_id [OF m])
  have run: "sql_refresh_summary d now t = sql_update_documents (\<lambda>m. document_id m = d \<and> ?Q m) ?f t"
    unfolding sql_refresh_summary_def active_hold_rows_length [OF wf] Let_def by (rule refl)
  have st: "(if ?n \<noteq> 0 then ACTIVE else CLEAR) = ?st" by simp
  have spec: "spec_refresh d (tables_abs t) = (Some ?new, put_doc d ?new (tables_abs t))"
    using m unfolding spec_refresh_def Let_def st by (simp only: tables_abs_sel option.map option.case)
  show thesis
  proof (cases "?Q m")
    case True
    have "sql_refresh_summary d now t = (Inr (Some (?f m)), put_row (?f m) t)"
      unfolding run by (rule upd(3) [where Q = ?Q, OF wf m True]) (simp add: id)
    moreover have "row_of document_id (archive_documents (put_row (?f m) t)) d = Some (?f m)"
      using id by (simp add: put_row_docs [OF wf])
    moreover have "tables_abs (put_row (?f m) t) = put_doc d ?new (tables_abs t)"
      using put_row_abs [OF wf, of "?f m"] id by simp
    moreover have "untimed (?f m) = ?new" by simp
    ultimately show thesis
      by (intro that [of "Some (?f m)" "put_row (?f m) t" "?f m"])
        (simp_all only: option.case spec put_row_wf [OF wf])
  next
    case False
    have "sql_refresh_summary d now t = (Inr None, t)"
      unfolding run by (rule upd(2) [where Q = ?Q, OF wf m False])
    moreover have new: "?new = untimed m"
    proof -
      have eq: "legal_hold_status m = ?st" "legal_hold_count m = int ?n" using False by blast+
      show ?thesis unfolding eq [symmetric] by (simp add: untimed_def)
    qed
    moreover have "put_doc d (untimed m) (tables_abs t) = tables_abs t"
      by (rule put_doc_same) (simp add: m)
    ultimately show thesis
      by (intro that [of None t m]) (simp_all only: option.case spec wf m)
  qed
qed

lemma pg_refresh_refines:
  "refines pg_abs pg_wf (\<lambda>_. True) (pg_refresh_legal_hold_summary d now) (map_option untimed)
     (spec_refresh d)"
  unfolding pg_refresh_legal_hold_summary_def
proof (rule transaction_refines)
  fix s assume wf: "tables_wf s"
  let ?body = "bind_io (sql_select_document (\<lambda>m. document_id m = d))
     (\<lambda>locked. case locked of None \<Rightarrow> ret None
      | Some m \<Rightarrow> bind_io (sql_refresh_summary d now)
          (\<lambda>row. ret (case row of Some m' \<Rightarrow> Some m' | None \<Rightarrow> Some m)))"
  show "\<exists>y s'. ?body s = (Inr y, s') \<and> tables_wf s'
      \<and> map_option untimed y = fst (spec_refresh d (tables_abs s))
      \<and> tables_abs s' = snd (spec_refresh d (tables_abs s))"
  proof (cases "row_of document_id (archive_documents s) d")
    case None
    then show ?thesis by (simp add: bind_io_def ret_def spec_refresh_def wf)
  next
    case (Some m)
    obtain row s' v where r: "sql_refresh_summary d now s = (Inr row, s')" "tables_wf s'"
      "v = (case row of Some m' \<Rightarrow> m' | None \<Rightarrow> m)"
      "spec_refresh d (tables_abs s) = (Some (untimed v), tables_abs s')"
      by (rule refresh_summary_run [OF wf Some])
    then have "?body s = (Inr (Some v), s')"
      using Some by (cases row) (simp_all add: bind_io_def ret_def)
    then show ?thesis using r by simp
  qed
qed

lemma pg_admit_refines:
  "refines pg_abs pg_wf (\<lambda>s. admissible_hold s d h) (pg_admit_and_record_legal_hold d h now)
     (map_option untimed) (spec_admit d h)"
  unfolding pg_admit_and_record_legal_hold_def
proof (rule transaction_refines)
  fix s assume wf: "tables_wf s"
  let ?Q = "\<lambda>m. purge_started_at m = None"
  let ?f = "\<lambda>m. m\<lparr>legal_hold_status := ACTIVE, updated_at := now\<rparr>"
  let ?body = "bind_io (sql_update_documents (\<lambda>m. document_id m = d \<and> ?Q m) ?f)
     (\<lambda>row. case row of None \<Rightarrow> ret None
      | Some _ \<Rightarrow> seq_io (sql_save_legal_hold h) (\<lambda>t.
          sql_update_documents (\<lambda>m. document_id m = d)
            (\<lambda>m. m\<lparr>legal_hold_count := int (length (active_hold_rows d t)), updated_at := now\<rparr>) t))"
  show "\<exists>y s'. ?body s = (Inr y, s') \<and> tables_wf s'
      \<and> map_option untimed y = fst (spec_admit d h (tables_abs s))
      \<and> tables_abs s' = snd (spec_admit d h (tables_abs s))"
  proof (cases "row_of document_id (archive_documents s) d")
    case None
    then show ?thesis by (simp add: upd(1) [OF wf] bind_io_def ret_def spec_admit_def wf)
  next
    case (Some m)
    note id = row_document_id [OF Some]
    show ?thesis
    proof (cases "?Q m")
      case False
      with Some show ?thesis by (simp add: upd(2) [OF wf Some] bind_io_def ret_def spec_admit_def wf)
    next
      case True
      let ?s1 = "put_row (?f m) s"
      let ?s2 = "?s1\<lparr>archive_legal_holds := upsert legal_hold_id h (archive_legal_holds ?s1)\<rparr>"
      have wf1: "tables_wf ?s1" by (simp add: wf)
      have wf2: "tables_wf ?s2" by (rule holds_row(1) [OF wf1])
      have row2: "row_of document_id (archive_documents ?s2) d = Some (?f m)"
        using id by (simp add: put_row_docs [OF wf])
      let ?n = "int (length (active_hold_rows d ?s2))"
      let ?g = "\<lambda>m. m\<lparr>legal_hold_count := ?n, updated_at := now\<rparr>"
      have abs2: "tables_abs ?s2 = (put_doc d (untimed (?f m)) (tables_abs s))
          \<lparr>st_holds := (st_holds (tables_abs s))(legal_hold_id h \<mapsto> h)\<rparr>"
        using holds_row(2) [OF wf1, of h] put_row_abs [OF wf, of "?f m"] id by simp
      have cnt: "length (active_hold_rows d ?s2)
          = active_holds ((tables_abs s)\<lparr>st_holds := (st_holds (tables_abs s))(legal_hold_id h \<mapsto> h)\<rparr>) d"
        unfolding active_hold_rows_length [OF wf2] abs2 by (simp add: active_holds_def)
      have u: "untimed (?g (?f m)) = (untimed m)\<lparr>legal_hold_status := ACTIVE, legal_hold_count := ?n\<rparr>"
        by simp
      have run: "?body s = (Inr (Some (?g (?f m))), put_row (?g (?f m)) ?s2)"
        using upd(3) [OF wf Some, of ?Q ?f] upd(4) [OF wf2 row2, of ?g] True id
        by (simp add: bind_io_def seq_io_def sql_save_legal_hold_def modify_io_def)
      have abs3: "tables_abs (put_row (?g (?f m)) ?s2) = put_doc d (untimed (?g (?f m))) (tables_abs ?s2)"
        using put_row_abs [OF wf2, of "?g (?f m)"] id by simp
      have spec: "spec_admit d h (tables_abs s) = (Some (untimed (?g (?f m))),
          put_doc d (untimed (?g (?f m)))
            ((tables_abs s)\<lparr>st_holds := (st_holds (tables_abs s))(legal_hold_id h \<mapsto> h)\<rparr>))"
        using Some True unfolding u cnt spec_admit_def Let_def by simp
      have same: "put_doc d x (tables_abs ?s2)
          = put_doc d x ((tables_abs s)\<lparr>st_holds := (st_holds (tables_abs s))(legal_hold_id h \<mapsto> h)\<rparr>)" for x
        unfolding abs2 by (simp add: put_doc_def)
      show ?thesis
        by (intro exI conjI, rule run)
          (simp_all only: put_row_wf [OF wf2] option.map spec abs3 fst_conv snd_conv same)
    qed
  qed
qed

lemma sql_update_holds_run:
  assumes "tables_wf t"
  shows "(\<And>h. row_of legal_hold_id (archive_legal_holds t) i = Some h \<Longrightarrow> \<not> Q h)
      \<Longrightarrow> sql_update_holds (\<lambda>h. legal_hold_id h = i \<and> Q h) f t = (Inr None, t)"
    and "row_of legal_hold_id (archive_legal_holds t) i = Some h \<Longrightarrow> Q h \<Longrightarrow> legal_hold_id (f h) = i
      \<Longrightarrow> sql_update_holds (\<lambda>h. legal_hold_id h = i \<and> Q h) f t
        = (Inr (Some (f h)), t\<lparr>archive_legal_holds := upsert legal_hold_id (f h) (archive_legal_holds t)\<rparr>)"
proof -
  note d = tables_wfD(2) [OF assms]
  have same: "t\<lparr>archive_legal_holds := archive_legal_holds t\<rparr> = t" by simp
  show "sql_update_holds (\<lambda>h. legal_hold_id h = i \<and> Q h) f t = (Inr None, t)"
    if "\<And>h. row_of legal_hold_id (archive_legal_holds t) i = Some h \<Longrightarrow> \<not> Q h"
    unfolding sql_update_holds_def updated_row_keyed [OF d]
    by (subst update_unmatched [OF d]) (use that same in \<open>simp_all split: option.split\<close>)
  show "sql_update_holds (\<lambda>h. legal_hold_id h = i \<and> Q h) f t
        = (Inr (Some (f h)), t\<lparr>archive_legal_holds := upsert legal_hold_id (f h) (archive_legal_holds t)\<rparr>)"
    if "row_of legal_hold_id (archive_legal_holds t) i = Some h" "Q h" "legal_hold_id (f h) = i"
    unfolding sql_update_holds_def updated_row_keyed [OF d]
    by (subst update_matched [OF d, where m = h]) (use that in simp_all)
qed

text \<open>The tables after the hold row of a release has been written.\<close>

definition after_release :: "string \<Rightarrow> legal_hold \<Rightarrow> legal_hold \<Rightarrow> tables \<Rightarrow> tables" where
  "after_release i h h' t =
     (if hold_status h = ACTIVE
      then t\<lparr>archive_legal_holds := upsert legal_hold_id h' (archive_legal_holds t)\<rparr> else t)"

lemma after_release_facts:
  assumes "tables_wf t" "row_of legal_hold_id (archive_legal_holds t) i = Some h"
    and "h' = release_hold w a y h"
  shows "tables_wf (after_release i h h' t)"
    and "archive_documents (after_release i h h' t) = archive_documents t"
    and "tables_abs (after_release i h h' t)
      = (tables_abs t)\<lparr>st_holds := (st_holds (tables_abs t))(i \<mapsto> h')\<rparr>"
proof -
  have i: "legal_hold_id h = i" using row_of_key [OF assms(2)] by blast
  show "tables_wf (after_release i h h' t)"
    using assms(1) holds_row(1) [OF assms(1)] by (simp add: after_release_def)
  show "archive_documents (after_release i h h' t) = archive_documents t"
    by (simp add: after_release_def)
  show "tables_abs (after_release i h h' t) = (tables_abs t)\<lparr>st_holds := (st_holds (tables_abs t))(i \<mapsto> h')\<rparr>"
  proof (cases "hold_status h = ACTIVE")
    case True
    then show ?thesis using holds_row(2) [OF assms(1), of h'] assms(3) i
      by (simp add: after_release_def)
  next
    case False
    then have "h' = h" using assms(3) by (simp add: release_hold_def)
    moreover have "(st_holds (tables_abs t))(i \<mapsto> h) = st_holds (tables_abs t)"
      using assms(2) by (simp add: fun_upd_idem)
    ultimately show ?thesis using False by (simp add: after_release_def)
  qed
qed

lemma pg_release_refines:
  "refines pg_abs pg_wf (\<lambda>_. True) (pg_release_and_record_legal_hold d i w a y now)
     (map_option untimed_release) (spec_release d i w a y)"
  unfolding pg_release_and_record_legal_hold_def
proof (rule transaction_refines)
  fix s assume wf: "tables_wf s"
  let ?Q = "\<lambda>h. hold_document_id h = d \<and> hold_status h = ACTIVE"
  let ?f = "\<lambda>h. h\<lparr>hold_status := CLEAR, released_by := Some w, released_at := Some a, release_reason := Some y\<rparr>"
  let ?tail = "\<lambda>hold_row. case hold_row of
            None \<Rightarrow> ret None
          | Some h \<Rightarrow> bind_io (sql_refresh_summary d now) (\<lambda>document_row. bind_io
              (case document_row of
                 Some m \<Rightarrow> ret (Some m)
               | None \<Rightarrow> sql_select_document (\<lambda>m. document_id m = d))
              (\<lambda>document_row. ret (map_option (Pair h) document_row)))"
  let ?look = "\<lambda>hold_row. case hold_row of
            Some h \<Rightarrow> ret (Some h)
          | None \<Rightarrow> gets (\<lambda>t. List.find (\<lambda>h. legal_hold_id h = i \<and> hold_document_id h = d) (archive_legal_holds t))"
  let ?body = "bind_io (sql_select_document (\<lambda>m. document_id m = d))
     (\<lambda>locked. if locked = None then ret None else bind_io
       (sql_update_holds (\<lambda>h. legal_hold_id h = i \<and> ?Q h) ?f)
       (\<lambda>hold_row. bind_io (?look hold_row) ?tail))"
  show "\<exists>z s'. ?body s = (Inr z, s') \<and> tables_wf s'
      \<and> map_option untimed_release z = fst (spec_release d i w a y (tables_abs s))
      \<and> tables_abs s' = snd (spec_release d i w a y (tables_abs s))"
  proof (cases "row_of document_id (archive_documents s) d")
    case None
    then show ?thesis by (simp add: bind_io_def ret_def spec_release_def wf)
  next
    case (Some m)
    note m = Some
    have find: "List.find (\<lambda>h. legal_hold_id h = i \<and> hold_document_id h = d) (archive_legal_holds s)
        = (case row_of legal_hold_id (archive_legal_holds s) i of None \<Rightarrow> None
           | Some h \<Rightarrow> if hold_document_id h = d then Some h else None)"
      by (rule find_keyed [OF tables_wfD(2) [OF wf]])
    show ?thesis
    proof (cases "\<exists>h. row_of legal_hold_id (archive_legal_holds s) i = Some h \<and> hold_document_id h = d")
      case False
      then have "sql_update_holds (\<lambda>h. legal_hold_id h = i \<and> ?Q h) ?f s = (Inr None, s)"
        by (intro sql_update_holds_run(1) [OF wf]) auto
      moreover have "List.find (\<lambda>h. legal_hold_id h = i \<and> hold_document_id h = d) (archive_legal_holds s) = None"
        unfolding find using False by (auto split: option.splits)
      ultimately have "?body s = (Inr None, s)"
        using m by (simp add: bind_io_def ret_def gets_def)
      moreover have "spec_release d i w a y (tables_abs s) = (None, tables_abs s)"
        using m False by (auto simp: spec_release_def split: option.splits)
      ultimately show ?thesis using wf by simp
    next
      case True
      then obtain h where h: "row_of legal_hold_id (archive_legal_holds s) i = Some h" "hold_document_id h = d"
        by blast
      let ?h = "release_hold w a y h" and ?s1 = "after_release i h (release_hold w a y h) s"
      note ar = after_release_facts [OF wf h(1) refl, of w a y]
      have i: "legal_hold_id h = i" using row_of_key [OF h(1)] by blast
      have step: "bind_io (sql_update_holds (\<lambda>h. legal_hold_id h = i \<and> ?Q h) ?f)
            (\<lambda>hold_row. bind_io (?look hold_row) k) s = k (Some ?h) ?s1" for k :: "legal_hold option \<Rightarrow> (tables, 'z) io"
      proof (cases "hold_status h = ACTIVE")
        case True
        have "sql_update_holds (\<lambda>h. legal_hold_id h = i \<and> ?Q h) ?f s
            = (Inr (Some (?f h)), s\<lparr>archive_legal_holds := upsert legal_hold_id (?f h) (archive_legal_holds s)\<rparr>)"
          by (rule sql_update_holds_run(2) [OF wf h(1)]) (use True h(2) i in simp_all)
        with True show ?thesis by (simp add: bind_io_def ret_def after_release_def release_hold_def)
      next
        case False
        then have "sql_update_holds (\<lambda>h. legal_hold_id h = i \<and> ?Q h) ?f s = (Inr None, s)"
          by (intro sql_update_holds_run(1) [OF wf]) (use h in auto)
        moreover have "List.find (\<lambda>h. legal_hold_id h = i \<and> hold_document_id h = d) (archive_legal_holds s) = Some h"
          unfolding find using h by simp
        ultimately show ?thesis
          using False by (simp add: bind_io_def gets_def after_release_def release_hold_def)
      qed
      have m1: "row_of document_id (archive_documents ?s1) d = Some m" by (simp add: ar(2) m)
      obtain row s' v where r: "sql_refresh_summary d now ?s1 = (Inr row, s')" "tables_wf s'"
        "v = (case row of Some m' \<Rightarrow> m' | None \<Rightarrow> m)"
        "row_of document_id (archive_documents s') d = Some v"
        "spec_refresh d (tables_abs ?s1) = (Some (untimed v), tables_abs s')"
        by (rule refresh_summary_run [OF ar(1) m1])
      have "?tail (Some ?h) ?s1 = (Inr (Some (?h, v)), s')"
        using r(1,3,4) by (cases row) (simp_all add: bind_io_def ret_def)
      then have run: "?body s = (Inr (Some (?h, v)), s')"
        using m step [of ?tail] by (simp add: bind_io_def [of "sql_select_document _"])
      have spec: "spec_release d i w a y (tables_abs s) = (Some (?h, untimed v), tables_abs s')"
        using m h r(5) unfolding ar(3) by (simp add: spec_release_def Let_def)
      show ?thesis
        by (intro exI conjI, rule run) (simp_all add: r(2) untimed_release_def spec)
    qed
  qed
qed

section \<open>Reads\<close>

lemma pg_get_by_document_id_reads:
  "reads pg_abs pg_wf (pg_get_by_document_id d) (\<lambda>s x. map_option untimed x = st_docs s d)"
  unfolding pg_get_by_document_id_def pg_fetch_document_def by (rule transaction_reads) simp

lemma row_of_Cons: "row_of key (m # rows) d = (if key m = d then Some m else row_of key rows d)"
  by (simp add: row_of_def)

lemma fold_rows:
  assumes "distinct (map document_id rows)"
  shows "dict_get (fold (\<lambda>m acc. dict_set (document_id m) m acc) rows acc) d
    = (case row_of document_id rows d of Some m \<Rightarrow> Some m | None \<Rightarrow> dict_get acc d)"
  using assms
proof (induction rows arbitrary: acc)
  case (Cons m rows)
  then have "row_of document_id rows (document_id m) = None" by (simp add: row_of_None)
  with Cons show ?case by (cases "document_id m = d") (auto simp: row_of_Cons split: option.split)
qed (simp add: row_of_def)

lemma row_of_filter:
  "row_of key (filter (\<lambda>m. key m \<in> A) rows) d = (if d \<in> A then row_of key rows d else None)"
  by (induction rows) (auto simp: row_of_def)

lemma pg_get_by_document_ids_reads:
  "reads pg_abs pg_wf (pg_get_by_document_ids ds)
     (\<lambda>s x. \<forall>d. map_option untimed (dict_get (lookup_documents x) d)
                  = (if d \<in> set ds then st_docs s d else None))"
proof (cases "ds = []")
  case True
  then show ?thesis
    unfolding pg_get_by_document_ids_def by (simp add: reads_def ret_def)
next
  case False
  let ?mk = "\<lambda>rows. \<lparr>lookup_documents = fold (\<lambda>m acc. dict_set (document_id m) m acc) rows [],
                      unavailable_document_ids = []\<rparr>"
  have eq: "pg_get_by_document_ids ds = bind_io
      (transaction (sql_select_documents (\<lambda>m. document_id m \<in> set ds))) (\<lambda>rows. ret (?mk rows))"
    using False by (simp add: pg_get_by_document_ids_def)
  show ?thesis
    unfolding eq
  proof (rule reads_map, rule transaction_reads)
    fix t assume wf: "tables_wf t"
    let ?rows = "filter (\<lambda>m. document_id m \<in> set ds) (archive_documents t)"
    have d: "distinct (map document_id ?rows)"
      using tables_wfD(1) [OF wf] by (rule distinct_map_filter)
    show "\<exists>y. sql_select_documents (\<lambda>m. document_id m \<in> set ds) t = (Inr y, t)
        \<and> (\<forall>d. map_option untimed (dict_get (lookup_documents (?mk y)) d)
             = (if d \<in> set ds then st_docs (tables_abs t) d else None))"
      by (simp add: sql_select_documents_def gets_def fold_rows [OF d] row_of_filter split: option.split)
  qed
qed

lemma row_ex:
  assumes "distinct (map key rows)"
  shows "(\<exists>k. row_of key rows k = Some x) \<longleftrightarrow> x \<in> set rows"
  using row_of_iff [OF assms] by blast

lemma pg_get_by_checksum_reads:
  "reads pg_abs pg_wf (pg_get_by_checksum c)
     (\<lambda>s xs. untimed ` set xs = {m. \<exists>d. st_docs s d = Some m \<and> checksum m = c})"
  unfolding pg_get_by_checksum_def
proof (rule transaction_reads)
  fix t assume wf: "tables_wf t"
  have "untimed ` set (filter (\<lambda>m. checksum m = c) (archive_documents t))
      = {m. \<exists>d. st_docs (tables_abs t) d = Some m \<and> checksum m = c}"
    using row_ex [OF tables_wfD(1) [OF wf]] by (auto simp: image_iff) (metis untimed_sel(8))+
  then show "\<exists>y. sql_select_documents (\<lambda>m. checksum m = c) t = (Inr y, t)
      \<and> untimed ` set y = {m. \<exists>d. st_docs (tables_abs t) d = Some m \<and> checksum m = c}"
    by (simp add: sql_select_documents_def gets_def)
qed

lemma find_row:
  assumes "tables_wf t"
  shows "case List.find P (archive_documents t) of
      Some m \<Rightarrow> P m \<and> row_of document_id (archive_documents t) (document_id m) = Some m
    | None \<Rightarrow> \<forall>d m. row_of document_id (archive_documents t) d = Some m \<longrightarrow> \<not> P m"
proof (cases "List.find P (archive_documents t)")
  case None
  then have "\<not> P m" if "m \<in> set (archive_documents t)" for m using that by (auto simp: find_None_iff)
  with None show ?thesis using row_of_key [of document_id "archive_documents t"] by auto
next
  case (Some m)
  then have "P m" "m \<in> set (archive_documents t)" by (auto simp: find_Some_iff)
  then show ?thesis using Some row_of_iff [OF tables_wfD(1) [OF assms]] by simp
qed

lemma pg_get_by_archive_request_id_reads:
  "reads pg_abs pg_wf (pg_get_by_archive_request_id q)
     (\<lambda>s x. case x of Some m \<Rightarrow> archive_request_id m = q \<and> st_docs s (document_id m) = Some (untimed m)
        | None \<Rightarrow> \<forall>d m. st_docs s d = Some m \<longrightarrow> archive_request_id m \<noteq> q)"
  unfolding pg_get_by_archive_request_id_def pg_fetch_document_def
proof (rule transaction_reads)
  fix t assume wf: "tables_wf t"
  let ?x = "List.find (\<lambda>m. archive_request_id m = q) (archive_documents t)"
  have "sql_select_document (\<lambda>m. archive_request_id m = q) t = (Inr ?x, t)"
    by (simp add: sql_select_document_def gets_def)
  moreover have "case ?x of Some m \<Rightarrow> archive_request_id m = q
        \<and> st_docs (tables_abs t) (document_id m) = Some (untimed m)
      | None \<Rightarrow> \<forall>d m. st_docs (tables_abs t) d = Some m \<longrightarrow> archive_request_id m \<noteq> q"
    using find_row [OF wf, of "\<lambda>m. archive_request_id m = q"] by (auto split: option.splits; blast)
  ultimately show "\<exists>y. sql_select_document (\<lambda>m. archive_request_id m = q) t = (Inr y, t)
      \<and> (case y of Some m \<Rightarrow> archive_request_id m = q
             \<and> st_docs (tables_abs t) (document_id m) = Some (untimed m)
         | None \<Rightarrow> \<forall>d m. st_docs (tables_abs t) d = Some m \<longrightarrow> archive_request_id m \<noteq> q)"
    by blast
qed

lemma pg_list_reads:
  "reads pg_abs pg_wf (pg_list_legal_holds d)
     (\<lambda>s xs. set xs = {h. \<exists>i. st_holds s i = Some h \<and> hold_document_id h = d})"
  "reads pg_abs pg_wf (pg_list_lifecycle_relationships d)
     (\<lambda>s xs. set xs = {q. \<exists>i. st_rels s i = Some q
                           \<and> (source_document_id q = d \<or> target_document_id q = d)})"
  unfolding pg_list_legal_holds_def pg_list_lifecycle_relationships_def
  by (rule transaction_reads; use row_ex tables_wfD in \<open>fastforce simp: gets_def\<close>)+

lemma pg_check_ready_reads: "reads pg_abs pg_wf pg_check_ready (\<lambda>s u. True)"
  unfolding pg_check_ready_def
  by (rule transaction_reads) (simp add: seq_io_def bind_io_def gets_def ret_def)

lemma pg_size:
  assumes "pg_wf p"
  shows "length (archive_documents (pg_tables p)) = card (dom (st_docs (pg_abs p)))"
proof -
  note d = tables_wfD(1) [OF assms [unfolded pg_wf_def]]
  have "dom (st_docs (pg_abs p)) = document_id ` set (archive_documents (pg_tables p))"
    by (auto simp: pg_abs_def dom_def row_of_None)
  then have "card (dom (st_docs (pg_abs p))) = length (map document_id (archive_documents (pg_tables p)))"
    using distinct_card [OF d] by simp
  then show ?thesis by simp
qed

section \<open>Creation\<close>

definition serves :: "'t database \<Rightarrow> bool" where
  "serves p \<longleftrightarrow> (\<forall>f \<in> set (pg_faults p). \<forall>e. f \<noteq> AnswerLost e)"

lemma transaction_cases:
  assumes "transaction body p = (x, p')"
  obtains (refused) e where "x = Inl e" "pg_tables p' = pg_tables p"
    | (performed) y where "x = Inr y" "body (pg_tables p) = (Inr y, pg_tables p')"
    | (lost) e y where "x = Inl (DriverError e)" "body (pg_tables p) = (Inr y, pg_tables p')"
        "next_fault p = AnswerLost e"
  using assms
  by (cases "next_fault p"; cases "fst (body (pg_tables p))"; cases "body (pg_tables p)")
    (auto simp: transaction_def Let_def)

lemma serves_transaction:
  assumes "transaction body p = (x, p')" "serves p"
  shows "serves p'" "next_fault p \<noteq> AnswerLost e"
proof -
  have "pg_faults p' = tl (pg_faults p)"
    using assms(1) by (auto simp: transaction_def Let_def split: fault.splits prod.splits sum.splits)
  then show "serves p'" using assms(2) by (cases "pg_faults p") (auto simp: serves_def)
  show "next_fault p \<noteq> AnswerLost e"
    using assms(2) by (cases "pg_faults p") (auto simp: serves_def next_fault_def)
qed

lemma sql_save_document_run:
  assumes wf: "tables_wf t" and run: "sql_save_document m t = (Inr n, t')" and n: "n \<noteq> 0"
  shows "tables_wf t'" "tables_abs t' = spec_save m (tables_abs t)"
    "st_docs (tables_abs t) (document_id m) = None
       \<and> (\<forall>k \<in> set (archive_documents t). archive_request_id k \<noteq> archive_request_id m)
     \<or> st_docs (tables_abs t) (document_id m) = Some (untimed m)"
proof -
  let ?rows = "archive_documents t"
  have find: "List.find (\<lambda>n. document_id n = document_id m) ?rows = row_of document_id ?rows (document_id m)"
    by (simp add: row_of_def)
  have "tables_wf t' \<and> tables_abs t' = spec_save m (tables_abs t)
    \<and> (st_docs (tables_abs t) (document_id m) = None
       \<and> (\<forall>k \<in> set ?rows. archive_request_id k \<noteq> archive_request_id m)
     \<or> st_docs (tables_abs t) (document_id m) = Some (untimed m))"
  proof (cases "row_of document_id ?rows (document_id m)")
    case (Some k)
    let ?f = "\<lambda>k. k\<lparr>updated_at := updated_at m\<rparr>"
    have same: "untimed k = untimed m" and t': "t' = t\<lparr>archive_documents :=
        update_rows (\<lambda>k. document_id k = document_id m) ?f ?rows\<rparr>"
      using run n Some by (auto simp: sql_save_document_def find split: if_splits)
    have "update_rows (\<lambda>k. document_id k = document_id m) ?f ?rows = upsert document_id (?f k) ?rows"
      using update_matched [OF tables_wfD(1) [OF wf] Some, of "\<lambda>_. True" ?f] row_document_id [OF Some]
      by simp
    then have t'': "t' = put_row (?f k) t" using t' by (simp add: put_row_def)
    show ?thesis
      unfolding t'' using wf Some same row_document_id [OF Some]
      by (simp add: put_row_abs spec_save_def)
  next
    case None
    then have t': "t' = t\<lparr>archive_documents := ?rows @ [m]\<rparr>"
      and new: "\<forall>k \<in> set ?rows. archive_request_id k \<noteq> archive_request_id m"
      using run by (auto simp: sql_save_document_def find split: if_splits)
    have "t' = put_row m t" using None t' by (simp add: put_row_def upsert_def row_of_None)
    then show ?thesis using wf None new by (simp add: put_row_abs spec_save_def)
  qed
  then show "tables_wf t'" "tables_abs t' = spec_save m (tables_abs t)"
    "st_docs (tables_abs t) (document_id m) = None
       \<and> (\<forall>k \<in> set (archive_documents t). archive_request_id k \<noteq> archive_request_id m)
     \<or> st_docs (tables_abs t) (document_id m) = Some (untimed m)" by blast+
qed

lemma sql_save_admitted:
  assumes wf: "tables_wf t" and inv: "archive_inv (tables_abs t)"
    and run: "sql_save_document m t = (Inr n, t')" "n \<noteq> 0"
  shows "save_admitted (tables_abs t) m"
  unfolding save_admitted_def
proof (intro conjI allI impI)
  note new = sql_save_document_run(3) [OF wf run]
  show "st_docs (tables_abs t) (document_id m) = None \<or> st_docs (tables_abs t) (document_id m) = Some (untimed m)"
    using new by blast
  fix e n assume en: "st_docs (tables_abs t) e = Some n" "archive_request_id n = archive_request_id m"
  obtain k where k: "row_of document_id (archive_documents t) e = Some k" "n = untimed k"
    using en(1) by auto
  have k2: "k \<in> set (archive_documents t)" using row_of_key [OF k(1)] by blast
  have "archive_request_id k = archive_request_id m" using en(2) k(2) by simp
  with new k2 have "st_docs (tables_abs t) (document_id m) = Some (untimed m)" by blast
  moreover have "identity_wf (tables_abs t)" using inv by (simp add: archive_inv_def)
  ultimately show "e = document_id m"
    using en unfolding identity_wf_def by (metis untimed_sel(15))
qed

lemma save_transaction:
  assumes wf: "pg_wf p" and inv: "archive_inv (pg_abs p)"
    and run: "transaction (bind_io (sql_save_document m)
       (\<lambda>rowcount. if rowcount = 0 then raise HistoricalIntegrityError else skip_io)) p = (x, p')"
  shows "pg_wf p' \<and> (case x of
      Inl _ \<Rightarrow> pg_abs p' = pg_abs p \<or> save_admitted (pg_abs p) m \<and> pg_abs p' = spec_save m (pg_abs p)
    | Inr _ \<Rightarrow> save_admitted (pg_abs p) m \<and> pg_abs p' = spec_save m (pg_abs p))"
    and "serves p \<Longrightarrow> x = Inl e \<Longrightarrow> pg_abs p' = pg_abs p"
proof -
  let ?body = "bind_io (sql_save_document m)
       (\<lambda>rowcount. if rowcount = 0 then raise HistoricalIntegrityError else skip_io)"
  have saved: "pg_wf p' \<and> save_admitted (pg_abs p) m \<and> pg_abs p' = spec_save m (pg_abs p)"
    if body: "?body (pg_tables p) = (Inr y, pg_tables p')" for y
  proof -
    obtain n t where n: "sql_save_document m (pg_tables p) = (Inr n, t)"
      "(if n = 0 then raise HistoricalIntegrityError else skip_io) t = (Inr y, pg_tables p')"
      by (rule bind_io_cases [OF body]) auto
    then have "n \<noteq> 0" "t = pg_tables p'"
      by (auto simp: raise_def skip_io_def ret_def split: if_splits)
    with n(1) show ?thesis
      using sql_save_document_run(1,2) [of "pg_tables p" m n t] sql_save_admitted [of "pg_tables p" m n t] wf inv
      by (simp add: pg_wf_def pg_abs_def)
  qed
  show "pg_wf p' \<and> (case x of
      Inl _ \<Rightarrow> pg_abs p' = pg_abs p \<or> save_admitted (pg_abs p) m \<and> pg_abs p' = spec_save m (pg_abs p)
    | Inr _ \<Rightarrow> save_admitted (pg_abs p) m \<and> pg_abs p' = spec_save m (pg_abs p))"
    using run
  proof (cases rule: transaction_cases)
    case (refused e)
    then show ?thesis using wf by (simp add: pg_wf_def pg_abs_def)
  next
    case (performed y)
    then show ?thesis using saved by simp
  next
    case (lost e y)
    then show ?thesis using saved by simp
  qed
  show "pg_abs p' = pg_abs p" if "serves p" "x = Inl e"
    using run
  proof (cases rule: transaction_cases)
    case (lost e' y)
    then show ?thesis using serves_transaction(2) [OF run that(1)] by blast
  qed (use that in \<open>simp_all add: pg_abs_def\<close>)
qed

lemma pg_save_contract:
  assumes wf: "pg_wf p" and inv: "archive_inv (pg_abs p)" and run: "pg_save m p = (x, p')"
  shows "pg_wf p' \<and> (case x of
      Inl _ \<Rightarrow> pg_abs p' = pg_abs p \<or> save_admitted (pg_abs p) m \<and> pg_abs p' = spec_save m (pg_abs p)
    | Inr y \<Rightarrow> untimed y = untimed m \<and> save_admitted (pg_abs p) m \<and> pg_abs p' = spec_save m (pg_abs p))"
    and "serves p \<Longrightarrow> x = Inl e \<Longrightarrow> pg_abs p' = pg_abs p"
proof -
  let ?T = "transaction (bind_io (sql_save_document m) (\<lambda>rowcount.
             if rowcount = 0 then raise HistoricalIntegrityError else skip_io))"
  let ?h = "\<lambda>e. if e = unique_violation
               then raise (DuplicateArchiveRequestConflict
                 ''archive request or storage key already belongs to another document'')
               else raise e :: (postgres, unit) io"
  obtain y p1 where get: "pg_get_by_archive_request_id (archive_request_id m) p = (y, p1)"
    by (cases "pg_get_by_archive_request_id (archive_request_id m) p")
  have p1: "pg_wf p1" "pg_abs p1 = pg_abs p"
    using pg_get_by_archive_request_id_reads [unfolded reads_def, rule_format, OF wf inv, of "archive_request_id m"]
    by (simp_all add: get)
  have ser: "serves p1" if "serves p"
    using serves_transaction(1) [OF get [unfolded pg_get_by_archive_request_id_def pg_fetch_document_def] that] .
  obtain z p2 where T: "?T p1 = (z, p2)" by (cases "?T p1")
  note st = save_transaction [OF p1(1) _ T, unfolded p1(2), OF inv]
  have out: "x = Inr m \<and> p' = p2 \<and> z = Inr () \<or> (\<exists>e. x = Inl e) \<and> p' = p1
      \<or> (\<exists>e e'. x = Inl e \<and> z = Inl e') \<and> p' = p2"
    using run get T
    by (cases y; cases z)
      (auto simp: pg_save_def bind_io_def seq_io_def try_except_def raise_def ret_def split: if_splits option.splits)
  show "pg_wf p' \<and> (case x of
      Inl _ \<Rightarrow> pg_abs p' = pg_abs p \<or> save_admitted (pg_abs p) m \<and> pg_abs p' = spec_save m (pg_abs p)
    | Inr y \<Rightarrow> untimed y = untimed m \<and> save_admitted (pg_abs p) m \<and> pg_abs p' = spec_save m (pg_abs p))"
    using out st(1) p1 by (elim disjE conjE exE) simp_all
  show "pg_abs p' = pg_abs p" if "serves p" "x = Inl e"
    using out st(2) [OF ser [OF that(1)]] p1 that(2) by (elim disjE conjE exE) simp_all
qed

section \<open>Lifecycle transitions\<close>

lemma lock_pair_run:
  assumes "row_of document_id (archive_documents t) src = Some a"
    "row_of document_id (archive_documents t) tgt = Some b"
  shows "lock_pair src tgt t = (Inr (a, b), t)"
  using assms by (simp add: lock_pair_def lock_document_def bind_io_def ret_def)

lemma lock_pair_missing:
  assumes "row_of document_id (archive_documents t) src = None
    \<or> row_of document_id (archive_documents t) tgt = None"
  shows "lock_pair src tgt t = (Inl DocumentNotFoundError, t)"
  using assms by (auto simp: lock_pair_def lock_document_def bind_io_def ret_def raise_def split: option.split)

text \<open>What the block of \<open>apply_lifecycle_transition\<close> may do to the tables.\<close>

definition link_done ::
    "string \<Rightarrow> string \<Rightarrow> lifecycle_transition_type \<Rightarrow> lifecycle_relationship \<Rightarrow> archive_state
      \<Rightarrow> lifecycle_relationship \<times> document_metadata \<times> document_metadata \<Rightarrow> archive_state \<Rightarrow> bool" where
  "link_done src tgt ty rel s out s' \<longleftrightarrow> (case out of (rel', a, b) \<Rightarrow>
     (transition_replayed s src tgt ty rel' \<and> s' = s
      \<or> rel' = rel \<and> admissible_link s src tgt ty rel \<and> s' = link_documents src tgt ty rel s)
     \<and> st_docs s' src = Some (untimed a) \<and> st_docs s' tgt = Some (untimed b))"

definition link_block ::
    "string \<Rightarrow> string \<Rightarrow> lifecycle_transition_type \<Rightarrow> lifecycle_relationship \<Rightarrow> instant
      \<Rightarrow> (tables, lifecycle_relationship \<times> document_metadata option \<times> document_metadata option) io" where
  "link_block src tgt ty rel now = bind_io (lock_pair src tgt) (\<lambda>(source, target). bind_io
       (if transition_pointers_agree source target ty
        then gets (\<lambda>t. List.find (\<lambda>q. source_document_id q = src \<and> target_document_id q = tgt
                                    \<and> transition_type q = ty) (archive_lifecycle_relationships t))
        else ret None)
       (\<lambda>existing. case existing of
          Some q \<Rightarrow> ret (q, Some source, Some target)
        | None \<Rightarrow> seq_io (of_result (validate_lifecycle_preconditions source target))
            (try_except
              (bind_io
                (sql_update_documents (\<lambda>m. document_id m = src)
                   (\<lambda>m. m\<lparr>superseded_by_document_id := Some tgt, updated_at := now\<rparr>))
                (\<lambda>source_row. bind_io
                  (sql_update_documents (\<lambda>m. document_id m = tgt)
                     (\<lambda>m. (set_origin_field ty src m)\<lparr>updated_at := now\<rparr>))
                  (\<lambda>target_row. seq_io (sql_save_lifecycle rel)
                     (ret (rel, source_row, target_row)))))
              (\<lambda>e. if e = unique_violation
                   then raise (SupersessionConflictError
                     ''document already has a recorded lifecycle relationship'')
                   else raise e))))"

lemma pg_apply_eq:
  "pg_apply_lifecycle_transition src tgt ty rel now =
     bind_io (transaction (link_block src tgt ty rel now))
       (\<lambda>(q, source_row, target_row). case (source_row, target_row) of
          (Some a, Some b) \<Rightarrow> ret (q, a, b)
        | _ \<Rightarrow> raise DocumentNotFoundError)"
  by (simp add: pg_apply_lifecycle_transition_def link_block_def)

lemma sql_save_lifecycle_abs:
  assumes wf: "tables_wf t" and run: "sql_save_lifecycle rel t = (Inr u, t')"
  shows "tables_wf t'" "archive_documents t' = archive_documents t"
    "tables_abs t' = (tables_abs t)\<lparr>st_rels := (st_rels (tables_abs t))(lifecycle_relationship_id rel \<mapsto> rel)\<rparr>"
proof -
  have t': "t' = t\<lparr>archive_lifecycle_relationships :=
      upsert lifecycle_relationship_id rel (archive_lifecycle_relationships t)\<rparr>"
    using run by (simp add: sql_save_lifecycle_def split: if_splits)
  show "tables_wf t'" "archive_documents t' = archive_documents t"
    "tables_abs t' = (tables_abs t)\<lparr>st_rels := (st_rels (tables_abs t))(lifecycle_relationship_id rel \<mapsto> rel)\<rparr>"
    using wf unfolding t' by (simp_all add: tables_wf_def upsert_keyed tables_abs_def)
qed

lemma bind_accepted: "bind_io (of_result (Inr u)) f = f u"
  by (simp add: bind_io_def of_result_def)

lemma link_block_sound:
  assumes wf: "tables_wf t" and inv: "archive_inv (tables_abs t)"
    and fresh: "fresh_link src tgt ty rel (tables_abs t)"
    and run: "link_block src tgt ty rel now t = (Inr y, t')"
  shows "\<exists>q a b. y = (q, Some a, Some b) \<and> tables_wf t'
    \<and> link_done src tgt ty rel (tables_abs t) (q, a, b) (tables_abs t')"
proof (cases "row_of document_id (archive_documents t) src = None
    \<or> row_of document_id (archive_documents t) tgt = None")
  case True
  then show ?thesis using run lock_pair_missing [OF True] by (simp add: link_block_def bind_io_def)
next
  case False
  then obtain a b where a: "row_of document_id (archive_documents t) src = Some a"
    and b: "row_of document_id (archive_documents t) tgt = Some b" by auto
  let ?P = "\<lambda>q. source_document_id q = src \<and> target_document_id q = tgt \<and> transition_type q = ty"
  let ?found = "if transition_pointers_agree a b ty
      then List.find ?P (archive_lifecycle_relationships t) else None"
  show ?thesis
  proof (cases ?found)
    case (Some q)
    then have q: "List.find ?P (archive_lifecycle_relationships t) = Some q" "transition_pointers_agree a b ty"
      by (simp_all split: if_splits)
    then have "transition_replayed (tables_abs t) src tgt ty q"
      using row_ex [OF tables_wfD(3) [OF wf]] by (auto simp: transition_replayed_def find_Some_iff)
    moreover have "y = (q, Some a, Some b)" "t' = t"
      using run q by (simp_all add: link_block_def lock_pair_run [OF a b] bind_io_def gets_def ret_def)
    ultimately show ?thesis using wf a b by (simp add: link_done_def)
  next
    case None
    let ?f = "\<lambda>m. m\<lparr>superseded_by_document_id := Some tgt, updated_at := now\<rparr>"
    let ?g = "\<lambda>m. (set_origin_field ty src m)\<lparr>updated_at := now\<rparr>"
    let ?ex = "if transition_pointers_agree a b ty then gets (\<lambda>t. List.find ?P (archive_lifecycle_relationships t)) else ret None"
    have ex: "?ex t = (Inr None, t)" using None by (auto simp: gets_def ret_def split: if_splits)
    obtain u where acc: "validate_lifecycle_preconditions a b = Inr u"
      using run None
      by (cases "validate_lifecycle_preconditions a b")
        (auto simp: link_block_def lock_pair_run [OF a b] bind_io_def gets_def ret_def seq_io_def
          of_result_def split: if_splits)
    have acc': "accepted (validate_lifecycle_preconditions (untimed a) (untimed b))" using acc by simp
    then have adm: "admissible_link (tables_abs t) src tgt ty rel"
      using a b fresh unfolding admissible_link_def fresh_link_def by auto
    have ida: "document_id a = src" and idb: "document_id b = tgt" using row_document_id a b by blast+
    with acc' have ne: "src \<noteq> tgt" by simp
    let ?t1 = "put_row (?f a) t"
    have s1: "sql_update_documents (\<lambda>m. document_id m = src) ?f t = (Inr (Some (?f a)), ?t1)"
      by (rule upd(4) [OF wf a]) (simp add: ida)
    have wf1: "tables_wf ?t1" by (simp add: wf)
    have b1: "row_of document_id (archive_documents ?t1) tgt = Some b"
      using ne b ida by (simp add: put_row_docs [OF wf])
    let ?t2 = "put_row (?g b) ?t1"
    have s2: "sql_update_documents (\<lambda>m. document_id m = tgt) ?g ?t1 = (Inr (Some (?g b)), ?t2)"
      by (rule upd(4) [OF wf1 b1]) (simp add: idb)
    have wf2: "tables_wf ?t2" by (simp add: wf1)
    have "y = (rel, Some (?f a), Some (?g b)) \<and> (\<exists>v. sql_save_lifecycle rel ?t2 = (Inr v, t'))"
    proof -
      obtain w t3 where w: "sql_save_lifecycle rel ?t2 = (w, t3)" by (cases "sql_save_lifecycle rel ?t2")
      show ?thesis
        using run unfolding link_block_def
        by (cases w)
          (auto simp: run_bind_Inr [where m = "lock_pair src tgt", OF lock_pair_run [OF a b]]
            run_bind_Inr [where m = ?ex, OF ex] acc bind_accepted try_except_def
            run_bind_Inr [where m = "sql_update_documents (\<lambda>m. document_id m = src) ?f", OF s1]
            run_bind_Inr [where m = "sql_update_documents (\<lambda>m. document_id m = tgt) ?g", OF s2]
            seq_io_def bind_io_def [of "sql_save_lifecycle rel"] w ret_def raise_def split: if_splits)
    qed
    then obtain v where y: "y = (rel, Some (?f a), Some (?g b))" and s3: "sql_save_lifecycle rel ?t2 = (Inr v, t')"
      by blast
    note s3a = sql_save_lifecycle_abs [OF wf2 s3]
    have "tables_abs t' = link_documents src tgt ty rel (tables_abs t)"
      unfolding s3a(3) using a b ne ida idb
      by (simp add: put_row_abs wf link_documents_def put_doc_def)
    moreover have "st_docs (tables_abs t') src = Some (untimed (?f a))"
      "st_docs (tables_abs t') tgt = Some (untimed (?g b))"
      using ne ida idb by (simp_all add: s3a(2) put_row_docs wf)
    ultimately have "link_done src tgt ty rel (tables_abs t) (rel, ?f a, ?g b) (tables_abs t')"
      using adm by (simp only: link_done_def prod.case simp_thms)
    then show ?thesis unfolding y using s3a(1) by blast
  qed
qed

lemma pg_link_contract:
  assumes wf: "pg_wf p" and inv: "archive_inv (pg_abs p)" and fresh: "fresh_link src tgt ty rel (pg_abs p)"
    and run: "pg_apply_lifecycle_transition src tgt ty rel now p = (z, p')"
  shows "pg_wf p' \<and> (case z of
      Inl _ \<Rightarrow> pg_abs p' = pg_abs p
        \<or> admissible_link (pg_abs p) src tgt ty rel \<and> pg_abs p' = link_documents src tgt ty rel (pg_abs p)
    | Inr out \<Rightarrow> link_done src tgt ty rel (pg_abs p) out (pg_abs p'))"
proof -
  obtain x p1 where T: "transaction (link_block src tgt ty rel now) p = (x, p1)"
    by (cases "transaction (link_block src tgt ty rel now) p")
  have block: "\<exists>q a b. y = (q, Some a, Some b) \<and> pg_wf p1
      \<and> link_done src tgt ty rel (pg_abs p) (q, a, b) (pg_abs p1)"
    if "link_block src tgt ty rel now (pg_tables p) = (Inr y, pg_tables p1)" for y
    using link_block_sound [OF _ _ _ that] wf inv fresh by (simp add: pg_wf_def pg_abs_def)
  show ?thesis
    using T
  proof (cases rule: transaction_cases)
    case (refused e)
    then have "z = Inl e" "p' = p1" using run T by (simp_all add: pg_apply_eq bind_io_def)
    with refused wf show ?thesis by (simp add: pg_wf_def pg_abs_def)
  next
    case (performed y)
    then obtain q a b where y: "y = (q, Some a, Some b)" "pg_wf p1"
      "link_done src tgt ty rel (pg_abs p) (q, a, b) (pg_abs p1)" using block by blast
    then have "z = Inr (q, a, b)" "p' = p1"
      using run T performed(1) by (simp_all add: pg_apply_eq bind_io_def ret_def)
    with y show ?thesis by simp
  next
    case (lost e y)
    then obtain q a b where y: "pg_wf p1" "link_done src tgt ty rel (pg_abs p) (q, a, b) (pg_abs p1)"
      using block by blast
    moreover have "z = Inl (DriverError e)" "p' = p1"
      using run T lost(1) by (simp_all add: pg_apply_eq bind_io_def)
    ultimately show ?thesis by (auto simp: link_done_def)
  qed
qed

section \<open>The contract\<close>

lemma postgres_ops_sel [simp]:
  "repo_check_ready postgres_ops = pg_check_ready"
  "repo_get_by_document_id postgres_ops = pg_get_by_document_id"
  "repo_get_by_document_ids postgres_ops = pg_get_by_document_ids"
  "repo_get_by_checksum postgres_ops = pg_get_by_checksum"
  "repo_get_by_archive_request_id postgres_ops = pg_get_by_archive_request_id"
  "repo_save postgres_ops = pg_save" "repo_begin_purge postgres_ops = pg_begin_purge"
  "repo_admit_and_record_legal_hold postgres_ops = pg_admit_and_record_legal_hold"
  "repo_release_and_record_legal_hold postgres_ops = pg_release_and_record_legal_hold"
  "repo_mark_purge_eligible postgres_ops = pg_mark_purge_eligible"
  "repo_mark_purge_not_eligible postgres_ops = pg_mark_purge_not_eligible"
  "repo_complete_purge postgres_ops = pg_complete_purge"
  "repo_refresh_legal_hold_summary postgres_ops = pg_refresh_legal_hold_summary"
  "repo_list_legal_holds postgres_ops = pg_list_legal_holds"
  "repo_apply_lifecycle_transition postgres_ops = pg_apply_lifecycle_transition"
  "repo_list_lifecycle_relationships postgres_ops = pg_list_lifecycle_relationships"
  "repo_size postgres_ops p = length (archive_documents (pg_tables p))"
  by (simp_all add: postgres_ops_def)

interpretation pg: document_repository postgres_ops pg_abs pg_wf
proof
  fix r m x r' assume *: "pg_wf r" "archive_inv (pg_abs r)" "repo_save postgres_ops m r = (x, r')"
  show "pg_wf r' \<and> (case x of
      Inl _ \<Rightarrow> pg_abs r' = pg_abs r \<or> save_admitted (pg_abs r) m \<and> pg_abs r' = spec_save m (pg_abs r)
    | Inr y \<Rightarrow> untimed y = untimed m \<and> save_admitted (pg_abs r) m \<and> pg_abs r' = spec_save m (pg_abs r))"
    using pg_save_contract(1) [OF *(1,2), of m x r'] *(3) by simp
next
  fix r src tgt ty rel now z r'
  assume *: "pg_wf r" "archive_inv (pg_abs r)" "fresh_link src tgt ty rel (pg_abs r)"
    "repo_apply_lifecycle_transition postgres_ops src tgt ty rel now r = (z, r')"
  show "pg_wf r' \<and> (case z of
           Inl _ \<Rightarrow> pg_abs r' = pg_abs r
             \<or> admissible_link (pg_abs r) src tgt ty rel \<and> pg_abs r' = link_documents src tgt ty rel (pg_abs r)
         | Inr (rel', a, b) \<Rightarrow>
             (transition_replayed (pg_abs r) src tgt ty rel' \<and> pg_abs r' = pg_abs r
              \<or> rel' = rel \<and> admissible_link (pg_abs r) src tgt ty rel
                 \<and> pg_abs r' = link_documents src tgt ty rel (pg_abs r))
             \<and> st_docs (pg_abs r') src = Some (untimed a) \<and> st_docs (pg_abs r') tgt = Some (untimed b))"
    using pg_link_contract [OF *(1-3), of now z r'] *(4) by (cases z) (simp_all add: link_done_def)
qed (simp_all only: postgres_ops_sel pg_check_ready_reads pg_get_by_document_id_reads
    pg_get_by_document_ids_reads pg_get_by_checksum_reads pg_get_by_archive_request_id_reads pg_list_reads
    pg_begin_purge_refines pg_admit_refines pg_release_refines pg_mark_eligible_refines
    pg_mark_not_eligible_refines pg_complete_purge_refines pg_refresh_refines pg_size)

lemma transaction_serves: "keeps serves (transaction body)"
  unfolding keeps_iff
proof (intro allI impI)
  fix p :: "'a database" assume "serves p"
  then show "serves (snd (transaction body p))"
    using serves_transaction(1) [of body p "fst (transaction body p)" "snd (transaction body p)"] by simp
qed

text \<open>Restricting the states of a repository to a set its operations do not leave.\<close>

lemma refines_restrict:
  assumes "refines absr wfr pre m g f" "keeps J m"
  shows "refines absr (\<lambda>r. wfr r \<and> J r) pre m g f"
  unfolding refines_def
proof (intro allI impI)
  fix r assume *: "wfr r \<and> J r" "archive_inv (absr r)" "pre (absr r)"
  show "case m r of (x, r') \<Rightarrow> (wfr r' \<and> J r')
      \<and> (case x of Inl _ \<Rightarrow> absr r' = absr r \<or> absr r' = snd (f (absr r))
         | Inr y \<Rightarrow> g y = fst (f (absr r)) \<and> absr r' = snd (f (absr r)))"
    using assms(1) [unfolded refines_def, rule_format, of r] keepsD [OF assms(2), of r] *
    by (simp add: split_def)
qed

lemma reads_restrict:
  assumes "reads absr wfr m P" "keeps J m"
  shows "reads absr (\<lambda>r. wfr r \<and> J r) m P"
  unfolding reads_def
proof (intro allI impI)
  fix r assume *: "wfr r \<and> J r" "archive_inv (absr r)"
  show "case m r of (x, r') \<Rightarrow> (wfr r' \<and> J r') \<and> absr r' = absr r
      \<and> (case x of Inl _ \<Rightarrow> True | Inr y \<Rightarrow> P (absr r) y)"
    using assms(1) [unfolded reads_def, rule_format, of r] keepsD [OF assms(2), of r] *
    by (simp add: split_def)
qed

lemmas pg_defs = pg_check_ready_def pg_fetch_document_def pg_get_by_document_id_def
  pg_get_by_document_ids_def pg_get_by_archive_request_id_def pg_get_by_checksum_def pg_save_def
  pg_begin_purge_def pg_admit_and_record_legal_hold_def pg_mark_purge_eligible_def
  pg_mark_purge_not_eligible_def pg_complete_purge_def pg_refresh_legal_hold_summary_def
  pg_release_and_record_legal_hold_def pg_list_legal_holds_def pg_apply_lifecycle_transition_def
  pg_list_lifecycle_relationships_def

lemma pg_keeps_serves:
  "keeps serves pg_check_ready" "keeps serves (pg_get_by_document_id d)"
  "keeps serves (pg_get_by_document_ids ds)" "keeps serves (pg_get_by_archive_request_id q)"
  "keeps serves (pg_get_by_checksum c)" "keeps serves (pg_save m)" "keeps serves (pg_begin_purge d t)"
  "keeps serves (pg_admit_and_record_legal_hold d h now)" "keeps serves (pg_mark_purge_eligible d t now)"
  "keeps serves (pg_mark_purge_not_eligible d now)" "keeps serves (pg_complete_purge d t now)"
  "keeps serves (pg_refresh_legal_hold_summary d now)"
  "keeps serves (pg_release_and_record_legal_hold d i w t y now)"
  "keeps serves (pg_list_legal_holds d)" "keeps serves (pg_list_lifecycle_relationships d)"
  "keeps serves (pg_apply_lifecycle_transition src tgt ty rel now)"
  unfolding pg_defs
  by (auto intro!: wp transaction_serves split: prod.split option.split)

text \<open>As long as no answer is lost, the database-backed repository is reliable.\<close>

interpretation pg_reliable: reliable_repository postgres_ops pg_abs "\<lambda>p. pg_wf p \<and> serves p"
proof
  fix r m x r' assume *: "pg_wf r \<and> serves r" "archive_inv (pg_abs r)" "repo_save postgres_ops m r = (x, r')"
  show "(pg_wf r' \<and> serves r') \<and> (case x of
      Inl _ \<Rightarrow> pg_abs r' = pg_abs r \<or> save_admitted (pg_abs r) m \<and> pg_abs r' = spec_save m (pg_abs r)
    | Inr y \<Rightarrow> untimed y = untimed m \<and> save_admitted (pg_abs r) m \<and> pg_abs r' = spec_save m (pg_abs r))"
    using pg.save [OF _ *(2,3)] keepsD [OF pg_keeps_serves(6), of r m] * by simp
next
  fix r src tgt ty rel now z r'
  assume *: "pg_wf r \<and> serves r" "archive_inv (pg_abs r)" "fresh_link src tgt ty rel (pg_abs r)"
    "repo_apply_lifecycle_transition postgres_ops src tgt ty rel now r = (z, r')"
  show "(pg_wf r' \<and> serves r') \<and> (case z of
           Inl _ \<Rightarrow> pg_abs r' = pg_abs r
             \<or> admissible_link (pg_abs r) src tgt ty rel \<and> pg_abs r' = link_documents src tgt ty rel (pg_abs r)
         | Inr (rel', a, b) \<Rightarrow>
             (transition_replayed (pg_abs r) src tgt ty rel' \<and> pg_abs r' = pg_abs r
              \<or> rel' = rel \<and> admissible_link (pg_abs r) src tgt ty rel
                 \<and> pg_abs r' = link_documents src tgt ty rel (pg_abs r))
             \<and> st_docs (pg_abs r') src = Some (untimed a) \<and> st_docs (pg_abs r') tgt = Some (untimed b))"
    using pg.link [OF _ *(2-4)] keepsD [OF pg_keeps_serves(16), of r src tgt ty rel now] * by simp
next
  fix r m e r'
  assume "pg_wf r \<and> serves r" "archive_inv (pg_abs r)" "repo_save postgres_ops m r = (Inl e, r')"
  then show "pg_abs r' = pg_abs r" using pg_save_contract(2) [of r m "Inl e" r' e] by simp
next
  fix r assume "pg_wf r \<and> serves r"
  then show "repo_size postgres_ops r = card (dom (st_docs (pg_abs r)))" by (simp add: pg_size)
qed (simp_all only: postgres_ops_sel reads_restrict refines_restrict pg_keeps_serves
    pg_check_ready_reads pg_get_by_document_id_reads
    pg_get_by_document_ids_reads pg_get_by_checksum_reads pg_get_by_archive_request_id_reads pg_list_reads
    pg_begin_purge_refines pg_admit_refines pg_release_refines pg_mark_eligible_refines
    pg_mark_not_eligible_refines pg_complete_purge_refines pg_refresh_refines)

end
