(* ===== verification/AccessAudit.thy ===== *)
theory AccessAudit
  imports PostgresContract "HOL-Library.Multiset"
begin

text \<open>
  The access-audit trail: caller context (\<open>src/app/security/caller_context.py\<close>), audit events
  and the in-memory audit repository (\<open>src/app/archive/audit.py\<close>), the database-backed one
  (\<open>PostgresAccessAuditRepository\<close> in \<open>src/app/archive/postgres_repository.py\<close>), and the
  contract both keep: recording appends, and nothing removes.
\<close>

section \<open>Caller context\<close>

record caller_context =
  caller_service :: string
  caller_actor_type :: string
  caller_actor_id :: string
  caller_correlation_id :: string
  caller_tenant_id :: "string option"
  caller_region :: "string option"

definition normalized_headers :: "(string \<times> string) list \<Rightarrow> (string, string) dict" where
  "normalized_headers headers = fold (\<lambda>(k, v) acc. dict_set (py_lower k) (py_strip v) acc) headers []"

definition missing_headers :: "(string, string) dict \<Rightarrow> string list" where
  "missing_headers hs = filter (\<lambda>h. \<not> truthy (dict_get hs h)) [''x-caller-service'', ''x-actor-type'', ''x-actor-id'']"

definition caller_context_from_headers ::
    "(string \<times> string) list \<Rightarrow> string \<Rightarrow> exc + caller_context" where
  "caller_context_from_headers headers correlation =
     (let hs = normalized_headers headers; missing = missing_headers hs in
      if missing \<noteq> [] then Inl (CallerContextMissingError missing)
      else Inr \<lparr>caller_service = the (dict_get hs ''x-caller-service''),
                caller_actor_type = the (dict_get hs ''x-actor-type''),
                caller_actor_id = the (dict_get hs ''x-actor-id''),
                caller_correlation_id = correlation,
                caller_tenant_id = dict_get hs ''x-tenant-id'',
                caller_region = dict_get hs ''x-region''\<rparr>)"

section \<open>Events\<close>

datatype access_event_type =
    ARCHIVE_CREATE | METADATA_READ | BINARY_DOWNLOAD | ACCESS_EVENTS_READ | RETENTION_READ
  | PURGE_EVALUATION | PURGE_EXECUTION | LEGAL_HOLD_SET | LEGAL_HOLD_RELEASE
  | LIFECYCLE_SUPERSEDE | LIFECYCLE_CORRECT | LIFECYCLE_REISSUE | CURRENT_DOCUMENT_READ
  | SOURCE_EVENTS_READ | BATCH_ACCESS_PREFLIGHT | IDEA_LIFECYCLE_DECISION_READ | AUTHORIZATION_DENIED

datatype authorization_decision = AUDIT_ALLOWED | AUDIT_DENIED

record access_audit_event =
  audit_event_id :: string
  audit_document_id :: "string option"
  audit_event_type :: access_event_type
  audit_actor_type :: string
  audit_actor_id :: string
  audit_caller_service :: string
  audit_decision :: authorization_decision
  audit_reason_code :: string
  audit_operation_reason_code :: "string option"
  audit_correlation_id :: string
  audit_trace_id :: string
  audit_created_at :: instant

text \<open>\<open>access_audit_event\<close>, given the identifier it draws and the time it reads.\<close>

definition make_audit_event ::
    "string \<Rightarrow> instant \<Rightarrow> access_event_type \<Rightarrow> caller_context \<Rightarrow> string \<Rightarrow> authorization_decision
      \<Rightarrow> string \<Rightarrow> string option \<Rightarrow> string option \<Rightarrow> access_audit_event" where
  "make_audit_event uuid now ty caller trace decision reason document operation_reason =
     \<lparr>audit_event_id = ''audit_'' @ uuid, audit_document_id = document, audit_event_type = ty,
      audit_actor_type = caller_actor_type caller, audit_actor_id = caller_actor_id caller,
      audit_caller_service = caller_service caller, audit_decision = decision,
      audit_reason_code = reason, audit_operation_reason_code = operation_reason,
      audit_correlation_id = caller_correlation_id caller, audit_trace_id = trace,
      audit_created_at = now\<rparr>"

section \<open>Repositories\<close>

record 'a audit_repository =
  audit_check_ready :: "('a, unit) io"
  audit_record :: "access_audit_event \<Rightarrow> ('a, unit) io"
  audit_list_by_document_id ::
    "string option \<Rightarrow> nat option \<Rightarrow> nat \<Rightarrow> ('a, access_audit_event list) io"
  audit_count_by_document_id :: "string option \<Rightarrow> ('a, nat) io"

definition events_of :: "string option \<Rightarrow> access_audit_event list \<Rightarrow> access_audit_event list" where
  "events_of d es = filter (\<lambda>e. audit_document_id e = d) es"

definition page :: "nat option \<Rightarrow> nat \<Rightarrow> 'x list \<Rightarrow> 'x list" where
  "page limit offset xs =
     (case limit of None \<Rightarrow> drop offset xs | Some n \<Rightarrow> py_slice xs offset (offset + n))"

definition memory_audit :: "access_audit_event list audit_repository" where
  "memory_audit = \<lparr>
     audit_check_ready = ret (),
     audit_record = (\<lambda>e. modify_io (\<lambda>es. es @ [e])),
     audit_list_by_document_id = (\<lambda>d limit offset. gets (\<lambda>es. page limit offset (events_of d es))),
     audit_count_by_document_id = (\<lambda>d. gets (\<lambda>es. length (events_of d es)))\<rparr>"

text \<open>\<open>ORDER BY created_at, audit_event_id LIMIT %s OFFSET %s\<close>\<close>

definition audit_order :: "access_audit_event \<Rightarrow> access_audit_event \<Rightarrow> bool" where
  "audit_order a b \<longleftrightarrow> audit_created_at a < audit_created_at b
     \<or> audit_created_at a = audit_created_at b \<and> audit_event_id a \<le> audit_event_id b"

fun insert_ordered :: "('x \<Rightarrow> 'x \<Rightarrow> bool) \<Rightarrow> 'x \<Rightarrow> 'x list \<Rightarrow> 'x list" where
  "insert_ordered le x [] = [x]"
| "insert_ordered le x (y # ys) = (if le x y then x # y # ys else y # insert_ordered le x ys)"

definition order_by :: "('x \<Rightarrow> 'x \<Rightarrow> bool) \<Rightarrow> 'x list \<Rightarrow> 'x list" where
  "order_by le xs = foldr (insert_ordered le) xs []"

definition postgres_audit :: "access_audit_event list database audit_repository" where
  "postgres_audit = \<lparr>
     audit_check_ready = transaction (seq_io (gets (\<lambda>es. take 1 es)) (ret ())),
     audit_record = (\<lambda>e. transaction (\<lambda>es.
       if audit_event_id e \<in> audit_event_id ` set es then (Inl unique_violation, es)
       else (Inr (), es @ [e]))),
     audit_list_by_document_id = (\<lambda>d limit offset.
       transaction (gets (\<lambda>es. page limit offset (order_by audit_order (events_of d es))))),
     audit_count_by_document_id = (\<lambda>d. transaction (gets (\<lambda>es. length (events_of d es))))\<rparr>"

section \<open>The contract\<close>

text \<open>
  \<open>trail\<close> is the sequence of recorded events. Recording appends the event, or raises having
  appended it or nothing; reading changes nothing; a page is cut from an ordering of exactly
  the document's events, and the count is their number.
\<close>

locale audit_log =
  fixes A :: "'a audit_repository" and trail :: "'a \<Rightarrow> access_audit_event list"
  assumes record_appends: "audit_record A e a = (x, a')
      \<Longrightarrow> trail a' = trail a @ [e] \<or> (\<exists>err. x = Inl err) \<and> trail a' = trail a"
    and list_reads: "audit_list_by_document_id A d limit offset a = (y, a') \<Longrightarrow> trail a' = trail a
      \<and> (\<forall>es. y = Inr es \<longrightarrow> (\<exists>os. mset os = mset (events_of d (trail a)) \<and> es = page limit offset os))"
    and count_reads: "audit_count_by_document_id A d a = (z, a') \<Longrightarrow> trail a' = trail a
      \<and> (\<forall>n. z = Inr n \<longrightarrow> n = length (events_of d (trail a)))"
    and ready_reads: "audit_check_ready A a = (u, a') \<Longrightarrow> trail a' = trail a"
begin

text \<open>The trail only grows, whatever is called.\<close>

lemma record_grows: "\<exists>es. trail (snd (audit_record A e a)) = trail a @ es"
  using record_appends [of e a "fst (audit_record A e a)" "snd (audit_record A e a)"] by auto

lemma reads_keep_trail:
  "trail (snd (audit_list_by_document_id A d limit offset a)) = trail a"
  "trail (snd (audit_count_by_document_id A d a)) = trail a"
  "trail (snd (audit_check_ready A a)) = trail a"
  using list_reads [of d limit offset a] count_reads [of d a] ready_reads [of a]
  by (metis prod.collapse)+

lemma recorded: "audit_record A e a = (Inr u, a') \<Longrightarrow> trail a' = trail a @ [e]"
  using record_appends [of e a "Inr u" a'] by auto

text \<open>A page never shows an event of another document, and never more than asked.\<close>

lemma page_bounded:
  assumes "audit_list_by_document_id A d (Some n) offset a = (Inr es, a')"
  shows "length es \<le> n" "set es \<subseteq> {e. e \<in> set (trail a) \<and> audit_document_id e = d}"
proof -
  obtain os where os: "mset os = mset (events_of d (trail a))" "es = page (Some n) offset os"
    using list_reads [OF assms] by blast
  show "length es \<le> n" using os(2) by (simp add: page_def py_slice_def)
  have "set es \<subseteq> set os" using os(2) by (auto simp: page_def py_slice_def dest: in_set_takeD in_set_dropD)
  also have "set os = set (events_of d (trail a))" using os(1) by (rule mset_eq_setD)
  finally show "set es \<subseteq> {e. e \<in> set (trail a) \<and> audit_document_id e = d}"
    by (auto simp: events_of_def)
qed

end

interpretation mem_audit: audit_log memory_audit "\<lambda>es. es"
  by unfold_locales (auto simp: memory_audit_def modify_io_def gets_def ret_def)

lemma mset_insert_ordered [simp]: "mset (insert_ordered le x xs) = add_mset x (mset xs)"
  by (induction xs) auto

lemma mset_order_by [simp]: "mset (order_by le xs) = mset xs"
  by (induction xs) (simp_all add: order_by_def)

lemma transaction_gets:
  assumes "transaction (gets f) p = (x, p')"
  shows "pg_tables p' = pg_tables p" "x = Inr y \<Longrightarrow> y = f (pg_tables p)"
  using assms by (cases rule: transaction_cases; auto simp: gets_def)+

interpretation pg_audit: audit_log postgres_audit pg_tables
proof
  fix e and a a' :: "access_audit_event list database" and x
  assume "audit_record postgres_audit e a = (x, a')"
  then show "pg_tables a' = pg_tables a @ [e] \<or> (\<exists>err. x = Inl err) \<and> pg_tables a' = pg_tables a"
    unfolding postgres_audit_def audit_repository.select_convs
    by (cases rule: transaction_cases) (auto split: if_splits)
next
  fix d limit offset and a a' :: "access_audit_event list database" and y
  assume "audit_list_by_document_id postgres_audit d limit offset a = (y, a')"
  then show "pg_tables a' = pg_tables a \<and> (\<forall>es. y = Inr es \<longrightarrow>
      (\<exists>os. mset os = mset (events_of d (pg_tables a)) \<and> es = page limit offset os))"
    unfolding postgres_audit_def audit_repository.select_convs
    by (metis transaction_gets mset_order_by)
next
  fix d and a a' :: "access_audit_event list database" and z
  assume "audit_count_by_document_id postgres_audit d a = (z, a')"
  then show "pg_tables a' = pg_tables a \<and> (\<forall>n. z = Inr n \<longrightarrow> n = length (events_of d (pg_tables a)))"
    unfolding postgres_audit_def audit_repository.select_convs by (metis transaction_gets)
next
  fix a a' :: "access_audit_event list database" and u
  assume "audit_check_ready postgres_audit a = (u, a')"
  then show "pg_tables a' = pg_tables a"
    unfolding postgres_audit_def audit_repository.select_convs
    by (cases rule: transaction_cases) (auto simp: seq_io_def bind_io_def gets_def ret_def)
qed

end
