(* ===== verification/World.thy ===== *)
theory World
  imports AccessAudit
begin

text \<open>
  The state a service method runs in: the document repository, the object store, the audit
  trail, the operation metrics, and what the standard library is asked for: successive clock
  readings, successive \<open>uuid4().hex\<close> values, and the local date. The three collaborators stay
  abstract (type parameters); their operations are lifted to the whole state.
\<close>

record metric_sample =
  ms_operation :: string
  ms_status :: string
  ms_failure_category :: string

record ('r, 's, 'a) world =
  w_repo :: 'r
  w_store :: 's
  w_audit :: 'a
  w_clock :: "nat \<Rightarrow> instant"
  w_ticks :: nat
  w_uuids :: "nat \<Rightarrow> string"
  w_drawn :: nat
  w_today :: date
  w_metrics :: "metric_sample list"
  w_sizes :: "(string \<times> nat) list"

definition on_repo :: "('r, 'x) io \<Rightarrow> (('r, 's, 'a) world, 'x) io" where
  "on_repo m w = (case m (w_repo w) of (x, r) \<Rightarrow> (x, w\<lparr>w_repo := r\<rparr>))"

definition on_store :: "('s, 'x) io \<Rightarrow> (('r, 's, 'a) world, 'x) io" where
  "on_store m w = (case m (w_store w) of (x, s) \<Rightarrow> (x, w\<lparr>w_store := s\<rparr>))"

definition on_audit :: "('a, 'x) io \<Rightarrow> (('r, 's, 'a) world, 'x) io" where
  "on_audit m w = (case m (w_audit w) of (x, a) \<Rightarrow> (x, w\<lparr>w_audit := a\<rparr>))"

text \<open>\<open>datetime.now(timezone.utc)\<close>, \<open>uuid4().hex\<close> and \<open>date.today()\<close>\<close>

definition read_clock :: "(('r, 's, 'a) world, instant) io" where
  "read_clock w = (Inr (w_clock w (w_ticks w)), w\<lparr>w_ticks := Suc (w_ticks w)\<rparr>)"

definition draw_uuid :: "(('r, 's, 'a) world, string) io" where
  "draw_uuid w = (Inr (w_uuids w (w_drawn w)), w\<lparr>w_drawn := Suc (w_drawn w)\<rparr>)"

definition read_today :: "(('r, 's, 'a) world, date) io" where
  "read_today = gets w_today"

section \<open>What a lifted operation can change\<close>

lemma keeps_on_repo [wp]: "keeps I m \<Longrightarrow> keeps (\<lambda>w. I (w_repo w)) (on_repo m)"
  by (simp add: keeps_iff on_repo_def split_def)

lemma keeps_on_store [wp]: "keeps I m \<Longrightarrow> keeps (\<lambda>w. I (w_store w)) (on_store m)"
  by (simp add: keeps_iff on_store_def split_def)

lemma keeps_on_audit [wp]: "keeps I m \<Longrightarrow> keeps (\<lambda>w. I (w_audit w)) (on_audit m)"
  by (simp add: keeps_iff on_audit_def split_def)

text \<open>A property of the three collaborators does not depend on clock, identifiers or metrics.\<close>

lemma keeps_store_only [wp]:
  "keeps (\<lambda>w. I (w_repo w)) (on_store k)" "keeps (\<lambda>w. I (w_repo w)) (on_audit n)"
  "keeps (\<lambda>w. J (w_store w)) (on_repo m)" "keeps (\<lambda>w. J (w_store w)) (on_audit n)"
  "keeps (\<lambda>w. K (w_audit w)) (on_repo m)" "keeps (\<lambda>w. K (w_audit w)) (on_store k)"
  by (simp_all add: keeps_iff on_repo_def on_store_def on_audit_def split_def)

lemma keeps_reads [wp]:
  "keeps (\<lambda>w. I (w_repo w)) read_clock" "keeps (\<lambda>w. I (w_repo w)) draw_uuid" "keeps (\<lambda>w. I (w_repo w)) read_today"
  "keeps (\<lambda>w. J (w_store w)) read_clock" "keeps (\<lambda>w. J (w_store w)) draw_uuid" "keeps (\<lambda>w. J (w_store w)) read_today"
  "keeps (\<lambda>w. K (w_audit w)) read_clock" "keeps (\<lambda>w. K (w_audit w)) draw_uuid" "keeps (\<lambda>w. K (w_audit w)) read_today"
  by (simp_all add: keeps_iff read_clock_def draw_uuid_def read_today_def gets_def)

lemma keeps_conj [wp]: "keeps I m \<Longrightarrow> keeps J m \<Longrightarrow> keeps (\<lambda>w. I w \<and> J w) m"
  by (simp add: keeps_iff)

end
