(* ===== verification/Authorization.thy ===== *)
theory Authorization
  imports World
begin

text \<open>
  Who may do what: the caller permissions and the tenant and region scope of
  \<open>src/app/archive/authorization.py\<close>, with the audited refusals, and the decisions of the
  batch access preflight in \<open>src/app/archive/access_preflight.py\<close>.
\<close>

section \<open>Access decisions\<close>

datatype access_state = ALLOWED | DENIED | UNAVAILABLE

fun access_state_value :: "access_state \<Rightarrow> string" where
  "access_state_value ALLOWED = ''allowed''"
| "access_state_value DENIED = ''denied''"
| "access_state_value UNAVAILABLE = ''unavailable''"

datatype access_reason =
    ACCESS_ALLOWED | CALLER_SCOPE_MISMATCH | DOCUMENT_NOT_FOUND | DOCUMENT_PURGED
  | DOCUMENT_SCOPE_UNAVAILABLE | LOOKUP_UNAVAILABLE | NOT_ACCESSIBLE

fun access_reason_value :: "access_reason \<Rightarrow> string" where
  "access_reason_value ACCESS_ALLOWED = ''access_allowed''"
| "access_reason_value CALLER_SCOPE_MISMATCH = ''caller_scope_mismatch''"
| "access_reason_value DOCUMENT_NOT_FOUND = ''document_not_found''"
| "access_reason_value DOCUMENT_PURGED = ''document_purged''"
| "access_reason_value DOCUMENT_SCOPE_UNAVAILABLE = ''document_scope_unavailable''"
| "access_reason_value LOOKUP_UNAVAILABLE = ''lookup_unavailable''"
| "access_reason_value NOT_ACCESSIBLE = ''not_accessible''"

definition EXISTENCE_REVEALING_REASON_CODES :: "access_reason set" where
  "EXISTENCE_REVEALING_REASON_CODES = {DOCUMENT_NOT_FOUND, CALLER_SCOPE_MISMATCH, DOCUMENT_SCOPE_UNAVAILABLE}"

definition RESPONSE_REASON_CODES :: "access_reason set" where
  "RESPONSE_REASON_CODES = {ACCESS_ALLOWED, NOT_ACCESSIBLE, LOOKUP_UNAVAILABLE, DOCUMENT_PURGED}"

record access_decision =
  decision_state :: access_state
  decision_reason :: access_reason

datatype archive_permission =
    CREATE_DOCUMENT | READ_METADATA | DOWNLOAD_BINARY | READ_ACCESS_EVENTS | READ_RETENTION
  | EVALUATE_PURGE | EXECUTE_PURGE | MANAGE_LEGAL_HOLD | MANAGE_LIFECYCLE
  | READ_IDEA_LIFECYCLE_DECISION | READ_BATCH_ACCESS_PREFLIGHT

fun permission_value :: "archive_permission \<Rightarrow> string" where
  "permission_value CREATE_DOCUMENT = ''create_document''"
| "permission_value READ_METADATA = ''read_metadata''"
| "permission_value DOWNLOAD_BINARY = ''download_binary''"
| "permission_value READ_ACCESS_EVENTS = ''read_access_events''"
| "permission_value READ_RETENTION = ''read_retention''"
| "permission_value EVALUATE_PURGE = ''evaluate_purge''"
| "permission_value EXECUTE_PURGE = ''execute_purge''"
| "permission_value MANAGE_LEGAL_HOLD = ''manage_legal_hold''"
| "permission_value MANAGE_LIFECYCLE = ''manage_lifecycle''"
| "permission_value READ_IDEA_LIFECYCLE_DECISION = ''read_idea_lifecycle_decision''"
| "permission_value READ_BATCH_ACCESS_PREFLIGHT = ''read_batch_access_preflight''"

section \<open>Policy\<close>

record authorization_policy =
  create_callers :: "string list"
  read_callers :: "string list"
  audit_callers :: "string list"
  retention_callers :: "string list"
  purge_callers :: "string list"
  legal_hold_callers :: "string list"
  lifecycle_callers :: "string list"
  idea_lifecycle_decision_callers :: "string list"
  batch_access_preflight_callers :: "string list"

definition default_policy :: authorization_policy where
  "default_policy = \<lparr>
     create_callers = [''lotus-render''],
     read_callers = [''lotus-report'', ''lotus-gateway''],
     audit_callers = [''lotus-report''],
     retention_callers = [''lotus-report''],
     purge_callers = [''lotus-report''],
     legal_hold_callers = [''lotus-report''],
     lifecycle_callers = [''lotus-report''],
     idea_lifecycle_decision_callers = [''lotus-idea'', ''lotus-report''],
     batch_access_preflight_callers = [''lotus-gateway'']\<rparr>"

definition allowed_callers_for :: "authorization_policy \<Rightarrow> archive_permission \<Rightarrow> string list" where
  "allowed_callers_for policy permission =
     (if permission = CREATE_DOCUMENT then create_callers policy
      else if permission \<in> {READ_METADATA, DOWNLOAD_BINARY} then read_callers policy
      else if permission = READ_RETENTION then retention_callers policy
      else if permission \<in> {EVALUATE_PURGE, EXECUTE_PURGE} then purge_callers policy
      else if permission = MANAGE_LEGAL_HOLD then legal_hold_callers policy
      else if permission = MANAGE_LIFECYCLE then lifecycle_callers policy
      else if permission = READ_IDEA_LIFECYCLE_DECISION then idea_lifecycle_decision_callers policy
      else if permission = READ_BATCH_ACCESS_PREFLIGHT then batch_access_preflight_callers policy
      else audit_callers policy)"

text \<open>
  \<open>document_tenant_scope_decision\<close>: only the tenant and the region of the document are read,
  so it takes both from whichever record carries them.
\<close>

definition tenant_scope_decision :: "string \<Rightarrow> string \<Rightarrow> caller_context \<Rightarrow> access_decision" where
  "tenant_scope_decision tenant document_region caller =
     (if \<not> truthy (caller_tenant_id caller) \<or> \<not> truthy (caller_region caller)
      then \<lparr>decision_state = DENIED, decision_reason = CALLER_SCOPE_MISMATCH\<rparr>
      else if tenant = [] \<or> document_region = []
      then \<lparr>decision_state = UNAVAILABLE, decision_reason = DOCUMENT_SCOPE_UNAVAILABLE\<rparr>
      else if Some tenant \<noteq> caller_tenant_id caller
              \<or> py_lower document_region \<noteq> py_lower (the (caller_region caller))
      then \<lparr>decision_state = DENIED, decision_reason = CALLER_SCOPE_MISMATCH\<rparr>
      else \<lparr>decision_state = ALLOWED, decision_reason = ACCESS_ALLOWED\<rparr>)"

definition document_tenant_scope_decision :: "'m document_input_scheme \<Rightarrow> caller_context \<Rightarrow> access_decision" where
  "document_tenant_scope_decision m caller = tenant_scope_decision (tenant_id m) (region m) caller"

definition document_scope_decision :: "document_metadata \<Rightarrow> caller_context \<Rightarrow> access_decision" where
  "document_scope_decision m caller =
     (let tenant_decision = document_tenant_scope_decision m caller in
      if decision_state tenant_decision \<noteq> ALLOWED then tenant_decision
      else if purge_status m = PURGED
      then \<lparr>decision_state = UNAVAILABLE, decision_reason = DOCUMENT_PURGED\<rparr>
      else \<lparr>decision_state = ALLOWED, decision_reason = ACCESS_ALLOWED\<rparr>)"

definition missing_scope :: "caller_context \<Rightarrow> string list" where
  "missing_scope caller =
     (if truthy (caller_tenant_id caller) then [] else [''x-tenant-id''])
     @ (if truthy (caller_region caller) then [] else [''x-region''])"

definition require_caller_scope :: "caller_context \<Rightarrow> exc + unit" where
  "require_caller_scope caller =
     (if missing_scope caller \<noteq> [] then Inl (CallerScopeMissingError (missing_scope caller)) else Inr ())"

section \<open>Enforcement\<close>

definition record_access ::
    "'a audit_repository \<Rightarrow> access_event_type \<Rightarrow> caller_context \<Rightarrow> string \<Rightarrow> authorization_decision
      \<Rightarrow> string \<Rightarrow> string option \<Rightarrow> string option \<Rightarrow> (('r, 's, 'a) world, unit) io" where
  "record_access A ty caller trace decision reason document operation_reason =
     bind_io draw_uuid (\<lambda>u. bind_io read_clock (\<lambda>now.
       on_audit (audit_record A (make_audit_event u now ty caller trace decision reason document operation_reason))))"

definition refuse ::
    "'a audit_repository \<Rightarrow> caller_context \<Rightarrow> string \<Rightarrow> string \<Rightarrow> string option \<Rightarrow> exc
      \<Rightarrow> (('r, 's, 'a) world, unit) io" where
  "refuse A caller trace reason document e =
     seq_io (record_access A AUTHORIZATION_DENIED caller trace AUDIT_DENIED reason document None) (raise e)"

definition authorize ::
    "authorization_policy \<Rightarrow> 'a audit_repository \<Rightarrow> archive_permission \<Rightarrow> caller_context \<Rightarrow> string
      \<Rightarrow> string option \<Rightarrow> (('r, 's, 'a) world, unit) io" where
  "authorize policy A permission caller trace document =
     (if caller_service caller \<in> set (allowed_callers_for policy permission) then skip_io
      else refuse A caller trace (permission_value permission @ ''_caller_not_allowed'') document
             (AuthorizationFailedError (permission_value permission @ ''_caller_not_allowed'')))"

definition require_audited_caller_scope ::
    "'a audit_repository \<Rightarrow> caller_context \<Rightarrow> string \<Rightarrow> string option \<Rightarrow> (('r, 's, 'a) world, unit) io" where
  "require_audited_caller_scope A caller trace document =
     (case require_caller_scope caller of
        Inr _ \<Rightarrow> skip_io
      | Inl e \<Rightarrow> refuse A caller trace ''caller_scope_missing'' document e)"

definition enforce_decision ::
    "'a audit_repository \<Rightarrow> access_decision \<Rightarrow> caller_context \<Rightarrow> string \<Rightarrow> string option
      \<Rightarrow> (('r, 's, 'a) world, unit) io" where
  "enforce_decision A decision caller trace document =
     (if decision_state decision = ALLOWED then skip_io
      else refuse A caller trace (access_reason_value (decision_reason decision)) document
             (AuthorizationFailedError (access_reason_value (decision_reason decision))))"

definition authorize_document_scope ::
    "'a audit_repository \<Rightarrow> document_metadata \<Rightarrow> caller_context \<Rightarrow> string \<Rightarrow> (('r, 's, 'a) world, unit) io" where
  "authorize_document_scope A m caller trace =
     seq_io (require_audited_caller_scope A caller trace (Some (document_id m)))
       (enforce_decision A (document_scope_decision m caller) caller trace (Some (document_id m)))"

definition authorize_document_tenant_scope ::
    "'a audit_repository \<Rightarrow> document_metadata \<Rightarrow> caller_context \<Rightarrow> string \<Rightarrow> (('r, 's, 'a) world, unit) io" where
  "authorize_document_tenant_scope A m caller trace =
     seq_io (require_audited_caller_scope A caller trace (Some (document_id m)))
       (enforce_decision A (document_tenant_scope_decision m caller) caller trace (Some (document_id m)))"

text \<open>A document input has no \<open>document_id\<close>: \<open>getattr(metadata, "document_id", None)\<close> is \<open>None\<close>.\<close>

definition authorize_input_tenant_scope ::
    "'a audit_repository \<Rightarrow> document_input \<Rightarrow> caller_context \<Rightarrow> string \<Rightarrow> (('r, 's, 'a) world, unit) io" where
  "authorize_input_tenant_scope A m caller trace =
     seq_io (require_audited_caller_scope A caller trace None)
       (enforce_decision A (document_tenant_scope_decision m caller) caller trace None)"

section \<open>Batch preflight\<close>

definition MAX_PREFLIGHT_DOCUMENT_IDS :: nat where
  "MAX_PREFLIGHT_DOCUMENT_IDS = 100"

record access_preflight_item =
  item_document_id :: string
  item_state :: access_state
  item_reason :: access_reason

datatype preflight_result_state = COMPLETE | PARTIAL | ALL_UNAVAILABLE

fun preflight_result_value :: "preflight_result_state \<Rightarrow> string" where
  "preflight_result_value COMPLETE = ''complete''"
| "preflight_result_value PARTIAL = ''partial''"
| "preflight_result_value ALL_UNAVAILABLE = ''unavailable''"

definition result_state_for_items :: "access_preflight_item list \<Rightarrow> preflight_result_state" where
  "result_state_for_items items =
     (let unavailable_count = length (filter (\<lambda>i. item_state i = UNAVAILABLE) items) in
      if unavailable_count = length items then ALL_UNAVAILABLE
      else if unavailable_count \<noteq> 0 then PARTIAL
      else COMPLETE)"

text \<open>The item the caller sees, and the reason the audit keeps.\<close>

definition preflight_item ::
    "string \<Rightarrow> document_metadata option \<Rightarrow> bool \<Rightarrow> caller_context \<Rightarrow> access_preflight_item \<times> access_reason" where
  "preflight_item d metadata unavailable caller =
     (if unavailable
      then (\<lparr>item_document_id = d, item_state = UNAVAILABLE, item_reason = LOOKUP_UNAVAILABLE\<rparr>, LOOKUP_UNAVAILABLE)
      else (let decision = (case metadata of
                  None \<Rightarrow> \<lparr>decision_state = DENIED, decision_reason = DOCUMENT_NOT_FOUND\<rparr>
                | Some m \<Rightarrow> document_scope_decision m caller);
                granular = decision_reason decision in
            if granular \<in> EXISTENCE_REVEALING_REASON_CODES
            then (\<lparr>item_document_id = d, item_state = DENIED, item_reason = NOT_ACCESSIBLE\<rparr>, granular)
            else (\<lparr>item_document_id = d, item_state = decision_state decision,
                   item_reason = decision_reason decision\<rparr>, granular)))"

end
