(* ===== verification/Metrics.thy ===== *)
theory Metrics
  imports Authorization
begin

text \<open>
  \<open>src/app/archive/metrics.py\<close>: the bounded labels, the status and failure category derived
  from an outcome, and the decorator \<open>archive_metric\<close> that every service operation runs
  under. Durations are not modelled; a counter increment is one sample appended to the state.
\<close>

section \<open>Labels\<close>

definition IMPLEMENTED_ARCHIVE_OPERATIONS :: "string list" where
  "IMPLEMENTED_ARCHIVE_OPERATIONS =
    [''access_events_lookup'', ''archive_create'', ''batch_access_preflight'', ''binary_download'',
     ''current_document_lookup'', ''legal_hold_release'', ''legal_hold_set'', ''lifecycle_correct'',
     ''lifecycle_reissue'', ''lifecycle_supersede'', ''metadata_lookup'', ''purge_evaluation'',
     ''purge_execution'', ''retention_lookup'']"

definition ARCHIVE_OPERATION_STATUSES :: "string list" where
  "ARCHIVE_OPERATION_STATUSES =
    [''active'', ''archived'', ''complete'', ''clear'', ''eligible'', ''failed'', ''not_eligible'',
     ''partial'', ''purged'', ''succeeded'', ''unavailable'']"

definition ARCHIVE_SUPPORTABILITY_STATES :: "string list" where
  "ARCHIVE_SUPPORTABILITY_STATES = [''ready'', ''degraded'', ''unavailable'']"

definition ARCHIVE_SUPPORTABILITY_REASONS :: "string list" where
  "ARCHIVE_SUPPORTABILITY_REASONS =
    [''archive_supportability_ready'', ''archive_supportability_draining'',
     ''archive_repository_unavailable'', ''archive_storage_unavailable'', ''archive_access_audit_unavailable'']"

definition bounded_status :: "string \<Rightarrow> string" where
  "bounded_status s = (if s \<in> set ARCHIVE_OPERATION_STATUSES then s else ''failed'')"

definition is_alnum :: "char \<Rightarrow> bool" where
  "is_alnum c \<longleftrightarrow> (let n = (of_char c :: nat) in
     48 \<le> n \<and> n \<le> 57 \<or> 65 \<le> n \<and> n \<le> 90 \<or> 97 \<le> n \<and> n \<le> 122)"

definition bounded_failure_category :: "string option \<Rightarrow> string" where
  "bounded_failure_category c =
     (if \<not> truthy c then ''none''
      else let normalized = py_replace_char CHR ''-'' CHR ''_'' (py_lower (py_strip (the c))) in
        if normalized = [] then ''none''
        else if length normalized > 80 then ''other''
        else if \<not> list_all (\<lambda>ch. is_alnum ch \<or> ch = CHR ''_'') normalized then ''other''
        else normalized)"

definition bounded_supportability_state :: "string \<Rightarrow> string" where
  "bounded_supportability_state s = (if s \<in> set ARCHIVE_SUPPORTABILITY_STATES then s else ''unavailable'')"

definition bounded_supportability_reason :: "string \<Rightarrow> string" where
  "bounded_supportability_reason s =
     (if s \<in> set ARCHIVE_SUPPORTABILITY_REASONS then s else ''archive_repository_unavailable'')"

definition bounded_freshness_bucket :: "string \<Rightarrow> string" where
  "bounded_freshness_bucket s = (if s \<in> {''current'', ''unknown''} then s else ''unknown'')"

section \<open>Outcomes\<close>

fun exception_name :: "exc \<Rightarrow> string" where
  "exception_name (MetadataValidationError _) = ''MetadataValidationError''"
| "exception_name (DuplicateArchiveRequestConflict _) = ''DuplicateArchiveRequestConflict''"
| "exception_name DocumentNotFoundError = ''DocumentNotFoundError''"
| "exception_name ArchiveDocumentLookupUnavailableError = ''ArchiveDocumentLookupUnavailableError''"
| "exception_name ArchiveDocumentLookupTimeoutError = ''ArchiveDocumentLookupTimeoutError''"
| "exception_name (DocumentChecksumMismatchError _) = ''DocumentChecksumMismatchError''"
| "exception_name (DeclaredChecksumMismatchError _ _) = ''DeclaredChecksumMismatchError''"
| "exception_name (ArtifactIdentityCollisionError _ _ _) = ''ArtifactIdentityCollisionError''"
| "exception_name LegalHoldActiveError = ''LegalHoldActiveError''"
| "exception_name LegalHoldNotFoundError = ''LegalHoldNotFoundError''"
| "exception_name PurgeAlreadyStartedError = ''PurgeAlreadyStartedError''"
| "exception_name PurgeNotEligibleError = ''PurgeNotEligibleError''"
| "exception_name (SupersessionConflictError _) = ''SupersessionConflictError''"
| "exception_name (UnsupportedLifecycleTransitionError _) = ''UnsupportedLifecycleTransitionError''"
| "exception_name HistoricalIntegrityError = ''HistoricalIntegrityError''"
| "exception_name (StorageWriteFailedError _) = ''StorageWriteFailedError''"
| "exception_name (StorageReadFailedError _) = ''StorageReadFailedError''"
| "exception_name (RuntimeConfigurationError _) = ''RuntimeConfigurationError''"
| "exception_name (AuthorizationFailedError _) = ''AuthorizationFailedError''"
| "exception_name (CallerContextMissingError _) = ''CallerContextMissingError''"
| "exception_name (CallerScopeMissingError _) = ''CallerScopeMissingError''"
| "exception_name LifecycleDecisionConflictError = ''LifecycleDecisionConflictError''"
| "exception_name (LifecycleDecisionTenantError _) = ''LifecycleDecisionTenantError''"
| "exception_name LifecycleDecisionSigningKeyRevokedError = ''LifecycleDecisionSigningKeyRevokedError''"
| "exception_name (LifecycleDecisionDocumentError _) = ''LifecycleDecisionDocumentError''"
| "exception_name (UnsupportedChecksumAlgorithmError _) = ''UnsupportedChecksumAlgorithmError''"
| "exception_name (ValidationError _) = ''ValidationError''"
| "exception_name (ValueError _) = ''ValueError''"
| "exception_name KeyError = ''KeyError''"
| "exception_name OverflowError = ''OverflowError''"
| "exception_name (DriverError n) = n"
| "exception_name LoopBoundExceeded = ''LoopBoundExceeded''"

definition is_upper :: "char \<Rightarrow> bool" where
  "is_upper c \<longleftrightarrow> 65 \<le> (of_char c :: nat) \<and> (of_char c :: nat) \<le> 90"

fun snake_case :: "bool \<Rightarrow> string \<Rightarrow> string" where
  "snake_case first [] = []"
| "snake_case first (c # cs) =
     (if is_upper c \<and> \<not> first then CHR ''_'' # ascii_lower c # snake_case False cs
      else ascii_lower c # snake_case False cs)"

definition endswith :: "string \<Rightarrow> string \<Rightarrow> bool" where
  "endswith s p \<longleftrightarrow> startswith (rev s) (rev p)"

definition failure_category_from_exception :: "exc \<Rightarrow> string" where
  "failure_category_from_exception e =
     (let name = exception_name e;
          stem = (if endswith name ''Error'' then take (length name - 5) name else name);
          normalized = snake_case True stem in
      if normalized = [] then ''archive_operation_failed'' else normalized)"

text \<open>
  The shapes of a result the status depends on. A tuple is read through the text of its
  second component where that component is a string or a truth value; the text of bytes, of
  a number, or of a model is none of the codes compared with. The size is the first one a
  component offers.
\<close>

datatype metric_result =
    MetadataOut document_metadata
  | HoldOut legal_hold
  | PreflightOut preflight_result_state
  | TupleOut "string option" "int option"

definition status_from_result :: "string \<Rightarrow> metric_result \<Rightarrow> string" where
  "status_from_result operation result =
     (case result of
        PreflightOut st \<Rightarrow> if operation = ''batch_access_preflight'' then preflight_result_value st else ''succeeded''
      | MetadataOut m \<Rightarrow> if operation = ''retention_lookup'' then legal_hold_status_value (legal_hold_status m)
                         else ''archived''
      | HoldOut h \<Rightarrow> if operation = ''retention_lookup'' then ''clear''
                     else legal_hold_status_value (hold_status h)
      | TupleOut second _ \<Rightarrow>
          if operation = ''retention_lookup'' then ''clear''
          else (case second of None \<Rightarrow> ''succeeded'' | Some reason_code \<Rightarrow>
            if reason_code \<in> {''purged'', ''already_purged''} then ''purged''
            else if reason_code \<in> {''retention_elapsed'', ''eligible''} then ''eligible''
            else if reason_code \<in> {''legal_hold_active'', ''retain_until_date_missing'',
                                    ''retention_period_active'', ''not_eligible''} then ''not_eligible''
            else ''succeeded''))"

definition size_from_result :: "metric_result \<Rightarrow> int option" where
  "size_from_result result =
     (case result of MetadataOut m \<Rightarrow> Some (size_bytes m) | TupleOut _ s \<Rightarrow> s | _ \<Rightarrow> None)"

definition py_bool_text :: "bool \<Rightarrow> string" where
  "py_bool_text b = (if b then ''True'' else ''False'')"

section \<open>Recording\<close>

definition operation_sample :: "string \<Rightarrow> string \<Rightarrow> string option \<Rightarrow> metric_sample" where
  "operation_sample operation status failure =
     \<lparr>ms_operation = operation, ms_status = bounded_status status,
      ms_failure_category = bounded_failure_category failure\<rparr>"

definition record_archive_operation ::
    "string \<Rightarrow> string \<Rightarrow> string option \<Rightarrow> (('r, 's, 'a) world, unit) io" where
  "record_archive_operation operation status failure =
     (if operation \<notin> set IMPLEMENTED_ARCHIVE_OPERATIONS
      then raise (ValueError (''unsupported_archive_metric_operation:'' @ operation))
      else modify_io (\<lambda>w. w\<lparr>w_metrics := w_metrics w @ [operation_sample operation status failure]\<rparr>))"

definition record_archive_document_size :: "string \<Rightarrow> int option \<Rightarrow> (('r, 's, 'a) world, unit) io" where
  "record_archive_document_size status observed =
     (case observed of None \<Rightarrow> skip_io
      | Some n \<Rightarrow> modify_io (\<lambda>w. w\<lparr>w_sizes := w_sizes w @ [(bounded_status status, nat n)]\<rparr>))"

definition archive_metric ::
    "string \<Rightarrow> ('x \<Rightarrow> metric_result) \<Rightarrow> (('r, 's, 'a) world, 'x) io \<Rightarrow> (('r, 's, 'a) world, 'x) io" where
  "archive_metric operation view f = (\<lambda>w.
     case f w of
       (Inl e, w') \<Rightarrow> seq_io (record_archive_operation operation ''failed''
                         (Some (failure_category_from_exception e))) (raise e) w'
     | (Inr x, w') \<Rightarrow>
         (let status = status_from_result operation (view x) in
          seq_io (record_archive_operation operation status None)
            (seq_io (record_archive_document_size status (size_from_result (view x))) (ret x)) w'))"

lemma keeps_archive_metric [wp]:
  "keeps (\<lambda>w. I (w_repo w)) f \<Longrightarrow> keeps (\<lambda>w. I (w_repo w)) (archive_metric op view f)"
  "keeps (\<lambda>w. J (w_store w)) f \<Longrightarrow> keeps (\<lambda>w. J (w_store w)) (archive_metric op view f)"
  "keeps (\<lambda>w. K (w_audit w)) f \<Longrightarrow> keeps (\<lambda>w. K (w_audit w)) (archive_metric op view f)"
  by (auto simp: keeps_iff archive_metric_def record_archive_operation_def record_archive_document_size_def
      io_simps Let_def split: prod.splits sum.splits option.splits)

text \<open>
  The decorator is transparent: it returns or raises what the operation does, and changes
  nothing but the metrics.
\<close>

definition unmeasured :: "('r, 's, 'a) world \<Rightarrow> ('r, 's, 'a) world" where
  "unmeasured w = w\<lparr>w_metrics := [], w_sizes := []\<rparr>"

lemma archive_metric_transparent:
  assumes "operation \<in> set IMPLEMENTED_ARCHIVE_OPERATIONS"
  shows "fst (archive_metric operation view f w) = fst (f w)"
    and "unmeasured (snd (archive_metric operation view f w)) = unmeasured (snd (f w))"
  using assms
  by (auto simp: archive_metric_def record_archive_operation_def record_archive_document_size_def
      unmeasured_def io_simps Let_def split: prod.split sum.split option.split)

lemma bounded_status_member: "bounded_status s \<in> set ARCHIVE_OPERATION_STATUSES"
  by (simp add: bounded_status_def ARCHIVE_OPERATION_STATUSES_def)

lemma bounded_failure_category_shape:
  "length (bounded_failure_category c) \<le> 80
   \<and> list_all (\<lambda>ch. is_alnum ch \<or> ch = CHR ''_'') (bounded_failure_category c)"
  by (auto simp: bounded_failure_category_def Let_def is_alnum_def)

end
