(* ===== verification/InputValidation.thy ===== *)
theory InputValidation
  imports Models
begin

text \<open>
  The validators of \<open>src/app/archive/models.py\<close>. \<open>str_strip_whitespace\<close> strips every string
  field first; the field constraints and field validators then normalise and check each
  field; the two model validators run last, in the order of the class. The result is the
  normalised record the rest of the service works on, or the \<open>ValidationError\<close>.
\<close>

section \<open>Archive summaries\<close>

definition client_ready :: "string \<Rightarrow> bool" where
  "client_ready s \<longleftrightarrow> py_upper s = ''CLIENT_READY'' \<or> py_upper s = ''READY_FOR_CLIENT''"

definition nonempty :: "string \<Rightarrow> string \<Rightarrow> bool \<times> exc" where
  "nonempty field s = (s \<noteq> [], ValidationError field)"

definition strip_narrative :: "reviewed_narrative \<Rightarrow> reviewed_narrative" where
  "strip_narrative r = r\<lparr>rn_package_id := py_strip (rn_package_id r),
     rn_review_id := py_strip (rn_review_id r),
     rn_client_ready_status := py_strip (rn_client_ready_status r),
     rn_policy_version := py_strip (rn_policy_version r),
     rn_source_narrative_hash := py_strip (rn_source_narrative_hash r),
     rn_report_data_narrative_hash := py_strip (rn_report_data_narrative_hash r),
     rn_guardrail_status := py_strip (rn_guardrail_status r)\<rparr>"

definition check_narrative :: "reviewed_narrative \<Rightarrow> exc + unit" where
  "check_narrative r = run_checks
    [nonempty ''package_id'' (rn_package_id r), nonempty ''review_id'' (rn_review_id r),
     nonempty ''client_ready_status'' (rn_client_ready_status r),
     nonempty ''policy_version'' (rn_policy_version r),
     nonempty ''source_narrative_hash'' (rn_source_narrative_hash r),
     nonempty ''report_data_narrative_hash'' (rn_report_data_narrative_hash r),
     nonempty ''guardrail_status'' (rn_guardrail_status r),
     (rn_section_count r \<ge> 1, ValidationError ''section_count''),
     (rn_disclosure_ref_count r \<ge> 0, ValidationError ''disclosure_ref_count''),
     (rn_limitation_count r \<ge> 0, ValidationError ''limitation_count''),
     (startswith (rn_source_narrative_hash r) ''sha256:''
        \<and> startswith (rn_report_data_narrative_hash r) ''sha256:'',
      ValidationError ''reviewed advisory narrative hashes must use sha256 lineage''),
     (rn_included_in_render r,
      ValidationError ''reviewed advisory narrative archive summary must be rendered''),
     (\<not> client_ready (rn_client_ready_status r),
      ValidationError ''client-ready advisory narrative archive status is not supported'')]"

definition validate_narrative :: "reviewed_narrative \<Rightarrow> exc + reviewed_narrative" where
  "validate_narrative r = and_then (check_narrative (strip_narrative r)) (Inr (strip_narrative r))"

definition strip_memo :: "proposal_memo \<Rightarrow> proposal_memo" where
  "strip_memo r = r\<lparr>pm_memo_id := py_strip (pm_memo_id r),
     pm_proposal_id := py_strip (pm_proposal_id r),
     pm_review_event_id := py_strip (pm_review_event_id r),
     pm_review_action := py_strip (pm_review_action r),
     pm_client_ready_status := py_strip (pm_client_ready_status r),
     pm_memo_hash := py_strip (pm_memo_hash r),
     pm_source_input_hash := py_strip (pm_source_input_hash r)\<rparr>"

definition check_memo :: "proposal_memo \<Rightarrow> exc + unit" where
  "check_memo r = run_checks
    [nonempty ''memo_id'' (pm_memo_id r), nonempty ''proposal_id'' (pm_proposal_id r),
     (pm_proposal_version_no r \<ge> 1, ValidationError ''proposal_version_no''),
     nonempty ''review_event_id'' (pm_review_event_id r),
     nonempty ''review_action'' (pm_review_action r),
     nonempty ''client_ready_status'' (pm_client_ready_status r),
     nonempty ''memo_hash'' (pm_memo_hash r), nonempty ''source_input_hash'' (pm_source_input_hash r),
     (pm_section_count r \<ge> 1, ValidationError ''section_count''),
     (pm_blocked_section_count r \<ge> 0, ValidationError ''blocked_section_count''),
     (startswith (pm_memo_hash r) ''sha256:'' \<and> startswith (pm_source_input_hash r) ''sha256:'',
      ValidationError ''advisor proposal memo hashes must use sha256 lineage''),
     (pm_review_action r = ''APPROVE_FOR_ADVISOR_USE'',
      ValidationError ''advisor proposal memo archive summary requires advisor-use review''),
     (pm_included_in_render r,
      ValidationError ''advisor proposal memo archive summary must be rendered''),
     (\<not> client_ready (pm_client_ready_status r),
      ValidationError ''client-ready advisor proposal memo archive status is not supported'')]"

definition validate_memo :: "proposal_memo \<Rightarrow> exc + proposal_memo" where
  "validate_memo r = and_then (check_memo (strip_memo r)) (Inr (strip_memo r))"

definition strip_commentary :: "advisor_commentary \<Rightarrow> advisor_commentary" where
  "strip_commentary r = r\<lparr>ac_run_id := py_strip (ac_run_id r),
     ac_request_id := py_strip (ac_request_id r), ac_reviewed_by := py_strip (ac_reviewed_by r),
     ac_reviewed_at := py_strip (ac_reviewed_at r), ac_content_hash := py_strip (ac_content_hash r)\<rparr>"

definition check_commentary :: "advisor_commentary \<Rightarrow> exc + unit" where
  "check_commentary r = run_checks
    [nonempty ''run_id'' (ac_run_id r), nonempty ''request_id'' (ac_request_id r),
     nonempty ''reviewed_by'' (ac_reviewed_by r), nonempty ''reviewed_at'' (ac_reviewed_at r),
     nonempty ''content_hash'' (ac_content_hash r),
     (is_hex64 (ac_content_hash r),
      ValidationError ''advisor commentary content_hash must be 64 lowercase sha256 hex characters''),
     (ac_included_in_render r,
      ValidationError ''advisor commentary archive summary must be rendered'')]"

definition validate_commentary :: "advisor_commentary \<Rightarrow> exc + advisor_commentary" where
  "validate_commentary r =
     and_then (check_commentary (strip_commentary r)) (Inr (strip_commentary r))"

definition strip_evidence :: "idea_evidence_pack \<Rightarrow> idea_evidence_pack" where
  "strip_evidence r = r\<lparr>ie_report_evidence_pack_id := py_strip (ie_report_evidence_pack_id r),
     ie_conversion_intent_id := py_strip (ie_conversion_intent_id r),
     ie_candidate_id := py_strip (ie_candidate_id r),
     ie_evidence_packet_id := py_strip (ie_evidence_packet_id r),
     ie_evidence_content_fingerprint := py_strip (ie_evidence_content_fingerprint r),
     ie_reason_codes := map py_strip (ie_reason_codes r),
     ie_retention_policy_ref := py_strip (ie_retention_policy_ref r)\<rparr>"

definition check_evidence :: "idea_evidence_pack \<Rightarrow> exc + unit" where
  "check_evidence r = run_checks
    [nonempty ''report_evidence_pack_id'' (ie_report_evidence_pack_id r),
     nonempty ''conversion_intent_id'' (ie_conversion_intent_id r),
     nonempty ''candidate_id'' (ie_candidate_id r),
     nonempty ''evidence_packet_id'' (ie_evidence_packet_id r),
     nonempty ''evidence_content_fingerprint'' (ie_evidence_content_fingerprint r),
     (ie_source_summary_count r \<ge> 1, ValidationError ''source_summary_count''),
     (ie_reason_codes r \<noteq> [], ValidationError ''reason_codes''),
     nonempty ''retention_policy_ref'' (ie_retention_policy_ref r),
     (startswith (ie_evidence_content_fingerprint r) ''sha256:'',
      ValidationError ''idea evidence archive summary must carry sha256 lineage''),
     (\<forall>v \<in> set (ie_reason_codes r). py_strip v \<noteq> [],
      ValidationError ''idea evidence archive reason codes must not be blank''),
     (ie_included_in_render r,
      ValidationError ''idea evidence archive summary must be rendered'')]"

definition validate_evidence :: "idea_evidence_pack \<Rightarrow> exc + idea_evidence_pack" where
  "validate_evidence r = and_then (check_evidence (strip_evidence r)) (Inr (strip_evidence r))"

section \<open>Field validators of the document input\<close>

definition strip_opt :: "string option \<Rightarrow> string option" where
  "strip_opt = map_option py_strip"

definition optional :: "('a \<Rightarrow> exc + 'a) \<Rightarrow> 'a option \<Rightarrow> exc + 'a option" where
  "optional f x = (case x of None \<Rightarrow> Inr None | Some y \<Rightarrow>
     (case f y of Inl e \<Rightarrow> Inl e | Inr z \<Rightarrow> Inr (Some z)))"

text \<open>\<open>_template_publication_must_be_bounded\<close>\<close>

definition validate_template_publication :: "string \<Rightarrow> exc + string" where
  "validate_template_publication v =
     (let normalized = py_lower (py_strip v)
      in if normalized \<noteq> ''published'' \<and> normalized \<noteq> ''development''
         then Inl (ValidationError ''template_publication must be published or development'')
         else Inr normalized)"

text \<open>\<open>_declared_sha256_must_be_hex_digest\<close>\<close>

definition validate_declared_sha256 :: "string \<Rightarrow> exc + string" where
  "validate_declared_sha256 v =
     (let normalized = removeprefix ''sha256:'' (py_lower (py_strip v))
      in if \<not> is_hex64 normalized
         then Inl (ValidationError ''declared_artifact_sha256 must be a 64-hex SHA-256 digest'')
         else Inr normalized)"

definition strip_input :: "document_input \<Rightarrow> document_input" where
  "strip_input d = \<lparr>
     archive_request_id = py_strip (archive_request_id d),
     report_job_id = py_strip (report_job_id d),
     report_request_id = py_strip (report_request_id d),
     snapshot_id = py_strip (snapshot_id d),
     render_job_id = py_strip (render_job_id d),
     render_attempt_id = py_strip (render_attempt_id d),
     report_type = report_type d,
     portfolio_scope = py_strip (portfolio_scope d),
     portfolio_id = strip_opt (portfolio_id d),
     composite_id = strip_opt (composite_id d),
     composite_report_identity = composite_report_identity d,
     client_reference = strip_opt (client_reference d),
     as_of_date = as_of_date d,
     reporting_period_start = reporting_period_start d,
     reporting_period_end = reporting_period_end d,
     frequency = py_strip (frequency d),
     template_id = py_strip (template_id d),
     template_version = py_strip (template_version d),
     render_service_version = py_strip (render_service_version d),
     report_data_contract_version = py_strip (report_data_contract_version d),
     mime_type = py_strip (mime_type d),
     output_format = py_strip (output_format d),
     classification = classification d,
     region = py_strip (region d),
     tenant_id = py_strip (tenant_id d),
     retention_policy_id = strip_opt (retention_policy_id d),
     retention_start_date = retention_start_date d,
     retain_until_date = retain_until_date d,
     reviewed_advisory_narrative = reviewed_advisory_narrative d,
     advisor_proposal_memo = advisor_proposal_memo d,
     advisor_commentary_summary = advisor_commentary_summary d,
     idea_evidence_pack_summary = idea_evidence_pack_summary d,
     created_by_service = py_strip (created_by_service d),
     created_by_actor = py_strip (created_by_actor d),
     document_reference = strip_opt (document_reference d),
     declared_artifact_sha256 = strip_opt (declared_artifact_sha256 d),
     render_runtime_engine = strip_opt (render_runtime_engine d),
     render_runtime_engine_version = strip_opt (render_runtime_engine_version d),
     template_digest = strip_opt (template_digest d),
     template_publication = strip_opt (template_publication d),
     report_revision_id = strip_opt (report_revision_id d)\<rparr>"

definition nonempty_opt :: "string \<Rightarrow> string option \<Rightarrow> bool \<times> exc" where
  "nonempty_opt field s = (s \<noteq> Some [], ValidationError field)"

definition check_input_fields :: "document_input \<Rightarrow> exc + unit" where
  "check_input_fields d =
    and_then (run_checks
    [nonempty ''archive_request_id'' (archive_request_id d), nonempty ''report_job_id'' (report_job_id d),
     nonempty ''report_request_id'' (report_request_id d), nonempty ''snapshot_id'' (snapshot_id d),
     nonempty ''render_job_id'' (render_job_id d), nonempty ''render_attempt_id'' (render_attempt_id d),
     nonempty ''portfolio_scope'' (portfolio_scope d), nonempty_opt ''portfolio_id'' (portfolio_id d),
     nonempty_opt ''composite_id'' (composite_id d),
     (case composite_id d of None \<Rightarrow> True | Some c \<Rightarrow> length c \<le> 128, ValidationError ''composite_id''),
     nonempty_opt ''client_reference'' (client_reference d), nonempty ''frequency'' (frequency d),
     nonempty ''template_id'' (template_id d), nonempty ''template_version'' (template_version d),
     nonempty ''render_service_version'' (render_service_version d),
     nonempty ''report_data_contract_version'' (report_data_contract_version d),
     nonempty ''mime_type'' (mime_type d), nonempty ''output_format'' (output_format d),
     nonempty ''region'' (region d), nonempty ''tenant_id'' (tenant_id d),
     nonempty_opt ''retention_policy_id'' (retention_policy_id d),
     nonempty ''created_by_service'' (created_by_service d),
     nonempty ''created_by_actor'' (created_by_actor d),
     nonempty_opt ''document_reference'' (document_reference d),
     nonempty_opt ''render_runtime_engine'' (render_runtime_engine d),
     nonempty_opt ''render_runtime_engine_version'' (render_runtime_engine_version d),
     nonempty_opt ''template_digest'' (template_digest d),
     nonempty_opt ''report_revision_id'' (report_revision_id d),
     (CHR ''/'' \<in> set (mime_type d), ValidationError ''mime_type must use a concrete media type'')])
    (case composite_report_identity d of None \<Rightarrow> Inr () | Some i \<Rightarrow> validate_identity i)"

section \<open>Model validators of the document input\<close>

definition XLSX_MIME :: string where
  "XLSX_MIME = ''application/vnd.openxmlformats-officedocument.spreadsheetml.sheet''"

text \<open>\<open>_report_scope_must_agree\<close>\<close>

definition report_scope_must_agree :: "document_input \<Rightarrow> exc + unit" where
  "report_scope_must_agree d =
    (if report_type d = COMPOSITE_REVIEW then
       (if portfolio_scope d \<noteq> ''composite'' \<or> portfolio_id d \<noteq> None
        then Inl (ValidationError ''composite reports require genuine composite-only scope'')
        else case composite_report_identity d of
          None \<Rightarrow> Inl (ValidationError ''composite reports require typed composite identity'')
        | Some i \<Rightarrow> run_checks
          [(truthy (composite_id d),
            ValidationError ''composite reports require typed composite identity''),
           ((case identity_scope i of (t, c, s, e) \<Rightarrow>
              t = tenant_id d \<and> Some c = composite_id d \<and> s = reporting_period_start d
              \<and> e = reporting_period_end d \<and> as_of_date d = e),
            ValidationError ''composite identity must match archive scope and horizon''),
           (template_id d = ''composite-review'' \<and> template_version d = identity_version i
              \<and> report_data_contract_version d = identity_contract_version i
              \<and> output_format d = ''xlsx'' \<and> mime_type d = XLSX_MIME,
            ValidationError ''composite reports require the supported XLSX template contract''),
           (truthy (report_revision_id d) \<and> truthy (document_reference d)
              \<and> truthy (declared_artifact_sha256 d),
            ValidationError ''composite custody requires report revision and declared artifact identity'')])
     else run_checks
       [(\<not> (portfolio_id d = None \<or> portfolio_scope d = ''composite'' \<or> composite_id d \<noteq> None
            \<or> composite_report_identity d \<noteq> None),
         ValidationError ''existing report families require exclusive portfolio scope'')])"

text \<open>\<open>_dates_must_be_ordered\<close>\<close>

definition dates_must_be_ordered :: "document_input \<Rightarrow> exc + unit" where
  "dates_must_be_ordered d = run_checks
    [(\<not> reporting_period_start d > reporting_period_end d,
      ValidationError ''reporting_period_start must be on or before reporting_period_end''),
     (case (retain_until_date d, retention_start_date d) of
        (Some u, Some s) \<Rightarrow> \<not> s > u | _ \<Rightarrow> True,
      ValidationError ''retention_start_date must be on or before retain_until_date''),
     (reviewed_advisory_narrative d \<noteq> None \<longrightarrow> report_type d = PORTFOLIO_REVIEW,
      ValidationError ''reviewed advisory narrative archive summary is only supported for portfolio_review reports''),
     (reviewed_advisory_narrative d \<noteq> None \<longrightarrow> template_id d = ''portfolio-review'',
      ValidationError ''reviewed advisory narrative archive summary requires portfolio-review template''),
     (advisor_proposal_memo d \<noteq> None \<longrightarrow> report_type d = PORTFOLIO_REVIEW,
      ValidationError ''advisor proposal memo archive summary is only supported for portfolio_review reports''),
     (advisor_proposal_memo d \<noteq> None \<longrightarrow> template_id d = ''portfolio-review'',
      ValidationError ''advisor proposal memo archive summary requires portfolio-review template''),
     (advisor_commentary_summary d \<noteq> None \<longrightarrow> report_type d = PORTFOLIO_REVIEW,
      ValidationError ''advisor commentary archive summary is only supported for portfolio_review reports''),
     (advisor_commentary_summary d \<noteq> None \<longrightarrow> template_id d = ''portfolio-review'',
      ValidationError ''advisor commentary archive summary requires portfolio-review template''),
     (idea_evidence_pack_summary d \<noteq> None \<longrightarrow> report_type d = PROOF_PACK,
      ValidationError ''idea evidence archive summary is only supported for proof_pack reports''),
     (idea_evidence_pack_summary d \<noteq> None \<longrightarrow> template_id d = ''proof-pack'',
      ValidationError ''idea evidence archive summary requires proof-pack template''),
     (idea_evidence_pack_summary d \<noteq> None
        \<longrightarrow> report_data_contract_version d = ''dpm_proof_pack_report_input.v1'',
      ValidationError ''idea evidence archive summary requires dpm_proof_pack_report_input.v1'')]"

text \<open>The whole model: what \<open>ArchiveDocumentInput(...)\<close> returns or raises.\<close>

definition validate_document_input :: "document_input \<Rightarrow> exc + document_input" where
  "validate_document_input raw =
    (let d = strip_input raw in
     case optional validate_narrative (reviewed_advisory_narrative d) of Inl e \<Rightarrow> Inl e | Inr rn \<Rightarrow>
     (case optional validate_memo (advisor_proposal_memo d) of Inl e \<Rightarrow> Inl e | Inr pm \<Rightarrow>
     (case optional validate_commentary (advisor_commentary_summary d) of Inl e \<Rightarrow> Inl e | Inr ac \<Rightarrow>
     (case optional validate_evidence (idea_evidence_pack_summary d) of Inl e \<Rightarrow> Inl e | Inr ie \<Rightarrow>
     (case optional validate_template_publication (template_publication d) of Inl e \<Rightarrow> Inl e | Inr tp \<Rightarrow>
     (case optional validate_declared_sha256 (declared_artifact_sha256 d) of Inl e \<Rightarrow> Inl e | Inr ds \<Rightarrow>
     (let v = d\<lparr>reviewed_advisory_narrative := rn, advisor_proposal_memo := pm,
                advisor_commentary_summary := ac, idea_evidence_pack_summary := ie,
                template_publication := tp, declared_artifact_sha256 := ds\<rparr>
      in and_then (check_input_fields v)
         (and_then (report_scope_must_agree v)
         (and_then (dates_must_be_ordered v) (Inr v))))))))))"

section \<open>Normalisation is idempotent\<close>

lemma strip_opt_idem [simp]: "strip_opt (strip_opt x) = strip_opt x"
  by (cases x) (simp_all add: strip_opt_def)

lemma validate_narrative_idem: "validate_narrative r = Inr s \<Longrightarrow> validate_narrative s = Inr s"
  by (auto simp: validate_narrative_def and_then_eq_Inr strip_narrative_def)

lemma validate_memo_idem: "validate_memo r = Inr s \<Longrightarrow> validate_memo s = Inr s"
  by (auto simp: validate_memo_def and_then_eq_Inr strip_memo_def)

lemma validate_commentary_idem: "validate_commentary r = Inr s \<Longrightarrow> validate_commentary s = Inr s"
  by (auto simp: validate_commentary_def and_then_eq_Inr strip_commentary_def)

lemma validate_evidence_idem: "validate_evidence r = Inr s \<Longrightarrow> validate_evidence s = Inr s"
  by (auto simp: validate_evidence_def and_then_eq_Inr strip_evidence_def comp_def)

lemma hex_char: "c \<in> set hex_digits \<Longrightarrow> \<not> is_space c \<and> ascii_lower c = c \<and> c \<noteq> CHR ''s''"
  by (auto simp: hex_digits_def is_space_def ascii_lower_def)

lemma dropWhile_none: "\<forall>c \<in> set s. \<not> P c \<Longrightarrow> dropWhile P s = s"
  by (cases s) auto

lemma py_strip_none: "\<forall>c \<in> set s. \<not> is_space c \<Longrightarrow> py_strip s = s"
  by (simp add: py_strip_def dropWhile_none)

lemma hex_normal:
  assumes "is_hex64 s"
  shows "py_strip s = s" "py_lower s = s" "removeprefix ''sha256:'' s = s" "s \<noteq> []"
proof -
  have hex: "\<forall>c \<in> set s. c \<in> set hex_digits" and len: "length s = 64"
    using assms by (auto simp: is_hex64_def is_hex_def)
  then show "py_strip s = s" by (intro py_strip_none) (auto dest: hex_char)
  show "py_lower s = s" using hex by (auto simp: py_lower_def intro!: map_idI dest: hex_char)
  from len obtain c t where s: "s = c # t" by (cases s) auto
  then show "s \<noteq> []" by simp
  from s hex have "c \<noteq> CHR ''s''" by (auto dest: hex_char)
  with s show "removeprefix ''sha256:'' s = s"
    by (auto simp: removeprefix_def startswith_def)
qed

lemma validate_declared_hex: "validate_declared_sha256 v = Inr s \<Longrightarrow> is_hex64 s"
  by (auto simp: validate_declared_sha256_def Let_def split: if_splits)

lemma validate_declared_idem:
  "validate_declared_sha256 v = Inr s \<Longrightarrow> validate_declared_sha256 s = Inr s"
  by (frule validate_declared_hex) (simp add: validate_declared_sha256_def Let_def hex_normal)

lemma validate_publication_idem:
  assumes "validate_template_publication v = Inr s"
  shows "validate_template_publication s = Inr s" "py_strip s = s"
proof -
  have "s = ''published'' \<or> s = ''development''"
    using assms by (auto simp: validate_template_publication_def Let_def split: if_splits)
  moreover have "py_strip ''published'' = ''published''" "py_strip ''development'' = ''development''"
    by (simp_all add: py_strip_none is_space_def)
  moreover have "py_lower ''published'' = ''published''" "py_lower ''development'' = ''development''"
    by (simp_all add: ascii_lower_def)
  ultimately show "validate_template_publication s = Inr s" "py_strip s = s"
    by (auto simp: validate_template_publication_def simp del: py_lower_simps)
qed

lemma optional_idem:
  assumes "optional f x = Inr y" and "\<And>a b. f a = Inr b \<Longrightarrow> g b = Inr b"
  shows "optional g y = Inr y"
  using assms by (auto simp: optional_def split: option.splits sum.splits)

lemma validate_document_input_cases:
  assumes "validate_document_input raw = Inr v"
  obtains rn pm ac ie tp ds d where
    "d = strip_input raw"
    "optional validate_narrative (reviewed_advisory_narrative d) = Inr rn"
    "optional validate_memo (advisor_proposal_memo d) = Inr pm"
    "optional validate_commentary (advisor_commentary_summary d) = Inr ac"
    "optional validate_evidence (idea_evidence_pack_summary d) = Inr ie"
    "optional validate_template_publication (template_publication d) = Inr tp"
    "optional validate_declared_sha256 (declared_artifact_sha256 d) = Inr ds"
    "v = d\<lparr>reviewed_advisory_narrative := rn, advisor_proposal_memo := pm,
           advisor_commentary_summary := ac, idea_evidence_pack_summary := ie,
           template_publication := tp, declared_artifact_sha256 := ds\<rparr>"
    "accepted (check_input_fields v)" "accepted (report_scope_must_agree v)"
    "accepted (dates_must_be_ordered v)"
  using assms
  by (auto simp: validate_document_input_def Let_def and_then_eq_Inr split: sum.splits)

lemma strip_input_sel:
  "archive_request_id (strip_input d) = py_strip (archive_request_id d)"
  "report_job_id (strip_input d) = py_strip (report_job_id d)"
  "report_request_id (strip_input d) = py_strip (report_request_id d)"
  "snapshot_id (strip_input d) = py_strip (snapshot_id d)"
  "render_job_id (strip_input d) = py_strip (render_job_id d)"
  "render_attempt_id (strip_input d) = py_strip (render_attempt_id d)"
  "report_type (strip_input d) = report_type d"
  "portfolio_scope (strip_input d) = py_strip (portfolio_scope d)"
  "portfolio_id (strip_input d) = strip_opt (portfolio_id d)"
  "composite_id (strip_input d) = strip_opt (composite_id d)"
  "composite_report_identity (strip_input d) = composite_report_identity d"
  "client_reference (strip_input d) = strip_opt (client_reference d)"
  "as_of_date (strip_input d) = as_of_date d"
  "reporting_period_start (strip_input d) = reporting_period_start d"
  "reporting_period_end (strip_input d) = reporting_period_end d"
  "frequency (strip_input d) = py_strip (frequency d)"
  "template_id (strip_input d) = py_strip (template_id d)"
  "template_version (strip_input d) = py_strip (template_version d)"
  "render_service_version (strip_input d) = py_strip (render_service_version d)"
  "report_data_contract_version (strip_input d) = py_strip (report_data_contract_version d)"
  "mime_type (strip_input d) = py_strip (mime_type d)"
  "output_format (strip_input d) = py_strip (output_format d)"
  "classification (strip_input d) = classification d"
  "region (strip_input d) = py_strip (region d)"
  "tenant_id (strip_input d) = py_strip (tenant_id d)"
  "retention_policy_id (strip_input d) = strip_opt (retention_policy_id d)"
  "retention_start_date (strip_input d) = retention_start_date d"
  "retain_until_date (strip_input d) = retain_until_date d"
  "reviewed_advisory_narrative (strip_input d) = reviewed_advisory_narrative d"
  "advisor_proposal_memo (strip_input d) = advisor_proposal_memo d"
  "advisor_commentary_summary (strip_input d) = advisor_commentary_summary d"
  "idea_evidence_pack_summary (strip_input d) = idea_evidence_pack_summary d"
  "created_by_service (strip_input d) = py_strip (created_by_service d)"
  "created_by_actor (strip_input d) = py_strip (created_by_actor d)"
  "document_reference (strip_input d) = strip_opt (document_reference d)"
  "declared_artifact_sha256 (strip_input d) = strip_opt (declared_artifact_sha256 d)"
  "render_runtime_engine (strip_input d) = strip_opt (render_runtime_engine d)"
  "render_runtime_engine_version (strip_input d) = strip_opt (render_runtime_engine_version d)"
  "template_digest (strip_input d) = strip_opt (template_digest d)"
  "template_publication (strip_input d) = strip_opt (template_publication d)"
  "report_revision_id (strip_input d) = strip_opt (report_revision_id d)"
  "document_input.more (strip_input d) = ()"
  by (simp_all add: strip_input_def)

lemma strip_input_fixed:
  assumes v: "v = (strip_input raw)\<lparr>reviewed_advisory_narrative := rn, advisor_proposal_memo := pm,
       advisor_commentary_summary := ac, idea_evidence_pack_summary := ie,
       template_publication := tp, declared_artifact_sha256 := ds\<rparr>"
    and tp: "strip_opt tp = tp" and ds: "strip_opt ds = ds"
  shows "strip_input v = v"
proof (rule document_input.equality)
qed (simp_all only: strip_input_sel v, simp_all add: strip_input_sel tp ds)

lemma validate_document_input_idem:
  assumes "validate_document_input raw = Inr v"
  shows "validate_document_input v = Inr v"
  using assms
proof (rule validate_document_input_cases)
  fix rn pm ac ie tp ds d
  assume d: "d = strip_input raw"
    and rn: "optional validate_narrative (reviewed_advisory_narrative d) = Inr rn"
    and pm: "optional validate_memo (advisor_proposal_memo d) = Inr pm"
    and ac: "optional validate_commentary (advisor_commentary_summary d) = Inr ac"
    and ie: "optional validate_evidence (idea_evidence_pack_summary d) = Inr ie"
    and tp: "optional validate_template_publication (template_publication d) = Inr tp"
    and ds: "optional validate_declared_sha256 (declared_artifact_sha256 d) = Inr ds"
    and v: "v = d\<lparr>reviewed_advisory_narrative := rn, advisor_proposal_memo := pm,
           advisor_commentary_summary := ac, idea_evidence_pack_summary := ie,
           template_publication := tp, declared_artifact_sha256 := ds\<rparr>"
    and ok: "accepted (check_input_fields v)" "accepted (report_scope_must_agree v)"
      "accepted (dates_must_be_ordered v)"
  have "strip_opt tp = tp"
    using tp by (auto simp: optional_def strip_opt_def validate_publication_idem(2) split: option.splits sum.splits)
  moreover have "strip_opt ds = ds"
    using ds by (auto simp: optional_def strip_opt_def hex_normal dest!: validate_declared_hex split: option.splits sum.splits)
  ultimately have strip: "strip_input v = v"
    unfolding v d by (rule strip_input_fixed [OF refl])
  have sel: "reviewed_advisory_narrative v = rn" "advisor_proposal_memo v = pm"
    "advisor_commentary_summary v = ac" "idea_evidence_pack_summary v = ie"
    "template_publication v = tp" "declared_artifact_sha256 v = ds"
    by (simp_all add: v)
  have "optional validate_narrative rn = Inr rn" "optional validate_memo pm = Inr pm"
    "optional validate_commentary ac = Inr ac" "optional validate_evidence ie = Inr ie"
    "optional validate_template_publication tp = Inr tp" "optional validate_declared_sha256 ds = Inr ds"
    using rn pm ac ie tp ds
    by (auto intro: optional_idem validate_narrative_idem validate_memo_idem validate_commentary_idem
        validate_evidence_idem validate_publication_idem(1) validate_declared_idem)
  note fixed = this
  have "v\<lparr>reviewed_advisory_narrative := rn, advisor_proposal_memo := pm,
       advisor_commentary_summary := ac, idea_evidence_pack_summary := ie,
       template_publication := tp, declared_artifact_sha256 := ds\<rparr> = v"
    by (simp add: v)
  then show ?thesis
    using ok
    by (simp only: validate_document_input_def strip sel Let_def and_then_eq_Inr fixed sum.case)
qed

text \<open>The facts a validated input carries for the components that use it.\<close>

lemma validated_declared_hex:
  assumes "validate_document_input raw = Inr v" "declared_artifact_sha256 v = Some s"
  shows "is_hex64 s"
  using assms by (auto elim!: validate_document_input_cases simp: optional_def
      dest!: validate_declared_hex split: option.splits sum.splits)

end
