(* ===== verification/ArtifactFormat.thy ===== *)
theory ArtifactFormat
  imports InputValidation
begin

text \<open>
  Admission of the binary before anything is stored: \<open>src/app/archive/artifact_format.py\<close>.
  Base64 decoding is the strict mode of the standard library; opening a ZIP package and
  parsing XML are parameters (a \<open>workbook_reader\<close>), and the checks on what they return are
  the code's.
\<close>

section \<open>Base64\<close>

definition base64_alphabet :: string where
  "base64_alphabet = ''ABCDEFGHIJKLMNOPQRSTUVWXYZabcdefghijklmnopqrstuvwxyz0123456789+/''"

fun position :: "char \<Rightarrow> string \<Rightarrow> nat option" where
  "position c [] = None"
| "position c (x # xs) = (if x = c then Some 0 else map_option Suc (position c xs))"

definition sextet :: "char \<Rightarrow> nat option" where
  "sextet c = position c base64_alphabet"

text \<open>The quadruples of data characters, the last one padded with \<open>=\<close>.\<close>

fun decode_sextets :: "nat list \<Rightarrow> nat list option" where
  "decode_sextets [] = Some []"
| "decode_sextets [a] = None"
| "decode_sextets [a, b] = Some [a * 4 + b div 16]"
| "decode_sextets [a, b, c] = Some [a * 4 + b div 16, (b mod 16) * 16 + c div 4]"
| "decode_sextets (a # b # c # d # rest) = map_option
     (\<lambda>bs. (a * 4 + b div 16) # ((b mod 16) * 16 + c div 4) # ((c mod 4) * 64 + d) # bs) (decode_sextets rest)"

definition b64decode :: "string \<Rightarrow> bytes option" where
  "b64decode s =
     (let data = takeWhile (\<lambda>c. c \<noteq> CHR ''='') s; pads = dropWhile (\<lambda>c. c \<noteq> CHR ''='') s;
          digits = map sextet data in
      if None \<in> set digits then None
      else if pads \<noteq> replicate (length pads) CHR ''='' then None
      else if (length data + length pads) mod 4 \<noteq> 0 \<or> length pads > 2 then None
      else decode_sextets (map the digits))"

text \<open>A string with a character outside ASCII fails to encode, which is not the caught error.\<close>

definition is_ascii :: "string \<Rightarrow> bool" where
  "is_ascii s \<longleftrightarrow> (\<forall>c \<in> set s. (of_char c :: nat) < 128)"

definition decode_document_content :: "string \<Rightarrow> nat \<Rightarrow> exc + bytes" where
  "decode_document_content content_base64 max_decoded_bytes =
     (if \<not> is_ascii content_base64
      then Inl (ValueError ''string argument should contain only ASCII characters'')
      else (case b64decode content_base64 of
        None \<Rightarrow> Inl (MetadataValidationError ''document content must be valid base64'')
      | Some content \<Rightarrow>
          if length content > max_decoded_bytes
          then Inl (MetadataValidationError ''document content exceeds configured archive size limit'')
          else Inr content))"

fun encode_bytes :: "bytes \<Rightarrow> string" where
  "encode_bytes [] = []"
| "encode_bytes [a] = [base64_alphabet ! (a div 4), base64_alphabet ! (a mod 4 * 16), CHR ''='', CHR ''='']"
| "encode_bytes [a, b] = [base64_alphabet ! (a div 4), base64_alphabet ! (a mod 4 * 16 + b div 16),
     base64_alphabet ! (b mod 16 * 4), CHR ''='']"
| "encode_bytes (a # b # c # rest) = base64_alphabet ! (a div 4) # base64_alphabet ! (a mod 4 * 16 + b div 16)
     # base64_alphabet ! (b mod 16 * 4 + c div 64) # base64_alphabet ! (c mod 64) # encode_bytes rest"

section \<open>Workbooks\<close>

record zip_part =
  part_name :: string
  part_file_size :: nat
  part_flag_bits :: nat
  part_content :: "exc + bytes"

datatype xml = Xml (xml_tag: string) (xml_attrib: "(string \<times> string) list") (xml_children: "xml list")

record workbook_reader =
  open_zip :: "bytes \<Rightarrow> exc + zip_part list"
  parse_xml :: "bytes \<Rightarrow> exc + xml"

definition MAX_XLSX_PARTS :: nat where "MAX_XLSX_PARTS = 4096"
definition MAX_XLSX_EXPANDED_BYTES :: nat where "MAX_XLSX_EXPANDED_BYTES = 128 * 1024 * 1024"

definition MAIN_TYPE :: string where
  "MAIN_TYPE = ''application/vnd.openxmlformats-officedocument.spreadsheetml.sheet.main+xml''"
definition SHEET_TYPE :: string where
  "SHEET_TYPE = ''application/vnd.openxmlformats-officedocument.spreadsheetml.worksheet+xml''"
definition CONTENT_NS :: string where
  "CONTENT_NS = ''{http://schemas.openxmlformats.org/package/2006/content-types}''"
definition SHEET_NS :: string where
  "SHEET_NS = ''{http://schemas.openxmlformats.org/spreadsheetml/2006/main}''"
definition REL_NS :: string where
  "REL_NS = ''{http://schemas.openxmlformats.org/package/2006/relationships}''"
definition DOC_REL_NS :: string where
  "DOC_REL_NS = ''http://schemas.openxmlformats.org/officeDocument/2006/relationships''"

definition validate_package_bounds :: "zip_part list \<Rightarrow> exc + unit" where
  "validate_package_bounds parts =
     (let names = map part_name parts in run_checks
       [(length parts \<le> MAX_XLSX_PARTS \<and> distinct names,
         ValueError ''unbounded or ambiguous workbook package''),
        (sum_list (map part_file_size parts) \<le> MAX_XLSX_EXPANDED_BYTES,
         ValueError ''expanded workbook exceeds size bound''),
        (\<forall>p \<in> set parts. part_flag_bits p mod 2 = 0, ValueError ''encrypted workbook is not admitted''),
        (\<forall>n \<in> set names. \<not> startswith n ''/'' \<and> ''..'' \<notin> set (py_split CHR ''/'' n),
         ValueError ''unsafe workbook part path'')])"

definition bind_result :: "exc + 'a \<Rightarrow> ('a \<Rightarrow> exc + 'b) \<Rightarrow> exc + 'b" where
  "bind_result r f = (case r of Inl e \<Rightarrow> Inl e | Inr x \<Rightarrow> f x)"

text \<open>\<open>package.read(name)\<close>\<close>

definition read_part :: "zip_part list \<Rightarrow> string \<Rightarrow> exc + bytes" where
  "read_part parts name =
     (case List.find (\<lambda>p. part_name p = name) parts of None \<Rightarrow> Inl KeyError | Some p \<Rightarrow> part_content p)"

fun contains_sub :: "'x list \<Rightarrow> 'x list \<Rightarrow> bool" where
  "contains_sub p [] = (p = [])"
| "contains_sub p (x # xs) = (take (length p) (x # xs) = p \<or> contains_sub p xs)"

definition upper_byte :: "nat \<Rightarrow> nat" where
  "upper_byte b = (if 97 \<le> b \<and> b \<le> 122 then b - 32 else b)"

definition bytes_of_string :: "string \<Rightarrow> bytes" where
  "bytes_of_string s = map of_char s"

definition read_xml :: "workbook_reader \<Rightarrow> bytes \<Rightarrow> exc + xml" where
  "read_xml rd content =
     (if contains_sub (bytes_of_string ''<!DOCTYPE'') (map upper_byte content)
         \<or> contains_sub (bytes_of_string ''<!ENTITY'') (map upper_byte content)
      then Inl (ValueError ''XML declarations are not permitted'')
      else parse_xml rd content)"

definition find_children :: "string \<Rightarrow> xml \<Rightarrow> xml list" where
  "find_children tag node = filter (\<lambda>c. xml_tag c = tag) (xml_children node)"

definition attribute :: "string \<Rightarrow> xml \<Rightarrow> string option" where
  "attribute name node = map_of (xml_attrib node) name"

definition attribute_required :: "string \<Rightarrow> xml \<Rightarrow> exc + string" where
  "attribute_required name node = (case attribute name node of None \<Rightarrow> Inl KeyError | Some v \<Rightarrow> Inr v)"

fun add_relationships ::
    "(string, string \<times> string) dict \<Rightarrow> xml list \<Rightarrow> exc + (string, string \<times> string) dict" where
  "add_relationships result [] = Inr result"
| "add_relationships result (node # nodes) =
     (if attribute ''TargetMode'' node = Some ''External''
      then Inl (ValueError ''external workbook relationships are not admitted'')
      else bind_result (attribute_required ''Id'' node) (\<lambda>identifier.
        if dict_get result identifier \<noteq> None then Inl (ValueError ''ambiguous workbook relationships'')
        else bind_result (attribute_required ''Type'' node) (\<lambda>kind.
          bind_result (attribute_required ''Target'' node) (\<lambda>target.
            add_relationships (dict_set identifier (kind, target) result) nodes))))"

definition relationships ::
    "workbook_reader \<Rightarrow> zip_part list \<Rightarrow> string \<Rightarrow> exc + (string, string \<times> string) dict" where
  "relationships rd parts name =
     bind_result (read_part parts name) (\<lambda>content. bind_result (read_xml rd content) (\<lambda>root.
       add_relationships [] (find_children (REL_NS @ ''Relationship'') root)))"

text \<open>\<open>posixpath.normpath\<close> of a relative path\<close>

fun norm_components :: "string list \<Rightarrow> string list \<Rightarrow> string list" where
  "norm_components acc [] = acc"
| "norm_components acc (c # cs) =
     (if c = [] \<or> c = ''.'' then norm_components acc cs
      else if c \<noteq> ''..'' \<or> acc = [] \<or> last acc = ''..'' then norm_components (acc @ [c]) cs
      else norm_components (butlast acc) cs)"

definition normpath :: "string \<Rightarrow> string" where
  "normpath path =
     (let joined = py_join ''/'' (norm_components [] (py_split CHR ''/'' path)) in
      if joined = [] then ''.'' else joined)"

definition sheet_part :: "string \<Rightarrow> string" where
  "sheet_part target =
     (if startswith target ''/'' then dropWhile (\<lambda>c. c = CHR ''/'') target else normpath (''xl/'' @ target))"

definition content_type :: "xml \<Rightarrow> string \<Rightarrow> string option" where
  "content_type types name =
     (case List.find (\<lambda>n. attribute ''PartName'' n = Some name) (rev (find_children (CONTENT_NS @ ''Override'') types)) of
        None \<Rightarrow> None | Some n \<Rightarrow> attribute ''ContentType'' n)"

fun validate_sheets ::
    "workbook_reader \<Rightarrow> zip_part list \<Rightarrow> xml \<Rightarrow> (string, string \<times> string) dict \<Rightarrow> xml list \<Rightarrow> exc + unit" where
  "validate_sheets rd parts types links [] = Inr ()"
| "validate_sheets rd parts types links (sheet # sheets) =
     bind_result (attribute_required (''{'' @ DOC_REL_NS @ ''}id'') sheet) (\<lambda>i.
       case dict_get links i of
         None \<Rightarrow> Inl KeyError
       | Some (kind, target) \<Rightarrow>
           let part = sheet_part target in
           if kind \<noteq> DOC_REL_NS @ ''/worksheet'' \<or> content_type types (''/'' @ part) \<noteq> Some SHEET_TYPE
           then Inl (ValueError ''worksheet relationship is invalid'')
           else bind_result (read_part parts part) (\<lambda>content. bind_result (read_xml rd content) (\<lambda>root.
             if xml_tag root \<noteq> SHEET_NS @ ''worksheet''
             then Inl (ValueError ''worksheet part is invalid'')
             else validate_sheets rd parts types links sheets)))"

definition validate_workbook :: "workbook_reader \<Rightarrow> zip_part list \<Rightarrow> exc + unit" where
  "validate_workbook rd parts =
     bind_result (bind_result (read_part parts ''[Content_Types].xml'') (read_xml rd)) (\<lambda>types.
       if content_type types ''/xl/workbook.xml'' \<noteq> Some MAIN_TYPE
       then Inl (ValueError ''workbook content type is not XLSX'')
       else bind_result (relationships rd parts ''_rels/.rels'') (\<lambda>root_links.
         if (DOC_REL_NS @ ''/officeDocument'', ''xl/workbook.xml'') \<notin> set (dict_values root_links)
         then Inl (ValueError ''package lacks workbook relationship'')
         else bind_result (bind_result (read_part parts ''xl/workbook.xml'') (read_xml rd)) (\<lambda>workbook.
           if xml_tag workbook \<noteq> SHEET_NS @ ''workbook'' then Inl (ValueError ''workbook root is invalid'')
           else let sheets = concat (map (find_children (SHEET_NS @ ''sheet''))
                               (find_children (SHEET_NS @ ''sheets'') workbook)) in
             if sheets = [] then Inl (ValueError ''workbook requires worksheet evidence'')
             else bind_result (relationships rd parts ''xl/_rels/workbook.xml.rels'') (\<lambda>links.
               validate_sheets rd parts types links sheets))))"

text \<open>The exceptions the block turns into a rejection of the metadata.\<close>

fun package_error :: "exc \<Rightarrow> bool" where
  "package_error (ValueError _) = True"
| "package_error KeyError = True"
| "package_error (DriverError n) =
     (n \<in> {''BadZipFile'', ''ParseError'', ''RuntimeError'', ''EOFError'', ''zlib.error''})"
| "package_error _ = False"

definition validate_artifact_format ::
    "workbook_reader \<Rightarrow> string \<Rightarrow> string \<Rightarrow> bytes \<Rightarrow> exc + unit" where
  "validate_artifact_format rd out_format mime content =
     (if out_format \<noteq> ''xlsx'' \<and> mime \<noteq> XLSX_MIME then Inr ()
      else if out_format \<noteq> ''xlsx'' \<or> mime \<noteq> XLSX_MIME
      then Inl (MetadataValidationError ''XLSX format and media type must agree'')
      else (case bind_result (open_zip rd content) (\<lambda>parts.
                and_then (validate_package_bounds parts) (validate_workbook rd parts)) of
              Inr u \<Rightarrow> Inr u
            | Inl e \<Rightarrow> if package_error e
                then Inl (MetadataValidationError ''document content is not a bounded XLSX workbook'')
                else Inl e))"

section \<open>Properties\<close>

lemma position_nth:
  assumes "distinct xs" "i < length xs"
  shows "position (xs ! i) xs = Some i"
  using assms
proof (induction xs arbitrary: i)
  case (Cons x xs)
  then show ?case by (cases i) auto
qed simp

lemma base64_alphabet_facts: "distinct base64_alphabet" "length base64_alphabet = 64"
    "CHR ''='' \<notin> set base64_alphabet"
  by (simp_all add: base64_alphabet_def)

lemma sextet_digit [simp]: "i < 64 \<Longrightarrow> sextet (base64_alphabet ! i) = Some i"
  by (simp add: sextet_def position_nth base64_alphabet_facts)

lemma digit_not_pad [simp]: "i < 64 \<Longrightarrow> base64_alphabet ! i \<noteq> CHR ''=''"
  using base64_alphabet_facts nth_mem by metis

lemma b64decode_quad:
  assumes "sextet w = Some a" "sextet x = Some b" "sextet y = Some c" "sextet z = Some d"
    and "w \<noteq> CHR ''=''" "x \<noteq> CHR ''=''" "y \<noteq> CHR ''=''" "z \<noteq> CHR ''=''"
  shows "b64decode (w # x # y # z # s) = map_option
     (\<lambda>bs. (a * 4 + b div 16) # ((b mod 16) * 16 + c div 4) # ((c mod 4) * 64 + d) # bs) (b64decode s)"
proof -
  have "(Suc (Suc (Suc (Suc n))) + m) mod 4 = (n + m) mod 4" for n m :: nat by presburger
  then show ?thesis
    using assms by (simp add: b64decode_def Let_def del: replicate.simps)
qed

lemma combine_bits:
  fixes a b c :: nat
  assumes "a < 256" "b < 256" "c < 256"
  shows "a div 4 < 64" "a mod 4 * 16 < 64" "a mod 4 * 16 + b div 16 < 64" "b mod 16 * 4 < 64"
    "b mod 16 * 4 + c div 64 < 64" "c mod 64 < 64"
    "a div 4 * 4 + (a mod 4 * 16) div 16 = a"
    "a div 4 * 4 + (a mod 4 * 16 + b div 16) div 16 = a"
    "((a mod 4 * 16 + b div 16) mod 16) * 16 + (b mod 16 * 4) div 4 = b"
    "((a mod 4 * 16 + b div 16) mod 16) * 16 + (b mod 16 * 4 + c div 64) div 4 = b"
    "((b mod 16 * 4 + c div 64) mod 4) * 64 + c mod 64 = c"
proof -
  have sm: "a div 4 < 64" "a mod 4 < 4" "b div 16 < 16" "b mod 16 < 16" "c div 64 < 4" "c mod 64 < 64"
    using assms by auto
  have dm: "(x * 16 + y) div 16 = x" "(x * 16 + y) mod 16 = y" if "y < 16" for x y :: nat
    using that by auto
  have dm4: "(x * 4 + y) div 4 = x" "(x * 4 + y) mod 4 = y" if "y < 4" for x y :: nat
    using that by auto
  show "a div 4 < 64" "a mod 4 * 16 < 64" "a mod 4 * 16 + b div 16 < 64" "b mod 16 * 4 < 64"
    "b mod 16 * 4 + c div 64 < 64" "c mod 64 < 64"
    using sm by linarith+
  show "a div 4 * 4 + (a mod 4 * 16) div 16 = a" "a div 4 * 4 + (a mod 4 * 16 + b div 16) div 16 = a"
    using dm(1) [OF sm(3), of "a mod 4"] by simp_all
  show "((a mod 4 * 16 + b div 16) mod 16) * 16 + (b mod 16 * 4) div 4 = b"
    "((a mod 4 * 16 + b div 16) mod 16) * 16 + (b mod 16 * 4 + c div 64) div 4 = b"
    using dm(2) [OF sm(3), of "a mod 4"] dm4(1) [OF sm(5), of "b mod 16"] by simp_all
  show "((b mod 16 * 4 + c div 64) mod 4) * 64 + c mod 64 = c"
    using dm4(2) [OF sm(5), of "b mod 16"] by simp
qed

text \<open>Strict decoding inverts the standard encoding.\<close>

lemma b64_decode_encode:
  assumes "\<forall>b \<in> set bs. b < 256"
  shows "b64decode (encode_bytes bs) = Some bs"
  using assms
proof (induction bs rule: encode_bytes.induct)
  case 1
  then show ?case by (simp add: b64decode_def)
next
  case (2 a)
  then have "a < 256" by simp
  note bits = combine_bits [OF this this this]
  show ?case
    using bits by (simp add: b64decode_def Let_def numeral_2_eq_2)
next
  case (3 a b)
  then have ab: "a < 256" "b < 256" by simp_all
  note bits = combine_bits [OF ab ab(2)]
  show ?case
    using bits by (simp add: b64decode_def Let_def)
next
  case (4 a b c rest)
  then have abc: "a < 256" "b < 256" "c < 256" and ih: "b64decode (encode_bytes rest) = Some rest"
    by simp_all
  note bits = combine_bits [OF abc]
  show ?case
    using bits by (simp only: encode_bytes.simps b64decode_quad [OF sextet_digit sextet_digit sextet_digit sextet_digit]
        digit_not_pad ih option.map not_False_eq_True) 
qed

text \<open>Whatever is admitted fits the configured bound; an XLSX claim comes with its media type.\<close>

lemma decoded_bounded: "decode_document_content s n = Inr bs \<Longrightarrow> length bs \<le> n"
  by (auto simp: decode_document_content_def split: if_splits option.splits)

lemma accepted_format_agrees:
  "validate_artifact_format rd f m c = Inr u \<Longrightarrow> (f = ''xlsx'') = (m = XLSX_MIME)"
  by (auto simp: validate_artifact_format_def split: if_splits)

lemma bind_result_Inr: "bind_result r f = Inr y \<longleftrightarrow> (\<exists>x. r = Inr x \<and> f x = Inr y)"
  by (cases r) (simp_all add: bind_result_def)

lemma accepted_workbook_bounded:
  assumes "validate_artifact_format rd ''xlsx'' XLSX_MIME c = Inr u"
  obtains parts where "open_zip rd c = Inr parts" "length parts \<le> 4096" "distinct (map part_name parts)"
    "sum_list (map part_file_size parts) \<le> 128 * 1024 * 1024"
    "\<forall>p \<in> set parts. \<not> startswith (part_name p) ''/'' \<and> ''..'' \<notin> set (py_split CHR ''/'' (part_name p))"
proof -
  obtain parts where p: "open_zip rd c = Inr parts" "accepted (validate_package_bounds parts)"
    using assms
    by (auto simp: validate_artifact_format_def bind_result_Inr and_then_eq_Inr split: sum.splits if_splits)
  have "length parts \<le> 4096 \<and> distinct (map part_name parts)
      \<and> sum_list (map part_file_size parts) \<le> 128 * 1024 * 1024
      \<and> (\<forall>p \<in> set parts. \<not> startswith (part_name p) ''/'' \<and> ''..'' \<notin> set (py_split CHR ''/'' (part_name p)))"
    using p(2) by (simp add: validate_package_bounds_def Let_def MAX_XLSX_PARTS_def MAX_XLSX_EXPANDED_BYTES_def
        del: run_checks.simps)
  with p(1) that show thesis by blast
qed

end
