(* ===== verification/Checksum.thy ===== *)
theory Checksum
  imports Models "HOL-Library.Word"
begin

unbundle bit_operations_syntax

text \<open>
  \<open>src/app/archive/checksum.py\<close>. The digest is \<open>hashlib.sha256\<close> of the standard library,
  written out as FIPS 180-4 defines it, on 32-bit words; bytes are natural numbers read
  modulo 256. Only the hexadecimal digest is used by the service.
\<close>

section \<open>SHA-256\<close>

definition sha_round_constants :: "32 word list" where
  "sha_round_constants = [
    1116352408, 1899447441, 3049323471, 3921009573, 961987163, 1508970993, 2453635748, 2870763221,
    3624381080, 310598401, 607225278, 1426881987, 1925078388, 2162078206, 2614888103, 3248222580,
    3835390401, 4022224774, 264347078, 604807628, 770255983, 1249150122, 1555081692, 1996064986,
    2554220882, 2821834349, 2952996808, 3210313671, 3336571891, 3584528711, 113926993, 338241895,
    666307205, 773529912, 1294757372, 1396182291, 1695183700, 1986661051, 2177026350, 2456956037,
    2730485921, 2820302411, 3259730800, 3345764771, 3516065817, 3600352804, 4094571909, 275423344,
    430227734, 506948616, 659060556, 883997877, 958139571, 1322822218, 1537002063, 1747873779,
    1955562222, 2024104815, 2227730452, 2361852424, 2428436474, 2756734187, 3204031479, 3329325298]"

type_synonym sha_state = "32 word \<times> 32 word \<times> 32 word \<times> 32 word \<times> 32 word \<times> 32 word \<times> 32 word \<times> 32 word"

definition sha_initial :: sha_state where
  "sha_initial = (1779033703, 3144134277, 1013904242, 2773480762, 1359893119, 2600822924, 528734635, 1541459225)"

definition rotr :: "nat \<Rightarrow> 32 word \<Rightarrow> 32 word" where
  "rotr n x = drop_bit n x OR push_bit (32 - n) x"

definition word_of_bytes :: "nat list \<Rightarrow> 32 word" where
  "word_of_bytes bs = foldl (\<lambda>w b. push_bit 8 w OR of_nat (b mod 256)) 0 bs"

definition bytes_of_word :: "32 word \<Rightarrow> nat list" where
  "bytes_of_word w = map (\<lambda>i. unat (drop_bit (8 * i) w AND 0xff)) [3, 2, 1, 0]"

definition sha_padding :: "nat \<Rightarrow> nat list" where
  "sha_padding n = 0x80 # replicate ((55 + 64 - n mod 64) mod 64) 0
     @ map (\<lambda>i. (8 * n) div 2 ^ (8 * i) mod 256) [7, 6, 5, 4, 3, 2, 1, 0]"

primrec schedule :: "nat \<Rightarrow> 32 word list \<Rightarrow> 32 word list" where
  "schedule 0 ws = ws"
| "schedule (Suc k) ws =
     (let n = length ws; a = ws ! (n - 15); b = ws ! (n - 2);
          s0 = rotr 7 a XOR rotr 18 a XOR drop_bit 3 a;
          s1 = rotr 17 b XOR rotr 19 b XOR drop_bit 10 b
      in schedule k (ws @ [ws ! (n - 16) + s0 + ws ! (n - 7) + s1]))"

definition sha_round :: "32 word \<times> 32 word \<Rightarrow> sha_state \<Rightarrow> sha_state" where
  "sha_round kw st = (case kw of (k, w) \<Rightarrow> case st of (a, b, c, d, e, f, g, h) \<Rightarrow>
     (let s1 = rotr 6 e XOR rotr 11 e XOR rotr 25 e;
          ch = (e AND f) XOR (NOT e AND g);
          t1 = h + s1 + ch + k + w;
          s0 = rotr 2 a XOR rotr 13 a XOR rotr 22 a;
          maj = (a AND b) XOR (a AND c) XOR (b AND c);
          t2 = s0 + maj
      in (t1 + t2, a, b, c, d + t1, e, f, g)))"

definition sha_words :: "sha_state \<Rightarrow> 32 word list" where
  "sha_words st = (case st of (a, b, c, d, e, f, g, h) \<Rightarrow> [a, b, c, d, e, f, g, h])"

definition sha_add :: "sha_state \<Rightarrow> sha_state \<Rightarrow> sha_state" where
  "sha_add st st' = (case st of (a, b, c, d, e, f, g, h) \<Rightarrow> case st' of (a', b', c', d', e', f', g', h') \<Rightarrow>
     (a + a', b + b', c + c', d + d', e + e', f + f', g + g', h + h'))"

fun words_of :: "nat list \<Rightarrow> 32 word list" where
  "words_of (a # b # c # d # rest) = word_of_bytes [a, b, c, d] # words_of rest"
| "words_of _ = []"

definition sha_block :: "sha_state \<Rightarrow> 32 word list \<Rightarrow> sha_state" where
  "sha_block st ws = sha_add st (fold sha_round (zip sha_round_constants (schedule 48 ws)) st)"

primrec sha_blocks :: "nat \<Rightarrow> sha_state \<Rightarrow> 32 word list \<Rightarrow> sha_state" where
  "sha_blocks 0 st ws = st"
| "sha_blocks (Suc n) st ws = sha_blocks n (sha_block st (take 16 ws)) (drop 16 ws)"

definition sha256_digest :: "bytes \<Rightarrow> nat list" where
  "sha256_digest bs =
     (let padded = bs @ sha_padding (length bs) in
      concat (map bytes_of_word (sha_words (sha_blocks (length padded div 64) sha_initial (words_of padded)))))"

definition hex_of_byte :: "nat \<Rightarrow> string" where
  "hex_of_byte b = [hex_digits ! (b div 16 mod 16), hex_digits ! (b mod 16)]"

definition sha256_hexdigest :: "bytes \<Rightarrow> string" where
  "sha256_hexdigest bs = concat (map hex_of_byte (sha256_digest bs))"

section \<open>Checksums\<close>

definition SUPPORTED_CHECKSUM_ALGORITHM :: string where
  "SUPPORTED_CHECKSUM_ALGORITHM = ''sha256''"

definition calculate_checksum :: "bytes \<Rightarrow> string \<Rightarrow> exc + string" where
  "calculate_checksum content algorithm =
     (if py_lower algorithm \<noteq> SUPPORTED_CHECKSUM_ALGORITHM
      then Inl (UnsupportedChecksumAlgorithmError (''Unsupported checksum algorithm: '' @ algorithm))
      else Inr (sha256_hexdigest content))"

text \<open>Feeding the digest chunk by chunk is feeding it their concatenation.\<close>

definition calculate_stream_checksum :: "bytes list \<Rightarrow> string \<Rightarrow> exc + string" where
  "calculate_stream_checksum chunks algorithm =
     (if py_lower algorithm \<noteq> SUPPORTED_CHECKSUM_ALGORITHM
      then Inl (UnsupportedChecksumAlgorithmError (''Unsupported checksum algorithm: '' @ algorithm))
      else Inr (sha256_hexdigest (foldl (\<lambda>digest chunk. digest @ chunk) [] chunks)))"

lemma calculate_checksum_sha256 [simp]:
  "calculate_checksum bs ''sha256'' = Inr (sha256_hexdigest bs)"
  by (simp add: calculate_checksum_def SUPPORTED_CHECKSUM_ALGORITHM_def ascii_lower_def)

lemma length_sha_words [simp]: "length (sha_words st) = 8"
  by (simp add: sha_words_def split: prod.split)

lemma length_sha256_hexdigest [simp]: "length (sha256_hexdigest bs) = 64"
proof -
  have hex: "length (concat (map hex_of_byte xs)) = 2 * length xs" for xs
    by (induction xs) (simp_all add: hex_of_byte_def)
  have words: "length (concat (map bytes_of_word ws)) = 4 * length ws" for ws
    by (induction ws) (simp_all add: bytes_of_word_def)
  show ?thesis
    by (simp add: sha256_hexdigest_def sha256_digest_def hex words Let_def)
qed

lemma sha256_hexdigest_digits: "set (sha256_hexdigest bs) \<subseteq> set hex_digits"
proof -
  have nth: "hex_digits ! (n mod 16) \<in> set hex_digits" for n
    by (rule nth_mem) (simp add: hex_digits_def)
  then show ?thesis
    by (auto simp: sha256_hexdigest_def hex_of_byte_def)
qed

end
