(* ===== verification/Storage.thy ===== *)
theory Storage
  imports Checksum
begin

text \<open>
  The object store of \<open>src/app/archive/storage.py\<close>: its protocol as a record of operations and
  as the locale \<open>object_storage\<close>, and the filesystem implementation over a file system that
  maps paths below the root to byte strings and knows which paths are directories. Errors of
  the operating system are \<open>DriverError ''OSError''\<close>.
\<close>

record stored_object =
  stored_provider :: string
  stored_namespace :: string
  stored_key :: string
  stored_checksum_algorithm :: string
  stored_checksum :: string
  stored_size_bytes :: nat

record 's object_storage =
  store_check_ready :: "('s, unit) io"
  store_put :: "string \<Rightarrow> bytes \<Rightarrow> string \<Rightarrow> string \<Rightarrow> ('s, stored_object) io"
  store_get :: "string \<Rightarrow> ('s, bytes) io"
  store_delete :: "string \<Rightarrow> ('s, unit) io"

section \<open>The contract\<close>

text \<open>
  An operation on a key touches the object at the key's address, and a write may also use one
  scratch address; everything else stays. A write that returns has stored the bytes whose
  checksum was expected; a deletion that returns has removed the object.
\<close>

locale object_storage =
  fixes S :: "'s object_storage" and objects :: "'s \<Rightarrow> 'p \<Rightarrow> bytes option"
    and addr :: "string \<Rightarrow> 'p option" and scratch :: "'p \<Rightarrow> 'p"
  assumes put_frame: "store_put S key bs cs alg s = (x, s') \<Longrightarrow> addr key \<noteq> Some q
      \<Longrightarrow> map_option scratch (addr key) \<noteq> Some q \<Longrightarrow> objects s' q = objects s q"
    and put_stores: "store_put S key bs cs alg s = (Inr so, s') \<Longrightarrow>
      (\<exists>p. addr key = Some p \<and> objects s' p = Some bs) \<and> calculate_checksum bs alg = Inr cs
      \<and> stored_key so = key \<and> stored_checksum so = cs \<and> stored_checksum_algorithm so = alg
      \<and> stored_size_bytes so = length bs"
    and get_reads: "store_get S key s = (y, s') \<Longrightarrow> objects s' = objects s
      \<and> (\<forall>bs. y = Inr bs \<longrightarrow> (\<exists>p. addr key = Some p \<and> objects s p = Some bs))"
    and delete_frame: "store_delete S key s = (z, s') \<Longrightarrow> addr key \<noteq> Some q \<Longrightarrow> objects s' q = objects s q"
    and delete_removes: "store_delete S key s = (Inr u, s') \<Longrightarrow> \<exists>p. addr key = Some p \<and> objects s' p = None"
    and ready_reads: "store_check_ready S s = (v, s') \<Longrightarrow> objects s' = objects s"

section \<open>Paths\<close>

text \<open>\<open>Path(key).parts\<close> of a relative POSIX path; an absolute path is refused before use.\<close>

definition path_parts :: "string \<Rightarrow> string list" where
  "path_parts key = filter (\<lambda>p. p \<noteq> [] \<and> p \<noteq> ''.'') (py_split CHR ''/'' key)"

definition is_absolute :: "string \<Rightarrow> bool" where
  "is_absolute key \<longleftrightarrow> startswith key ''/''"

definition path_for_key :: "string \<Rightarrow> exc + string list" where
  "path_for_key key =
     (if ''..'' \<in> set (path_parts key) \<or> is_absolute key
      then Inl (StorageReadFailedError ''unsafe storage key'')
      else Inr (path_parts key))"

section \<open>The filesystem store\<close>

record filesystem =
  fs_files :: "(string list, bytes) dict"
  fs_dirs :: "string list list"
  fs_ready :: bool

definition os_error :: exc where
  "os_error = DriverError ''OSError''"

definition fs_delete_file :: "string list \<Rightarrow> filesystem \<Rightarrow> filesystem" where
  "fs_delete_file p fs = fs\<lparr>fs_files := AList.delete p (fs_files fs)\<rparr>"

definition fs_write_file :: "string list \<Rightarrow> bytes \<Rightarrow> filesystem \<Rightarrow> filesystem" where
  "fs_write_file p bs fs = fs\<lparr>fs_files := dict_set p bs (fs_files fs)\<rparr>"

definition fs_is_file :: "string list \<Rightarrow> filesystem \<Rightarrow> bool" where
  "fs_is_file p fs \<longleftrightarrow> dict_get (fs_files fs) p \<noteq> None"

definition fs_is_dir :: "string list \<Rightarrow> filesystem \<Rightarrow> bool" where
  "fs_is_dir p fs \<longleftrightarrow> p = [] \<or> p \<in> set (fs_dirs fs)"

definition prefixes_of :: "string list \<Rightarrow> string list list" where
  "prefixes_of p = map (\<lambda>n. take n p) [1..<Suc (length p)]"

text \<open>\<open>mkdir(parents=True, exist_ok=True)\<close>\<close>

definition fs_mkdir :: "string list \<Rightarrow> (filesystem, unit) io" where
  "fs_mkdir p fs =
     (if \<exists>q \<in> set (prefixes_of p). fs_is_file q fs then (Inl os_error, fs)
      else (Inr (), fs\<lparr>fs_dirs := fs_dirs fs @ prefixes_of p\<rparr>))"

definition fs_write_bytes :: "string list \<Rightarrow> bytes \<Rightarrow> (filesystem, unit) io" where
  "fs_write_bytes p bs fs =
     (if fs_is_dir p fs then (Inl os_error, fs) else (Inr (), fs_write_file p bs fs))"

definition fs_replace :: "string list \<Rightarrow> string list \<Rightarrow> (filesystem, unit) io" where
  "fs_replace src dst fs =
     (case dict_get (fs_files fs) src of
        None \<Rightarrow> (Inl os_error, fs)
      | Some bs \<Rightarrow> if fs_is_dir dst fs then (Inl os_error, fs)
                   else (Inr (), fs_write_file dst bs (fs_delete_file src fs)))"

text \<open>\<open>object_path.with_suffix(object_path.suffix + ".tmp")\<close>: the file name with \<open>.tmp\<close> appended.\<close>

definition temporary_path :: "string list \<Rightarrow> string list" where
  "temporary_path p = butlast p @ [last p @ ''.tmp'']"

definition fs_put :: "string \<Rightarrow> string \<Rightarrow> bytes \<Rightarrow> string \<Rightarrow> string \<Rightarrow> (filesystem, stored_object) io" where
  "fs_put namespace key content expected algorithm =
     bind_io (of_result (calculate_checksum content algorithm)) (\<lambda>actual.
       if actual \<noteq> expected
       then raise (DocumentChecksumMismatchError ''document checksum did not match expected value'')
       else bind_io (of_result (path_for_key key)) (\<lambda>p.
         if p = [] then raise (ValueError ''has an empty name'')
         else seq_io (fs_mkdir (butlast p)) (seq_io (fs_write_bytes (temporary_path p) content)
           (seq_io (fs_replace (temporary_path p) p)
             (ret \<lparr>stored_provider = ''filesystem'', stored_namespace = namespace, stored_key = key,
                   stored_checksum_algorithm = algorithm, stored_checksum = actual,
                   stored_size_bytes = length content\<rparr>)))))"

definition fs_get :: "string \<Rightarrow> (filesystem, bytes) io" where
  "fs_get key = bind_io (of_result (path_for_key key)) (\<lambda>p fs.
     case dict_get (fs_files fs) p of
       Some bs \<Rightarrow> (Inr bs, fs)
     | None \<Rightarrow> if fs_is_dir p fs then (Inl os_error, fs)
               else (Inl (StorageReadFailedError ''stored document object was not found''), fs))"

definition fs_delete :: "string \<Rightarrow> (filesystem, unit) io" where
  "fs_delete key = bind_io (of_result (path_for_key key)) (\<lambda>p fs.
     if fs_is_file p fs then (Inr (), fs_delete_file p fs)
     else if fs_is_dir p fs then (Inl os_error, fs)
     else (Inr (), fs))"

definition fs_check_ready :: "(filesystem, unit) io" where
  "fs_check_ready fs = (if fs_ready fs then Inr () else Inl (DriverError ''archive_storage_unavailable''), fs)"

definition filesystem_store :: "string \<Rightarrow> filesystem object_storage" where
  "filesystem_store namespace = \<lparr>store_check_ready = fs_check_ready, store_put = fs_put namespace,
     store_get = fs_get, store_delete = fs_delete\<rparr>"

section \<open>It keeps the contract\<close>

definition fs_objects :: "filesystem \<Rightarrow> string list \<Rightarrow> bytes option" where
  "fs_objects fs = dict_get (fs_files fs)"

definition fs_addr :: "string \<Rightarrow> string list option" where
  "fs_addr key = (case path_for_key key of Inl _ \<Rightarrow> None | Inr p \<Rightarrow> Some p)"

lemma dict_get_delete: "dict_get (AList.delete k d) = (dict_get d)(k := None)"
  by (simp add: dict_get_def delete_conv' fun_eq_iff)

lemma fs_objects_simps [simp]:
  "fs_objects (fs_write_file p bs fs) = (fs_objects fs)(p \<mapsto> bs)"
  "fs_objects (fs_delete_file p fs) = (fs_objects fs)(p := None)"
  "fs_objects (fs\<lparr>fs_dirs := D\<rparr>) = fs_objects fs"
  by (simp_all add: fs_objects_def fs_write_file_def fs_delete_file_def dict_get_delete fun_eq_iff)

lemma temporary_path_other: "p \<noteq> [] \<Longrightarrow> temporary_path p \<noteq> p"
proof
  assume "p \<noteq> []" "temporary_path p = p"
  then have "last (temporary_path p) = last p" by simp
  then show False by (simp add: temporary_path_def)
qed

text \<open>What a write does, step by step.\<close>

lemma fs_put_cases:
  assumes "fs_put ns key bs cs alg fs = (x, fs')"
  obtains (before) e where "x = Inl e" "fs_objects fs' = fs_objects fs"
    | (scratched) e p where "x = Inl e" "path_for_key key = Inr p" "p \<noteq> []"
        "fs_objects fs' = (fs_objects fs)(temporary_path p \<mapsto> bs)"
    | (stored) p where "path_for_key key = Inr p" "p \<noteq> []" "calculate_checksum bs alg = Inr cs"
        "x = Inr \<lparr>stored_provider = ''filesystem'', stored_namespace = ns, stored_key = key,
                   stored_checksum_algorithm = alg, stored_checksum = cs, stored_size_bytes = length bs\<rparr>"
        "fs_objects fs' = ((fs_objects fs)(temporary_path p \<mapsto> bs, temporary_path p := None))(p \<mapsto> bs)"
proof (cases "calculate_checksum bs alg = Inr cs")
  case False
  with assms have "\<exists>e. x = Inl e" "fs' = fs"
    by (auto simp: fs_put_def io_simps split: sum.splits if_splits)
  with before show thesis by blast
next
  case sum: True
  show thesis
  proof (cases "path_for_key key")
    case (Inl e)
    with assms sum have "x = Inl e" "fs' = fs" by (simp_all add: fs_put_def io_simps)
    then show thesis by (intro before) simp_all
  next
    case (Inr p)
    show thesis
    proof (cases "p = []")
      case True
      with assms sum Inr have "x = Inl (ValueError ''has an empty name'')" "fs' = fs"
        by (simp_all add: fs_put_def io_simps)
      then show thesis by (intro before) simp_all
    next
      case ne: False
      let ?t = "temporary_path p"
      show thesis
      proof (cases "\<exists>q \<in> set (prefixes_of (butlast p)). fs_is_file q fs")
        case True
        with assms sum Inr ne have "x = Inl os_error" "fs' = fs"
          by (simp_all add: fs_put_def io_simps fs_mkdir_def)
        then show thesis by (intro before) simp_all
      next
        case mk: False
        let ?fs1 = "fs\<lparr>fs_dirs := fs_dirs fs @ prefixes_of (butlast p)\<rparr>"
        have m: "fs_mkdir (butlast p) fs = (Inr (), ?fs1)" using mk by (simp add: fs_mkdir_def)
        show thesis
        proof (cases "fs_is_dir ?t ?fs1")
          case True
          then have "fs_write_bytes ?t bs ?fs1 = (Inl os_error, ?fs1)" by (simp add: fs_write_bytes_def)
          then have "x = Inl os_error" "fs' = ?fs1"
            using assms sum Inr ne m by (simp_all add: fs_put_def io_simps)
          then show thesis by (intro before) simp_all
        next
          case wr: False
          let ?fs2 = "fs_write_file ?t bs ?fs1"
          have w: "fs_write_bytes ?t bs ?fs1 = (Inr (), ?fs2)" using wr by (simp add: fs_write_bytes_def)
          have got: "dict_get (fs_files ?fs2) ?t = Some bs" by (simp add: fs_write_file_def)
          show thesis
          proof (cases "fs_is_dir p ?fs2")
            case True
            then have "fs_replace ?t p ?fs2 = (Inl os_error, ?fs2)" using got by (simp add: fs_replace_def)
            then have "x = Inl os_error" "fs' = ?fs2"
              using assms sum Inr ne m w by (simp_all add: fs_put_def io_simps)
            then show thesis by (intro scratched [OF _ Inr ne]) simp_all
          next
            case False
            let ?fs3 = "fs_write_file p bs (fs_delete_file ?t ?fs2)"
            have "fs_replace ?t p ?fs2 = (Inr (), ?fs3)" using False got by (simp add: fs_replace_def)
            then have "x = Inr \<lparr>stored_provider = ''filesystem'', stored_namespace = ns, stored_key = key,
                   stored_checksum_algorithm = alg, stored_checksum = cs, stored_size_bytes = length bs\<rparr>"
              "fs' = ?fs3"
              using assms sum Inr ne m w by (simp_all add: fs_put_def io_simps)
            then show thesis by (intro stored [OF Inr ne sum]) simp_all
          qed
        qed
      qed
    qed
  qed
qed

interpretation fs: object_storage "filesystem_store ns" fs_objects fs_addr temporary_path
proof
  fix key bs cs alg s x s' q
  assume put: "store_put (filesystem_store ns) key bs cs alg s = (x, s')"
    and q: "fs_addr key \<noteq> Some q" "map_option temporary_path (fs_addr key) \<noteq> Some q"
  show "fs_objects s' q = fs_objects s q"
    using put [unfolded filesystem_store_def object_storage.select_convs]
    by (cases rule: fs_put_cases) (use q in \<open>auto simp: fs_addr_def\<close>)
next
  fix key bs cs alg s so s'
  assume put: "store_put (filesystem_store ns) key bs cs alg s = (Inr so, s')"
  show "(\<exists>p. fs_addr key = Some p \<and> fs_objects s' p = Some bs) \<and> calculate_checksum bs alg = Inr cs
      \<and> stored_key so = key \<and> stored_checksum so = cs \<and> stored_checksum_algorithm so = alg
      \<and> stored_size_bytes so = length bs"
    using put [unfolded filesystem_store_def object_storage.select_convs]
    by (cases rule: fs_put_cases) (auto simp: fs_addr_def)
next
  fix key s y s' assume "store_get (filesystem_store ns) key s = (y, s')"
  then show "fs_objects s' = fs_objects s
      \<and> (\<forall>bs. y = Inr bs \<longrightarrow> (\<exists>p. fs_addr key = Some p \<and> fs_objects s p = Some bs))"
    by (auto simp: filesystem_store_def fs_get_def fs_addr_def fs_objects_def bind_io_def of_result_def
        split: sum.splits option.splits if_splits)
next
  fix key s z s' q assume "store_delete (filesystem_store ns) key s = (z, s')" "fs_addr key \<noteq> Some q"
  then show "fs_objects s' q = fs_objects s q"
    by (auto simp: filesystem_store_def fs_delete_def fs_addr_def bind_io_def of_result_def
        split: sum.splits option.splits if_splits)
next
  fix key s u s' assume "store_delete (filesystem_store ns) key s = (Inr u, s')"
  then show "\<exists>p. fs_addr key = Some p \<and> fs_objects s' p = None"
    by (auto simp: filesystem_store_def fs_delete_def fs_addr_def bind_io_def of_result_def fs_is_file_def
        fs_objects_def fs_delete_file_def dict_get_delete split: sum.splits option.splits if_splits)
next
  fix s v s' assume "store_check_ready (filesystem_store ns) s = (v, s')"
  then show "fs_objects s' = fs_objects s" by (simp add: filesystem_store_def fs_check_ready_def)
qed

end
