(* ===== verification/Writer.thy ===== *)
theory Writer
  imports Metrics ArtifactFormat Storage
begin

text \<open>
  \<open>ArchiveWriter\<close> of \<open>src/app/archive/archive_writer.py\<close>: how a document enters custody. The
  order of its checks and effects is the code's: format, declared checksum, artifact
  identity, idempotent replay, and only then the object and the record.
\<close>

text \<open>What \<open>ArchiveDocumentService\<close> is built from.\<close>

record ('r, 's, 'a) archive_service =
  svc_repository :: "'r document_repository"
  svc_storage :: "'s object_storage"
  svc_audit :: "'a audit_repository"
  svc_policy :: authorization_policy
  svc_max_decoded_bytes :: nat
  svc_reader :: workbook_reader

definition storage_key_for :: "document_input \<Rightarrow> string \<Rightarrow> string" where
  "storage_key_for m d =
     (let safe_output_format = py_replace_char CHR ''/'' CHR ''-'' (py_lower (output_format m)) in
      py_join ''/'' [py_lower (region m), tenant_id m, py_lower (report_type_value (report_type m)),
                     d @ ''.'' @ safe_output_format])"

text \<open>
  \<open>ArchiveDocumentMetadata(**metadata_input.model_dump(), ...)\<close>: the input is validated again
  as part of the larger model, then the fields the model adds. Its strings are stripped first,
  as the configuration the model inherits asks for.
\<close>

definition build_metadata :: "document_input \<Rightarrow> string \<Rightarrow> stored_object \<Rightarrow> instant \<Rightarrow> exc + document_metadata" where
  "build_metadata m d so now =
     (case validate_document_input m of
        Inl e \<Rightarrow> Inl e
      | Inr v \<Rightarrow>
         (let d' = py_strip d; provider = py_strip (stored_provider so);
              namespace = py_strip (stored_namespace so); key = py_strip (stored_key so);
              algorithm = py_lower (py_strip (stored_checksum_algorithm so));
              digest = py_strip (stored_checksum so) in
          and_then
            (run_checks
              [(d' \<noteq> [], ValidationError ''document_id''),
               (provider \<noteq> [], ValidationError ''storage_provider''),
               (namespace \<noteq> [], ValidationError ''storage_namespace''),
               (key \<noteq> [], ValidationError ''storage_key''),
               (algorithm = SUPPORTED_CHECKSUM_ALGORITHM,
                ValidationError ''checksum_algorithm must be sha256''),
               (length digest = 64, ValidationError ''checksum'')])
            (Inr (document_input.extend v (document_metadata.fields d' provider namespace key
               algorithm digest (int (stored_size_bytes so)) None None None NOT_ELIGIBLE CLEAR 0
               None None None None now now)))))"

definition ensure_duplicate_request_is_idempotent ::
    "document_metadata \<Rightarrow> document_input \<Rightarrow> string \<Rightarrow> bytes \<Rightarrow> exc + unit" where
  "ensure_duplicate_request_is_idempotent existing m digest content = run_checks
     [(checksum existing = digest \<and> size_bytes existing = int (length content),
       DuplicateArchiveRequestConflict ''archive_request_id was reused with different document content''),
      (input_fields existing = m,
       DuplicateArchiveRequestConflict ''archive_request_id was reused with different metadata'')]"

definition check_artifact_identity ::
    "('r, 's, 'a) archive_service \<Rightarrow> document_input \<Rightarrow> string \<Rightarrow> (('r, 's, 'a) world, unit) io" where
  "check_artifact_identity svc m digest =
     (case document_reference m of
        None \<Rightarrow> skip_io
      | Some offered \<Rightarrow> bind_io (on_repo (repo_get_by_checksum (svc_repository svc) digest)) (\<lambda>held.
          case List.find (\<lambda>h. document_reference h \<noteq> None \<and> document_reference h \<noteq> Some offered) held of
            None \<Rightarrow> skip_io
          | Some h \<Rightarrow> raise (ArtifactIdentityCollisionError digest (the (document_reference h)) offered)))"

text \<open>What the two \<open>except\<close> clauses do: remove the object, then re-raise.\<close>

definition discard_object ::
    "('r, 's, 'a) archive_service \<Rightarrow> string \<Rightarrow> exc \<Rightarrow> (('r, 's, 'a) world, 'x) io" where
  "discard_object svc key e =
     seq_io (on_store (store_delete (svc_storage svc) key))
       (raise (case e of
          ValidationError _ \<Rightarrow> MetadataValidationError ''archive metadata could not be validated''
        | _ \<Rightarrow> e))"

definition store_new_document ::
    "('r, 's, 'a) archive_service \<Rightarrow> document_input \<Rightarrow> bytes \<Rightarrow> string
      \<Rightarrow> (('r, 's, 'a) world, document_metadata) io" where
  "store_new_document svc m content digest =
     bind_io draw_uuid (\<lambda>u.
       let d = ''doc_'' @ u; key = storage_key_for m d in
       bind_io (on_store (store_put (svc_storage svc) key content digest SUPPORTED_CHECKSUM_ALGORITHM)) (\<lambda>so.
         bind_io read_clock (\<lambda>now.
           try_except
             (bind_io (of_result (build_metadata m d so now))
                (\<lambda>metadata. on_repo (repo_save (svc_repository svc) metadata)))
             (discard_object svc (stored_key so)))))"

definition archive_document ::
    "('r, 's, 'a) archive_service \<Rightarrow> document_input \<Rightarrow> bytes \<Rightarrow> (('r, 's, 'a) world, document_metadata) io" where
  "archive_document svc m content =
     seq_io (of_result (validate_artifact_format (svc_reader svc) (output_format m) (mime_type m) content))
     (bind_io (of_result (calculate_checksum content SUPPORTED_CHECKSUM_ALGORITHM)) (\<lambda>digest.
        if declared_artifact_sha256 m \<noteq> None \<and> declared_artifact_sha256 m \<noteq> Some digest
        then raise (DeclaredChecksumMismatchError (the (declared_artifact_sha256 m)) digest)
        else seq_io (check_artifact_identity svc m digest)
          (bind_io (on_repo (repo_get_by_archive_request_id (svc_repository svc) (archive_request_id m)))
            (\<lambda>existing. case existing of
               Some e \<Rightarrow> seq_io (of_result (ensure_duplicate_request_is_idempotent e m digest content)) (ret e)
             | None \<Rightarrow> store_new_document svc m content digest))))"

end
