(* ===== verification/Purge.thy ===== *)
theory Purge
  imports Writer
begin

text \<open>
  \<open>src/app/archive/purge_transitions.py\<close>: a purge decision is committed on the stored row, or
  answered from it when another writer has moved the document on.
\<close>

definition stored_or_raise ::
    "('r, 's, 'a) archive_service \<Rightarrow> string \<Rightarrow> (('r, 's, 'a) world, document_metadata) io" where
  "stored_or_raise svc d =
     bind_io (on_repo (repo_get_by_document_id (svc_repository svc) d)) (\<lambda>m.
       case m of None \<Rightarrow> raise DocumentNotFoundError | Some x \<Rightarrow> ret x)"

definition reclassify_refused_transition ::
    "('r, 's, 'a) archive_service \<Rightarrow> string \<Rightarrow> (('r, 's, 'a) world, document_metadata \<times> bool \<times> string) io" where
  "reclassify_refused_transition svc d =
     bind_io (stored_or_raise svc d) (\<lambda>current.
       if purge_status current = PURGED then ret (current, True, ''already_purged'')
       else if purge_started_at current \<noteq> None then ret (current, True, ''purge_in_progress'')
       else if legal_hold_status current = ACTIVE then ret (current, False, ''legal_hold_active'')
       else bind_io (on_repo (repo_list_legal_holds (svc_repository svc) d)) (\<lambda>holds.
         if \<exists>h \<in> set holds. hold_status h = ACTIVE then ret (current, False, ''legal_hold_active'')
         else ret (current, False, ''purge_state_changed'')))"

definition withdraw_eligibility ::
    "('r, 's, 'a) archive_service \<Rightarrow> document_metadata \<Rightarrow> string
      \<Rightarrow> (('r, 's, 'a) world, document_metadata \<times> bool \<times> string) io" where
  "withdraw_eligibility svc m reason_code =
     bind_io read_clock (\<lambda>now.
       bind_io (on_repo (repo_mark_purge_not_eligible (svc_repository svc) (document_id m) now)) (\<lambda>withdrawn.
         case withdrawn of
           None \<Rightarrow> reclassify_refused_transition svc (document_id m)
         | Some x \<Rightarrow> ret (x, False, reason_code)))"

definition grant_eligibility ::
    "('r, 's, 'a) archive_service \<Rightarrow> document_metadata
      \<Rightarrow> (('r, 's, 'a) world, document_metadata \<times> bool \<times> string) io" where
  "grant_eligibility svc m =
     bind_io read_clock (\<lambda>eligible_at. bind_io read_clock (\<lambda>now.
       bind_io (on_repo (repo_mark_purge_eligible (svc_repository svc) (document_id m) eligible_at now)) (\<lambda>granted.
         case granted of
           None \<Rightarrow> reclassify_refused_transition svc (document_id m)
         | Some x \<Rightarrow> ret (x, True, ''retention_elapsed''))))"

definition evaluate_purge ::
    "('r, 's, 'a) archive_service \<Rightarrow> document_metadata \<Rightarrow> date option
      \<Rightarrow> (('r, 's, 'a) world, document_metadata \<times> bool \<times> string) io" where
  "evaluate_purge svc m evaluation_date =
     (if purge_status m = PURGED then ret (m, True, ''already_purged'')
      else if purge_started_at m \<noteq> None then ret (m, True, ''purge_in_progress'')
      else if legal_hold_status m = ACTIVE then withdraw_eligibility svc m ''legal_hold_active''
      else (case retain_until_date m of
        None \<Rightarrow> withdraw_eligibility svc m ''retain_until_date_missing''
      | Some retain_until \<Rightarrow>
          bind_io (case evaluation_date of Some dt \<Rightarrow> ret dt | None \<Rightarrow> read_today) (\<lambda>effective_date.
            if retain_until > effective_date then withdraw_eligibility svc m ''retention_period_active''
            else if purge_status m = ELIGIBLE then ret (m, True, ''retention_elapsed'')
            else grant_eligibility svc m)))"

end
