(* ===== verification/SourceEvents.thy ===== *)
theory SourceEvents
  imports Lifecycle "HOL-Library.Product_Lexorder" "HOL-Library.Multiset"
begin

text \<open>
  \<open>src/app/archive/source_events.py\<close>: the events Archive offers downstream about a document,
  one for its creation and one for each lifecycle relationship it takes part in, in the order
  of time and identifier. An event is a record with the keys of the code's dictionary.
\<close>

definition SOURCE_EVENT_FAMILY :: string where
  "SOURCE_EVENT_FAMILY = ''lotus-archive.generated_document_client_communication.v1''"

definition SOURCE_SYSTEM :: string where
  "SOURCE_SYSTEM = ''lotus-archive''"

definition RETENTION_POLICY :: string where
  "RETENTION_POLICY = ''archive_document_retention_policy''"

definition REDACTION_POLICY :: string where
  "REDACTION_POLICY = ''NO_RAW_DOCUMENT_BYTES_NO_STORAGE_KEYS_NO_CLIENT_REFERENCE''"

definition AUDIT_POLICY :: string where
  "AUDIT_POLICY = ''archive_access_and_lifecycle_audit''"

definition ACCESS_CLASSIFICATION :: string where
  "ACCESS_CLASSIFICATION = ''restricted''"

definition DELIVERY_MODE :: string where
  "DELIVERY_MODE = ''pull_only''"

definition REPLAY_CONTRACT :: string where
  "REPLAY_CONTRACT = ''deterministic_limit_offset_replay_by_event_time_and_id''"

definition SOURCE_OWNER :: string where
  "SOURCE_OWNER = ''lotus-report''"

definition DOCUMENT_EVIDENCE_AUTHORITY :: string where
  "DOCUMENT_EVIDENCE_AUTHORITY = ''lotus-archive_document_evidence_only''"

record artifact_ref =
  artifact_type :: string
  artifact_id :: string
  artifact_content_hash :: "string option"

record source_event_base =
  ev_source_system :: string
  ev_source_event_family :: string
  ev_portfolio_id :: "string option"
  ev_composite_id :: "string option"
  ev_composite_report_identity :: "composite_custody_identity option"
  ev_report_type :: string
  ev_report_job_id :: string
  ev_snapshot_id :: string
  ev_report_revision_id :: "string option"
  ev_document_reference :: "string option"
  ev_mime_type :: string
  ev_output_format :: string
  ev_render_job_id :: string
  ev_render_attempt_id :: string
  ev_report_data_contract_version :: string
  ev_template_id :: string
  ev_template_version :: string
  ev_document_id :: string
  ev_current_document_id :: string
  ev_content_hash :: string
  ev_supportability_state :: string
  ev_delivery_mode :: string
  ev_replay_contract :: string
  ev_source_owner :: string
  ev_document_evidence_authority :: string
  ev_retention_policy :: string
  ev_redaction_policy :: string
  ev_audit_policy :: string
  ev_access_classification :: string
  ev_artifact_refs :: "artifact_ref list"

record source_event = source_event_base +
  event_id :: string
  event_type :: string
  occurred_at :: instant
  source_type :: string
  source_id :: string
  related_document_id :: "string option"
  transition_reason_code_of :: "string option"
  reason_codes :: "string list"

definition content_hash :: "document_metadata \<Rightarrow> string" where
  "content_hash m = checksum_algorithm m @ '':'' @ checksum m"

definition artifact_refs :: "document_metadata \<Rightarrow> artifact_ref list" where
  "artifact_refs m =
     [\<lparr>artifact_type = ''archive_document_metadata'', artifact_id = document_id m,
       artifact_content_hash = Some (content_hash m)\<rparr>,
      \<lparr>artifact_type = ''report_job'', artifact_id = report_job_id m, artifact_content_hash = None\<rparr>,
      \<lparr>artifact_type = ''render_attempt'', artifact_id = render_attempt_id m, artifact_content_hash = None\<rparr>]
     @ (case reviewed_advisory_narrative m of None \<Rightarrow> [] | Some n \<Rightarrow>
         [\<lparr>artifact_type = ''reviewed_advisory_narrative_package'', artifact_id = rn_package_id n,
           artifact_content_hash = Some (rn_source_narrative_hash n)\<rparr>])
     @ (case advisor_proposal_memo m of None \<Rightarrow> [] | Some n \<Rightarrow>
         [\<lparr>artifact_type = ''advisor_proposal_memo_package'', artifact_id = pm_memo_id n,
           artifact_content_hash = Some (pm_memo_hash n)\<rparr>])
     @ (case advisor_commentary_summary m of None \<Rightarrow> [] | Some n \<Rightarrow>
         [\<lparr>artifact_type = ''advisor_brief_accepted_output'', artifact_id = ac_run_id n,
           artifact_content_hash = Some (ac_content_hash n)\<rparr>])
     @ (case idea_evidence_pack_summary m of None \<Rightarrow> [] | Some n \<Rightarrow>
         [\<lparr>artifact_type = ''idea_evidence_pack'', artifact_id = ie_evidence_packet_id n,
           artifact_content_hash = Some (ie_evidence_content_fingerprint n)\<rparr>,
          \<lparr>artifact_type = ''report_evidence_pack'', artifact_id = ie_report_evidence_pack_id n,
           artifact_content_hash = Some (ie_evidence_content_fingerprint n)\<rparr>])"

definition base_event :: "document_metadata \<Rightarrow> string \<Rightarrow> source_event_base" where
  "base_event m current =
     \<lparr>ev_source_system = SOURCE_SYSTEM, ev_source_event_family = SOURCE_EVENT_FAMILY,
      ev_portfolio_id = portfolio_id m, ev_composite_id = composite_id m,
      ev_composite_report_identity = composite_report_identity m,
      ev_report_type = report_type_value (report_type m), ev_report_job_id = report_job_id m,
      ev_snapshot_id = snapshot_id m, ev_report_revision_id = report_revision_id m,
      ev_document_reference = document_reference m, ev_mime_type = mime_type m,
      ev_output_format = output_format m, ev_render_job_id = render_job_id m,
      ev_render_attempt_id = render_attempt_id m,
      ev_report_data_contract_version = report_data_contract_version m,
      ev_template_id = template_id m, ev_template_version = template_version m,
      ev_document_id = document_id m, ev_current_document_id = current,
      ev_content_hash = content_hash m, ev_supportability_state = ''READY'',
      ev_delivery_mode = DELIVERY_MODE, ev_replay_contract = REPLAY_CONTRACT,
      ev_source_owner = SOURCE_OWNER, ev_document_evidence_authority = DOCUMENT_EVIDENCE_AUTHORITY,
      ev_retention_policy = the (or_opt (retention_policy_id m) (Some RETENTION_POLICY)),
      ev_redaction_policy = REDACTION_POLICY, ev_audit_policy = AUDIT_POLICY,
      ev_access_classification = ACCESS_CLASSIFICATION, ev_artifact_refs = artifact_refs m\<rparr>"

fun event_type_for_lifecycle :: "lifecycle_transition_type \<Rightarrow> string" where
  "event_type_for_lifecycle SUPERSEDE = ''generated_document_superseded''"
| "event_type_for_lifecycle CORRECT = ''generated_document_corrected''"
| "event_type_for_lifecycle REISSUE = ''client_delivery_document_reissued''"

definition archive_created_event :: "document_metadata \<Rightarrow> string \<Rightarrow> source_event" where
  "archive_created_event m current = source_event_base.extend (base_event m current)
     (source_event.fields (''archive:'' @ document_id m @ '':created'') ''generated_document_archived''
       (created_at m) ''archive_document'' (document_id m) None None
       ([''archive_metadata_persisted'', ''generated_document_checksum_preserved'']
        @ (if reviewed_advisory_narrative m \<noteq> None
           then [''reviewed_advisory_narrative_archive_summary_preserved''] else [])
        @ (if advisor_proposal_memo m \<noteq> None
           then [''advisor_proposal_memo_archive_summary_preserved''] else [])
        @ (if advisor_commentary_summary m \<noteq> None
           then [''advisor_commentary_archive_summary_preserved''] else [])
        @ (if idea_evidence_pack_summary m \<noteq> None
           then [''idea_evidence_pack_archive_summary_preserved''] else [])))"

definition lifecycle_event ::
    "document_metadata \<Rightarrow> string \<Rightarrow> lifecycle_relationship \<Rightarrow> source_event" where
  "lifecycle_event m current r = source_event_base.extend (base_event m current)
     (source_event.fields (''archive:'' @ lifecycle_relationship_id r)
       (event_type_for_lifecycle (transition_type r)) (relationship_requested_at r)
       ''archive_lifecycle_relationship'' (lifecycle_relationship_id r)
       (Some (if source_document_id r = document_id m then target_document_id r else source_document_id r))
       (Some (relationship_reason_code r))
       [''archive_lifecycle_'' @ transition_value (transition_type r), relationship_reason_code r,
        if transition_type r = REISSUE then ''client_delivery_reissue_evidence''
        else ''archive_document_lifecycle_evidence''])"

text \<open>\<open>sorted(..., key=lambda item: (item.requested_at, item.lifecycle_relationship_id))\<close>, stable.\<close>

definition event_order :: "lifecycle_relationship \<Rightarrow> instant \<times> string" where
  "event_order r = (relationship_requested_at r, lifecycle_relationship_id r)"

definition build_archive_document_source_events ::
    "document_metadata \<Rightarrow> string \<Rightarrow> lifecycle_relationship list \<Rightarrow> source_event list" where
  "build_archive_document_source_events m current relationships =
     archive_created_event m current
       # map (lifecycle_event m current) (sort_key event_order relationships)"

definition latest_event_time :: "source_event list \<Rightarrow> instant option" where
  "latest_event_time events = (if events = [] then None else Some (Max (set (map occurred_at events))))"

section \<open>Replay is deterministic\<close>

lemma event_order_inj: "inj_on lifecycle_relationship_id R \<Longrightarrow> inj_on event_order R"
  by (auto simp: inj_on_def event_order_def)

lemma build_ignores_listing_order:
  assumes "mset rs = mset rs'" "inj_on lifecycle_relationship_id (set rs)"
  shows "build_archive_document_source_events m c rs = build_archive_document_source_events m c rs'"
proof -
  have "sort_key event_order rs = sort_key event_order rs'"
    by (rule sort_key_inj_key_eq) (use assms event_order_inj in auto)
  then show ?thesis by (simp add: build_archive_document_source_events_def)
qed

end
