(* ===== verification/Service.thy ===== *)
theory Service
  imports Purge SourceEvents
begin

text \<open>
  \<open>ArchiveDocumentService\<close> of \<open>src/app/archive/service.py\<close>: every method, over the state of
  \<open>World\<close>. A method reads and writes the repository, the object store and the audit trail in
  the order of the code, and runs under \<open>archive_metric\<close> with the operation name it is
  decorated with.
\<close>

section \<open>Readiness\<close>

record archive_runtime_readiness =
  repository_ready :: bool
  storage_ready :: bool
  access_audit_ready :: bool

definition dependency_is_ready :: "('w, unit) io \<Rightarrow> ('w, bool) io" where
  "dependency_is_ready check = try_except (seq_io check (ret True)) (\<lambda>e. ret False)"

definition runtime_readiness ::
    "('r, 's, 'a) archive_service \<Rightarrow> (('r, 's, 'a) world, archive_runtime_readiness) io" where
  "runtime_readiness svc =
     bind_io (dependency_is_ready (on_repo (repo_check_ready (svc_repository svc)))) (\<lambda>r.
     bind_io (dependency_is_ready (on_store (store_check_ready (svc_storage svc)))) (\<lambda>s.
     bind_io (dependency_is_ready (on_audit (audit_check_ready (svc_audit svc)))) (\<lambda>a.
       ret \<lparr>repository_ready = r, storage_ready = s, access_audit_ready = a\<rparr>)))"

section \<open>Shared steps\<close>

definition get_existing_metadata ::
    "('r, 's, 'a) archive_service \<Rightarrow> string \<Rightarrow> (('r, 's, 'a) world, document_metadata) io" where
  "get_existing_metadata svc d =
     bind_io (on_repo (repo_get_by_document_id (svc_repository svc) d)) (\<lambda>m.
       case m of None \<Rightarrow> raise DocumentNotFoundError | Some x \<Rightarrow> ret x)"

definition record_allowed ::
    "('r, 's, 'a) archive_service \<Rightarrow> access_event_type \<Rightarrow> caller_context \<Rightarrow> string \<Rightarrow> string
      \<Rightarrow> string option \<Rightarrow> (('r, 's, 'a) world, unit) io" where
  "record_allowed svc ty caller trace d operation_reason =
     record_access (svc_audit svc) ty caller trace AUDIT_ALLOWED ''allowed'' (Some d) operation_reason"

definition get_authorized_document_metadata ::
    "('r, 's, 'a) archive_service \<Rightarrow> string \<Rightarrow> archive_permission \<Rightarrow> caller_context \<Rightarrow> string
      \<Rightarrow> (('r, 's, 'a) world, document_metadata) io" where
  "get_authorized_document_metadata svc d permission caller trace =
     seq_io (authorize (svc_policy svc) (svc_audit svc) permission caller trace (Some d))
       (bind_io (get_existing_metadata svc d) (\<lambda>m.
          seq_io (authorize_document_scope (svc_audit svc) m caller trace) (ret m)))"

definition get_tenant_authorized_document_metadata ::
    "('r, 's, 'a) archive_service \<Rightarrow> string \<Rightarrow> archive_permission \<Rightarrow> caller_context \<Rightarrow> string
      \<Rightarrow> (('r, 's, 'a) world, document_metadata) io" where
  "get_tenant_authorized_document_metadata svc d permission caller trace =
     seq_io (authorize (svc_policy svc) (svc_audit svc) permission caller trace (Some d))
       (bind_io (get_existing_metadata svc d) (\<lambda>m.
          seq_io (authorize_document_tenant_scope (svc_audit svc) m caller trace) (ret m)))"

definition refresh_legal_hold_summary ::
    "('r, 's, 'a) archive_service \<Rightarrow> document_metadata \<Rightarrow> (('r, 's, 'a) world, document_metadata) io" where
  "refresh_legal_hold_summary svc m =
     bind_io read_clock (\<lambda>now.
     bind_io (on_repo (repo_refresh_legal_hold_summary (svc_repository svc) (document_id m) now))
       (\<lambda>refreshed. ret (case refreshed of Some x \<Rightarrow> x | None \<Rightarrow> m)))"

text \<open>
  The loop of \<open>_resolve_current_document\<close>. It visits a new document in each round, so one
  round more than there are documents is fuel enough; \<open>resolve_current_document\<close> reads that
  number off the repository.
\<close>

fun follow_successors ::
    "nat \<Rightarrow> ('r, 's, 'a) archive_service \<Rightarrow> string list \<Rightarrow> document_metadata \<Rightarrow> caller_context \<Rightarrow> string
      \<Rightarrow> (('r, 's, 'a) world, document_metadata) io" where
  "follow_successors 0 svc visited current caller trace = raise LoopBoundExceeded"
| "follow_successors (Suc n) svc visited current caller trace =
     (case superseded_by_document_id current of
        None \<Rightarrow> ret current
      | Some next_id \<Rightarrow>
          if next_id \<in> set visited
          then raise (SupersessionConflictError ''document lifecycle relationship cycle detected'')
          else bind_io (get_existing_metadata svc next_id) (\<lambda>m.
            seq_io (authorize_document_tenant_scope (svc_audit svc) m caller trace)
              (follow_successors n svc (next_id # visited) m caller trace)))"

definition resolve_current_document ::
    "('r, 's, 'a) archive_service \<Rightarrow> document_metadata \<Rightarrow> caller_context \<Rightarrow> string
      \<Rightarrow> (('r, 's, 'a) world, document_metadata) io" where
  "resolve_current_document svc m caller trace =
     bind_io (gets (\<lambda>w. repo_size (svc_repository svc) (w_repo w))) (\<lambda>n.
       follow_successors (Suc n) svc [document_id m] m caller trace)"

section \<open>Ingest\<close>

definition create_document ::
    "('r, 's, 'a) archive_service \<Rightarrow> create_command \<Rightarrow> caller_context \<Rightarrow> string
      \<Rightarrow> (('r, 's, 'a) world, document_metadata) io" where
  "create_document svc c caller trace = archive_metric ''archive_create'' MetadataOut
     (seq_io (authorize (svc_policy svc) (svc_audit svc) CREATE_DOCUMENT caller trace None)
     (seq_io (if composite_id (cc_metadata c) \<noteq> None
              then authorize_input_tenant_scope (svc_audit svc) (cc_metadata c) caller trace else skip_io)
     (bind_io (of_result (decode_document_content (cc_content_base64 c) (svc_max_decoded_bytes svc))) (\<lambda>content.
      bind_io (archive_document svc (cc_metadata c) content) (\<lambda>m.
        seq_io (record_allowed svc ARCHIVE_CREATE caller trace (document_id m) None) (ret m))))))"

section \<open>Reads\<close>

definition get_document_metadata ::
    "('r, 's, 'a) archive_service \<Rightarrow> string \<Rightarrow> caller_context \<Rightarrow> string
      \<Rightarrow> (('r, 's, 'a) world, document_metadata) io" where
  "get_document_metadata svc d caller trace = archive_metric ''metadata_lookup'' MetadataOut
     (bind_io (get_authorized_document_metadata svc d READ_METADATA caller trace) (\<lambda>m.
        seq_io (record_allowed svc METADATA_READ caller trace d None) (ret m)))"

definition get_document_metadata_by_request_id ::
    "('r, 's, 'a) archive_service \<Rightarrow> string \<Rightarrow> caller_context \<Rightarrow> string
      \<Rightarrow> (('r, 's, 'a) world, document_metadata) io" where
  "get_document_metadata_by_request_id svc q caller trace = archive_metric ''metadata_lookup'' MetadataOut
     (bind_io (on_repo (repo_get_by_archive_request_id (svc_repository svc) q)) (\<lambda>r.
        case r of None \<Rightarrow> raise DocumentNotFoundError
        | Some m \<Rightarrow> get_document_metadata svc (document_id m) caller trace))"

definition get_document_binary ::
    "('r, 's, 'a) archive_service \<Rightarrow> string \<Rightarrow> caller_context \<Rightarrow> string
      \<Rightarrow> (('r, 's, 'a) world, document_metadata \<times> bytes) io" where
  "get_document_binary svc d caller trace =
     archive_metric ''binary_download'' (\<lambda>(m, content). TupleOut None (Some (size_bytes m)))
     (bind_io (get_authorized_document_metadata svc d DOWNLOAD_BINARY caller trace) (\<lambda>m.
      bind_io (try_except (on_store (store_get (svc_storage svc) (storage_key m))) (\<lambda>e.
          case e of
            StorageReadFailedError _ \<Rightarrow>
              seq_io (record_allowed svc BINARY_DOWNLOAD caller trace d (Some ''document_binary_missing'')) (raise e)
          | _ \<Rightarrow> raise e)) (\<lambda>content.
      bind_io (of_result (calculate_checksum content (checksum_algorithm m))) (\<lambda>digest.
        if digest \<noteq> checksum m
        then seq_io (record_allowed svc BINARY_DOWNLOAD caller trace d (Some ''document_checksum_mismatch''))
               (raise (DocumentChecksumMismatchError ''archived document checksum mismatch''))
        else seq_io (record_allowed svc BINARY_DOWNLOAD caller trace d (Some ''download_succeeded''))
               (ret (m, content))))))"

definition list_access_events ::
    "('r, 's, 'a) archive_service \<Rightarrow> string \<Rightarrow> caller_context \<Rightarrow> string \<Rightarrow> nat option \<Rightarrow> nat
      \<Rightarrow> (('r, 's, 'a) world, access_audit_event list \<times> nat) io" where
  "list_access_events svc d caller trace limit offset =
     archive_metric ''access_events_lookup'' (\<lambda>_. TupleOut None None)
     (bind_io (get_tenant_authorized_document_metadata svc d READ_ACCESS_EVENTS caller trace) (\<lambda>_.
      seq_io (record_allowed svc ACCESS_EVENTS_READ caller trace d None)
      (bind_io (on_audit (audit_list_by_document_id (svc_audit svc) (Some d) limit offset)) (\<lambda>events.
       bind_io (on_audit (audit_count_by_document_id (svc_audit svc) (Some d))) (\<lambda>total.
         ret (events, total))))))"

definition get_retention ::
    "('r, 's, 'a) archive_service \<Rightarrow> string \<Rightarrow> caller_context \<Rightarrow> string
      \<Rightarrow> (('r, 's, 'a) world, document_metadata) io" where
  "get_retention svc d caller trace = archive_metric ''retention_lookup'' MetadataOut
     (bind_io (get_tenant_authorized_document_metadata svc d READ_RETENTION caller trace) (\<lambda>m0.
      bind_io (refresh_legal_hold_summary svc m0) (\<lambda>m.
        seq_io (record_allowed svc RETENTION_READ caller trace d None) (ret m))))"

definition get_lifecycle_posture ::
    "('r, 's, 'a) archive_service \<Rightarrow> string \<Rightarrow> (('r, 's, 'a) world, document_metadata) io" where
  "get_lifecycle_posture svc d =
     bind_io (get_existing_metadata svc d) (\<lambda>m0.
     bind_io (refresh_legal_hold_summary svc m0) (\<lambda>m.
     bind_io read_today (\<lambda>today.
     bind_io (evaluate_purge svc m (Some today)) (\<lambda>(m', _, _). ret m'))))"

definition get_current_document_metadata ::
    "('r, 's, 'a) archive_service \<Rightarrow> string \<Rightarrow> caller_context \<Rightarrow> string
      \<Rightarrow> (('r, 's, 'a) world, document_metadata) io" where
  "get_current_document_metadata svc d caller trace =
     archive_metric ''current_document_lookup'' MetadataOut
     (bind_io (get_authorized_document_metadata svc d READ_METADATA caller trace) (\<lambda>m.
      bind_io (resolve_current_document svc m caller trace) (\<lambda>current.
        seq_io (record_allowed svc CURRENT_DOCUMENT_READ caller trace d None) (ret current))))"

definition list_document_source_events ::
    "('r, 's, 'a) archive_service \<Rightarrow> string \<Rightarrow> caller_context \<Rightarrow> string
      \<Rightarrow> (('r, 's, 'a) world, document_metadata \<times> document_metadata \<times> source_event list) io" where
  "list_document_source_events svc d caller trace =
     archive_metric ''metadata_lookup'' (\<lambda>(m, _, _). TupleOut None (Some (size_bytes m)))
     (bind_io (get_tenant_authorized_document_metadata svc d READ_METADATA caller trace) (\<lambda>m.
      bind_io (resolve_current_document svc m caller trace) (\<lambda>current.
      bind_io (on_repo (repo_list_lifecycle_relationships (svc_repository svc) d)) (\<lambda>relationships.
      let events = build_archive_document_source_events m (document_id current) relationships in
        seq_io (record_allowed svc SOURCE_EVENTS_READ caller trace d None) (ret (m, current, events))))))"

end
