(* ===== verification/ServiceCommands.thy ===== *)
theory ServiceCommands
  imports Service
begin

text \<open>
  The methods of \<open>ArchiveDocumentService\<close> that move a document's posture: purge evaluation and
  execution, legal holds, lifecycle transitions, and the batch access preflight.
\<close>

section \<open>Purge\<close>

definition service_evaluate_purge ::
    "('r, 's, 'a) archive_service \<Rightarrow> string \<Rightarrow> caller_context \<Rightarrow> string \<Rightarrow> date option
      \<Rightarrow> (('r, 's, 'a) world, document_metadata \<times> bool \<times> string) io" where
  "service_evaluate_purge svc d caller trace evaluation_date =
     archive_metric ''purge_evaluation''
       (\<lambda>(m, eligible, _). TupleOut (Some (py_bool_text eligible)) (Some (size_bytes m)))
     (bind_io (get_tenant_authorized_document_metadata svc d EVALUATE_PURGE caller trace) (\<lambda>m0.
      bind_io (refresh_legal_hold_summary svc m0) (\<lambda>m1.
      bind_io (evaluate_purge svc m1 evaluation_date) (\<lambda>(m, eligible, reason_code).
        seq_io (record_allowed svc PURGE_EVALUATION caller trace d None) (ret (m, eligible, reason_code))))))"

text \<open>The part of \<open>purge_document\<close> after the decision: claim, delete, record.\<close>

definition execute_purge ::
    "('r, 's, 'a) archive_service \<Rightarrow> string \<Rightarrow> caller_context \<Rightarrow> string
      \<Rightarrow> (('r, 's, 'a) world, document_metadata \<times> string) io" where
  "execute_purge svc d caller trace =
     bind_io read_clock (\<lambda>started.
     bind_io (on_repo (repo_begin_purge (svc_repository svc) d started)) (\<lambda>claimed.
       case claimed of
         None \<Rightarrow> seq_io (record_allowed svc PURGE_EXECUTION caller trace d (Some ''legal_hold_active''))
                   (raise LegalHoldActiveError)
       | Some m \<Rightarrow>
           seq_io (on_store (store_delete (svc_storage svc) (storage_key m)))
           (bind_io read_clock (\<lambda>purged. bind_io read_clock (\<lambda>now.
            bind_io (on_repo (repo_complete_purge (svc_repository svc) d purged now)) (\<lambda>completed.
            let m' = (case completed of Some x \<Rightarrow> x | None \<Rightarrow> m) in
              seq_io (record_allowed svc PURGE_EXECUTION caller trace d (Some ''purged''))
                (ret (m', ''purged''))))))))"

definition purge_document ::
    "('r, 's, 'a) archive_service \<Rightarrow> string \<Rightarrow> caller_context \<Rightarrow> string \<Rightarrow> date option
      \<Rightarrow> (('r, 's, 'a) world, document_metadata \<times> string) io" where
  "purge_document svc d caller trace evaluation_date =
     archive_metric ''purge_execution'' (\<lambda>(m, reason). TupleOut (Some reason) (Some (size_bytes m)))
     (bind_io (get_tenant_authorized_document_metadata svc d EXECUTE_PURGE caller trace) (\<lambda>m0.
      bind_io (refresh_legal_hold_summary svc m0) (\<lambda>m1.
        if purge_status m1 = PURGED
        then seq_io (record_allowed svc PURGE_EXECUTION caller trace d (Some ''already_purged''))
               (ret (m1, ''already_purged''))
        else bind_io (evaluate_purge svc m1 evaluation_date) (\<lambda>(m2, eligible, reason_code).
          if \<not> eligible
          then seq_io (record_allowed svc PURGE_EXECUTION caller trace d (Some reason_code))
                 (if reason_code = ''legal_hold_active'' then raise LegalHoldActiveError
                  else raise PurgeNotEligibleError)
          else execute_purge svc d caller trace))))"

section \<open>Legal holds\<close>

text \<open>The constructor of \<open>LegalHoldRecord\<close>: strings are stripped and must not be empty.\<close>

definition new_legal_hold ::
    "string \<Rightarrow> string \<Rightarrow> legal_hold_command \<Rightarrow> string \<Rightarrow> instant \<Rightarrow> exc + legal_hold" where
  "new_legal_hold hid d c actor now =
     (let h = \<lparr>legal_hold_id = py_strip hid, hold_document_id = py_strip d, hold_status = ACTIVE,
               hold_reason = py_strip (lh_hold_reason c), authority_reference = py_strip (lh_authority_reference c),
               hold_requested_by = py_strip actor, hold_requested_at = now, released_by = None,
               released_at = None, release_reason = None\<rparr> in
      and_then (run_checks
        [(legal_hold_id h \<noteq> [], ValidationError ''legal_hold_id''),
         (hold_document_id h \<noteq> [], ValidationError ''document_id''),
         (hold_reason h \<noteq> [], ValidationError ''hold_reason''),
         (authority_reference h \<noteq> [], ValidationError ''authority_reference''),
         (hold_requested_by h \<noteq> [], ValidationError ''requested_by'')]) (Inr h))"

definition same_hold_request :: "legal_hold_command \<Rightarrow> legal_hold \<Rightarrow> bool" where
  "same_hold_request c h \<longleftrightarrow> hold_status h = ACTIVE
     \<and> authority_reference h = lh_authority_reference c \<and> hold_reason h = lh_hold_reason c"

definition admit_new_hold ::
    "('r, 's, 'a) archive_service \<Rightarrow> string \<Rightarrow> legal_hold_command \<Rightarrow> string
      \<Rightarrow> (('r, 's, 'a) world, legal_hold \<times> document_metadata option) io" where
  "admit_new_hold svc d c actor =
     bind_io draw_uuid (\<lambda>u. bind_io read_clock (\<lambda>requested.
     bind_io (of_result (new_legal_hold (''hold_'' @ u) d c actor requested)) (\<lambda>h.
     bind_io read_clock (\<lambda>now.
     bind_io (on_repo (repo_admit_and_record_legal_hold (svc_repository svc) d h now)) (\<lambda>admitted.
       ret (h, admitted))))))"

definition set_legal_hold ::
    "('r, 's, 'a) archive_service \<Rightarrow> string \<Rightarrow> legal_hold_command \<Rightarrow> caller_context \<Rightarrow> string
      \<Rightarrow> (('r, 's, 'a) world, legal_hold) io" where
  "set_legal_hold svc d c caller trace = archive_metric ''legal_hold_set'' HoldOut
     (bind_io (get_tenant_authorized_document_metadata svc d MANAGE_LEGAL_HOLD caller trace) (\<lambda>_.
      bind_io (on_repo (repo_list_legal_holds (svc_repository svc) d)) (\<lambda>holds.
        case List.find (same_hold_request c) holds of
          Some h \<Rightarrow> seq_io (record_allowed svc LEGAL_HOLD_SET caller trace d (Some ''legal_hold_already_active''))
                      (ret h)
        | None \<Rightarrow> bind_io (admit_new_hold svc d c (caller_actor_id caller)) (\<lambda>(h, admitted).
            case admitted of
              None \<Rightarrow> seq_io (record_allowed svc LEGAL_HOLD_SET caller trace d (Some ''purge_already_started''))
                        (raise PurgeAlreadyStartedError)
            | Some _ \<Rightarrow> seq_io (record_allowed svc LEGAL_HOLD_SET caller trace d None) (ret h)))))"

definition release_legal_hold ::
    "('r, 's, 'a) archive_service \<Rightarrow> string \<Rightarrow> string \<Rightarrow> string \<Rightarrow> caller_context \<Rightarrow> string
      \<Rightarrow> (('r, 's, 'a) world, legal_hold) io" where
  "release_legal_hold svc d hid reason caller trace = archive_metric ''legal_hold_release'' HoldOut
     (bind_io (get_tenant_authorized_document_metadata svc d MANAGE_LEGAL_HOLD caller trace) (\<lambda>_.
      bind_io read_clock (\<lambda>at. bind_io read_clock (\<lambda>now.
      bind_io (on_repo (repo_release_and_record_legal_hold (svc_repository svc) d hid
                          (caller_actor_id caller) at reason now)) (\<lambda>released.
        case released of
          None \<Rightarrow> raise LegalHoldNotFoundError
        | Some (h, _) \<Rightarrow> seq_io (record_allowed svc LEGAL_HOLD_RELEASE caller trace d None) (ret h))))))"

section \<open>Lifecycle transitions\<close>

definition new_relationship ::
    "string \<Rightarrow> string \<Rightarrow> string \<Rightarrow> lifecycle_transition_type \<Rightarrow> string \<Rightarrow> string \<Rightarrow> instant
      \<Rightarrow> exc + lifecycle_relationship" where
  "new_relationship rid src tgt ty reason actor now =
     (let r = \<lparr>lifecycle_relationship_id = py_strip rid, source_document_id = py_strip src,
               target_document_id = py_strip tgt, transition_type = ty,
               transition_reason = py_strip reason, relationship_reason_code = transition_reason_code ty,
               relationship_requested_by = py_strip actor, relationship_requested_at = now\<rparr> in
      and_then (run_checks
        [(lifecycle_relationship_id r \<noteq> [], ValidationError ''lifecycle_relationship_id''),
         (source_document_id r \<noteq> [], ValidationError ''source_document_id''),
         (target_document_id r \<noteq> [], ValidationError ''target_document_id''),
         (transition_reason r \<noteq> [], ValidationError ''transition_reason''),
         (relationship_requested_by r \<noteq> [], ValidationError ''requested_by'')]) (Inr r))"

definition find_applied_transition ::
    "('r, 's, 'a) archive_service \<Rightarrow> document_metadata \<Rightarrow> document_metadata \<Rightarrow> lifecycle_transition_type
      \<Rightarrow> (('r, 's, 'a) world, lifecycle_relationship option) io" where
  "find_applied_transition svc src tgt ty =
     (if \<not> transition_pointers_agree src tgt ty then ret None
      else bind_io (on_repo (repo_list_lifecycle_relationships (svc_repository svc) (document_id src)))
        (\<lambda>relationships. ret (List.find (\<lambda>r. source_document_id r = document_id src
            \<and> target_document_id r = document_id tgt \<and> transition_type r = ty) relationships)))"

definition link_new_relationship ::
    "('r, 's, 'a) archive_service \<Rightarrow> document_metadata \<Rightarrow> document_metadata \<Rightarrow> lifecycle_transition_type
      \<Rightarrow> string \<Rightarrow> string
      \<Rightarrow> (('r, 's, 'a) world, lifecycle_relationship \<times> lifecycle_relationship \<times> document_metadata) io" where
  "link_new_relationship svc src tgt ty reason actor =
     bind_io draw_uuid (\<lambda>u. bind_io read_clock (\<lambda>requested.
     bind_io (of_result (new_relationship (''life_'' @ u) (document_id src) (document_id tgt) ty reason actor requested))
       (\<lambda>r. bind_io read_clock (\<lambda>now.
     bind_io (on_repo (repo_apply_lifecycle_transition (svc_repository svc) (document_id src) (document_id tgt) ty r now))
       (\<lambda>(saved, _, target_after). ret (r, saved, target_after))))))"

definition apply_lifecycle_transition ::
    "('r, 's, 'a) archive_service \<Rightarrow> string \<Rightarrow> lifecycle_command \<Rightarrow> lifecycle_transition_type
      \<Rightarrow> access_event_type \<Rightarrow> caller_context \<Rightarrow> string
      \<Rightarrow> (('r, 's, 'a) world, lifecycle_relationship \<times> document_metadata) io" where
  "apply_lifecycle_transition svc d c ty event caller trace =
     seq_io (authorize (svc_policy svc) (svc_audit svc) MANAGE_LIFECYCLE caller trace (Some d))
     (bind_io (get_existing_metadata svc d) (\<lambda>src.
      bind_io (get_existing_metadata svc (lc_target_document_id c)) (\<lambda>tgt.
      seq_io (authorize_document_tenant_scope (svc_audit svc) src caller trace)
      (seq_io (authorize_document_tenant_scope (svc_audit svc) tgt caller trace)
      (bind_io (resolve_current_document svc tgt caller trace) (\<lambda>resolved_target.
       bind_io (find_applied_transition svc src tgt ty) (\<lambda>already_applied.
         case already_applied of
           Some r \<Rightarrow>
             seq_io (record_allowed svc event caller trace (document_id src)
                       (Some ''lifecycle_transition_already_recorded''))
               (ret (r, resolved_target))
         | None \<Rightarrow>
             seq_io (of_result (validate_lifecycle_preconditions src tgt))
             (bind_io (link_new_relationship svc src tgt ty (lc_transition_reason c) (caller_actor_id caller))
               (\<lambda>(r, saved, target_after).
             seq_io (record_allowed svc event caller trace (document_id src)
                (Some (if lifecycle_relationship_id saved \<noteq> lifecycle_relationship_id r
                       then ''lifecycle_transition_already_recorded''
                       else ''lifecycle_transition_recorded'')))
             (bind_io (resolve_current_document svc target_after caller trace) (\<lambda>current.
                ret (saved, current))))))))))))"

definition lifecycle_view :: "lifecycle_relationship \<times> document_metadata \<Rightarrow> metric_result" where
  "lifecycle_view x = TupleOut None (Some (size_bytes (snd x)))"

definition supersede_document ::
    "('r, 's, 'a) archive_service \<Rightarrow> string \<Rightarrow> lifecycle_command \<Rightarrow> caller_context \<Rightarrow> string
      \<Rightarrow> (('r, 's, 'a) world, lifecycle_relationship \<times> document_metadata) io" where
  "supersede_document svc d c caller trace = archive_metric ''lifecycle_supersede'' lifecycle_view
     (apply_lifecycle_transition svc d c SUPERSEDE LIFECYCLE_SUPERSEDE caller trace)"

definition correct_document ::
    "('r, 's, 'a) archive_service \<Rightarrow> string \<Rightarrow> lifecycle_command \<Rightarrow> caller_context \<Rightarrow> string
      \<Rightarrow> (('r, 's, 'a) world, lifecycle_relationship \<times> document_metadata) io" where
  "correct_document svc d c caller trace = archive_metric ''lifecycle_correct'' lifecycle_view
     (apply_lifecycle_transition svc d c CORRECT LIFECYCLE_CORRECT caller trace)"

definition reissue_document ::
    "('r, 's, 'a) archive_service \<Rightarrow> string \<Rightarrow> lifecycle_command \<Rightarrow> caller_context \<Rightarrow> string
      \<Rightarrow> (('r, 's, 'a) world, lifecycle_relationship \<times> document_metadata) io" where
  "reissue_document svc d c caller trace = archive_metric ''lifecycle_reissue'' lifecycle_view
     (apply_lifecycle_transition svc d c REISSUE LIFECYCLE_REISSUE caller trace)"

section \<open>Batch access preflight\<close>

record preflight_result =
  preflight_items :: "access_preflight_item list"
  preflight_state :: preflight_result_state

fun record_preflight_audit ::
    "('r, 's, 'a) archive_service \<Rightarrow> (access_preflight_item \<times> access_reason) list \<Rightarrow> caller_context \<Rightarrow> string
      \<Rightarrow> (('r, 's, 'a) world, unit) io" where
  "record_preflight_audit svc [] caller trace = skip_io"
| "record_preflight_audit svc ((item, reason) # rest) caller trace =
     seq_io (record_access (svc_audit svc) BATCH_ACCESS_PREFLIGHT caller trace
               (if item_state item = ALLOWED then AUDIT_ALLOWED else AUDIT_DENIED)
               (access_reason_value reason) (Some (item_document_id item))
               (Some (access_reason_value reason)))
       (record_preflight_audit svc rest caller trace)"

text \<open>
  The lookup with its \<open>except\<close> clause: \<open>None\<close> when it is unavailable, which a time-out is a
  case of.
\<close>

definition preflight_lookup ::
    "('r, 's, 'a) archive_service \<Rightarrow> string list \<Rightarrow> (('r, 's, 'a) world, batch_lookup option) io" where
  "preflight_lookup svc ds =
     try_except
       (bind_io (on_repo (repo_get_by_document_ids (svc_repository svc) ds)) (\<lambda>l. ret (Some l)))
       (\<lambda>e. if e \<in> {ArchiveDocumentLookupUnavailableError, ArchiveDocumentLookupTimeoutError}
            then ret None else raise e)"

definition unavailable_items :: "string list \<Rightarrow> (access_preflight_item \<times> access_reason) list" where
  "unavailable_items ds = map (\<lambda>d.
     (\<lparr>item_document_id = d, item_state = UNAVAILABLE, item_reason = LOOKUP_UNAVAILABLE\<rparr>, LOOKUP_UNAVAILABLE)) ds"

definition evaluated_items ::
    "batch_lookup \<Rightarrow> string list \<Rightarrow> caller_context \<Rightarrow> (access_preflight_item \<times> access_reason) list" where
  "evaluated_items lookup ds caller = map (\<lambda>d.
     preflight_item d (dict_get (lookup_documents lookup) d) (d \<in> set (unavailable_document_ids lookup)) caller) ds"

definition preflight_document_access ::
    "('r, 's, 'a) archive_service \<Rightarrow> string list \<Rightarrow> caller_context \<Rightarrow> string
      \<Rightarrow> (('r, 's, 'a) world, preflight_result) io" where
  "preflight_document_access svc ds caller trace =
     archive_metric ''batch_access_preflight'' (\<lambda>r. PreflightOut (preflight_state r))
     (if ds = []
      then raise (MetadataValidationError ''access preflight requires at least one document id'')
      else if length ds > MAX_PREFLIGHT_DOCUMENT_IDS
      then raise (MetadataValidationError ''access preflight accepts at most 100 document ids per request'')
      else seq_io (authorize (svc_policy svc) (svc_audit svc) READ_BATCH_ACCESS_PREFLIGHT caller trace None)
        (seq_io (of_result (require_caller_scope caller))
        (bind_io (preflight_lookup svc ds) (\<lambda>lookup.
         let (evaluated, state) = (case lookup of
               None \<Rightarrow> (unavailable_items ds, ALL_UNAVAILABLE)
             | Some l \<Rightarrow> (let es = evaluated_items l ds caller in (es, result_state_for_items (map fst es)))) in
           seq_io (record_preflight_audit svc evaluated caller trace)
             (ret \<lparr>preflight_items = map fst evaluated, preflight_state = state\<rparr>)))))"

end
