(* ===== verification/ServiceInvariant.thy ===== *)
theory ServiceInvariant
  imports ServiceCommands
begin

text \<open>
  One contract for every property the whole service keeps: the locale \<open>service_invariant\<close>
  names what a state predicate must survive (reading the clock, recording an access, each
  repository operation, the ingest and the destruction of an object), and concludes that it
  survives every method of the service, on every path and whatever the method raises. The
  custody invariant and the growth of the audit trail are two interpretations.
\<close>

lemma keeps_prod [wp]: "(\<And>a b. p = (a, b) \<Longrightarrow> keeps I (f a b)) \<Longrightarrow> keeps I (case p of (a, b) \<Rightarrow> f a b)"
  by (cases p) simp

lemma keeps_let: "keeps I (f x) \<Longrightarrow> keeps I (let y = x in f y)"
  by simp

lemma keeps_metric:
  assumes "keeps I f" "\<And>w ms sz. I (w\<lparr>w_metrics := ms, w_sizes := sz\<rparr>) = I w"
  shows "keeps I (archive_metric op view f)"
proof -
  have m: "I (w\<lparr>w_metrics := ms\<rparr>) = I w" for w ms
    using assms(2) [where w = w and ms = ms and sz = "w_sizes w"] by simp
  have z: "I (w\<lparr>w_sizes := sz\<rparr>) = I w" for w sz
    using assms(2) [where w = w and ms = "w_metrics w" and sz = sz] by simp
  show ?thesis
    unfolding keeps_iff
  proof (intro allI impI)
    fix w assume "I w"
    then have run: "I w'" if "f w = (x, w')" for x w'
      using that assms(1) by (metis keepsD snd_conv)
    show "I (snd (archive_metric op view f w))"
    proof (cases "f w")
      case (Pair x w')
      then show ?thesis
        using run [OF Pair] by (cases x)
          (simp_all add: archive_metric_def record_archive_operation_def record_archive_document_size_def
            io_simps Let_def m z split: option.split)
    qed
  qed
qed

text \<open>A pure fact about what a step returned is at hand in the rest.\<close>

lemma keeps_bind_fact:
  assumes "triple I m (\<lambda>x w. P x \<and> I w) (\<lambda>_. I)" "\<And>x. P x \<Longrightarrow> keeps I (f x)"
  shows "keeps I (bind_io m f)"
  unfolding keeps_def
  by (rule triple_bind [OF assms(1)]) (use assms(2) in \<open>auto simp: keeps_def intro: triple_prop\<close>)

lemma triple_fact_of_keeps: "keeps I m \<Longrightarrow> triple I m (\<lambda>x w. True \<and> I w) (\<lambda>_. I)"
  by (simp add: keeps_def)

lemma keeps_bind_result:
  assumes "\<And>x. r = Inr x \<Longrightarrow> keeps I (f x)"
  shows "keeps I (bind_io (of_result r) f)"
  using assms by (cases r) (simp_all add: keeps_iff bind_io_def of_result_def)

definition input_valid :: "document_input \<Rightarrow> bool" where
  "input_valid m \<longleftrightarrow> validate_document_input m = Inr m"

lemma validated_input_valid: "validate_document_input raw = Inr m \<Longrightarrow> input_valid m"
  unfolding input_valid_def by (rule validate_document_input_idem)

locale service_invariant =
  fixes svc :: "('r, 's, 'a) archive_service" and I :: "('r, 's, 'a) world \<Rightarrow> bool"
    and known :: "string \<Rightarrow> bool"
  assumes metrics_irrelevant: "I (w\<lparr>w_metrics := ms, w_sizes := sz\<rparr>) = I w"
    and clock: "keeps I read_clock" and uuid: "keeps I draw_uuid"
    and audit_recording: "keeps I (on_audit (audit_record (svc_audit svc) e))"
    and audit_listing: "keeps I (on_audit (audit_list_by_document_id (svc_audit svc) dq limit offset))"
    and audit_counting: "keeps I (on_audit (audit_count_by_document_id (svc_audit svc) dq))"
    and audit_checking: "keeps I (on_audit (audit_check_ready (svc_audit svc)))"
    and store_reading: "keeps I (on_store (store_get (svc_storage svc) key))"
    and store_checking: "keeps I (on_store (store_check_ready (svc_storage svc)))"
    and repo_checking: "keeps I (on_repo (repo_check_ready (svc_repository svc)))"
    and by_ids: "keeps I (on_repo (repo_get_by_document_ids (svc_repository svc) ds))"
    and by_checksum: "keeps I (on_repo (repo_get_by_checksum (svc_repository svc) ck))"
    and by_request: "keeps I (on_repo (repo_get_by_archive_request_id (svc_repository svc) q))"
    and holds_listing: "keeps I (on_repo (repo_list_legal_holds (svc_repository svc) d))"
    and relationships_listing: "keeps I (on_repo (repo_list_lifecycle_relationships (svc_repository svc) d))"
    and releasing: "keeps I (on_repo (repo_release_and_record_legal_hold (svc_repository svc) d hid who t y now))"
    and granting: "keeps I (on_repo (repo_mark_purge_eligible (svc_repository svc) d t now))"
    and withdrawing: "keeps I (on_repo (repo_mark_purge_not_eligible (svc_repository svc) d now))"
    and refreshing: "keeps I (on_repo (repo_refresh_legal_hold_summary (svc_repository svc) d now))"
    and looking_up: "triple I (on_repo (repo_get_by_document_id (svc_repository svc) d))
      (\<lambda>x w. (\<forall>m. x = Some m \<longrightarrow> known (document_id m)) \<and> I w) (\<lambda>_. I)"
    and same_id: "triple I (on_repo (repo_get_by_document_id (svc_repository svc) d))
      (\<lambda>x w. (\<forall>m. x = Some m \<longrightarrow> known d) \<and> I w) (\<lambda>_. I)"
    and admitting: "known d \<Longrightarrow> keeps I (admit_new_hold svc d c who)"
    and linking: "known (document_id src) \<Longrightarrow> known (document_id tgt)
      \<Longrightarrow> keeps I (link_new_relationship svc src tgt ty reason who)"
    and destroying: "keeps I (execute_purge svc d caller trace)"
    and storing: "input_valid m \<Longrightarrow> calculate_checksum content SUPPORTED_CHECKSUM_ALGORITHM = Inr digest
      \<Longrightarrow> keeps I (store_new_document svc m content digest)"
begin

lemmas primitive = clock uuid audit_recording audit_listing audit_counting audit_checking
  store_reading store_checking repo_checking by_ids by_checksum by_request holds_listing
  relationships_listing releasing granting withdrawing refreshing destroying

lemma measured: "keeps I f \<Longrightarrow> keeps I (archive_metric op view f)"
  by (rule keeps_metric) (simp_all add: metrics_irrelevant)

lemma existing:
  "triple I (get_existing_metadata svc d) (\<lambda>m w. (known d \<and> known (document_id m)) \<and> I w) (\<lambda>_. I)"
proof -
  have both: "triple I (on_repo (repo_get_by_document_id (svc_repository svc) d))
      (\<lambda>x w. (\<forall>m. x = Some m \<longrightarrow> known d \<and> known (document_id m)) \<and> I w) (\<lambda>_. I)"
    using looking_up [of d] same_id [of d] by (fastforce simp: triple_def split: prod.splits sum.splits)
  show ?thesis
    unfolding get_existing_metadata_def
    by (rule triple_bind [OF both], rule triple_prop) (auto intro!: wp)
qed

lemma get_keeps: "keeps I (on_repo (repo_get_by_document_id (svc_repository svc) d))"
  using looking_up [of d] by (auto simp: keeps_def intro: triple_post)

lemma existing_keeps: "keeps I (get_existing_metadata svc d)"
  unfolding keeps_def by (rule triple_post [OF existing]) simp_all

lemma recording: "keeps I (record_access (svc_audit svc) ty caller trace dec reason doc op)"
  unfolding record_access_def by (intro wp primitive)

lemma allowed: "keeps I (record_allowed svc ty caller trace d op)"
  unfolding record_allowed_def by (rule recording)

lemma refusing: "keeps I (refuse (svc_audit svc) caller trace reason doc e)"
  unfolding refuse_def by (intro wp recording)

lemma authorizing:
  "keeps I (authorize (svc_policy svc) (svc_audit svc) p caller trace doc)"
  "keeps I (require_audited_caller_scope (svc_audit svc) caller trace doc)"
  "keeps I (enforce_decision (svc_audit svc) decision caller trace doc)"
  unfolding authorize_def require_audited_caller_scope_def enforce_decision_def
  by (intro wp refusing) (auto intro!: wp refusing split: sum.split)

lemma scoping:
  "keeps I (authorize_document_scope (svc_audit svc) m caller trace)"
  "keeps I (authorize_document_tenant_scope (svc_audit svc) m caller trace)"
  "keeps I (authorize_input_tenant_scope (svc_audit svc) n caller trace)"
  unfolding authorize_document_scope_def authorize_document_tenant_scope_def authorize_input_tenant_scope_def
  by (intro wp authorizing)+

lemmas guarding = recording allowed refusing authorizing scoping

lemma authorized_lookup:
  "triple I (get_authorized_document_metadata svc d p caller trace) (\<lambda>m w. known d \<and> I w) (\<lambda>_. I)"
  "triple I (get_tenant_authorized_document_metadata svc d p caller trace) (\<lambda>m w. known d \<and> I w) (\<lambda>_. I)"
proof -
  have after: "triple (\<lambda>w. (known d \<and> known (document_id m)) \<and> I w) (seq_io k (ret m)) (\<lambda>m w. known d \<and> I w) (\<lambda>_. I)"
    if "keeps I k" for m :: document_metadata and k :: "(('r, 's, 'a) world, unit) io"
    by (rule triple_prop, rule triple_seq [OF that [unfolded keeps_def]]) (auto intro: wp)
  show "triple I (get_authorized_document_metadata svc d p caller trace) (\<lambda>m w. known d \<and> I w) (\<lambda>_. I)"
    unfolding get_authorized_document_metadata_def
    by (rule triple_seq [OF authorizing(1) [unfolded keeps_def]], rule triple_bind [OF existing],
        rule after, rule scoping)
  show "triple I (get_tenant_authorized_document_metadata svc d p caller trace) (\<lambda>m w. known d \<and> I w) (\<lambda>_. I)"
    unfolding get_tenant_authorized_document_metadata_def
    by (rule triple_seq [OF authorizing(1) [unfolded keeps_def]], rule triple_bind [OF existing],
        rule after, rule scoping)
qed

lemma authorized_keeps:
  "keeps I (get_authorized_document_metadata svc d p caller trace)"
  "keeps I (get_tenant_authorized_document_metadata svc d p caller trace)"
  unfolding keeps_def by (rule triple_post, rule authorized_lookup, simp_all)+

lemma refreshing_summary: "keeps I (refresh_legal_hold_summary svc m)"
  unfolding refresh_legal_hold_summary_def by (intro wp primitive)

lemma following: "keeps I (follow_successors n svc visited m caller trace)"
proof (induction n arbitrary: visited m)
  case (Suc n)
  show ?case by (simp, intro wp existing_keeps guarding Suc)
qed (simp add: wp)

lemma resolving: "keeps I (resolve_current_document svc m caller trace)"
  unfolding resolve_current_document_def by (intro wp following)

lemma reclassifying: "keeps I (reclassify_refused_transition svc d)"
  unfolding reclassify_refused_transition_def stored_or_raise_def by (intro wp primitive get_keeps)

lemma evaluating: "keeps I (evaluate_purge svc m when)"
  unfolding evaluate_purge_def withdraw_eligibility_def grant_eligibility_def read_today_def
  by (intro wp primitive reclassifying)

lemmas steps = wp guarding primitive existing_keeps authorized_keeps refreshing_summary resolving evaluating get_keeps

text \<open>Every method of the service.\<close>

lemma readiness_keeps: "keeps I (runtime_readiness svc)"
  unfolding runtime_readiness_def dependency_is_ready_def by (intro steps)

lemma reads_keep:
  "keeps I (get_document_metadata svc d caller trace)"
  "keeps I (get_retention svc d caller trace)"
  "keeps I (get_current_document_metadata svc d caller trace)"
  "keeps I (list_access_events svc d caller trace limit offset)"
  unfolding get_document_metadata_def get_retention_def get_current_document_metadata_def list_access_events_def
  by (intro measured steps)+

lemma request_id_keeps: "keeps I (get_document_metadata_by_request_id svc q caller trace)"
  unfolding get_document_metadata_by_request_id_def by (intro measured steps reads_keep)

lemma source_events_keeps: "keeps I (list_document_source_events svc d caller trace)"
  unfolding list_document_source_events_def Let_def by (intro measured steps)

lemma posture_keeps: "keeps I (get_lifecycle_posture svc d)"
  unfolding get_lifecycle_posture_def read_today_def by (intro steps)

lemma binary_keeps: "keeps I (get_document_binary svc d caller trace)"
proof -
  have "keeps I (case e of StorageReadFailedError x \<Rightarrow> seq_io (record_allowed svc BINARY_DOWNLOAD caller trace d op) (raise e)
      | _ \<Rightarrow> raise e)" for e op
    by (cases e) (auto intro!: steps)
  then show ?thesis
    unfolding get_document_binary_def by (intro measured steps)
qed

lemma evaluate_keeps: "keeps I (service_evaluate_purge svc d caller trace when)"
  unfolding service_evaluate_purge_def by (intro measured steps)

lemma purge_keeps: "keeps I (purge_document svc d caller trace when)"
  unfolding purge_document_def by (intro measured steps)

lemma release_keeps: "keeps I (release_legal_hold svc d hid reason caller trace)"
  unfolding release_legal_hold_def by (intro measured steps)

lemma hold_keeps: "keeps I (set_legal_hold svc d c caller trace)"
  unfolding set_legal_hold_def
  by (intro measured, rule keeps_bind_fact [OF authorized_lookup(2)]) (intro steps admitting)

lemma transition_keeps: "keeps I (apply_lifecycle_transition svc d c ty event caller trace)"
  unfolding apply_lifecycle_transition_def find_applied_transition_def
  by (intro keeps_seq guarding, rule keeps_bind_fact [OF existing], rule keeps_bind_fact [OF existing])
    (elim conjE, intro steps linking)

lemma transitions_keep:
  "keeps I (supersede_document svc d c caller trace)"
  "keeps I (correct_document svc d c caller trace)"
  "keeps I (reissue_document svc d c caller trace)"
  unfolding supersede_document_def correct_document_def reissue_document_def
  by (intro measured transition_keeps)+

lemma preflight_audit_keeps: "keeps I (record_preflight_audit svc es caller trace)"
  by (induction es) (auto intro!: steps)

lemma preflight_keeps: "keeps I (preflight_document_access svc ds caller trace)"
  unfolding preflight_document_access_def preflight_lookup_def
  by (intro measured steps keeps_let preflight_audit_keeps)

lemma archive_keeps:
  assumes "input_valid m"
  shows "keeps I (archive_document svc m content)"
  unfolding archive_document_def check_artifact_identity_def
  by (intro keeps_seq keeps_bind_result steps storing assms)

lemma create_keeps:
  assumes "input_valid (cc_metadata c)"
  shows "keeps I (create_document svc c caller trace)"
  unfolding create_document_def by (intro measured steps archive_keeps assms)

end

end
