(* ===== verification/Custody.thy ===== *)
theory Custody
  imports ServiceInvariant
begin

text \<open>
  The custody invariant of the running service, over any repository and any object store that
  keep their contracts: the archive invariant and its history, identifiers that are still
  unused, and, for every document whose destruction has not begun, its bytes in the store under
  its key with the recorded checksum and size. The store's addresses are told apart by the
  document that owns them.
\<close>

section \<open>What the transitions leave in place\<close>

definition same_shape :: "archive_state \<Rightarrow> archive_state \<Rightarrow> bool" where
  "same_shape s s' \<longleftrightarrow> dom (st_docs s') = dom (st_docs s) \<and> dom (st_holds s') = dom (st_holds s)
     \<and> dom (st_rels s') = dom (st_rels s)"

lemma same_shape_refl [simp]: "same_shape s s"
  by (simp add: same_shape_def)

lemma spec_shapes:
  "same_shape s (snd (spec_begin_purge d t s))" "same_shape s (snd (spec_release d i w t y s))"
  "same_shape s (snd (spec_mark_eligible d t s))" "same_shape s (snd (spec_mark_not_eligible d s))"
  "same_shape s (snd (spec_complete_purge d t s))" "same_shape s (snd (spec_refresh d s))"
  by (auto simp: same_shape_def spec_begin_purge_def spec_release_def spec_mark_eligible_def
      spec_mark_not_eligible_def spec_complete_purge_def spec_refresh_def Let_def split: option.splits)

definition frame :: "('r \<Rightarrow> archive_state) \<Rightarrow> ('r \<Rightarrow> bool) \<Rightarrow> ('r, 'x) io \<Rightarrow> bool" where
  "frame absr wfr m \<longleftrightarrow> (\<forall>r. wfr r \<longrightarrow> archive_inv (absr r) \<longrightarrow>
     (let r' = snd (m r) in wfr r' \<and> archive_inv (absr r') \<and> archive_evolves (absr r) (absr r')
        \<and> same_shape (absr r) (absr r')))"

lemma frame_reads: "reads absr wfr m P \<Longrightarrow> frame absr wfr m"
  unfolding frame_def reads_def Let_def split_def by simp

lemma frame_refines:
  assumes "refines absr wfr (\<lambda>_. True) m g f" "\<And>s. repo_step s (snd (f s))" "\<And>s. same_shape s (snd (f s))"
  shows "frame absr wfr m"
  unfolding frame_def Let_def
proof (intro allI impI)
  fix r assume r: "wfr r" "archive_inv (absr r)"
  obtain x r' where m: "m r = (x, r')" by (cases "m r")
  have "wfr r' \<and> (absr r' = absr r \<or> absr r' = snd (f (absr r)))"
    using assms(1) [unfolded refines_def, rule_format, OF r] m by (cases x) auto
  then show "wfr (snd (m r)) \<and> archive_inv (absr (snd (m r))) \<and> archive_evolves (absr r) (absr (snd (m r)))
      \<and> same_shape (absr r) (absr (snd (m r)))"
    using m r assms(2,3) repo_step_inv repo_step_evolves by (metis archive_evolves_refl same_shape_refl snd_conv)
qed

context document_repository
begin

lemma reads_frame:
  "frame absr wfr (repo_check_ready R)" "frame absr wfr (repo_get_by_document_id R d)"
  "frame absr wfr (repo_get_by_document_ids R ds)" "frame absr wfr (repo_get_by_checksum R c)"
  "frame absr wfr (repo_get_by_archive_request_id R q)" "frame absr wfr (repo_list_legal_holds R d)"
  "frame absr wfr (repo_list_lifecycle_relationships R d)"
  by (rule frame_reads, rule check_ready get_by_document_id get_by_document_ids get_by_checksum
      get_by_archive_request_id list_holds list_relationships)+

lemma transitions_frame:
  "frame absr wfr (repo_begin_purge R d t)"
  "frame absr wfr (repo_release_and_record_legal_hold R d i w t y now)"
  "frame absr wfr (repo_mark_purge_eligible R d t now)"
  "frame absr wfr (repo_mark_purge_not_eligible R d now)"
  "frame absr wfr (repo_complete_purge R d t now)"
  "frame absr wfr (repo_refresh_legal_hold_summary R d now)"
  by (rule frame_refines,
      rule begin_purge release mark_eligible mark_not_eligible complete_purge refresh,
      rule repo_step.intros, rule spec_shapes)+

end

section \<open>The invariant\<close>

definition proper_token :: "string \<Rightarrow> bool" where
  "proper_token u \<longleftrightarrow> u \<noteq> [] \<and> (\<forall>c \<in> set u. \<not> is_space c \<and> c \<noteq> CHR ''/'' \<and> c \<noteq> CHR ''.'')"

text \<open>
  What is asked of \<open>uuid4().hex\<close>: values never repeat, are never empty, contain no separator,
  and those still to come name no row that exists.
\<close>

definition fresh_ids :: "('r, 's, 'a) world \<Rightarrow> archive_state \<Rightarrow> bool" where
  "fresh_ids w s \<longleftrightarrow> inj (w_uuids w) \<and> (\<forall>n. proper_token (w_uuids w n))
     \<and> (\<forall>n \<ge> w_drawn w. ''doc_'' @ w_uuids w n \<notin> dom (st_docs s)
          \<and> ''hold_'' @ w_uuids w n \<notin> dom (st_holds s) \<and> ''life_'' @ w_uuids w n \<notin> dom (st_rels s))"

definition row_owned ::
    "(string \<Rightarrow> 'p option) \<Rightarrow> ('p \<Rightarrow> 'p) \<Rightarrow> ('p \<Rightarrow> string) \<Rightarrow> string \<Rightarrow> document_metadata \<Rightarrow> bool" where
  "row_owned addr scratch owner d m \<longleftrightarrow> proper_token d
     \<and> (\<exists>p. addr (storage_key m) = Some p \<and> owner p = d \<and> owner (scratch p) = d)"

definition bytes_held ::
    "('s \<Rightarrow> 'p \<Rightarrow> bytes option) \<Rightarrow> (string \<Rightarrow> 'p option) \<Rightarrow> 's \<Rightarrow> document_metadata \<Rightarrow> bool" where
  "bytes_held objects addr s m \<longleftrightarrow>
     (\<exists>p bs. addr (storage_key m) = Some p \<and> objects s p = Some bs
        \<and> calculate_checksum bs (checksum_algorithm m) = Inr (checksum m) \<and> int (length bs) = size_bytes m)"

definition custody ::
    "('r \<Rightarrow> archive_state) \<Rightarrow> ('r \<Rightarrow> bool) \<Rightarrow> ('s \<Rightarrow> 'p \<Rightarrow> bytes option) \<Rightarrow> (string \<Rightarrow> 'p option)
      \<Rightarrow> ('p \<Rightarrow> 'p) \<Rightarrow> ('p \<Rightarrow> string) \<Rightarrow> bool \<Rightarrow> archive_state \<Rightarrow> ('r, 's, 'a) world \<Rightarrow> bool" where
  "custody absr wfr objects addr scratch owner atomic s0 w \<longleftrightarrow>
     repo_inv absr wfr s0 (w_repo w) \<and> fresh_ids w (absr (w_repo w))
     \<and> (\<forall>d m. st_docs (absr (w_repo w)) d = Some m \<longrightarrow> row_owned addr scratch owner d m
          \<and> (atomic \<longrightarrow> purge_started_at m = None \<longrightarrow> bytes_held objects addr (w_store w) m))"

lemma proper_token_append: "proper_token u \<Longrightarrow> proper_token (''doc_'' @ u)"
  "proper_token u \<Longrightarrow> proper_token (''hold_'' @ u)" "proper_token u \<Longrightarrow> proper_token (''life_'' @ u)"
  by (auto simp: proper_token_def is_space_def)

lemma dropWhile_id: "xs \<noteq> [] \<Longrightarrow> \<not> P (hd xs) \<Longrightarrow> dropWhile P xs = xs"
  by (cases xs) simp_all

lemma py_strip_id:
  assumes "s \<noteq> [] \<Longrightarrow> \<not> is_space (hd s) \<and> \<not> is_space (last s)"
  shows "py_strip s = s"
proof (cases "s = []")
  case False
  with assms have "dropWhile is_space s = s" "dropWhile is_space (rev s) = rev s"
    by (simp_all add: dropWhile_id hd_rev)
  then show ?thesis by (simp add: py_strip_def)
qed (simp add: py_strip_def)

lemma py_strip_ends:
  assumes "py_strip s = s" "s \<noteq> []"
  shows "\<not> is_space (hd s)" "\<not> is_space (last s)"
proof -
  let ?t = "dropWhile is_space s"
  have eq: "rev (dropWhile is_space (rev ?t)) = s" using assms(1) by (simp add: py_strip_def)
  have t: "dropWhile is_space (rev ?t) \<noteq> []" using eq assms(2) by (metis rev.simps(1))
  have "last s = hd (dropWhile is_space (rev ?t))" using eq t by (metis last_rev)
  then show "\<not> is_space (last s)" using t by (metis hd_dropWhile)
  obtain c cs where c: "?t = c # cs" using t by (cases ?t) auto
  then have nc: "\<not> is_space c" by (metis hd_dropWhile list.distinct(1) list.sel(1))
  then have "s = c # rev (dropWhile is_space (rev cs))" using eq c by (simp add: dropWhile_snoc)
  with nc show "\<not> is_space (hd s)" by (metis list.sel(1))
qed

lemma proper_token_strip [simp]: "proper_token d \<Longrightarrow> py_strip d = d"
  by (rule py_strip_id) (auto simp: proper_token_def)

lemma immutable_checksum_algorithm:
  "immutable_part a = immutable_part b \<Longrightarrow> checksum_algorithm a = checksum_algorithm b"
proof -
  have "checksum_algorithm (immutable_part m) = checksum_algorithm m" for m
    by (simp add: immutable_part_def)
  then show "immutable_part a = immutable_part b \<Longrightarrow> checksum_algorithm a = checksum_algorithm b" by metis
qed

text \<open>Ownership and the bytes are facts of the immutable part.\<close>

lemma row_facts_immutable:
  assumes "immutable_part n = immutable_part m"
  shows "row_owned addr scratch owner d n = row_owned addr scratch owner d m"
    and "bytes_held objects addr s n = bytes_held objects addr s m"
  using immutable_part_eqD [OF assms] immutable_checksum_algorithm [OF assms]
  by (simp_all add: row_owned_def bytes_held_def)

lemma evolved_row:
  assumes "archive_evolves s s'" "same_shape s s'" "st_docs s' d = Some n"
  obtains m where "st_docs s d = Some m" "immutable_part n = immutable_part m"
    "purge_started_at n = None \<longrightarrow> purge_started_at m = None"
proof -
  obtain m where m: "st_docs s d = Some m"
    using assms(2,3) unfolding same_shape_def by (metis domD domI)
  then have "evolves m n" using assms(1,3) unfolding archive_evolves_def by force
  then have "immutable_part n = immutable_part m" "settled (purge_started_at m) (purge_started_at n)"
    unfolding evolves_def by blast+
  with m show thesis by (intro that [of m]) (auto simp: settled_def)
qed

lemma custody_frame:
  assumes I: "custody absr wfr objects addr scratch owner atomic s0 w"
    and r: "wfr (w_repo w')" "archive_inv (absr (w_repo w'))"
      "archive_evolves (absr (w_repo w)) (absr (w_repo w'))" "same_shape (absr (w_repo w)) (absr (w_repo w'))"
    and s: "\<And>p m d. atomic \<Longrightarrow> st_docs (absr (w_repo w)) d = Some m \<Longrightarrow> purge_started_at m = None
        \<Longrightarrow> addr (storage_key m) = Some p \<Longrightarrow> objects (w_store w') p = objects (w_store w) p"
    and u: "w_uuids w' = w_uuids w" "w_drawn w \<le> w_drawn w'"
  shows "custody absr wfr objects addr scratch owner atomic s0 w'"
  unfolding custody_def
proof (intro conjI allI impI)
  show "repo_inv absr wfr s0 (w_repo w')"
    using I r by (auto simp: custody_def repo_inv_def intro: archive_evolves_trans)
  show "fresh_ids w' (absr (w_repo w'))"
    using I r(4) u by (auto simp: custody_def fresh_ids_def same_shape_def)
  fix d n assume n: "st_docs (absr (w_repo w')) d = Some n"
  obtain m where m: "st_docs (absr (w_repo w)) d = Some m" "immutable_part n = immutable_part m"
    "purge_started_at n = None \<longrightarrow> purge_started_at m = None"
    by (rule evolved_row [OF r(3,4) n])
  show "row_owned addr scratch owner d n"
    using I m by (simp add: custody_def row_facts_immutable [OF m(2)])
  show "bytes_held objects addr (w_store w') n" if "atomic" "purge_started_at n = None"
  proof -
    have "bytes_held objects addr (w_store w) m" using I m that by (simp add: custody_def)
    then have "bytes_held objects addr (w_store w') m"
      using s [OF that(1) m(1) m(3) [rule_format, OF that(2)]] unfolding bytes_held_def by metis
    then show ?thesis by (simp add: row_facts_immutable [OF m(2)])
  qed
qed

locale custody_platform =
  document_repository "svc_repository svc" absr wfr + object_storage "svc_storage svc" objects addr scratch
  for svc :: "('r, 's, 'a) archive_service" and absr wfr objects and addr :: "string \<Rightarrow> 'p option" and scratch +
  fixes owner :: "'p \<Rightarrow> string" and atomic :: bool
  assumes owner_key: "proper_token d \<Longrightarrow> addr (storage_key_for m d) = Some p
      \<Longrightarrow> owner p = d \<and> owner (scratch p) = d"
    and atomic_save: "atomic \<Longrightarrow> wfr r \<Longrightarrow> archive_inv (absr r)
      \<Longrightarrow> repo_save (svc_repository svc) n r = (Inl e, r') \<Longrightarrow> absr r' = absr r"
begin

abbreviation (input) I :: "archive_state \<Rightarrow> ('r, 's, 'a) world \<Rightarrow> bool" where
  "I \<equiv> custody absr wfr objects addr scratch owner atomic"

lemma custodyD:
  assumes "I s0 w"
  shows "wfr (w_repo w)" "archive_inv (absr (w_repo w))" "archive_evolves s0 (absr (w_repo w))"
    "fresh_ids w (absr (w_repo w))"
    "st_docs (absr (w_repo w)) d = Some m \<Longrightarrow> row_owned addr scratch owner d m"
    "atomic \<Longrightarrow> st_docs (absr (w_repo w)) d = Some m \<Longrightarrow> purge_started_at m = None
      \<Longrightarrow> bytes_held objects addr (w_store w) m"
  using assms by (simp_all add: custody_def repo_inv_def)

lemma on_repo_keeps:
  assumes "frame absr wfr m"
  shows "keeps (I s0) (on_repo m)"
  unfolding keeps_iff
proof (intro allI impI)
  fix w :: "('r, 's, 'a) world" assume I: "I s0 w"
  have "let r' = snd (m (w_repo w)) in wfr r' \<and> archive_inv (absr r') \<and> archive_evolves (absr (w_repo w)) (absr r')
        \<and> same_shape (absr (w_repo w)) (absr r')"
    using assms custodyD(1,2) [OF I] unfolding frame_def by blast
  then show "I s0 (snd (on_repo m w))"
    by (intro custody_frame [OF I]) (simp_all add: on_repo_def split_def Let_def)
qed

lemma aside_keeps:
  "keeps (I s0) read_clock" "keeps (I s0) draw_uuid" "keeps (I s0) (on_audit k)"
  unfolding keeps_iff read_clock_def draw_uuid_def on_audit_def split_def
  by (intro allI impI, rule custody_frame, assumption, (simp add: custodyD(1,2))+)+

lemma store_keeps:
  assumes "\<And>s. objects (snd (m s)) = objects s"
  shows "keeps (I s0) (on_store m)"
  unfolding keeps_iff
  by (intro allI impI, rule custody_frame, assumption, (simp add: custodyD(1,2) on_store_def split_def assms)+)

lemma delete_keeps:
  assumes I: "I s0 w"
    and other: "\<And>d m. atomic \<Longrightarrow> st_docs (absr (w_repo w)) d = Some m \<Longrightarrow> purge_started_at m = None
      \<Longrightarrow> addr (storage_key m) \<noteq> None \<Longrightarrow> addr (storage_key m) \<noteq> addr key"
  shows "I s0 (snd (on_store (store_delete (svc_storage svc) key) w))"
proof (rule custody_frame [OF I])
  fix p m d
  assume *: "atomic" "st_docs (absr (w_repo w)) d = Some m" "purge_started_at m = None" "addr (storage_key m) = Some p"
  have "addr key \<noteq> Some p" using other [OF *(1-3)] *(4) by auto
  then show "objects (w_store (snd (on_store (store_delete (svc_storage svc) key) w))) p = objects (w_store w) p"
    using delete_frame [of key "w_store w" _ _ p] by (simp add: on_store_def split_def) (metis prod.collapse)
qed (use custodyD(1,2) [OF I] in \<open>simp_all add: on_store_def split_def\<close>)

end

end
