(* ===== verification/Ingest.thy ===== *)
theory Ingest
  imports CustodyPlatform
begin

text \<open>
  Taking a document into custody: the storage key is the key the row records and names an
  address of the new document alone, and the row is written with the digest and the size of
  the bytes that were stored.
\<close>

lemma is_space_lower [simp]: "is_space (ascii_lower c) = is_space c"
  by (auto simp: ascii_lower_def is_space_def)

lemma stripped_lower: "py_strip s = s \<Longrightarrow> s \<noteq> [] \<Longrightarrow> \<not> is_space (hd (py_lower s)) \<and> \<not> is_space (last (py_lower s))"
  using py_strip_ends [of s] by (simp add: py_lower_def hd_map last_map)

lemma replace_char_ne [simp]: "py_replace_char a b s = [] \<longleftrightarrow> s = []" "length (py_replace_char a b s) = length s"
  by (induction s) simp_all

lemma last_replace_char: "s \<noteq> [] \<Longrightarrow> last (py_replace_char a b s) = (if last s = a then b else last s)"
  by (induction s) auto

lemma input_valid_strips:
  assumes "input_valid m"
  shows "py_strip (region m) = region m" "region m \<noteq> []"
    "py_strip (output_format m) = output_format m" "output_format m \<noteq> []"
proof -
  have v: "validate_document_input m = Inr m" using assms by (simp add: input_valid_def)
  have "py_strip (region m) = region m \<and> region m \<noteq> []
      \<and> py_strip (output_format m) = output_format m \<and> output_format m \<noteq> []"
  proof (rule validate_document_input_cases [OF v])
    fix rn pm ac ie tp ds d
    assume d: "d = strip_input m"
      and m: "m = d\<lparr>reviewed_advisory_narrative := rn, advisor_proposal_memo := pm,
           advisor_commentary_summary := ac, idea_evidence_pack_summary := ie,
           template_publication := tp, declared_artifact_sha256 := ds\<rparr>"
      and ok: "accepted (check_input_fields m)"
    have "region m = region d" "output_format m = output_format d"
      using arg_cong [OF m, of region] arg_cong [OF m, of output_format] by simp_all
    moreover have "region m \<noteq> []" "output_format m \<noteq> []"
      using ok by (simp_all add: check_input_fields_def nonempty_def del: run_checks.simps)
    ultimately show ?thesis using d by (simp add: strip_input_sel)
  qed
  then show "py_strip (region m) = region m" "region m \<noteq> []"
    "py_strip (output_format m) = output_format m" "output_format m \<noteq> []"
    by blast+
qed

lemma storage_key_stripped:
  assumes "input_valid m" "d \<noteq> []"
  shows "py_strip (storage_key_for m d) = storage_key_for m d"
proof (rule py_strip_id)
  let ?f = "py_replace_char CHR ''/'' CHR ''-'' (py_lower (output_format m))"
  note s = input_valid_strips [OF assms(1)]
  obtain c cs where r: "py_lower (region m) = c # cs" using s(2) by (cases "py_lower (region m)") (auto simp: py_lower_def)
  have c: "\<not> is_space c" using stripped_lower [OF s(1,2)] r by simp
  have f: "?f \<noteq> []" "\<not> is_space (last ?f)"
    using stripped_lower [OF s(3,4)] s(4)
    by (auto simp: last_replace_char py_lower_def is_space_def)
  show "\<not> is_space (hd (storage_key_for m d)) \<and> \<not> is_space (last (storage_key_for m d))"
    using c f by (simp add: storage_key_for_def Let_def r)
qed

lemma digest_stripped:
  assumes "calculate_checksum bs alg = Inr digest"
  shows "py_strip digest = digest" "length digest = 64"
proof -
  have d: "digest = sha256_hexdigest bs"
    using assms by (auto simp: calculate_checksum_def split: if_splits)
  have "set digest \<subseteq> set hex_digits" using sha256_hexdigest_digits d by simp
  then have "\<forall>c \<in> set digest. \<not> is_space c" by (auto simp: hex_digits_def is_space_def)
  then show "py_strip digest = digest" by (intro py_strip_id) auto
  show "length digest = 64" using d by simp
qed

lemma build_metadata_fields:
  assumes "build_metadata m d so now = Inr md" "input_valid m"
  shows "document_id md = py_strip d" "storage_key md = py_strip (stored_key so)"
    "checksum md = py_strip (stored_checksum so)" "checksum_algorithm md = ''sha256''"
    "size_bytes md = int (stored_size_bytes so)" "pristine md" "input_fields md = m"
    "document_id md \<noteq> []"
  using assms
  by (auto simp: build_metadata_def input_valid_def Let_def and_then_eq_Inr pristine_def input_fields_def
      document_metadata.defs document_input.defs SUPPORTED_CHECKSUM_ALGORITHM_def split: if_splits)

lemma bind_on_store:
  "bind_io (on_store m) f w = (case m (w_store w) of
     (Inl e, s) \<Rightarrow> (Inl e, w\<lparr>w_store := s\<rparr>) | (Inr x, s) \<Rightarrow> f x (w\<lparr>w_store := s\<rparr>))"
  by (simp add: bind_io_def on_store_def split: prod.split sum.split)

context custody_platform
begin

text \<open>Writing the object of a document that does not exist yet disturbs no other.\<close>

lemma putting_keeps:
  assumes I: "I s0 w" and d: "proper_token d" "d \<notin> dom (st_docs (absr (w_repo w)))"
    and key: "key = storage_key_for m d"
    and put: "store_put (svc_storage svc) key bs cs alg (w_store w) = (x, s')"
  shows "I s0 (w\<lparr>w_store := s'\<rparr>)"
proof (rule custody_frame [OF I])
  fix p n e
  assume n: "st_docs (absr (w_repo w)) e = Some n" "addr (storage_key n) = Some p"
  have "owner p = e" "e \<noteq> d"
    using custodyD(5) [OF I n(1)] n d by (auto simp: row_owned_def)
  moreover have "owner q = d \<and> owner (scratch q) = d" if "addr key = Some q" for q
    by (rule owner_key [OF d(1), of m]) (use that key in simp)
  ultimately have "addr key \<noteq> Some p" "map_option scratch (addr key) \<noteq> Some p" by auto
  then show "objects (w_store (w\<lparr>w_store := s'\<rparr>)) p = objects (w_store w) p"
    using put_frame [OF put] by simp
qed (use custodyD(1,2) [OF I] in simp_all)

lemma discarding_keeps:
  assumes I: "I s0 w" and d: "proper_token d" "atomic \<Longrightarrow> d \<notin> dom (st_docs (absr (w_repo w)))"
    and key: "key = storage_key_for m d"
  shows "I s0 (snd (discard_object svc key e w))"
proof -
  let ?w = "snd (on_store (store_delete (svc_storage svc) key) w)"
  have "I s0 ?w"
  proof (rule delete_keeps [OF I])
    fix e n assume a: "atomic" and n: "st_docs (absr (w_repo w)) e = Some n" "addr (storage_key n) \<noteq> None"
    then have ne: "e \<noteq> d" using d(2) [OF a] by auto
    obtain p where p: "addr (storage_key n) = Some p" "owner p = e"
      using custodyD(5) [OF I n(1)] by (auto simp: row_owned_def)
    show "addr (storage_key n) \<noteq> addr key"
      using owner_key [OF d(1), of m p] p ne key by auto
  qed
  then show ?thesis
    by (auto simp: discard_object_def seq_io_def bind_io_def raise_def split: prod.split sum.split)
qed

text \<open>The saved row: a new document, owned, with its bytes in place.\<close>

lemma saving_keeps:
  assumes I: "I s0 w" and md: "pristine md" "document_id md = d" "storage_key md = key" "d \<noteq> []"
    and d: "proper_token d" "d \<notin> dom (st_docs (absr (w_repo w)))" "key = storage_key_for m d"
    and d_u: "d = ''doc_'' @ w_uuids w k" "k < w_drawn w"
    and held: "atomic \<Longrightarrow> bytes_held objects addr (w_store w) md" and key: "addr key \<noteq> None"
    and run: "repo_save (svc_repository svc) md (w_repo w) = (x, r)"
  shows "I s0 (w\<lparr>w_repo := r\<rparr>)" and "x = Inl e \<Longrightarrow> atomic \<Longrightarrow> absr r = absr (w_repo w)"
proof -
  let ?s = "absr (w_repo w)" and ?w = "w\<lparr>w_repo := r\<rparr>"
  note inv = custodyD(1,2) [OF I]
  show "absr r = ?s" if "x = Inl e" "atomic"
    using atomic_save [OF that(2) inv] run that(1) by blast
  obtain p where p: "addr key = Some p" using key by auto
  have own: "owner p = d" "owner (scratch p) = d" using owner_key [OF d(1), of m p] p d(3) by simp_all
  have other: "storage_key n \<noteq> storage_key md" if "st_docs ?s e = Some n" for e n
    using custodyD(5) [OF I that] p own that d(2) md(3) by (auto simp: row_owned_def)
  have out: "wfr r \<and> (absr r = ?s \<or> save_admitted ?s md \<and> absr r = spec_save md ?s)"
    using save [OF inv run] by (cases x) auto
  have new: "new_document ?s md" if "save_admitted ?s md"
  proof -
    have none: "st_docs ?s d = None" using d(2) by blast
    have "archive_request_id n \<noteq> archive_request_id md" if "st_docs ?s e = Some n" for e n
    proof
      assume "archive_request_id n = archive_request_id md"
      with \<open>save_admitted ?s md\<close> that have "e = d" unfolding save_admitted_def md(2) by blast
      with none that show False by simp
    qed
    then show ?thesis
      unfolding new_document_def md(2) using md(1,4) none other by blast
  qed
  have ri: "repo_inv absr wfr s0 r"
    by (rule repo_inv_step [where r = "w_repo w"]) (use I out new in \<open>auto simp: custody_def intro: step_save\<close>)
  show "I s0 ?w"
  proof (cases "absr r = ?s")
    case True
    then show ?thesis using I ri by (simp add: custody_def fresh_ids_def)
  next
    case False
    then have r: "absr r = spec_save md ?s" using out by blast
    have "fresh_ids ?w (absr r)"
    proof -
      have "inj (w_uuids w)" using custodyD(4) [OF I] by (simp add: fresh_ids_def)
      then have "w_uuids w n \<noteq> w_uuids w k" if "w_drawn w \<le> n" for n
        using that d_u(2) by (auto dest: injD)
      then show ?thesis
        using custodyD(4) [OF I] by (auto simp: fresh_ids_def r spec_save_def md(2) d_u(1))
    qed
    moreover have "row_owned addr scratch owner e n \<and> (atomic \<longrightarrow> purge_started_at n = None
        \<longrightarrow> bytes_held objects addr (w_store w) n)" if "st_docs (absr r) e = Some n" for e n
    proof (cases "e = d")
      case True
      then have n: "n = untimed md" using that r md(2) by (simp add: spec_save_def)
      have im: "immutable_part n = immutable_part md" using n by simp
      have "storage_key n = key" using n md(3) by simp
      then have "row_owned addr scratch owner e n" using p own d(1) True by (simp add: row_owned_def)
      then show ?thesis using held by (simp add: row_facts_immutable(2) [OF im])
    next
      case False
      then have "st_docs ?s e = Some n" using that r md(2) by (simp add: spec_save_def)
      then show ?thesis using custodyD(5,6) [OF I] by blast
    qed
    ultimately show ?thesis using ri by (simp add: custody_def)
  qed
qed

lemma store_reads_keep:
  "keeps (I s0) (on_store (store_get (svc_storage svc) key))"
  "keeps (I s0) (on_store (store_check_ready (svc_storage svc)))"
proof -
  show "keeps (I s0) (on_store (store_get (svc_storage svc) key))"
    by (rule store_keeps) (metis get_reads prod.collapse)
  show "keeps (I s0) (on_store (store_check_ready (svc_storage svc)))"
    by (rule store_keeps) (metis ready_reads prod.collapse)
qed

lemma storing_keeps:
  assumes m: "input_valid m" and sum: "calculate_checksum content SUPPORTED_CHECKSUM_ALGORITHM = Inr digest"
  shows "keeps (I s0) (store_new_document svc m content digest)"
  unfolding keeps_iff
proof (intro allI impI)
  fix w :: "('r, 's, 'a) world" assume I: "I s0 w"
  define d where "d = ''doc_'' @ w_uuids w (w_drawn w)"
  define key where "key = storage_key_for m d"
  let ?w1 = "w\<lparr>w_drawn := Suc (w_drawn w)\<rparr>"
  have d: "proper_token d" "d \<notin> dom (st_docs (absr (w_repo w)))" "d \<noteq> []"
    unfolding d_def
    by (rule proper_token_append(1) [OF fresh_idsD(2) [OF custodyD(4) [OF I]]],
        rule fresh_idsD(3) [OF custodyD(4) [OF I]], simp)
  have I1: "I s0 ?w1" by (rule custody_frame [OF I]) (use custodyD(1,2) [OF I] in simp_all)
  obtain x s' where put: "store_put (svc_storage svc) key content digest SUPPORTED_CHECKSUM_ALGORITHM (w_store w) = (x, s')"
    by fastforce
  have I2: "I s0 (?w1\<lparr>w_store := s'\<rparr>)"
    by (rule putting_keeps [OF I1 d(1) _ key_def]) (use d(2) put in simp_all)
  show "I s0 (snd (store_new_document svc m content digest w))"
  proof (cases x)
    case (Inl e)
    then show ?thesis
      using I2 put [unfolded Inl]
      by (simp add: store_new_document_def run_steps bind_on_store Let_def d_def key_def)
  next
    case (Inr so)
    have stored: "\<exists>p. addr key = Some p \<and> objects s' p = Some content" "stored_key so = key"
      "stored_checksum so = digest" "stored_size_bytes so = length content"
      using put_stores [OF put [unfolded Inr]] by blast+
    let ?w3 = "?w1\<lparr>w_store := s', w_ticks := Suc (w_ticks w)\<rparr>"
    have I3: "I s0 ?w3" by (rule custody_frame [OF I2]) (use custodyD(1,2) [OF I2] in simp_all)
    have gone: "I s0 (snd (discard_object svc key e ?w3))" for e
      by (rule discarding_keeps [OF I3 d(1) _ key_def]) (use d(2) in simp)
    have prog: "store_new_document svc m content digest w = try_except
        (bind_io (of_result (build_metadata m d so (w_clock w (w_ticks w))))
          (\<lambda>metadata. on_repo (repo_save (svc_repository svc) metadata))) (discard_object svc key) ?w3"
      using put [unfolded Inr] stored(2)
      by (simp add: store_new_document_def run_steps(1,2) bind_on_store Let_def d_def key_def)
    show ?thesis
    proof (cases "build_metadata m d so (w_clock w (w_ticks w))")
      case (Inl e)
      then show ?thesis using gone by (simp add: prog try_except_def bind_of_result)
    next
      case md: (Inr md)
      note f = build_metadata_fields [OF md m]
      have f': "document_id md = d" "storage_key md = key" "checksum md = digest"
        "size_bytes md = int (length content)"
        using f storage_key_stripped [OF m d(3)] digest_stripped(1) [OF sum] d(1) stored(2-4)
        by (simp_all add: key_def)
      obtain y r where save: "repo_save (svc_repository svc) md (w_repo w) = (y, r)" by fastforce
      have held: "bytes_held objects addr (w_store ?w3) md"
        using stored(1) sum f(4) f' by (auto simp: bytes_held_def SUPPORTED_CHECKSUM_ALGORITHM_def)
      have ne: "addr key \<noteq> None" using stored(1) by auto
      have I4: "I s0 (?w3\<lparr>w_repo := r\<rparr>)" and same: "y = Inl e \<Longrightarrow> atomic \<Longrightarrow> absr r = absr (w_repo w)" for e
        using saving_keeps [OF I3 f(6) f'(1,2) d(3) d(1) _ key_def, where k = "w_drawn w" and x = y and r = r]
          d(2) d_def held ne save by simp_all
      have "I s0 (snd (discard_object svc key e (?w3\<lparr>w_repo := r\<rparr>)))" if "y = Inl e" for e
        by (rule discarding_keeps [OF I4 d(1) _ key_def]) (use same [OF that] d(2) in simp)
      then show ?thesis
        using I4 by (cases y) (simp_all add: prog try_except_def bind_of_result md on_repo_def save)
    qed
  qed
qed

end

section \<open>Every method keeps custody\<close>

sublocale custody_platform \<subseteq> kept: service_invariant svc "custody absr wfr objects addr scratch owner atomic s0"
    "\<lambda>d. py_strip d = d" for s0
proof
  fix w :: "('r, 's, 'a) world" and ms sz
  show "I s0 (w\<lparr>w_metrics := ms, w_sizes := sz\<rparr>) = I s0 w"
    by (simp add: custody_def fresh_ids_def)
next
  fix d
  have found: "py_strip d = d \<and> document_id m = d"
    if I: "I s0 w" and run: "on_repo (repo_get_by_document_id (svc_repository svc) d) w = (Inr (Some m), w')" for w w' m
  proof -
    obtain r where "repo_get_by_document_id (svc_repository svc) d (w_repo w) = (Inr (Some m), r)"
      using run by (auto simp: on_repo_def split: prod.splits)
    then have m: "st_docs (absr (w_repo w)) d = Some (untimed m)"
      using get_by_document_id [unfolded reads_def, rule_format, OF custodyD(1,2) [OF I], of d] by simp
    then have "document_id m = d" using archive_invD(1) [OF custodyD(2) [OF I] m] by simp
    moreover have "proper_token d" using custodyD(5) [OF I m] by (simp add: row_owned_def)
    ultimately show ?thesis by simp
  qed
  note k = on_repo_keeps [OF reads_frame(2) [of d], of s0]
  show "triple (I s0) (on_repo (repo_get_by_document_id (svc_repository svc) d))
      (\<lambda>x w. (\<forall>m. x = Some m \<longrightarrow> py_strip (document_id m) = document_id m) \<and> I s0 w) (\<lambda>_. I s0)"
    "triple (I s0) (on_repo (repo_get_by_document_id (svc_repository svc) d))
      (\<lambda>x w. (\<forall>m. x = Some m \<longrightarrow> py_strip d = d) \<and> I s0 w) (\<lambda>_. I s0)"
    using keepsD [OF k] found by (fastforce intro!: tripleI)+
qed (intro aside_keeps on_repo_keeps reads_frame transitions_frame admitting_keeps linking_keeps
    destroying_keeps storing_keeps store_reads_keep; assumption)+

end
