(* ===== verification/ServiceCalls.thy ===== *)
theory ServiceCalls
  imports Ingest
begin

text \<open>
  Histories of the service: one constructor per method of \<open>ArchiveDocumentService\<close>, run one
  after another, each to its end whether it returns or raises. The two invariants are proved
  for whole histories in the contract's locale and obtained for the repositories and stores of
  \<open>src/app/archive/runtime.py\<close> by interpretation.
\<close>

section \<open>Calls\<close>

datatype service_call =
    ReadinessCall
  | PostureCall string
  | CreateCall create_command caller_context string
  | MetadataCall string caller_context string
  | RequestIdCall string caller_context string
  | BinaryCall string caller_context string
  | EventsCall string caller_context string "nat option" nat
  | RetentionCall string caller_context string
  | EvaluateCall string caller_context string "date option"
  | PurgeCall string caller_context string "date option"
  | HoldCall string legal_hold_command caller_context string
  | ReleaseCall string string string caller_context string
  | CurrentCall string caller_context string
  | PreflightCall "string list" caller_context string
  | SourceEventsCall string caller_context string
  | SupersedeCall string lifecycle_command caller_context string
  | CorrectCall string lifecycle_command caller_context string
  | ReissueCall string lifecycle_command caller_context string

definition ignore_result :: "('w, 'x) io \<Rightarrow> ('w, unit) io" where
  "ignore_result m = bind_io m (\<lambda>_. ret ())"

primrec run_call ::
    "('r, 's, 'a) archive_service \<Rightarrow> service_call \<Rightarrow> (('r, 's, 'a) world, unit) io" where
  "run_call svc ReadinessCall = ignore_result (runtime_readiness svc)"
| "run_call svc (PostureCall d) = ignore_result (get_lifecycle_posture svc d)"
| "run_call svc (CreateCall c u t) = ignore_result (create_document svc c u t)"
| "run_call svc (MetadataCall d u t) = ignore_result (get_document_metadata svc d u t)"
| "run_call svc (RequestIdCall q u t) = ignore_result (get_document_metadata_by_request_id svc q u t)"
| "run_call svc (BinaryCall d u t) = ignore_result (get_document_binary svc d u t)"
| "run_call svc (EventsCall d u t l k) = ignore_result (list_access_events svc d u t l k)"
| "run_call svc (RetentionCall d u t) = ignore_result (get_retention svc d u t)"
| "run_call svc (EvaluateCall d u t e) = ignore_result (service_evaluate_purge svc d u t e)"
| "run_call svc (PurgeCall d u t e) = ignore_result (purge_document svc d u t e)"
| "run_call svc (HoldCall d c u t) = ignore_result (set_legal_hold svc d c u t)"
| "run_call svc (ReleaseCall d i r u t) = ignore_result (release_legal_hold svc d i r u t)"
| "run_call svc (CurrentCall d u t) = ignore_result (get_current_document_metadata svc d u t)"
| "run_call svc (PreflightCall ds u t) = ignore_result (preflight_document_access svc ds u t)"
| "run_call svc (SourceEventsCall d u t) = ignore_result (list_document_source_events svc d u t)"
| "run_call svc (SupersedeCall d c u t) = ignore_result (supersede_document svc d c u t)"
| "run_call svc (CorrectCall d c u t) = ignore_result (correct_document svc d c u t)"
| "run_call svc (ReissueCall d c u t) = ignore_result (reissue_document svc d c u t)"

text \<open>
  A create command carries an \<open>ArchiveDocumentInput\<close>, which only its validating constructor
  builds.
\<close>

fun valid_call :: "service_call \<Rightarrow> bool" where
  "valid_call (CreateCall c u t) = input_valid (cc_metadata c)"
| "valid_call _ = True"

fun run_calls ::
    "('r, 's, 'a) archive_service \<Rightarrow> service_call list \<Rightarrow> ('r, 's, 'a) world \<Rightarrow> ('r, 's, 'a) world" where
  "run_calls svc [] w = w"
| "run_calls svc (c # cs) w = run_calls svc cs (snd (run_call svc c w))"

lemma keeps_ignore: "keeps I m \<Longrightarrow> keeps I (ignore_result m)"
  unfolding ignore_result_def by (intro wp)

context service_invariant
begin

lemma call_keeps: "valid_call c \<Longrightarrow> keeps I (run_call svc c)"
  by (cases c; simp; intro keeps_ignore readiness_keeps posture_keeps create_keeps reads_keep request_id_keeps
      binary_keeps source_events_keeps evaluate_keeps purge_keeps hold_keeps release_keeps
      preflight_keeps transitions_keep; assumption)

lemma calls_keep:
  assumes "I w" "list_all valid_call cs"
  shows "I (run_calls svc cs w)"
  using assms
proof (induction cs arbitrary: w)
  case (Cons c cs)
  then show ?case using keepsD [OF call_keeps [of c], of w] by simp
qed simp

end

section \<open>The audit trail only grows\<close>

definition trail_extends ::
    "('a \<Rightarrow> access_audit_event list) \<Rightarrow> access_audit_event list \<Rightarrow> 'a \<Rightarrow> bool" where
  "trail_extends trail es a \<longleftrightarrow> (\<exists>new. trail a = es @ new)"

locale audited_service = audit_log "svc_audit svc" trail
  for svc :: "('r, 's, 'a) archive_service" and trail
begin

lemma audit_keeps:
  "keeps (trail_extends trail es) (audit_record (svc_audit svc) e)"
  "keeps (trail_extends trail es) (audit_list_by_document_id (svc_audit svc) d limit offset)"
  "keeps (trail_extends trail es) (audit_count_by_document_id (svc_audit svc) d)"
  "keeps (trail_extends trail es) (audit_check_ready (svc_audit svc))"
proof -
  show "keeps (trail_extends trail es) (audit_record (svc_audit svc) e)"
    unfolding keeps_iff trail_extends_def by (metis record_grows append_assoc)
qed (simp_all add: keeps_iff trail_extends_def reads_keep_trail)

abbreviation (input) J :: "access_audit_event list \<Rightarrow> ('r, 's, 'a) world \<Rightarrow> bool" where
  "J es w \<equiv> trail_extends trail es (w_audit w)"

lemma recording_extends:
  "keeps (J es) (record_allowed svc ty caller trace d op)"
  unfolding record_allowed_def record_access_def by (intro wp audit_keeps)

lemma compound_extends:
  "keeps (J es) (admit_new_hold svc d c who)"
  "keeps (J es) (link_new_relationship svc src tgt ty reason who)"
  "keeps (J es) (execute_purge svc d caller trace)"
  "keeps (J es) (store_new_document svc m content digest)"
  unfolding admit_new_hold_def link_new_relationship_def execute_purge_def store_new_document_def
    discard_object_def Let_def
  by (intro wp recording_extends)+

end

sublocale audited_service \<subseteq> grows: service_invariant svc "\<lambda>w. trail_extends trail es (w_audit w)" "\<lambda>_. True" for es
proof
  show "keeps (\<lambda>w. trail_extends trail es (w_audit w)) (on_repo m)" for m
    by (rule keeps_store_only)
qed (auto intro!: wp audit_keeps compound_extends simp: keeps_def [symmetric])

section \<open>The platforms of the runtime\<close>

text \<open>
  \<open>build_archive_service\<close> in its two repository modes. The decoded-size limit and the
  namespace are settings; the workbook reader stands for the XML and ZIP libraries.
\<close>

definition in_memory_service ::
    "'s object_storage \<Rightarrow> nat \<Rightarrow> workbook_reader
      \<Rightarrow> (memory_repository, 's, access_audit_event list) archive_service" where
  "in_memory_service storage limit reader =
     \<lparr>svc_repository = memory_ops, svc_storage = storage, svc_audit = memory_audit,
      svc_policy = default_policy, svc_max_decoded_bytes = limit, svc_reader = reader\<rparr>"

definition postgresql_service ::
    "'s object_storage \<Rightarrow> nat \<Rightarrow> workbook_reader
      \<Rightarrow> (postgres, 's, access_audit_event list database) archive_service" where
  "postgresql_service storage limit reader =
     \<lparr>svc_repository = postgres_ops, svc_storage = storage, svc_audit = postgres_audit,
      svc_policy = default_policy, svc_max_decoded_bytes = limit, svc_reader = reader\<rparr>"

lemma service_parts [simp]:
  "svc_repository (in_memory_service st n rd) = memory_ops" "svc_storage (in_memory_service st n rd) = st"
  "svc_audit (in_memory_service st n rd) = memory_audit"
  "svc_repository (postgresql_service st n rd) = postgres_ops" "svc_storage (postgresql_service st n rd) = st"
  "svc_audit (postgresql_service st n rd) = postgres_audit"
  "svc_policy (in_memory_service st n rd) = default_policy" "svc_policy (postgresql_service st n rd) = default_policy"
  by (simp_all add: in_memory_service_def postgresql_service_def)

interpretation mem_trail: audited_service "in_memory_service st n rd" "\<lambda>es. es"
  unfolding audited_service_def service_parts by (rule mem_audit.audit_log_axioms)

interpretation pg_trail: audited_service "postgresql_service st n rd" pg_tables
  unfolding audited_service_def service_parts by (rule pg_audit.audit_log_axioms)

text \<open>The document that owns a path of the filesystem store: its file name up to the first dot.\<close>

definition fs_owner :: "string list \<Rightarrow> string" where
  "fs_owner p = takeWhile (\<lambda>c. c \<noteq> CHR ''.'') (last p)"

lemma takeWhile_token:
  assumes "proper_token d"
  shows "takeWhile (\<lambda>c. c \<noteq> CHR ''.'') (d @ CHR ''.'' # x) = d"
  using assms by (simp add: proper_token_def takeWhile_tail [of _ _ _ x, simplified])

lemma key_file_name:
  assumes d: "proper_token d" and p: "fs_addr (storage_key_for m d) = Some p"
  shows "\<exists>x. last p = d @ CHR ''.'' # x"
proof -
  let ?f = "py_replace_char CHR ''/'' CHR ''-'' (py_lower (output_format m))"
  let ?name = "d @ CHR ''.'' # ?f"
  obtain pre where key: "storage_key_for m d = pre @ CHR ''/'' # ?name"
    by (simp add: storage_key_for_def Let_def)
  have "CHR ''/'' \<notin> set ?name"
    using d py_replace_char_set [of "CHR ''/''" "CHR ''-''"] by (auto simp: proper_token_def)
  then have "py_split CHR ''/'' (storage_key_for m d) = py_split CHR ''/'' pre @ [?name]"
    by (simp add: key py_split_append py_split_no_sep)
  moreover have "?name \<noteq> [] \<and> ?name \<noteq> ''.''"
    using d by (cases d) (auto simp: proper_token_def)
  ultimately have "last (path_parts (storage_key_for m d)) = ?name"
    by (simp add: path_parts_def)
  then show ?thesis
    using p by (auto simp: fs_addr_def path_for_key_def split: if_splits)
qed

lemma fs_owner_key:
  assumes d: "proper_token d" and p: "fs_addr (storage_key_for m d) = Some p"
  shows "fs_owner p = d \<and> fs_owner (temporary_path p) = d"
  using key_file_name [OF assms] takeWhile_token [OF d]
  by (auto simp: fs_owner_def temporary_path_def)

interpretation mem_fs: custody_platform "in_memory_service (filesystem_store ns) n rd" mem_abs mem_wf
    fs_objects fs_addr temporary_path fs_owner True
proof (intro custody_platform.intro custody_platform_axioms.intro, unfold service_parts)
  show "document_repository memory_ops mem_abs mem_wf" by (rule mem.document_repository_axioms)
  show "object_storage (filesystem_store ns) fs_objects fs_addr temporary_path" by (rule fs.object_storage_axioms)
qed (fact fs_owner_key | rule mem.save_atomic; assumption)+

interpretation pg_fs: custody_platform "postgresql_service (filesystem_store ns) n rd" pg_abs pg_wf
    fs_objects fs_addr temporary_path fs_owner False
proof (intro custody_platform.intro custody_platform_axioms.intro, unfold service_parts)
  show "document_repository postgres_ops pg_abs pg_wf" by (rule pg.document_repository_axioms)
  show "object_storage (filesystem_store ns) fs_objects fs_addr temporary_path" by (rule fs.object_storage_axioms)
qed (fact fs_owner_key | simp)+

interpretation pg_fs_reliable: custody_platform "postgresql_service (filesystem_store ns) n rd" pg_abs
    "\<lambda>p. pg_wf p \<and> serves p" fs_objects fs_addr temporary_path fs_owner True
proof (intro custody_platform.intro custody_platform_axioms.intro, unfold service_parts)
  show "document_repository postgres_ops pg_abs (\<lambda>p. pg_wf p \<and> serves p)"
    by (rule pg_reliable.document_repository_axioms)
  show "object_storage (filesystem_store ns) fs_objects fs_addr temporary_path" by (rule fs.object_storage_axioms)
qed (fact fs_owner_key | rule pg_reliable.save_atomic; assumption)+

end
