(* ===== verification/Access.thy ===== *)
theory Access
  imports ServiceCalls
begin

text \<open>
  Who may do what: a caller outside the policy changes nothing and leaves one denied event, a
  download is authorised and intact, and a batch preflight tells a caller nothing about
  documents outside its scope.
\<close>

section \<open>Runs that return\<close>

named_theorems returns \<open>when a program returns a value\<close>

lemma bind_returns [returns]:
  "bind_io m f w = (Inr y, w') \<longleftrightarrow> (\<exists>x w1. m w = (Inr x, w1) \<and> f x w1 = (Inr y, w'))"
  by (auto simp: bind_io_def split: prod.splits sum.splits)

lemma seq_returns [returns]:
  "seq_io m k w = (Inr y, w') \<longleftrightarrow> (\<exists>x w1. m w = (Inr x, w1) \<and> k w1 = (Inr y, w'))"
  by (simp add: seq_io_def bind_returns)

lemma basic_returns [returns]:
  "ret x w = (Inr y, w') \<longleftrightarrow> y = x \<and> w' = w" "raise e w = (Inr y, w') \<longleftrightarrow> False"
  "skip_io w = (Inr u, w') \<longleftrightarrow> w' = w" "of_result r w = (Inr y, w') \<longleftrightarrow> r = Inr y \<and> w' = w"
  by (auto simp: ret_def raise_def skip_io_def of_result_def)

lemma try_returns [returns]:
  "try_except m h w = (Inr y, w') \<longleftrightarrow>
     m w = (Inr y, w') \<or> (\<exists>e w1. m w = (Inl e, w1) \<and> h e w1 = (Inr y, w'))"
  by (auto simp: try_except_def split: prod.splits sum.splits)

lemma metric_returns: "archive_metric op view f w = (Inr y, w') \<Longrightarrow> \<exists>w1. f w = (Inr y, w1)"
  by (auto simp: archive_metric_def Let_def returns split: prod.splits sum.splits)

lemma refuse_never_returns [returns]: "refuse A caller trace reason doc e w = (Inr y, w') \<longleftrightarrow> False"
  by (simp add: refuse_def returns)

lemma authorize_returns:
  "authorize policy A p caller trace doc w = (Inr u, w') \<longleftrightarrow>
     caller_service caller \<in> set (allowed_callers_for policy p) \<and> w' = w"
  by (auto simp: authorize_def returns)

lemma scope_returns:
  "authorize_document_scope A m caller trace w = (Inr u, w') \<longleftrightarrow>
     missing_scope caller = [] \<and> decision_state (document_scope_decision m caller) = ALLOWED \<and> w' = w"
  by (auto simp: authorize_document_scope_def require_audited_caller_scope_def require_caller_scope_def
      enforce_decision_def returns)

lemma tenant_scope_returns:
  "authorize_document_tenant_scope A m caller trace w = (Inr u, w') \<longleftrightarrow>
     missing_scope caller = [] \<and> decision_state (document_tenant_scope_decision m caller) = ALLOWED \<and> w' = w"
  by (auto simp: authorize_document_tenant_scope_def require_audited_caller_scope_def require_caller_scope_def
      enforce_decision_def returns)

lemma tenant_decision_allowed:
  "decision_state (document_tenant_scope_decision m caller) = ALLOWED \<longleftrightarrow>
     truthy (caller_tenant_id caller) \<and> truthy (caller_region caller) \<and> tenant_id m \<noteq> [] \<and> region m \<noteq> []
     \<and> caller_tenant_id caller = Some (tenant_id m) \<and> py_lower (region m) = py_lower (the (caller_region caller))"
  by (auto simp: document_tenant_scope_decision_def tenant_scope_decision_def)

lemma scope_decision_allowed:
  "decision_state (document_scope_decision m caller) = ALLOWED \<longleftrightarrow>
     decision_state (document_tenant_scope_decision m caller) = ALLOWED \<and> purge_status m \<noteq> PURGED"
  by (auto simp: document_scope_decision_def Let_def)

section \<open>Downloads\<close>

lemma download_returns:
  assumes "get_document_binary svc d caller trace w = (Inr (m, content), w')"
  shows "caller_service caller \<in> set (allowed_callers_for (svc_policy svc) DOWNLOAD_BINARY)
    \<and> decision_state (document_scope_decision m caller) = ALLOWED
    \<and> calculate_checksum content (checksum_algorithm m) = Inr (checksum m)"
proof -
  have never: "(case e of StorageReadFailedError s \<Rightarrow> seq_io k (raise e) | _ \<Rightarrow> raise e) w1 \<noteq> (Inr y, w2)"
    for e k w1 y w2 by (cases e) (simp_all add: returns)
  show ?thesis
    using metric_returns [OF assms [unfolded get_document_binary_def]] never
    by (auto simp: returns get_authorized_document_metadata_def authorize_returns scope_returns split: if_splits)
qed

section \<open>Callers outside the policy\<close>

text \<open>The permission a call asks for first, its caller, and the document it names.\<close>

fun call_guard :: "service_call \<Rightarrow> (archive_permission \<times> caller_context \<times> string option) option" where
  "call_guard (CreateCall c u t) = Some (CREATE_DOCUMENT, u, None)"
| "call_guard (MetadataCall d u t) = Some (READ_METADATA, u, Some d)"
| "call_guard (BinaryCall d u t) = Some (DOWNLOAD_BINARY, u, Some d)"
| "call_guard (EventsCall d u t l k) = Some (READ_ACCESS_EVENTS, u, Some d)"
| "call_guard (RetentionCall d u t) = Some (READ_RETENTION, u, Some d)"
| "call_guard (EvaluateCall d u t e) = Some (EVALUATE_PURGE, u, Some d)"
| "call_guard (PurgeCall d u t e) = Some (EXECUTE_PURGE, u, Some d)"
| "call_guard (HoldCall d c u t) = Some (MANAGE_LEGAL_HOLD, u, Some d)"
| "call_guard (ReleaseCall d i r u t) = Some (MANAGE_LEGAL_HOLD, u, Some d)"
| "call_guard (CurrentCall d u t) = Some (READ_METADATA, u, Some d)"
| "call_guard (SourceEventsCall d u t) = Some (READ_METADATA, u, Some d)"
| "call_guard (SupersedeCall d c u t) = Some (MANAGE_LIFECYCLE, u, Some d)"
| "call_guard (CorrectCall d c u t) = Some (MANAGE_LIFECYCLE, u, Some d)"
| "call_guard (ReissueCall d c u t) = Some (MANAGE_LIFECYCLE, u, Some d)"
| "call_guard (PreflightCall ds u t) =
     (if ds = [] \<or> length ds > MAX_PREFLIGHT_DOCUMENT_IDS then None else Some (READ_BATCH_ACCESS_PREFLIGHT, u, None))"
| "call_guard _ = None"

definition denied_once ::
    "caller_context \<Rightarrow> string option \<Rightarrow> ('r, 's, access_audit_event list) world
      \<Rightarrow> ('r, 's, access_audit_event list) world \<Rightarrow> bool" where
  "denied_once u d w w' \<longleftrightarrow> w_repo w' = w_repo w \<and> w_store w' = w_store w
     \<and> (\<exists>ev. w_audit w' = w_audit w @ [ev] \<and> audit_event_type ev = AUTHORIZATION_DENIED
          \<and> audit_decision ev = AUDIT_DENIED \<and> audit_document_id ev = d
          \<and> audit_actor_id ev = caller_actor_id u \<and> audit_caller_service ev = caller_service u)"

definition refuses ::
    "archive_permission \<Rightarrow> caller_context \<Rightarrow> string option
      \<Rightarrow> (('r, 's, access_audit_event list) world, 'x) io \<Rightarrow> bool" where
  "refuses p u d m \<longleftrightarrow> (\<forall>w. \<exists>w'.
     m w = (Inl (AuthorizationFailedError (permission_value p @ ''_caller_not_allowed'')), w')
     \<and> denied_once u d w w')"

lemma authorize_refused:
  assumes "caller_service u \<notin> set (allowed_callers_for policy p)"
  shows "refuses p u d (authorize policy memory_audit p u t d)"
  using assms
  by (simp add: authorize_def refuse_def record_access_def on_audit_def memory_audit_def modify_io_def
      seq_io_def bind_io_def draw_uuid_def read_clock_def raise_def refuses_def denied_once_def make_audit_event_def)

lemma refuses_bind: "refuses p u d m \<Longrightarrow> refuses p u d (bind_io m f)"
  unfolding refuses_def
proof
  fix w assume "\<forall>w. \<exists>w'. m w = (Inl (AuthorizationFailedError (permission_value p @ ''_caller_not_allowed'')), w')
     \<and> denied_once u d w w'"
  then obtain w' where "m w = (Inl (AuthorizationFailedError (permission_value p @ ''_caller_not_allowed'')), w')"
    "denied_once u d w w'" by blast
  then show "\<exists>w'. bind_io m f w = (Inl (AuthorizationFailedError (permission_value p @ ''_caller_not_allowed'')), w')
     \<and> denied_once u d w w'" by (intro exI [of _ w'] conjI run_bind_Inl)
qed

lemma refuses_seq: "refuses p u d m \<Longrightarrow> refuses p u d (seq_io m k)"
  unfolding seq_io_def by (rule refuses_bind)

lemma refuses_metric:
  assumes "refuses p u d m" "op \<in> set IMPLEMENTED_ARCHIVE_OPERATIONS"
  shows "refuses p u d (archive_metric op view m)"
  unfolding refuses_def
proof
  fix w
  obtain w' where "m w = (Inl (AuthorizationFailedError (permission_value p @ ''_caller_not_allowed'')), w')"
    "denied_once u d w w'"
    using assms(1) unfolding refuses_def by blast
  then show "\<exists>w'. archive_metric op view m w
      = (Inl (AuthorizationFailedError (permission_value p @ ''_caller_not_allowed'')), w') \<and> denied_once u d w w'"
    using assms(2)
    by (simp add: archive_metric_def record_archive_operation_def seq_io_def bind_io_def modify_io_def raise_def
        denied_once_def del: permission_value.simps)
qed

lemma operations_implemented [simp]:
  "''archive_create'' \<in> set IMPLEMENTED_ARCHIVE_OPERATIONS" "''metadata_lookup'' \<in> set IMPLEMENTED_ARCHIVE_OPERATIONS"
  "''binary_download'' \<in> set IMPLEMENTED_ARCHIVE_OPERATIONS" "''access_events_lookup'' \<in> set IMPLEMENTED_ARCHIVE_OPERATIONS"
  "''retention_lookup'' \<in> set IMPLEMENTED_ARCHIVE_OPERATIONS" "''purge_evaluation'' \<in> set IMPLEMENTED_ARCHIVE_OPERATIONS"
  "''purge_execution'' \<in> set IMPLEMENTED_ARCHIVE_OPERATIONS" "''legal_hold_set'' \<in> set IMPLEMENTED_ARCHIVE_OPERATIONS"
  "''legal_hold_release'' \<in> set IMPLEMENTED_ARCHIVE_OPERATIONS" "''lifecycle_supersede'' \<in> set IMPLEMENTED_ARCHIVE_OPERATIONS"
  "''lifecycle_correct'' \<in> set IMPLEMENTED_ARCHIVE_OPERATIONS" "''lifecycle_reissue'' \<in> set IMPLEMENTED_ARCHIVE_OPERATIONS"
  "''current_document_lookup'' \<in> set IMPLEMENTED_ARCHIVE_OPERATIONS"
  "''batch_access_preflight'' \<in> set IMPLEMENTED_ARCHIVE_OPERATIONS"
  by (simp_all add: IMPLEMENTED_ARCHIVE_OPERATIONS_def)

definition outside :: "('r, 's, 'a) archive_service \<Rightarrow> caller_context \<Rightarrow> archive_permission \<Rightarrow> bool" where
  "outside svc u p \<longleftrightarrow> caller_service u \<notin> set (allowed_callers_for (svc_policy svc) p)"

lemma refused_operations:
  assumes a: "svc_audit svc = memory_audit"
  shows "outside svc u CREATE_DOCUMENT \<Longrightarrow> refuses CREATE_DOCUMENT u None (create_document svc c u t)"
    "outside svc u READ_METADATA \<Longrightarrow> refuses READ_METADATA u (Some d) (get_document_metadata svc d u t)"
    "outside svc u READ_METADATA \<Longrightarrow> refuses READ_METADATA u (Some d) (get_current_document_metadata svc d u t)"
    "outside svc u READ_METADATA \<Longrightarrow> refuses READ_METADATA u (Some d) (list_document_source_events svc d u t)"
    "outside svc u DOWNLOAD_BINARY \<Longrightarrow> refuses DOWNLOAD_BINARY u (Some d) (get_document_binary svc d u t)"
    "outside svc u READ_ACCESS_EVENTS \<Longrightarrow> refuses READ_ACCESS_EVENTS u (Some d) (list_access_events svc d u t limit offset)"
    "outside svc u READ_RETENTION \<Longrightarrow> refuses READ_RETENTION u (Some d) (get_retention svc d u t)"
    "outside svc u EVALUATE_PURGE \<Longrightarrow> refuses EVALUATE_PURGE u (Some d) (service_evaluate_purge svc d u t when)"
    "outside svc u EXECUTE_PURGE \<Longrightarrow> refuses EXECUTE_PURGE u (Some d) (purge_document svc d u t when)"
    "outside svc u MANAGE_LEGAL_HOLD \<Longrightarrow> refuses MANAGE_LEGAL_HOLD u (Some d) (set_legal_hold svc d hc u t)"
    "outside svc u MANAGE_LEGAL_HOLD \<Longrightarrow> refuses MANAGE_LEGAL_HOLD u (Some d) (release_legal_hold svc d hid reason u t)"
    "outside svc u MANAGE_LIFECYCLE \<Longrightarrow> refuses MANAGE_LIFECYCLE u (Some d) (supersede_document svc d lc u t)"
    "outside svc u MANAGE_LIFECYCLE \<Longrightarrow> refuses MANAGE_LIFECYCLE u (Some d) (correct_document svc d lc u t)"
    "outside svc u MANAGE_LIFECYCLE \<Longrightarrow> refuses MANAGE_LIFECYCLE u (Some d) (reissue_document svc d lc u t)"
    "outside svc u READ_BATCH_ACCESS_PREFLIGHT \<Longrightarrow> ds \<noteq> [] \<Longrightarrow> \<not> length ds > MAX_PREFLIGHT_DOCUMENT_IDS
      \<Longrightarrow> refuses READ_BATCH_ACCESS_PREFLIGHT u None (preflight_document_access svc ds u t)"
  unfolding create_document_def get_document_metadata_def get_document_binary_def
    list_access_events_def get_retention_def service_evaluate_purge_def purge_document_def set_legal_hold_def
    release_legal_hold_def get_current_document_metadata_def list_document_source_events_def
    supersede_document_def correct_document_def reissue_document_def apply_lifecycle_transition_def
    preflight_document_access_def get_authorized_document_metadata_def get_tenant_authorized_document_metadata_def a
  by (auto simp: outside_def intro!: refuses_metric refuses_bind refuses_seq authorize_refused)

lemma refuses_ignore: "refuses p u d m \<Longrightarrow> refuses p u d (ignore_result m)"
  unfolding ignore_result_def by (rule refuses_bind)

lemma unauthorized_refused:
  assumes a: "svc_audit svc = memory_audit" and g: "call_guard c = Some (p, u, d)"
    and n: "outside svc u p"
  shows "refuses p u d (run_call svc c)"
  using g n
  by (cases c) (auto intro!: refuses_ignore refused_operations [OF a] split: if_splits)

section \<open>Batch preflight\<close>

lemma response_reasons: "item_reason (fst (preflight_item d x un caller)) \<in> RESPONSE_REASON_CODES"
  by (auto simp: preflight_item_def Let_def RESPONSE_REASON_CODES_def EXISTENCE_REVEALING_REASON_CODES_def
      document_scope_decision_def document_tenant_scope_decision_def tenant_scope_decision_def split: option.split)

lemma response_items:
  assumes "preflight_document_access svc ds caller trace w = (Inr res, w')"
  shows "map item_document_id (preflight_items res) = ds"
    "\<forall>i \<in> set (preflight_items res). item_reason i \<in> RESPONSE_REASON_CODES"
proof -
  have ids: "item_document_id (fst (preflight_item d x un caller)) = d" for d x un
    by (simp add: preflight_item_def Let_def)
  have unav: "LOOKUP_UNAVAILABLE \<in> RESPONSE_REASON_CODES" by (simp add: RESPONSE_REASON_CODES_def)
  have "preflight_items res = map fst (unavailable_items ds)
      \<or> (\<exists>l. preflight_items res = map fst (evaluated_items l ds caller))"
    using metric_returns [OF assms [unfolded preflight_document_access_def]]
    by (auto simp: returns Let_def split: if_splits option.splits) blast
  then show "map item_document_id (preflight_items res) = ds"
    "\<forall>i \<in> set (preflight_items res). item_reason i \<in> RESPONSE_REASON_CODES"
    by (auto simp: unavailable_items_def evaluated_items_def comp_def ids response_reasons unav)
qed

text \<open>
  What a caller may learn exists: the documents whose scope decision is not one of those that
  would reveal a document to an outsider.
\<close>

definition seen_by :: "caller_context \<Rightarrow> document_metadata option \<Rightarrow> document_metadata option" where
  "seen_by caller x = (case x of
     Some m \<Rightarrow> if decision_reason (document_scope_decision m caller) \<in> EXISTENCE_REVEALING_REASON_CODES then None else x
   | None \<Rightarrow> None)"

lemma item_of_seen: "fst (preflight_item d x False caller) = fst (preflight_item d (seen_by caller x) False caller)"
  by (auto simp: preflight_item_def seen_by_def Let_def EXISTENCE_REVEALING_REASON_CODES_def split: option.split)

lemma mem_lookup_run:
  "\<exists>l. repo_get_by_document_ids memory_ops ds r = (Inr l, r) \<and> unavailable_document_ids l = []
    \<and> (\<forall>d \<in> set ds. dict_get (lookup_documents l) d = dict_get (by_document_id r) d)"
  by (auto simp: memory_ops_def mem_get_by_document_ids_def dict_get_lookup_fold)

lemma record_preflight_memory:
  assumes "svc_audit svc = memory_audit"
  shows "\<exists>w'. record_preflight_audit svc es caller trace w = (Inr (), w')"
  using assms
proof (induction es arbitrary: w)
  case (Cons e es)
  obtain item reason where e: "e = (item, reason)" by (cases e)
  obtain w1 where "record_access (svc_audit svc) BATCH_ACCESS_PREFLIGHT caller trace
      (if item_state item = ALLOWED then AUDIT_ALLOWED else AUDIT_DENIED)
      (access_reason_value reason) (Some (item_document_id item)) (Some (access_reason_value reason)) w = (Inr (), w1)"
    using Cons.prems
    by (simp add: record_access_def run_steps on_audit_def memory_audit_def modify_io_def)
  then show ?case
    using Cons.IH [OF Cons.prems, of w1] by (simp add: e seq_io_def bind_io_def)
qed (simp add: skip_io_def ret_def)

lemma preflight_memory:
  assumes svc: "svc_repository svc = memory_ops" "svc_audit svc = memory_audit"
    and ds: "ds \<noteq> []" "length ds \<le> MAX_PREFLIGHT_DOCUMENT_IDS"
    and ok: "caller_service caller \<in> set (allowed_callers_for (svc_policy svc) READ_BATCH_ACCESS_PREFLIGHT)"
      "missing_scope caller = []"
  shows "\<exists>w'. preflight_document_access svc ds caller trace w =
    (let items = map (\<lambda>d. fst (preflight_item d (seen_by caller (dict_get (by_document_id (w_repo w)) d)) False caller)) ds
     in (Inr \<lparr>preflight_items = items, preflight_state = result_state_for_items items\<rparr>, w'))"
proof -
  let ?items = "map (\<lambda>d. fst (preflight_item d (seen_by caller (dict_get (by_document_id (w_repo w)) d)) False caller)) ds"
  obtain l where l: "repo_get_by_document_ids memory_ops ds (w_repo w) = (Inr l, w_repo w)"
    "unavailable_document_ids l = []"
    "\<forall>d \<in> set ds. dict_get (lookup_documents l) d = dict_get (by_document_id (w_repo w)) d"
    using mem_lookup_run by blast
  have items: "map fst (evaluated_items l ds caller) = ?items"
    using l(2,3) item_of_seen by (simp add: evaluated_items_def)
  have look: "preflight_lookup svc ds w = (Inr (Some l), w)"
    using l(1) svc(1) by (simp add: preflight_lookup_def try_except_def bind_on_repo ret_def)
  obtain w1 where w1: "record_preflight_audit svc (evaluated_items l ds caller) caller trace w = (Inr (), w1)"
    using record_preflight_memory [OF svc(2)] by blast
  have pass: "authorize (svc_policy svc) (svc_audit svc) READ_BATCH_ACCESS_PREFLIGHT caller trace None w = (Inr (), w)"
    "require_caller_scope caller = Inr ()"
    using ok by (simp_all add: authorize_def skip_io_def ret_def require_caller_scope_def)
  have "(seq_io (authorize (svc_policy svc) (svc_audit svc) READ_BATCH_ACCESS_PREFLIGHT caller trace None)
        (seq_io (of_result (require_caller_scope caller))
        (bind_io (preflight_lookup svc ds) (\<lambda>lookup.
         let (evaluated, state) = (case lookup of
               None \<Rightarrow> (unavailable_items ds, ALL_UNAVAILABLE)
             | Some l \<Rightarrow> (let es = evaluated_items l ds caller in (es, result_state_for_items (map fst es)))) in
           seq_io (record_preflight_audit svc evaluated caller trace)
             (ret \<lparr>preflight_items = map fst evaluated, preflight_state = state\<rparr>))))) w
      = (Inr \<lparr>preflight_items = ?items, preflight_state = result_state_for_items ?items\<rparr>, w1)"
    using pass look w1 items by (simp add: seq_io_def bind_io_def of_result_def Let_def ret_def)
  then show ?thesis
    using ds by (simp add: preflight_document_access_def archive_metric_def Let_def record_archive_operation_def
        record_archive_document_size_def size_from_result_def seq_io_def bind_io_def modify_io_def skip_io_def ret_def)
qed

end
