(* ===== verification/CanonicalJson.thy ===== *)
theory CanonicalJson
  imports ArtifactFormat
begin

text \<open>
  What \<open>json.dumps(..., sort_keys=True, separators=(",", ":"))\<close> of the standard library prints
  for the values the service signs and fingerprints, and the URL-safe base64 of
  \<open>base64.urlsafe_b64encode\<close> and \<open>urlsafe_b64decode\<close>. The printed text determines the value: it
  is what a signature covers.
\<close>

section \<open>Values\<close>

datatype json =
    JString string
  | JInt int
  | JBool bool
  | JObject "(string \<times> json) list"

definition hex_escape :: "char \<Rightarrow> string" where
  "hex_escape c = (let n = (of_char c :: nat) in
     [CHR 0x5C, CHR ''u'', CHR ''0'', CHR ''0'', hex_digits ! (n div 16), hex_digits ! (n mod 16)])"

text \<open>The escapes of the encoder with \<open>ensure_ascii\<close>.\<close>

definition escape :: "char \<Rightarrow> string" where
  "escape c =
     (if c = CHR 0x22 then [CHR 0x5C, CHR 0x22]
      else if c = CHR 0x5C then [CHR 0x5C, CHR 0x5C]
      else if c = CHR 0x0A then [CHR 0x5C, CHR ''n'']
      else if c = CHR 0x0D then [CHR 0x5C, CHR ''r'']
      else if c = CHR 0x09 then [CHR 0x5C, CHR ''t'']
      else if c = CHR 0x0C then [CHR 0x5C, CHR ''f'']
      else if c = CHR 0x08 then [CHR 0x5C, CHR ''b'']
      else if (of_char c :: nat) < 32 \<or> 126 < (of_char c :: nat) then hex_escape c
      else [c])"

definition quote :: "string \<Rightarrow> string" where
  "quote s = CHR 0x22 # concat (map escape s) @ [CHR 0x22]"

definition print_int :: "int \<Rightarrow> string" where
  "print_int n = (if n < 0 then CHR ''-'' # decimal (nat (- n)) else decimal (nat n))"

fun dumps :: "json \<Rightarrow> string" where
  "dumps (JString s) = quote s"
| "dumps (JInt n) = print_int n"
| "dumps (JBool b) = (if b then ''true'' else ''false'')"
| "dumps (JObject kvs) =
     CHR ''{'' # py_join '','' (map (\<lambda>(k, t). quote k @ CHR '':'' # t)
       (sort_key fst (map (\<lambda>(k, v). (k, dumps v)) kvs))) @ ''}''"

definition encode_ascii :: "string \<Rightarrow> bytes" where
  "encode_ascii s = map of_char s"

section \<open>Reading a string back\<close>

definition hex_value :: "char \<Rightarrow> char \<Rightarrow> char" where
  "hex_value a b = char_of (16 * the (position a hex_digits) + the (position b hex_digits))"

fun unescape :: "string \<Rightarrow> (char \<times> string) option" where
  "unescape (c # r) =
     (if c = CHR 0x22 then None
      else if c \<noteq> CHR 0x5C then Some (c, r)
      else (case r of
         [] \<Rightarrow> None
       | e # r' \<Rightarrow>
           if e = CHR ''u''
           then (case r' of _ # _ # a # b # r'' \<Rightarrow> Some (hex_value a b, r'') | _ \<Rightarrow> None)
           else Some (if e = CHR ''n'' then CHR 0x0A else if e = CHR ''r'' then CHR 0x0D
                      else if e = CHR ''t'' then CHR 0x09 else if e = CHR ''f'' then CHR 0x0C
                      else if e = CHR ''b'' then CHR 0x08 else e, r')))"
| "unescape [] = None"

lemma hex_digit_position: "i < 16 \<Longrightarrow> position (hex_digits ! i) hex_digits = Some i"
  by (rule position_nth) (simp_all add: hex_digits_def)

lemma hex_value_escape:
  fixes c :: char
  defines "n \<equiv> (of_char c :: nat)"
  shows "hex_value (hex_digits ! (n div 16)) (hex_digits ! (n mod 16)) = c"
proof -
  have "n < 256" unfolding n_def by (rule nat_of_char_less_256)
  then have "n div 16 < 16" by (simp add: less_mult_imp_div_less)
  then show ?thesis by (simp add: hex_value_def hex_digit_position n_def)
qed

lemma unescape_escape: "unescape (escape c @ r) = Some (c, r)"
  by (auto simp: escape_def hex_escape_def Let_def hex_value_escape)

lemma escape_ne: "escape c \<noteq> [] \<and> hd (escape c) \<noteq> CHR 0x22"
  by (auto simp: escape_def hex_escape_def Let_def)

lemma escaped_inj:
  assumes "concat (map escape s) @ CHR 0x22 # r = concat (map escape t) @ CHR 0x22 # u"
  shows "s = t \<and> r = u"
  using assms
proof (induction s arbitrary: t)
  case Nil
  have "CHR 0x22 # x \<noteq> escape c @ v" for c x v
    using escape_ne [of c] by (cases "escape c") auto
  then show ?case using Nil by (cases t) simp_all
next
  case (Cons c s)
  have ne: "escape c @ v \<noteq> CHR 0x22 # x" for x v
    using escape_ne [of c] by (cases "escape c") auto
  show ?case
  proof (cases t)
    case Nil
    then show ?thesis using Cons.prems ne by simp
  next
    case t: (Cons d ts)
    have "unescape (escape c @ concat (map escape s) @ CHR 0x22 # r)
        = unescape (escape d @ concat (map escape ts) @ CHR 0x22 # u)"
      using Cons.prems t by simp
    then have "c = d" "concat (map escape s) @ CHR 0x22 # r = concat (map escape ts) @ CHR 0x22 # u"
      by (simp_all add: unescape_escape)
    with Cons.IH [of ts] t show ?thesis by simp
  qed
qed

lemma quote_inj: "quote s @ r = quote t @ u \<longleftrightarrow> s = t \<and> r = u"
  using escaped_inj [of s r t u] by (auto simp: quote_def)

section \<open>Reading a number back\<close>

definition digit_value :: "nat \<Rightarrow> char \<Rightarrow> nat" where
  "digit_value n c = 10 * n + (of_char c - 48)"

definition is_decimal_digit :: "char \<Rightarrow> bool" where
  "is_decimal_digit c \<longleftrightarrow> 48 \<le> (of_char c :: nat) \<and> (of_char c :: nat) \<le> 57"

lemma digit_char: "d < 10 \<Longrightarrow> (of_char (char_of (48 + d) :: char) :: nat) = 48 + d"
  by simp

lemma decimal_value: "foldl digit_value 0 (decimal n) = n"
proof (induction n rule: decimal.induct)
  case (1 n)
  show ?case
  proof (cases "n < 10")
    case False
    then show ?thesis using 1 by (simp add: decimal.simps [of n] digit_value_def)
  qed (simp add: decimal.simps [of n] digit_value_def)
qed

lemma decimal_digits: "c \<in> set (decimal n) \<Longrightarrow> is_decimal_digit c"
proof (induction n rule: decimal.induct)
  case (1 n)
  then show ?case
    by (cases "n < 10") (auto simp: decimal.simps [of n] is_decimal_digit_def)
qed

lemma decimal_ne: "decimal n \<noteq> []"
  by (simp add: decimal.simps [of n])

lemma decimal_inj:
  assumes "decimal n @ r = decimal m @ u" "\<not> is_decimal_digit (hd (r @ [CHR '' '']))"
    "\<not> is_decimal_digit (hd (u @ [CHR '' '']))"
  shows "n = m \<and> r = u"
proof -
  have span: "takeWhile is_decimal_digit (decimal k @ v) = decimal k" if "\<not> is_decimal_digit (hd (v @ [CHR '' '']))" for k v
    using that decimal_digits by (cases v) (auto simp: takeWhile_append)
  have "decimal n = decimal m" using assms span by metis
  then show ?thesis using assms(1) decimal_value by (metis same_append_eq)
qed

lemma print_int_inj:
  assumes "print_int a @ r = print_int b @ u" "\<not> is_decimal_digit (hd (r @ [CHR '' '']))"
    "\<not> is_decimal_digit (hd (u @ [CHR '' '']))"
  shows "a = b \<and> r = u"
proof -
  have minus: "decimal n @ v \<noteq> CHR ''-'' # x" for n v x
    using decimal_digits [of "CHR ''-''" n] decimal_ne [of n] by (cases "decimal n") (auto simp: is_decimal_digit_def)
  show ?thesis
  proof (cases "a < 0"; cases "b < 0")
    assume neg: "a < 0" "b < 0"
    then have "nat (- a) = nat (- b) \<and> r = u"
      using assms decimal_inj [of "nat (- a)" r "nat (- b)" u] by (simp add: print_int_def)
    with neg show ?thesis by linarith
  next
    assume "a < 0" "\<not> b < 0"
    then show ?thesis using assms(1) minus [of "nat b" u, symmetric] by (simp add: print_int_def)
  next
    assume "\<not> a < 0" "b < 0"
    then show ?thesis using assms(1) minus [of "nat a" r] by (simp add: print_int_def)
  next
    assume "\<not> a < 0" "\<not> b < 0"
    note pos = this
    then have "nat a = nat b \<and> r = u"
      using assms decimal_inj [of "nat a" r "nat b" u] by (simp add: print_int_def)
    with pos show ?thesis by linarith
  qed
qed

section \<open>URL-safe base64\<close>

definition to_urlsafe :: "char \<Rightarrow> char" where
  "to_urlsafe c = (if c = CHR ''+'' then CHR ''-'' else if c = CHR ''/'' then CHR ''_'' else c)"

definition from_urlsafe :: "char \<Rightarrow> char" where
  "from_urlsafe c = (if c = CHR ''-'' then CHR ''+'' else if c = CHR ''_'' then CHR ''/'' else c)"

definition urlsafe_b64encode :: "bytes \<Rightarrow> string" where
  "urlsafe_b64encode bs = map to_urlsafe (encode_bytes bs)"

text \<open>
  The decoder without validation: characters outside the alphabet are skipped, and reading stops
  where a quadruple is padded full. \<open>q\<close> is the place in the quadruple, \<open>p\<close> the padding seen.
\<close>

fun lax_digits :: "nat \<Rightarrow> nat \<Rightarrow> string \<Rightarrow> nat list option" where
  "lax_digits q p [] = (if q = 0 then Some [] else None)"
| "lax_digits q p (c # s) =
     (if c = CHR ''=''
      then (if q < 2 then lax_digits q p s
            else if q + Suc p \<ge> 4 then Some [] else lax_digits q (Suc p) s)
      else (case sextet c of None \<Rightarrow> lax_digits q p s
        | Some d \<Rightarrow> map_option ((#) d) (lax_digits (Suc q mod 4) 0 s)))"

definition urlsafe_b64decode :: "string \<Rightarrow> bytes option" where
  "urlsafe_b64decode s =
     (if \<not> is_ascii s then None
      else (case lax_digits 0 0 (map from_urlsafe s) of None \<Rightarrow> None | Some ds \<Rightarrow> decode_sextets ds))"

lemma lax_quad:
  assumes "a < 64" "b < 64" "c < 64" "d < 64"
  shows "lax_digits 0 0 (base64_alphabet ! a # base64_alphabet ! b # base64_alphabet ! c # base64_alphabet ! d # s)
    = map_option (\<lambda>ds. a # b # c # d # ds) (lax_digits 0 0 s)"
  using assms by (simp add: option.map_comp comp_def)

lemma lax_encoded:
  assumes "\<forall>b \<in> set bs. b < 256"
  shows "\<exists>ds. lax_digits 0 0 (encode_bytes bs) = Some ds \<and> decode_sextets ds = Some bs"
  using assms
proof (induction bs rule: encode_bytes.induct)
  case (2 a)
  then have "a < 256" by simp
  note bits = combine_bits [OF this this this]
  show ?case using bits by simp
next
  case (3 a b)
  then have ab: "a < 256" "b < 256" by simp_all
  note bits = combine_bits [OF ab ab(2)]
  show ?case using bits by simp
next
  case (4 a b c rest)
  then have abc: "a < 256" "b < 256" "c < 256"
    and ih: "\<exists>ds. lax_digits 0 0 (encode_bytes rest) = Some ds \<and> decode_sextets ds = Some rest"
    by simp_all
  note bits = combine_bits [OF abc]
  obtain ds where ds: "lax_digits 0 0 (encode_bytes rest) = Some ds" "decode_sextets ds = Some rest"
    using ih by blast
  let ?ds = "a div 4 # (a mod 4 * 16 + b div 16) # (b mod 16 * 4 + c div 64) # (c mod 64) # ds"
  have "lax_digits 0 0 (encode_bytes (a # b # c # rest)) = Some ?ds"
    by (simp only: encode_bytes.simps lax_quad [OF bits(1,3,5,6)] ds option.map)
  moreover have "decode_sextets ?ds = Some (a # b # c # rest)"
    by (simp only: decode_sextets.simps bits(8,10,11) ds option.map)
  ultimately show ?case by blast
qed simp

lemma alphabet_chars:
  assumes "c \<in> set base64_alphabet"
  shows "from_urlsafe (to_urlsafe c) = c \<and> (of_char (to_urlsafe c) :: nat) < 128"
proof -
  have "list_all (\<lambda>c. from_urlsafe (to_urlsafe c) = c \<and> (of_char (to_urlsafe c) :: nat) < 128) base64_alphabet"
    by code_simp
  with assms show ?thesis by (simp add: list_all_iff)
qed

lemma digit_mem: "i < 64 \<Longrightarrow> base64_alphabet ! i \<in> set base64_alphabet"
  using base64_alphabet_facts(2) by (metis nth_mem)

lemma encoded_chars:
  assumes "\<forall>b \<in> set bs. b < 256"
  shows "set (encode_bytes bs) \<subseteq> insert CHR ''='' (set base64_alphabet)"
  using assms
proof (induction bs rule: encode_bytes.induct)
  case (2 a)
  then have "a < 256" by simp
  note bits = combine_bits [OF this this this]
  show ?case unfolding encode_bytes.simps list.set using bits(1,2) [THEN digit_mem] by blast
next
  case (3 a b)
  then have ab: "a < 256" "b < 256" by simp_all
  note bits = combine_bits [OF ab ab(2)]
  show ?case unfolding encode_bytes.simps list.set using bits(1,3,4) [THEN digit_mem] by blast
next
  case (4 a b c rest)
  then have abc: "a < 256" "b < 256" "c < 256"
    and rest: "set (encode_bytes rest) \<subseteq> insert CHR ''='' (set base64_alphabet)"
    by simp_all
  note bits = combine_bits [OF abc]
  show ?case unfolding encode_bytes.simps list.set using bits(1,3,5,6) [THEN digit_mem] rest by blast
qed simp

lemma urlsafe_roundtrip:
  assumes "\<forall>b \<in> set bs. b < 256"
  shows "urlsafe_b64decode (urlsafe_b64encode bs) = Some bs"
proof -
  have each: "from_urlsafe (to_urlsafe c) = c \<and> (of_char (to_urlsafe c) :: nat) < 128"
    if "c \<in> set (encode_bytes bs)" for c
  proof (cases "c = CHR ''=''")
    case False
    then show ?thesis using encoded_chars [OF assms] that alphabet_chars by blast
  qed (simp add: to_urlsafe_def from_urlsafe_def)
  then have "map from_urlsafe (urlsafe_b64encode bs) = encode_bytes bs" "is_ascii (urlsafe_b64encode bs)"
    by (auto simp: urlsafe_b64encode_def is_ascii_def map_idI)
  then show ?thesis using lax_encoded [OF assms] by (auto simp: urlsafe_b64decode_def)
qed

end
