(* ===== verification/LifecycleSigning.thy ===== *)
theory LifecycleSigning
  imports CanonicalJson Checksum "HOL-Library.Multiset"
begin

text \<open>
  Signed lifecycle decisions: \<open>src/app/archive/idea_lifecycle_decisions/models.py\<close> and
  \<open>signing.py\<close>. Ed25519 is a parameter (\<open>signer\<close> and \<open>ed25519_verify\<close>), as is the text the model
  library prints for an instant (\<open>show_time\<close>). Fields whose type is one literal are printed and not
  stored.
\<close>

section \<open>Models\<close>

datatype idea_lifecycle_action = RETAIN | LEGAL_HOLD | DISPOSAL_ELIGIBLE | DISPOSAL_EXECUTED

fun action_value :: "idea_lifecycle_action \<Rightarrow> string" where
  "action_value RETAIN = ''RETAIN''"
| "action_value LEGAL_HOLD = ''LEGAL_HOLD''"
| "action_value DISPOSAL_ELIGIBLE = ''DISPOSAL_ELIGIBLE''"
| "action_value DISPOSAL_EXECUTED = ''DISPOSAL_EXECUTED''"

record decision_body =
  ld_decision_id :: string
  ld_document_id :: string
  ld_idea_evidence_pack_id :: string
  ld_idea_candidate_id :: string
  ld_source_correlation_ref :: string
  ld_tenant_id :: string
  ld_residency_region :: string
  ld_retention_policy_id :: string
  ld_legal_hold_status :: legal_hold_status
  ld_legal_hold_count :: int
  ld_purge_status :: purge_status
  ld_lifecycle_action :: idea_lifecycle_action
  ld_decision_reason_code :: string
  ld_issued_at :: instant
  ld_expires_at :: instant
  ld_correlation_id :: string
  ld_trace_id :: string
  ld_signing_key_id :: string

record lifecycle_decision = decision_body +
  ld_payload_digest :: string
  ld_signature :: string

definition CONTRACT_VERSION :: string where
  "CONTRACT_VERSION = ''lotus-archive:IdeaEvidenceLifecycleDecision:v1''"

text \<open>\<open>^[A-Z]{2,16}$\<close>\<close>

definition is_region_code :: "string \<Rightarrow> bool" where
  "is_region_code s \<longleftrightarrow> 2 \<le> length s \<and> length s \<le> 16 \<and> list_all is_upper_letter s"

definition validate_decision :: "'a decision_body_scheme \<Rightarrow> exc + unit" where
  "validate_decision d = (if is_region_code (ld_residency_region d) then Inr ()
     else Inl (ValidationError ''residency_region''))"

text \<open>\<open>model_dump(mode="json", exclude={"payload_digest", "signature"})\<close>\<close>

definition decision_payload :: "(instant \<Rightarrow> string) \<Rightarrow> 'a decision_body_scheme \<Rightarrow> json" where
  "decision_payload show_time d = JObject
    [(''contract_version'', JString CONTRACT_VERSION),
     (''decision_id'', JString (ld_decision_id d)),
     (''document_id'', JString (ld_document_id d)),
     (''idea_evidence_pack_id'', JString (ld_idea_evidence_pack_id d)),
     (''idea_candidate_id'', JString (ld_idea_candidate_id d)),
     (''source_correlation_ref'', JString (ld_source_correlation_ref d)),
     (''tenant_id'', JString (ld_tenant_id d)),
     (''residency_region'', JString (ld_residency_region d)),
     (''retention_policy_id'', JString (ld_retention_policy_id d)),
     (''legal_hold_status'', JString (legal_hold_status_value (ld_legal_hold_status d))),
     (''legal_hold_count'', JInt (ld_legal_hold_count d)),
     (''purge_status'', JString (purge_status_value (ld_purge_status d))),
     (''lifecycle_action'', JString (action_value (ld_lifecycle_action d))),
     (''disposal_authorized'', JBool False),
     (''decision_reason_code'', JString (ld_decision_reason_code d)),
     (''authority'', JString ''lotus-archive''),
     (''issued_at_utc'', JString (show_time (ld_issued_at d))),
     (''expires_at_utc'', JString (show_time (ld_expires_at d))),
     (''correlation_id'', JString (ld_correlation_id d)),
     (''trace_id'', JString (ld_trace_id d)),
     (''signing_algorithm'', JString ''Ed25519''),
     (''signing_key_id'', JString (ld_signing_key_id d))]"

datatype lifecycle_key_status = KEY_ACTIVE | KEY_ROTATED | KEY_STATUS_REVOKED

record verification_key =
  vk_key_id :: string
  vk_public_key_base64 :: string
  vk_status :: lifecycle_key_status
  vk_not_before :: instant
  vk_not_after :: "instant option"
  vk_provenance :: string

record retained_key =
  rk_key_id :: string
  rk_public_key_base64 :: string
  rk_not_before :: instant
  rk_not_after :: instant

section \<open>Signing\<close>

text \<open>The private key signs bytes; its public half is 32 raw bytes.\<close>

record signer =
  signer_key_id :: string
  signer_sign :: "bytes \<Rightarrow> bytes"
  signer_public_raw :: bytes

definition canonical_payload :: "json \<Rightarrow> bytes" where
  "canonical_payload payload = encode_ascii (dumps payload)"

definition payload_digest_of :: "bytes \<Rightarrow> string" where
  "payload_digest_of canonical = ''sha256:'' @ sha256_hexdigest canonical"

definition sign :: "signer \<Rightarrow> json \<Rightarrow> string \<times> string" where
  "sign s payload =
     (let canonical = canonical_payload payload in
      (payload_digest_of canonical, ''ed25519:'' @ urlsafe_b64encode (signer_sign s canonical)))"

definition public_key_base64 :: "signer \<Rightarrow> string" where
  "public_key_base64 s = urlsafe_b64encode (signer_public_raw s)"

section \<open>Verification\<close>

type_synonym ed25519_verify = "bytes \<Rightarrow> bytes \<Rightarrow> bytes \<Rightarrow> bool"

definition verify_lifecycle_decision ::
    "(instant \<Rightarrow> string) \<Rightarrow> ed25519_verify \<Rightarrow> lifecycle_decision \<Rightarrow> (string \<rightharpoonup> bytes) \<Rightarrow> instant \<Rightarrow> bool" where
  "verify_lifecycle_decision show_time verify d trusted_keys now =
     (if now \<ge> ld_expires_at d then False
      else case trusted_keys (ld_signing_key_id d) of
        None \<Rightarrow> False
      | Some public_key \<Rightarrow>
          if \<not> startswith (ld_signature d) ''ed25519:'' then False
          else let canonical = canonical_payload (decision_payload show_time d) in
            if payload_digest_of canonical \<noteq> ld_payload_digest d then False
            else (case urlsafe_b64decode (removeprefix ''ed25519:'' (ld_signature d)) of
              None \<Rightarrow> False
            | Some signature \<Rightarrow> verify public_key signature canonical))"

datatype verification_refusal =
    KEY_NOT_PUBLISHED | KEY_ID_NOT_UNIQUE | KEY_REVOKED | KEY_NOT_YET_VALID
  | KEY_ALREADY_ROTATED | KEY_IS_EPHEMERAL | SIGNATURE_INVALID

text \<open>\<open>Ed25519PublicKey.from_public_bytes(urlsafe_b64decode(...))\<close>\<close>

definition load_public_key :: "string \<Rightarrow> exc + bytes" where
  "load_public_key text =
     (case urlsafe_b64decode text of
        None \<Rightarrow> Inl (ValueError ''Invalid base64-encoded string'')
      | Some raw \<Rightarrow> if length raw = 32 then Inr raw
                    else Inl (ValueError ''An Ed25519 public key is 32 bytes long''))"

definition refuse_against_bundle ::
    "(instant \<Rightarrow> string) \<Rightarrow> ed25519_verify \<Rightarrow> lifecycle_decision \<Rightarrow> verification_key list \<Rightarrow> instant
      \<Rightarrow> exc + verification_refusal option" where
  "refuse_against_bundle show_time verify d bundle now =
     (case filter (\<lambda>k. vk_key_id k = ld_signing_key_id d) bundle of
        [] \<Rightarrow> Inr (Some KEY_NOT_PUBLISHED)
      | _ # _ # _ \<Rightarrow> Inr (Some KEY_ID_NOT_UNIQUE)
      | [key] \<Rightarrow>
          if vk_status key = KEY_STATUS_REVOKED then Inr (Some KEY_REVOKED)
          else if vk_provenance key \<noteq> ''managed'' then Inr (Some KEY_IS_EPHEMERAL)
          else if ld_issued_at d < vk_not_before key then Inr (Some KEY_NOT_YET_VALID)
          else if (case vk_not_after key of None \<Rightarrow> False | Some e \<Rightarrow> ld_issued_at d \<ge> e)
          then Inr (Some KEY_ALREADY_ROTATED)
          else (case load_public_key (vk_public_key_base64 key) of
            Inl e \<Rightarrow> Inl e
          | Inr public_key \<Rightarrow>
              if \<not> verify_lifecycle_decision show_time verify d [vk_key_id key \<mapsto> public_key] now
              then Inr (Some SIGNATURE_INVALID) else Inr None))"

section \<open>The signed text determines the decision\<close>

definition sorted_members :: "(instant \<Rightarrow> string) \<Rightarrow> 'a decision_body_scheme \<Rightarrow> (string \<times> string) list" where
  "sorted_members show_time d =
    [(''authority'', quote ''lotus-archive''),
     (''contract_version'', quote CONTRACT_VERSION),
     (''correlation_id'', quote (ld_correlation_id d)),
     (''decision_id'', quote (ld_decision_id d)),
     (''decision_reason_code'', quote (ld_decision_reason_code d)),
     (''disposal_authorized'', ''false''),
     (''document_id'', quote (ld_document_id d)),
     (''expires_at_utc'', quote (show_time (ld_expires_at d))),
     (''idea_candidate_id'', quote (ld_idea_candidate_id d)),
     (''idea_evidence_pack_id'', quote (ld_idea_evidence_pack_id d)),
     (''issued_at_utc'', quote (show_time (ld_issued_at d))),
     (''legal_hold_count'', print_int (ld_legal_hold_count d)),
     (''legal_hold_status'', quote (legal_hold_status_value (ld_legal_hold_status d))),
     (''lifecycle_action'', quote (action_value (ld_lifecycle_action d))),
     (''purge_status'', quote (purge_status_value (ld_purge_status d))),
     (''residency_region'', quote (ld_residency_region d)),
     (''retention_policy_id'', quote (ld_retention_policy_id d)),
     (''signing_algorithm'', quote ''Ed25519''),
     (''signing_key_id'', quote (ld_signing_key_id d)),
     (''source_correlation_ref'', quote (ld_source_correlation_ref d)),
     (''tenant_id'', quote (ld_tenant_id d)),
     (''trace_id'', quote (ld_trace_id d))]"

lemma sort_key_unique:
  assumes "mset ys = mset xs" "sorted (map f ys)" "distinct (map f ys)"
  shows "sort_key f xs = ys"
proof (rule sort_key_inj_key_eq)
  show "mset xs = mset ys" using assms(1) by simp
  have "set xs = set ys" using assms(1) by (metis set_mset_mset)
  then show "inj_on f (set xs)" using assms(3) by (simp add: distinct_map)
qed (rule assms(2))

lemma member_keys:
  "sorted (map fst (sorted_members show_time d)) \<and> distinct (map fst (sorted_members show_time d))"
proof -
  have "sorted [''authority'', ''contract_version'', ''correlation_id'', ''decision_id'', ''decision_reason_code'',
      ''disposal_authorized'', ''document_id'', ''expires_at_utc'', ''idea_candidate_id'', ''idea_evidence_pack_id'',
      ''issued_at_utc'', ''legal_hold_count'', ''legal_hold_status'', ''lifecycle_action'', ''purge_status'',
      ''residency_region'', ''retention_policy_id'', ''signing_algorithm'', ''signing_key_id'',
      ''source_correlation_ref'', ''tenant_id'', ''trace_id'']"
    by code_simp
  moreover have "distinct [''authority'', ''contract_version'', ''correlation_id'', ''decision_id'',
      ''decision_reason_code'', ''disposal_authorized'', ''document_id'', ''expires_at_utc'', ''idea_candidate_id'',
      ''idea_evidence_pack_id'', ''issued_at_utc'', ''legal_hold_count'', ''legal_hold_status'', ''lifecycle_action'',
      ''purge_status'', ''residency_region'', ''retention_policy_id'', ''signing_algorithm'', ''signing_key_id'',
      ''source_correlation_ref'', ''tenant_id'', ''trace_id'']"
    by code_simp
  ultimately show ?thesis unfolding sorted_members_def list.map fst_conv by (rule conjI)
qed

text \<open>Member texts that cannot run into what follows them.\<close>

definition separable :: "string \<Rightarrow> string \<Rightarrow> bool" where
  "separable t t' \<longleftrightarrow> (\<forall>c r c' r'. c \<in> {CHR '','', CHR ''}''} \<longrightarrow> c' \<in> {CHR '','', CHR ''}''}
     \<longrightarrow> t @ c # r = t' @ c' # r' \<longrightarrow> t = t')"

lemma separable_texts [simp]:
  "separable (quote a) (quote b)" "separable t t" "separable (print_int m) (print_int n)"
proof -
  show "separable (quote a) (quote b)"
    by (simp add: separable_def quote_inj)
  show "separable t t" by (simp add: separable_def)
  show "separable (print_int m) (print_int n)"
    unfolding separable_def
  proof (intro allI impI)
    fix c r c' r'
    assume c: "c \<in> {CHR '','', CHR ''}''}" "c' \<in> {CHR '','', CHR ''}''}" and eq: "print_int m @ c # r = print_int n @ c' # r'"
    have "\<not> is_decimal_digit c" "\<not> is_decimal_digit c'" using c by (auto simp: is_decimal_digit_def)
    then show "print_int m = print_int n" using print_int_inj [OF eq] by simp
  qed
qed

definition member_text :: "string \<times> string \<Rightarrow> string" where
  "member_text m = quote (fst m) @ CHR '':'' # snd m"

lemma member_text_pair: "member_text (k, t) = quote k @ CHR '':'' # t"
  by (simp add: member_text_def)

lemma join_Cons: "ws \<noteq> [] \<Longrightarrow> py_join sep (w # ws) = w @ sep @ py_join sep ws"
  by (cases ws) simp_all

lemma join_members_inj:
  assumes "list_all2 (\<lambda>m m'. fst m = fst m' \<and> separable (snd m) (snd m')) xs ys"
    and "py_join '','' (map member_text xs) @ ''}'' = py_join '','' (map member_text ys) @ ''}''"
  shows "xs = ys"
  using assms
proof (induction rule: list_all2_induct)
  case (Cons x xs y ys)
  obtain k t t' where x: "x = (k, t)" and y: "y = (k, t')" and sep: "separable t t'"
    using Cons.hyps(1) by (cases x; cases y) simp
  have len: "xs = [] \<longleftrightarrow> ys = []" using Cons.hyps(2) by (auto simp: list_all2_iff)
  show ?case
  proof (cases "xs = []")
    case True
    then have "t @ [CHR ''}''] = t' @ [CHR ''}'']"
      using Cons.prems len by (simp add: x y member_text_pair)
    then show ?thesis using True len x y by simp
  next
    case False
    then have eq: "t @ CHR '','' # py_join '','' (map member_text xs) @ ''}''
        = t' @ CHR '','' # py_join '','' (map member_text ys) @ ''}''"
      using Cons.prems len by (simp add: x y member_text_pair join_Cons)
    have "t = t'" by (rule sep [unfolded separable_def, rule_format, OF _ _ eq]) simp_all
    with eq Cons.IH x y show ?thesis by simp
  qed
qed simp

lemma canonical_text:
  "dumps (decision_payload show_time d)
    = CHR ''{'' # py_join '','' (map member_text (sorted_members show_time d)) @ ''}''"
proof -
  let ?kvs = "case decision_payload show_time d of JObject kvs \<Rightarrow> kvs"
  have "mset (sorted_members show_time d) = mset (map (\<lambda>(k, v). (k, dumps v)) ?kvs)"
    by (simp add: decision_payload_def sorted_members_def)
  then have "sort_key fst (map (\<lambda>(k, v). (k, dumps v)) ?kvs) = sorted_members show_time d"
    by (rule sort_key_unique [OF _ conjunct1 [OF member_keys] conjunct2 [OF member_keys]])
  moreover have "decision_payload show_time d = JObject ?kvs"
    by (simp only: decision_payload_def json.case)
  moreover have "(\<lambda>(k, t). quote k @ CHR '':'' # t) = member_text"
    by (simp add: fun_eq_iff member_text_pair)
  ultimately show ?thesis by (metis dumps.simps(4))
qed

lemma decision_values_inj:
  "legal_hold_status_value a = legal_hold_status_value b \<longleftrightarrow> a = b"
  "purge_status_value p = purge_status_value q \<longleftrightarrow> p = q"
  "action_value x = action_value y \<longleftrightarrow> x = y"
proof -
  show "legal_hold_status_value a = legal_hold_status_value b \<longleftrightarrow> a = b" by (cases a; cases b; simp)
  show "purge_status_value p = purge_status_value q \<longleftrightarrow> p = q" by (cases p; cases q; simp)
  show "action_value x = action_value y \<longleftrightarrow> x = y" by (cases x; cases y; simp)
qed

text \<open>Two decisions with the same canonical payload are the same decision.\<close>

lemma canonical_payload_inj:
  fixes d d' :: "'a decision_body_scheme"
  assumes "canonical_payload (decision_payload show_time d) = canonical_payload (decision_payload show_time d')"
    and "inj show_time"
  shows "decision_body.truncate d = decision_body.truncate d'"
proof -
  have "inj (of_char :: char \<Rightarrow> nat)" by (rule inj_of_char)
  then have "dumps (decision_payload show_time d) = dumps (decision_payload show_time d')"
    using assms(1) by (simp add: canonical_payload_def encode_ascii_def inj_map_eq_map)
  then have "py_join '','' (map member_text (sorted_members show_time d)) @ ''}''
      = py_join '','' (map member_text (sorted_members show_time d')) @ ''}''"
    unfolding canonical_text by (simp only: list.inject)
  then have "sorted_members show_time d = sorted_members show_time d'"
    by (rule join_members_inj [rotated]) (simp add: sorted_members_def)
  then show ?thesis
    using quote_inj [where r = "[]" and u = "[]"] print_int_inj [where r = "[]" and u = "[]"]
      decision_values_inj injD [OF assms(2)]
    by (simp add: sorted_members_def decision_body.truncate_def is_decimal_digit_def)
qed


section \<open>What verification means\<close>

definition signer_ok :: "ed25519_verify \<Rightarrow> signer \<Rightarrow> bool" where
  "signer_ok verify s \<longleftrightarrow> length (signer_public_raw s) = 32 \<and> (\<forall>b \<in> set (signer_public_raw s). b < 256)
     \<and> (\<forall>msg. verify (signer_public_raw s) (signer_sign s msg) msg \<and> (\<forall>b \<in> set (signer_sign s msg). b < 256))"

lemma prefixed [simp]: "startswith (p @ x) p" "removeprefix p (p @ x) = x"
  by (simp_all add: startswith_def removeprefix_def)

lemma load_published_key:
  "signer_ok verify s \<Longrightarrow> load_public_key (public_key_base64 s) = Inr (signer_public_raw s)"
  by (simp add: load_public_key_def public_key_base64_def signer_ok_def urlsafe_roundtrip)

definition signed_by :: "(instant \<Rightarrow> string) \<Rightarrow> signer \<Rightarrow> lifecycle_decision \<Rightarrow> bool" where
  "signed_by show_time s d \<longleftrightarrow> ld_signing_key_id d = signer_key_id s
     \<and> (ld_payload_digest d, ld_signature d) = sign s (decision_payload show_time d)"

lemma signed_verifies:
  assumes "signed_by show_time s d" "signer_ok verify s" "now < ld_expires_at d"
  shows "verify_lifecycle_decision show_time verify d [signer_key_id s \<mapsto> signer_public_raw s] now"
proof -
  have pre: "startswith (''ed25519:'' @ x) ''ed25519:'' \<and> removeprefix ''ed25519:'' (''ed25519:'' @ x) = x" for x
    by (simp only: prefixed simp_thms)
  show ?thesis
    using assms urlsafe_roundtrip pre
    by (simp only: verify_lifecycle_decision_def signed_by_def sign_def signer_ok_def Let_def prod.inject
        fun_upd_same option.case not_le if_False if_True) simp
qed

text \<open>
  An accepted decision is covered by its digest: two accepted decisions with one digest are the
  same decision, or exhibit two byte strings with one SHA-256.
\<close>

lemma accepted_digest:
  assumes "verify_lifecycle_decision show_time verify d keys now"
  shows "ld_payload_digest d = payload_digest_of (canonical_payload (decision_payload show_time d))"
    "now < ld_expires_at d" "ld_signing_key_id d \<in> dom keys"
  using assms by (auto simp: verify_lifecycle_decision_def Let_def split: if_splits option.splits)

lemma one_digest_one_decision:
  assumes "verify_lifecycle_decision show_time verify d keys now"
    and "verify_lifecycle_decision show_time verify d' keys' now'"
    and "ld_payload_digest d = ld_payload_digest d'" "inj show_time"
  shows "decision_body.truncate d = decision_body.truncate d'
    \<or> (\<exists>x y. x \<noteq> y \<and> sha256_hexdigest x = sha256_hexdigest y)"
proof -
  let ?c = "\<lambda>d. canonical_payload (decision_payload show_time d)"
  have "payload_digest_of (?c d) = payload_digest_of (?c d')"
    using accepted_digest(1) [OF assms(1)] accepted_digest(1) [OF assms(2)] assms(3) by metis
  then have "sha256_hexdigest (?c d) = sha256_hexdigest (?c d')"
    unfolding payload_digest_of_def by (simp only: same_append_eq)
  then show ?thesis using canonical_payload_inj [OF _ assms(4), of d d'] by blast
qed

section \<open>Published windows\<close>

text \<open>The verdict that does not depend on the signature.\<close>

definition window_refusal :: "verification_key \<Rightarrow> instant \<Rightarrow> verification_refusal option" where
  "window_refusal key issued =
     (if issued < vk_not_before key then Some KEY_NOT_YET_VALID
      else if (case vk_not_after key of None \<Rightarrow> False | Some e \<Rightarrow> issued \<ge> e) then Some KEY_ALREADY_ROTATED
      else None)"

text \<open>
  After a rotation at an instant, the outgoing and the incoming key are never both in force and
  never both refused for their windows once the first has begun.
\<close>

lemma rotation_is_exact:
  assumes "vk_not_after old = Some t" "vk_not_before new = t" "vk_not_after new = None"
    and "vk_not_before old \<le> issued"
  shows "(window_refusal old issued = None) \<noteq> (window_refusal new issued = None)"
  using assms by (auto simp: window_refusal_def)

lemma refused_revoked:
  assumes "key \<in> set bundle" "vk_key_id key = ld_signing_key_id d" "vk_status key = KEY_STATUS_REVOKED"
  shows "refuse_against_bundle show_time verify d bundle now \<in> {Inr (Some KEY_REVOKED), Inr (Some KEY_ID_NOT_UNIQUE)}"
proof -
  have "key \<in> set (filter (\<lambda>k. vk_key_id k = ld_signing_key_id d) bundle)" using assms by simp
  then show ?thesis
    using assms(3) by (cases "filter (\<lambda>k. vk_key_id k = ld_signing_key_id d) bundle" rule: remdups_adj.cases)
      (auto simp: refuse_against_bundle_def)
qed

text \<open>What acceptance against the published bundle establishes.\<close>

lemma accepted_against_bundle:
  assumes "refuse_against_bundle show_time verify d bundle now = Inr None"
  obtains key raw where "filter (\<lambda>k. vk_key_id k = ld_signing_key_id d) bundle = [key]"
    "vk_status key \<noteq> KEY_STATUS_REVOKED" "vk_provenance key = ''managed''"
    "window_refusal key (ld_issued_at d) = None"
    "load_public_key (vk_public_key_base64 key) = Inr raw"
    "verify_lifecycle_decision show_time verify d [vk_key_id key \<mapsto> raw] now"
  using assms
  by (auto simp: refuse_against_bundle_def window_refusal_def split: list.splits if_splits sum.splits option.splits)

end
