(* ===== verification/LifecycleDecisions.thy ===== *)
theory LifecycleDecisions
  imports Access LifecycleSigning
begin

text \<open>
  Issuing lifecycle decisions: \<open>src/app/archive/idea_lifecycle_decisions/service.py\<close> over the
  SQLite ledger of \<open>repository.py\<close>, composed as \<open>idea_lifecycle_decision_service\<close> of
  \<open>src/app/archive/api.py\<close> composes it: the archive service reads the posture, and its policy
  and audit trail are the decision service's. A ledger row keeps the decision it was written
  with; the model library's round trip through JSON is the identity.
\<close>

section \<open>Requests\<close>

record decision_request =
  dr_idea_evidence_pack_id :: string
  dr_idea_candidate_id :: string
  dr_source_correlation_ref :: string

definition validate_decision_request :: "decision_request \<Rightarrow> exc + decision_request" where
  "validate_decision_request raw =
     (let r = \<lparr>dr_idea_evidence_pack_id = py_strip (dr_idea_evidence_pack_id raw),
               dr_idea_candidate_id = py_strip (dr_idea_candidate_id raw),
               dr_source_correlation_ref = py_strip (dr_source_correlation_ref raw)\<rparr> in
      and_then (run_checks
        [(3 \<le> length (dr_idea_evidence_pack_id r), ValidationError ''idea_evidence_pack_id''),
         (3 \<le> length (dr_idea_candidate_id r), ValidationError ''idea_candidate_id''),
         (3 \<le> length (dr_source_correlation_ref r), ValidationError ''source_correlation_ref'')]) (Inr r))"

definition encode_utf8 :: "string \<Rightarrow> bytes" where
  "encode_utf8 s = concat (map (\<lambda>c. let n = of_char c in if n < 128 then [n] else [192 + n div 64, 128 + n mod 64]) s)"

definition request_fingerprint :: "string \<Rightarrow> decision_request \<Rightarrow> string \<Rightarrow> string" where
  "request_fingerprint d req tenant =
     ''sha256:'' @ sha256_hexdigest (encode_utf8 (dumps (JObject
       [(''document_id'', JString d),
        (''request'', JObject
          [(''idea_evidence_pack_id'', JString (dr_idea_evidence_pack_id req)),
           (''idea_candidate_id'', JString (dr_idea_candidate_id req)),
           (''source_correlation_ref'', JString (dr_source_correlation_ref req))]),
        (''tenant_id'', JString tenant)])))"

definition decision_id_for :: "string \<Rightarrow> string \<Rightarrow> string" where
  "decision_id_for idempotency_key fingerprint =
     ''archive_lifecycle_decision_'' @ take 24 (sha256_hexdigest (encode_utf8 (idempotency_key @ '':'' @ fingerprint)))"

definition decision_action :: "document_metadata \<Rightarrow> idea_lifecycle_action \<times> string" where
  "decision_action m =
     (if purge_status m = PURGED then (DISPOSAL_EXECUTED, ''purge_executed'')
      else if purge_started_at m \<noteq> None then (DISPOSAL_EXECUTED, ''purge_in_progress'')
      else if legal_hold_status m = ACTIVE then (LEGAL_HOLD, ''legal_hold_active'')
      else if purge_status m = ELIGIBLE then (DISPOSAL_ELIGIBLE, ''retention_elapsed'')
      else (RETAIN, ''retention_period_active''))"

section \<open>The ledger\<close>

type_synonym ledger = "(string, string \<times> lifecycle_decision) dict"

definition ledger_get :: "string \<Rightarrow> (ledger database, (string \<times> lifecycle_decision) option) io" where
  "ledger_get key = transaction (gets (\<lambda>l. dict_get l key))"

text \<open>The insert, whose unique key may refuse it, and what the \<open>except\<close> clause then does.\<close>

definition ledger_insert :: "string \<Rightarrow> string \<Rightarrow> lifecycle_decision \<Rightarrow> (ledger, bool) io" where
  "ledger_insert key fingerprint d l =
     (if dict_get l key \<noteq> None then (Inr False, l) else (Inr True, dict_set key (fingerprint, d) l))"

definition ledger_save :: "string \<Rightarrow> string \<Rightarrow> lifecycle_decision \<Rightarrow> (ledger database, lifecycle_decision) io" where
  "ledger_save key fingerprint d =
     bind_io (transaction (ledger_insert key fingerprint d)) (\<lambda>inserted.
       if inserted then ret d
       else bind_io (ledger_get key) (\<lambda>existing.
         case existing of
           Some (f, e) \<Rightarrow> if f = fingerprint then ret e else raise LifecycleDecisionConflictError
         | None \<Rightarrow> raise LifecycleDecisionConflictError))"

section \<open>The service\<close>

record ('r, 's, 'a) decision_world =
  dw_archive :: "('r, 's, 'a) world"
  dw_ledger :: "ledger database"

definition on_archive :: "(('r, 's, 'a) world, 'x) io \<Rightarrow> (('r, 's, 'a) decision_world, 'x) io" where
  "on_archive m w = (case m (dw_archive w) of (x, a) \<Rightarrow> (x, w\<lparr>dw_archive := a\<rparr>))"

definition on_ledger :: "(ledger database, 'x) io \<Rightarrow> (('r, 's, 'a) decision_world, 'x) io" where
  "on_ledger m w = (case m (dw_ledger w) of (x, l) \<Rightarrow> (x, w\<lparr>dw_ledger := l\<rparr>))"

record ('r, 's, 'a) decision_service =
  ds_archive :: "('r, 's, 'a) archive_service"
  ds_signer :: signer
  ds_ttl :: int
  ds_not_before :: "instant option"
  ds_retained :: "retained_key list"
  ds_revoked :: "string list"

definition status_for ::
    "('r, 's, 'a) decision_service \<Rightarrow> string \<Rightarrow> lifecycle_key_status \<Rightarrow> lifecycle_key_status" where
  "status_for svc key_id unrevoked = (if key_id \<in> set (ds_revoked svc) then KEY_STATUS_REVOKED else unrevoked)"

definition EPHEMERAL_KEY_START :: instant where
  "EPHEMERAL_KEY_START = 0"

definition signing_entry :: "('r, 's, 'a) decision_service \<Rightarrow> verification_key" where
  "signing_entry svc =
     (let key_id = signer_key_id (ds_signer svc) in
      \<lparr>vk_key_id = key_id, vk_public_key_base64 = public_key_base64 (ds_signer svc),
       vk_status = status_for svc key_id KEY_ACTIVE,
       vk_not_before = (case ds_not_before svc of Some t \<Rightarrow> t | None \<Rightarrow> EPHEMERAL_KEY_START),
       vk_not_after = None,
       vk_provenance = (if startswith key_id ''ephemeral-local'' then ''ephemeral_development'' else ''managed'')\<rparr>)"

definition retained_entry :: "('r, 's, 'a) decision_service \<Rightarrow> retained_key \<Rightarrow> verification_key" where
  "retained_entry svc key =
     \<lparr>vk_key_id = rk_key_id key, vk_public_key_base64 = rk_public_key_base64 key,
      vk_status = status_for svc (rk_key_id key) KEY_ROTATED, vk_not_before = rk_not_before key,
      vk_not_after = Some (rk_not_after key), vk_provenance = ''managed''\<rparr>"

definition verification_keys :: "('r, 's, 'a) decision_service \<Rightarrow> verification_key list" where
  "verification_keys svc = signing_entry svc # map (retained_entry svc) (ds_retained svc)"

definition decision_for ::
    "('r, 's, 'a) decision_service \<Rightarrow> string \<Rightarrow> decision_request \<Rightarrow> string \<Rightarrow> string \<Rightarrow> caller_context
      \<Rightarrow> string \<Rightarrow> string \<Rightarrow> document_metadata \<Rightarrow> string \<Rightarrow> instant \<Rightarrow> decision_body" where
  "decision_for svc d req key fingerprint caller tenant trace m retention issued =
     \<lparr>ld_decision_id = decision_id_for key fingerprint, ld_document_id = d,
      ld_idea_evidence_pack_id = dr_idea_evidence_pack_id req,
      ld_idea_candidate_id = dr_idea_candidate_id req,
      ld_source_correlation_ref = dr_source_correlation_ref req, ld_tenant_id = tenant,
      ld_residency_region = region m, ld_retention_policy_id = retention,
      ld_legal_hold_status = legal_hold_status m, ld_legal_hold_count = legal_hold_count m,
      ld_purge_status = purge_status m, ld_lifecycle_action = fst (decision_action m),
      ld_decision_reason_code = snd (decision_action m), ld_issued_at = issued,
      ld_expires_at = issued + ds_ttl svc, ld_correlation_id = caller_correlation_id caller,
      ld_trace_id = trace, ld_signing_key_id = signer_key_id (ds_signer svc)\<rparr>"

definition signed_decision :: "(instant \<Rightarrow> string) \<Rightarrow> signer \<Rightarrow> decision_body \<Rightarrow> lifecycle_decision" where
  "signed_decision show_time s body =
     (case sign s (decision_payload show_time body) of (digest, signature) \<Rightarrow>
        decision_body.extend body (lifecycle_decision.fields digest signature))"

text \<open>The posture, the three refusals that follow it, and the decision that is signed and stored.\<close>

definition issue_new ::
    "(instant \<Rightarrow> string) \<Rightarrow> ('r, 's, 'a) decision_service \<Rightarrow> string \<Rightarrow> decision_request \<Rightarrow> string \<Rightarrow> string
      \<Rightarrow> caller_context \<Rightarrow> string \<Rightarrow> string \<Rightarrow> instant option
      \<Rightarrow> (('r, 's, 'a) decision_world, lifecycle_decision) io" where
  "issue_new show_time svc d req key fingerprint caller tenant trace issued_at =
     bind_io (on_archive (get_lifecycle_posture (ds_archive svc) d)) (\<lambda>m.
       if tenant_id m \<noteq> tenant
       then raise (LifecycleDecisionTenantError ''document tenant does not match caller tenant'')
       else if report_type m \<noteq> PROOF_PACK
       then raise (LifecycleDecisionDocumentError
              ''Idea lifecycle decisions require an archived proof-pack document'')
       else (case retention_policy_id m of
         None \<Rightarrow> raise (LifecycleDecisionDocumentError ''document has no retention policy'')
       | Some retention \<Rightarrow>
           bind_io (case issued_at of Some t \<Rightarrow> ret t | None \<Rightarrow> on_archive read_clock) (\<lambda>issued.
           let body = decision_for svc d req key fingerprint caller tenant trace m retention issued in
           seq_io (of_result (validate_decision body))
           (bind_io (on_ledger (ledger_save key fingerprint (signed_decision show_time (ds_signer svc) body)))
             (\<lambda>stored.
              seq_io (on_archive (record_access (svc_audit (ds_archive svc)) IDEA_LIFECYCLE_DECISION_READ caller trace
                 AUDIT_ALLOWED ''idea_lifecycle_decision_read_allowed'' (Some d) (Some (ld_decision_reason_code stored))))
                (ret stored))))))"

definition issue ::
    "(instant \<Rightarrow> string) \<Rightarrow> ('r, 's, 'a) decision_service \<Rightarrow> string \<Rightarrow> decision_request \<Rightarrow> string
      \<Rightarrow> caller_context \<Rightarrow> string \<Rightarrow> instant option \<Rightarrow> (('r, 's, 'a) decision_world, lifecycle_decision) io" where
  "issue show_time svc d req key caller trace issued_at =
     (if signer_key_id (ds_signer svc) \<in> set (ds_revoked svc) then raise LifecycleDecisionSigningKeyRevokedError
      else seq_io (on_archive (authorize (svc_policy (ds_archive svc)) (svc_audit (ds_archive svc))
                     READ_IDEA_LIFECYCLE_DECISION caller trace (Some d)))
        (case caller_tenant_id caller of
           None \<Rightarrow> raise (LifecycleDecisionTenantError ''tenant context is required'')
         | Some tenant \<Rightarrow>
             let fingerprint = request_fingerprint d req tenant in
             bind_io (on_ledger (ledger_get key)) (\<lambda>existing.
               case existing of
                 Some (f, e) \<Rightarrow> if f \<noteq> fingerprint then raise LifecycleDecisionConflictError else ret e
               | None \<Rightarrow> issue_new show_time svc d req key fingerprint caller tenant trace issued_at)))"

end
