(* ===== verification/HttpErrors.thy ===== *)
theory HttpErrors
  imports World
begin

text \<open>
  What a raised exception answers over HTTP: \<open>src/app/contracts/errors.py\<close>, the handlers of
  \<open>src/app/archive/error_handlers.py\<close> and the three general handlers of \<open>main.py\<close>. An exception
  with no handler of its own reaches the one for \<open>Exception\<close>; the handler is chosen by the
  exception's class, and none of the handled classes inherits from another.
\<close>

section \<open>The envelope\<close>

record error_detail =
  err_code :: string
  err_message :: string
  err_correlation_id :: string
  err_service :: string

definition SAFE_ERROR_MESSAGES :: "(string \<times> string) list" where
  "SAFE_ERROR_MESSAGES =
    [(''not_found'', ''The requested resource was not found.''),
     (''validation_failed'', ''The request could not be validated.''),
     (''internal_error'', ''The request could not be completed.''),
     (''caller_context_missing'', ''Required caller context is missing.''),
     (''authorization_failed'', ''The caller is not authorized for this archive action.''),
     (''document_not_found'', ''The requested archived document was not found.''),
     (''document_binary_missing'', ''The archived document binary could not be found.''),
     (''document_purged'', ''The archived document binary was purged under its retention lifecycle.''),
     (''document_checksum_mismatch'', ''The archived document failed integrity verification.''),
     (''declared_checksum_mismatch'', ''The declared artifact checksum does not match the received bytes; custody refused.''),
     (''artifact_identity_collision'', ''The exact artifact is already in custody under a different document reference.''),
     (''historical_integrity_violation'', ''The write attempted to change immutable archived-document history.''),
     (''duplicate_archive_request'', ''The archive request conflicts with an existing document.''),
     (''metadata_validation_failed'', ''The archive metadata could not be validated.''),
     (''storage_read_failed'', ''The archived document could not be read.''),
     (''legal_hold_active'', ''A legal hold blocks this archive action.''),
     (''legal_hold_not_found'', ''The requested legal hold was not found.''),
     (''purge_not_eligible'', ''The archived document is not eligible for purge.''),
     (''supersession_conflict'', ''The requested lifecycle relationship conflicts with document history.''),
     (''unsupported_lifecycle_transition'', ''The requested lifecycle transition is not supported.'')]"

definition safe_message :: "string \<Rightarrow> string" where
  "safe_message code = (case map_of SAFE_ERROR_MESSAGES code of Some m \<Rightarrow> m
     | None \<Rightarrow> the (map_of SAFE_ERROR_MESSAGES ''internal_error''))"

definition error_response ::
    "string \<Rightarrow> string \<Rightarrow> string \<Rightarrow> nat \<Rightarrow> string option \<Rightarrow> nat \<times> error_detail" where
  "error_response code correlation service http_status message =
     (http_status, \<lparr>err_code = code,
        err_message = (if truthy message then the message else safe_message code),
        err_correlation_id = correlation, err_service = service\<rparr>)"

section \<open>Exception handlers\<close>

text \<open>\<open>str(exc)\<close> of the two exceptions whose text is sent.\<close>

definition declared_mismatch_text :: "string \<Rightarrow> string \<Rightarrow> string" where
  "declared_mismatch_text declared computed =
     ''declared artifact sha256 '' @ declared @ '' does not match computed '' @ computed"

definition identity_collision_text :: "string \<Rightarrow> string \<Rightarrow> string \<Rightarrow> string" where
  "identity_collision_text digest existing offered =
     ''artifact '' @ digest @ '' is already in custody under document reference '' @ existing
     @ ''; refusing re-custody under '' @ offered"

text \<open>
  Code, status, and the message when it is not the table's: the handlers of callers and lifecycle
  decisions, of documents in custody, and of the runtime, holds, purges and transitions.
\<close>

fun caller_handlers :: "exc \<Rightarrow> (string \<times> nat \<times> string option) option" where
  "caller_handlers (CallerContextMissingError hs) = Some (''caller_context_missing'', 401, None)"
| "caller_handlers (CallerScopeMissingError hs) = Some (''caller_scope_missing'', 401, None)"
| "caller_handlers (AuthorizationFailedError reason) =
     Some (if reason = ''document_purged'' then ''document_purged'' else ''authorization_failed'', 403, None)"
| "caller_handlers (LifecycleDecisionTenantError m) = Some (''lifecycle_decision_tenant_forbidden'', 403, None)"
| "caller_handlers LifecycleDecisionConflictError = Some (''lifecycle_decision_idempotency_conflict'', 409, None)"
| "caller_handlers (LifecycleDecisionDocumentError m) = Some (''lifecycle_decision_document_invalid'', 422, None)"
| "caller_handlers e = None"

fun custody_handlers :: "exc \<Rightarrow> (string \<times> nat \<times> string option) option" where
  "custody_handlers DocumentNotFoundError = Some (''document_not_found'', 404, None)"
| "custody_handlers (StorageReadFailedError m) = Some (''document_binary_missing'', 404, None)"
| "custody_handlers HistoricalIntegrityError = Some (''historical_integrity_violation'', 409, None)"
| "custody_handlers (DeclaredChecksumMismatchError d c) =
     Some (''declared_checksum_mismatch'', 422, Some (declared_mismatch_text d c))"
| "custody_handlers (ArtifactIdentityCollisionError d e r) =
     Some (''artifact_identity_collision'', 409, Some (identity_collision_text d e r))"
| "custody_handlers (DocumentChecksumMismatchError m) = Some (''document_checksum_mismatch'', 409, None)"
| "custody_handlers (DuplicateArchiveRequestConflict m) = Some (''duplicate_archive_request'', 409, None)"
| "custody_handlers (MetadataValidationError m) = Some (''metadata_validation_failed'', 400, None)"
| "custody_handlers e = None"

fun posture_handlers :: "exc \<Rightarrow> (string \<times> nat \<times> string option) option" where
  "posture_handlers (RuntimeConfigurationError m) = Some (''archive_runtime_unavailable'', 503, None)"
| "posture_handlers LegalHoldActiveError = Some (''legal_hold_active'', 409, None)"
| "posture_handlers LegalHoldNotFoundError = Some (''legal_hold_not_found'', 404, None)"
| "posture_handlers PurgeAlreadyStartedError = Some (''purge_already_started'', 409, None)"
| "posture_handlers PurgeNotEligibleError = Some (''purge_not_eligible'', 409, None)"
| "posture_handlers (SupersessionConflictError m) = Some (''supersession_conflict'', 409, None)"
| "posture_handlers (UnsupportedLifecycleTransitionError m) = Some (''unsupported_lifecycle_transition'', 409, None)"
| "posture_handlers e = None"

definition handler_for :: "exc \<Rightarrow> string \<times> nat \<times> string option" where
  "handler_for e = (case caller_handlers e of Some r \<Rightarrow> r | None \<Rightarrow>
     (case custody_handlers e of Some r \<Rightarrow> r | None \<Rightarrow>
     (case posture_handlers e of Some r \<Rightarrow> r | None \<Rightarrow> (''internal_error'', 500, None))))"

definition SERVICE_NAME :: string where
  "SERVICE_NAME = ''lotus-archive''"

definition exception_response :: "string \<Rightarrow> exc \<Rightarrow> nat \<times> error_detail" where
  "exception_response correlation e =
     (case handler_for e of (code, http_status, message) \<Rightarrow>
        error_response code correlation SERVICE_NAME http_status message)"

definition http_exception_response :: "string \<Rightarrow> nat \<Rightarrow> nat \<times> error_detail" where
  "http_exception_response correlation http_status =
     error_response (if http_status = 404 then ''not_found'' else ''internal_error'') correlation SERVICE_NAME http_status None"

definition request_validation_response :: "string \<Rightarrow> nat \<times> error_detail" where
  "request_validation_response correlation = error_response ''validation_failed'' correlation SERVICE_NAME 422 None"

section \<open>Support safety\<close>

text \<open>The exceptions whose own text reaches the caller.\<close>

fun discloses_text :: "exc \<Rightarrow> bool" where
  "discloses_text (DeclaredChecksumMismatchError d c) = True"
| "discloses_text (ArtifactIdentityCollisionError d e r) = True"
| "discloses_text e = False"

lemma safe_message_member: "safe_message code \<in> snd ` set SAFE_ERROR_MESSAGES"
proof (cases "map_of SAFE_ERROR_MESSAGES code")
  case None
  then show ?thesis by (simp add: safe_message_def SAFE_ERROR_MESSAGES_def)
next
  case (Some m)
  then have "(code, m) \<in> set SAFE_ERROR_MESSAGES" by (rule map_of_SomeD)
  then show ?thesis using Some by (force simp: safe_message_def)
qed

lemma handler_message: "\<not> discloses_text e \<Longrightarrow> snd (snd (handler_for e)) = None"
  by (cases e) (simp_all add: handler_for_def)

lemma handler_status: "fst (snd (handler_for e)) \<in> {400, 401, 403, 404, 409, 422, 500, 503}"
  by (cases e) (simp_all add: handler_for_def)

lemma response_support_safe:
  assumes "\<not> discloses_text e"
  shows "err_message (snd (exception_response correlation e)) \<in> snd ` set SAFE_ERROR_MESSAGES"
    "err_correlation_id (snd (exception_response correlation e)) = correlation"
  using handler_message [OF assms] safe_message_member
  by (auto simp: exception_response_def error_response_def split: prod.splits)

text \<open>
  Two exceptions of one class that differ only in their texts answer alike: the response is a
  function of the class.
\<close>

lemma response_hides_text:
  "exception_response c (StorageReadFailedError m) = exception_response c (StorageReadFailedError m')"
  "exception_response c (MetadataValidationError m) = exception_response c (MetadataValidationError m')"
  "exception_response c (DuplicateArchiveRequestConflict m) = exception_response c (DuplicateArchiveRequestConflict m')"
  "exception_response c (DriverError m) = exception_response c (ValueError m')"
  by (simp_all add: exception_response_def handler_for_def)

end
