(* ===== verification/RequestCorrelation.thy ===== *)
theory RequestCorrelation
  imports HttpErrors
begin

text \<open>
  The middleware of \<open>src/app/middleware/correlation.py\<close>: the identifiers a request is handled
  under, the headers of its response and the completion record. Header lookup is the framework's:
  the first field with the name, letter case aside.
\<close>

type_synonym headers = "(string \<times> string) list"

definition get_header :: "headers \<Rightarrow> string \<Rightarrow> string option" where
  "get_header hs name = map_of (map (\<lambda>(k, v). (py_lower k, v)) hs) (py_lower name)"

text \<open>\<open>response.headers[name] = value\<close> replaces every field of that name.\<close>

definition set_header :: "string \<Rightarrow> string \<Rightarrow> headers \<Rightarrow> headers" where
  "set_header name v hs = filter (\<lambda>(k, _). py_lower k \<noteq> py_lower name) hs @ [(name, v)]"

text \<open>\<open>^[0-9a-f]{32}$\<close>\<close>

definition is_w3c_trace_id :: "string \<Rightarrow> bool" where
  "is_w3c_trace_id t \<longleftrightarrow> length t = 32 \<and> list_all (\<lambda>c. c \<in> set ''0123456789abcdef'') t"

definition resolve_trace_id :: "headers \<Rightarrow> string option" where
  "resolve_trace_id hs =
     (let parts = (case get_header hs ''traceparent'' of None \<Rightarrow> []
                   | Some tp \<Rightarrow> if tp = [] then [] else py_split CHR ''-'' tp) in
      if 4 \<le> length parts \<and> is_w3c_trace_id (parts ! 1) then Some (parts ! 1)
      else if truthy (get_header hs ''X-Trace-Id'') then get_header hs ''X-Trace-Id''
      else get_header hs ''X-Trace-ID'')"

definition traceparent_header :: "string \<Rightarrow> string option" where
  "traceparent_header t =
     (if is_w3c_trace_id t then Some (''00-'' @ t @ ''-0000000000000001-01'') else None)"

record request_ids =
  req_correlation_id :: string
  req_trace_id :: string

text \<open>\<open>str(uuid.uuid4())\<close> and \<open>uuid.uuid4().hex\<close> are the arguments.\<close>

definition identify :: "headers \<Rightarrow> string \<Rightarrow> string \<Rightarrow> request_ids" where
  "identify hs uuid hex =
     \<lparr>req_correlation_id = (case get_header hs ''X-Correlation-Id'' of None \<Rightarrow> uuid | Some c \<Rightarrow> if c = [] then uuid else c),
      req_trace_id = (case resolve_trace_id hs of None \<Rightarrow> hex | Some t \<Rightarrow> if t = [] then hex else t)\<rparr>"

definition response_headers :: "string \<Rightarrow> string \<Rightarrow> request_ids \<Rightarrow> headers \<Rightarrow> headers" where
  "response_headers service duration ids hs =
     (let hs1 = set_header ''X-Trace-Id'' (req_trace_id ids) (set_header ''X-Correlation-Id'' (req_correlation_id ids) hs);
          hs2 = (case traceparent_header (req_trace_id ids) of None \<Rightarrow> hs1 | Some tp \<Rightarrow> set_header ''traceparent'' tp hs1) in
      set_header ''X-Request-Duration-Ms'' duration (set_header ''X-Service-Name'' service hs2))"

section \<open>What the middleware guarantees\<close>

lemma get_set_header [simp]: "get_header (set_header n v hs) n = Some v"
  by (induction hs) (auto simp: get_header_def set_header_def)

lemma get_set_other [simp]: "py_lower m \<noteq> py_lower n \<Longrightarrow> get_header (set_header n v hs) m = get_header hs m"
  by (induction hs) (auto simp: get_header_def set_header_def)

lemma hex_no_dash: "is_w3c_trace_id t \<Longrightarrow> CHR ''-'' \<notin> set t"
proof
  assume "is_w3c_trace_id t" "CHR ''-'' \<in> set t"
  then have "CHR ''-'' \<in> set ''0123456789abcdef''"
    unfolding is_w3c_trace_id_def list_all_iff by blast
  then show False by simp
qed

text \<open>The \<open>traceparent\<close> of a response, sent with the next request, names the same trace.\<close>

lemma traceparent_roundtrip:
  assumes "traceparent_header t = Some tp" "get_header hs ''traceparent'' = Some tp"
  shows "resolve_trace_id hs = Some t"
proof -
  have t: "is_w3c_trace_id t" "tp = ''00'' @ CHR ''-'' # (t @ CHR ''-'' # (''0000000000000001'' @ CHR ''-'' # ''01''))"
    using assms(1) by (simp_all add: traceparent_header_def split: if_splits)
  have "py_split CHR ''-'' tp = [''00'', t, ''0000000000000001'', ''01'']"
    unfolding t(2) py_split_append by (simp add: py_split_no_sep hex_no_dash [OF t(1)])
  then show ?thesis using assms(2) t by (simp add: resolve_trace_id_def)
qed

lemma response_identifies:
  "get_header (response_headers service duration ids hs) ''X-Correlation-Id'' = Some (req_correlation_id ids)"
  "get_header (response_headers service duration ids hs) ''X-Trace-Id'' = Some (req_trace_id ids)"
  "is_w3c_trace_id (req_trace_id ids) \<Longrightarrow>
     get_header (response_headers service duration ids hs) ''traceparent'' = traceparent_header (req_trace_id ids)"
  by (simp_all add: response_headers_def Let_def traceparent_header_def ascii_lower_def split: option.splits)

lemma identified:
  assumes "uuid \<noteq> []" "hex \<noteq> []"
  shows "req_correlation_id (identify hs uuid hex) \<noteq> []" "req_trace_id (identify hs uuid hex) \<noteq> []"
  using assms by (simp_all add: identify_def split: option.splits)

text \<open>A request that repeats the response's identifying headers is handled under the same identifiers.\<close>

lemma correlation_propagates:
  assumes "uuid \<noteq> []" "hex \<noteq> []" "is_w3c_trace_id (req_trace_id (identify hs uuid hex))"
  shows "identify (response_headers service duration (identify hs uuid hex) rs) uuid' hex' = identify hs uuid hex"
proof -
  let ?ids = "identify hs uuid hex"
  let ?out = "response_headers service duration ?ids rs"
  obtain tp where tp: "traceparent_header (req_trace_id ?ids) = Some tp"
    using assms(3) by (simp add: traceparent_header_def)
  then have "resolve_trace_id ?out = Some (req_trace_id ?ids)"
    by (rule traceparent_roundtrip) (simp add: response_identifies(3) assms(3) tp)
  then show ?thesis
    using response_identifies(1) [of service duration ?ids rs] identified [OF assms(1,2), of hs]
    by (simp add: identify_def [of ?out] request_ids.equality)
qed

end
