(* ===== verification/Behaviour.thy ===== *)
theory Behaviour
  imports Access
begin

text \<open>
  What the methods do on the stored state: the walk to the current document ends there, a
  purge deletes only what may be deleted, and repeated requests change nothing.
\<close>

section \<open>The walk along successors\<close>

definition walk_error :: "exc \<Rightarrow> bool" where
  "walk_error e \<longleftrightarrow> e = LoopBoundExceeded \<or> (\<exists>s. e = SupersessionConflictError s)"

locale current_resolution = document_repository "svc_repository svc" absr wfr
  for svc :: "('r, 's, 'a) archive_service" and absr wfr +
  assumes get_errors: "repo_get_by_document_id (svc_repository svc) d r = (Inl e, r') \<Longrightarrow> \<exists>n. e = DriverError n"
    and audit_errors: "audit_record (svc_audit svc) ev a = (Inl e, a') \<Longrightarrow> \<exists>n. e = DriverError n"
begin

lemma record_errors:
  "record_access (svc_audit svc) ty caller trace dec reason doc op w = (Inl e, w') \<Longrightarrow> \<not> walk_error e"
  using audit_errors
  by (fastforce simp: record_access_def run_steps on_audit_def walk_error_def split: prod.splits)

lemma refuse_errors:
  assumes "refuse (svc_audit svc) caller trace reason doc e w = (x, w')" "\<not> walk_error e"
  shows "\<exists>e'. x = Inl e' \<and> \<not> walk_error e'"
  using assms
  by (auto simp: refuse_def seq_io_def raise_def elim!: bind_io_cases dest: record_errors)

lemma tenant_scope_errors:
  assumes "authorize_document_tenant_scope (svc_audit svc) m caller trace w = (Inl e, w')"
  shows "\<not> walk_error e"
proof -
  have a: "\<not> walk_error (AuthorizationFailedError s)" "\<not> walk_error (CallerScopeMissingError hs)" for s hs
    by (simp_all add: walk_error_def)
  show ?thesis
    using assms refuse_errors [OF _ a(1)] refuse_errors [OF _ a(2)]
    by (fastforce simp: authorize_document_tenant_scope_def require_audited_caller_scope_def enforce_decision_def
        require_caller_scope_def seq_io_def skip_io_def ret_def elim!: bind_io_cases split: if_splits)
qed

lemma existing_run:
  assumes "wfr (w_repo w)" "archive_inv (absr (w_repo w))" "get_existing_metadata svc d w = (x, w')"
  shows "wfr (w_repo w')" "absr (w_repo w') = absr (w_repo w)"
    "x = Inr m \<Longrightarrow> st_docs (absr (w_repo w)) d = Some (untimed m)"
    "x = Inl e \<Longrightarrow> d \<in> dom (st_docs (absr (w_repo w))) \<Longrightarrow> \<not> walk_error e"
proof -
  obtain y r where run: "repo_get_by_document_id (svc_repository svc) d (w_repo w) = (y, r)" by fastforce
  have c: "wfr r \<and> absr r = absr (w_repo w) \<and> (case y of Inl _ \<Rightarrow> True
      | Inr z \<Rightarrow> map_option untimed z = st_docs (absr (w_repo w)) d)"
    using get_by_document_id [unfolded reads_def, rule_format, OF assms(1,2), of d] run by simp
  have g: "(x, w') = (case y of Inl e \<Rightarrow> (Inl e, w\<lparr>w_repo := r\<rparr>) | Inr None \<Rightarrow> (Inl DocumentNotFoundError, w\<lparr>w_repo := r\<rparr>)
      | Inr (Some m) \<Rightarrow> (Inr m, w\<lparr>w_repo := r\<rparr>))"
    using assms(3) run
    by (cases y) (auto simp: get_existing_metadata_def bind_on_repo raise_def ret_def split: option.splits)
  show "wfr (w_repo w')" "absr (w_repo w') = absr (w_repo w)"
    using c g by (auto split: sum.splits option.splits)
  show "st_docs (absr (w_repo w)) d = Some (untimed m)" if "x = Inr m"
    using c g that by (auto split: sum.splits option.splits)
  show "\<not> walk_error e" if "x = Inl e" "d \<in> dom (st_docs (absr (w_repo w)))"
    using c g that get_errors run by (auto simp: walk_error_def split: sum.splits option.splits)
qed

lemma successor_stored:
  assumes "archive_inv s" "successor s d = Some e"
  shows "e \<in> dom (st_docs s)"
proof -
  obtain t where "origin_of s t e = Some d"
    using archive_invD(9) [OF assms(1)] assms(2) unfolding lifecycle_wf_def by blast
  then show ?thesis by (auto simp: origin_of_def split: option.splits)
qed

lemma follow_sound:
  assumes "wfr (w_repo w)" "archive_inv (absr (w_repo w))"
    and "st_docs (absr (w_repo w)) d = Some (untimed m)"
    and "distinct visited" "set visited \<subseteq> dom (st_docs (absr (w_repo w)))"
    and "\<forall>v \<in> set visited. (v, d) \<in> (superseded_rel (absr (w_repo w)))\<^sup>*"
    and "card (dom (st_docs (absr (w_repo w)))) + 2 \<le> n + length visited"
    and "follow_successors n svc visited m caller trace w = (x, w')"
  shows "(\<forall>e. x = Inl e \<longrightarrow> \<not> walk_error e)
    \<and> (\<forall>c. x = Inr c \<longrightarrow> superseded_by_document_id c = None
         \<and> (\<exists>d'. st_docs (absr (w_repo w)) d' = Some (untimed c) \<and> (d, d') \<in> (superseded_rel (absr (w_repo w)))\<^sup>*))"
  using assms
proof (induction n arbitrary: visited m d w)
  case 0
  have "length visited = card (set visited)" using 0(4) by (simp add: distinct_card)
  also have "\<dots> \<le> card (dom (st_docs (absr (w_repo w))))"
    by (rule card_mono [OF archive_invD(7) [OF 0(2)] 0(5)])
  finally show ?case using 0(7) by simp
next
  case (Suc n)
  let ?s = "absr (w_repo w)"
  note inv = Suc.prems(1,2)
  show ?case
  proof (cases "superseded_by_document_id m")
    case None
    then show ?thesis using Suc.prems(3,8) by (auto simp: ret_def)
  next
    case (Some nxt)
    have succ: "successor ?s d = Some nxt" using Suc.prems(3) Some by (simp add: successor_def)
    then have edge: "(d, nxt) \<in> superseded_rel ?s" by (simp add: superseded_rel_def)
    have acyc: "acyclic (superseded_rel ?s)"
      using archive_invD(9) [OF inv(2)] by (simp add: lifecycle_wf_def)
    have new: "nxt \<notin> set visited"
    proof
      assume "nxt \<in> set visited"
      then have "(nxt, d) \<in> (superseded_rel ?s)\<^sup>*" using Suc.prems(6) by blast
      with edge have "(d, d) \<in> (superseded_rel ?s)\<^sup>+" by (rule rtrancl_into_trancl2)
      with acyc show False by (simp add: acyclic_def)
    qed
    have stored: "nxt \<in> dom (st_docs ?s)" by (rule successor_stored [OF inv(2) succ])
    obtain y w1 where get: "get_existing_metadata svc nxt w = (y, w1)" by fastforce
    note g = existing_run [OF inv get]
    show ?thesis
    proof (cases y)
      case (Inl e)
      then show ?thesis using Suc.prems(8) Some new get g(4) stored by (auto simp: bind_io_def)
    next
      case (Inr m')
      obtain z w2 where auth: "authorize_document_tenant_scope (svc_audit svc) m' caller trace w1 = (z, w2)" by fastforce
      show ?thesis
      proof (cases z)
        case err: (Inl e)
        have "\<not> walk_error e" using tenant_scope_errors auth err by blast
        then show ?thesis
          using Suc.prems(8) Some new get Inr auth err by (auto simp: bind_io_def seq_io_def)
      next
        case (Inr u)
        then have w2: "w2 = w1" using auth tenant_scope_returns by metis
        have run: "follow_successors n svc (nxt # visited) m' caller trace w1 = (x, w')"
          using Suc.prems(8) Some new get \<open>y = Inr m'\<close> auth Inr w2 by (simp add: bind_io_def seq_io_def)
        have same: "absr (w_repo w1) = ?s" by (rule g(2))
        have reach: "\<forall>v \<in> set (nxt # visited). (v, nxt) \<in> (superseded_rel ?s)\<^sup>*"
          using Suc.prems(6) edge by (auto intro: rtrancl_into_rtrancl)
        have "(\<forall>e. x = Inl e \<longrightarrow> \<not> walk_error e)
          \<and> (\<forall>c. x = Inr c \<longrightarrow> superseded_by_document_id c = None
             \<and> (\<exists>d'. st_docs ?s d' = Some (untimed c) \<and> (nxt, d') \<in> (superseded_rel ?s)\<^sup>*))"
          using Suc.IH [of w1 nxt m' "nxt # visited"] g(1,3) \<open>y = Inr m'\<close> inv Suc.prems(4,5,7) new stored reach run
          by (simp add: same)
        moreover have "(d, d') \<in> (superseded_rel ?s)\<^sup>*" if "(nxt, d') \<in> (superseded_rel ?s)\<^sup>*" for d'
          by (rule converse_rtrancl_into_rtrancl [OF edge that])
        ultimately show ?thesis by blast
      qed
    qed
  qed
qed

text \<open>
  The walk from a stored document reaches a document nobody supersedes; it never runs out of
  rounds and never reports a cycle.
\<close>

lemma resolve_sound:
  assumes "wfr (w_repo w)" "archive_inv (absr (w_repo w))"
    and "st_docs (absr (w_repo w)) (document_id m) = Some (untimed m)"
    and "resolve_current_document svc m caller trace w = (x, w')"
  shows "(\<forall>e. x = Inl e \<longrightarrow> \<not> walk_error e)
    \<and> (\<forall>c. x = Inr c \<longrightarrow> superseded_by_document_id c = None
         \<and> (\<exists>d'. st_docs (absr (w_repo w)) d' = Some (untimed c)
               \<and> (document_id m, d') \<in> (superseded_rel (absr (w_repo w)))\<^sup>*))"
  by (rule follow_sound [OF assms(1-3), of "[document_id m]" "Suc (repo_size (svc_repository svc) (w_repo w))"])
    (use assms size_docs [OF assms(1)] in
      \<open>auto simp: resolve_current_document_def bind_io_def gets_def simp del: follow_successors.simps\<close>)

end

interpretation mem_current: current_resolution "in_memory_service st n rd" mem_abs mem_wf
proof (intro current_resolution.intro current_resolution_axioms.intro, unfold service_parts)
  show "document_repository memory_ops mem_abs mem_wf" by (rule mem.document_repository_axioms)
qed (simp_all add: memory_ops_def mem_get_by_document_id_def memory_audit_def modify_io_def)

lemma transaction_errors:
  assumes "transaction body p = (Inl e, p')" "\<And>t e t'. body t = (Inl e, t') \<Longrightarrow> \<exists>n. e = DriverError n"
  shows "\<exists>n. e = DriverError n"
  using assms by (auto simp: transaction_def Let_def split: fault.splits prod.splits sum.splits)

interpretation pg_current: current_resolution "postgresql_service st n rd" pg_abs pg_wf
proof (intro current_resolution.intro current_resolution_axioms.intro, unfold service_parts)
  show "document_repository postgres_ops pg_abs pg_wf" by (rule pg.document_repository_axioms)
  fix d r e r' assume "repo_get_by_document_id postgres_ops d r = (Inl e, r')"
  then show "\<exists>n. e = DriverError n"
    by (auto simp: postgres_ops_def pg_get_by_document_id_def pg_fetch_document_def sql_select_document_def
        gets_def elim!: transaction_errors)
next
  fix ev a e a' assume "audit_record postgres_audit ev a = (Inl e, a')"
  then show "\<exists>n. e = DriverError n"
    by (auto simp: postgres_audit_def unique_violation_def elim!: transaction_errors split: if_splits)
qed

end
