(* ===== verification/Samples.thy ===== *)
theory Samples
  imports ServiceCalls
begin

text \<open>
  Concrete inputs at which the theorems of the development are applied: a document input, its
  callers, identifiers and a clock, and the state of the service before and after that document
  enters custody.
\<close>

definition sample_input :: document_input where
  "sample_input = \<lparr>archive_request_id = ''req-1'', report_job_id = ''job-1'', report_request_id = ''rr-1'',
     snapshot_id = ''snap-1'', render_job_id = ''rj-1'', render_attempt_id = ''ra-1'',
     report_type = PORTFOLIO_REVIEW, portfolio_scope = ''single'', portfolio_id = Some ''p-1'',
     composite_id = None, composite_report_identity = None, client_reference = None,
     as_of_date = Date 2026 3 31, reporting_period_start = Date 2026 1 1,
     reporting_period_end = Date 2026 3 31, frequency = ''quarterly'', template_id = ''portfolio-review'',
     template_version = ''v1'', render_service_version = ''1.0'', report_data_contract_version = ''v1'',
     mime_type = ''application/pdf'', output_format = ''pdf'', classification = CONFIDENTIAL,
     region = ''SG'', tenant_id = ''tenant-1'', retention_policy_id = None,
     retention_start_date = None, retain_until_date = Some (Date 2033 3 31),
     reviewed_advisory_narrative = None, advisor_proposal_memo = None,
     advisor_commentary_summary = None, idea_evidence_pack_summary = None,
     created_by_service = ''lotus-render'', created_by_actor = ''svc'', document_reference = None,
     declared_artifact_sha256 = None, render_runtime_engine = None, render_runtime_engine_version = None,
     template_digest = None, template_publication = None, report_revision_id = None\<rparr>"

definition sample_caller :: "string \<Rightarrow> caller_context" where
  "sample_caller service = \<lparr>caller_service = service, caller_actor_type = ''service'', caller_actor_id = ''svc'',
     caller_correlation_id = ''corr-1'', caller_tenant_id = Some ''tenant-1'', caller_region = Some ''SG''\<rparr>"

definition sample_uuids :: "nat \<Rightarrow> string" where
  "sample_uuids n = replicate (Suc n) CHR ''a''"

definition no_workbooks :: workbook_reader where
  "no_workbooks = \<lparr>open_zip = (\<lambda>_. Inl (ValueError ''BadZipFile'')), parse_xml = (\<lambda>_. Inl (ValueError ''ParseError''))\<rparr>"

definition empty_filesystem :: filesystem where
  "empty_filesystem = \<lparr>fs_files = [], fs_dirs = [], fs_ready = True\<rparr>"

definition sample_world :: "'r \<Rightarrow> 's \<Rightarrow> 'a \<Rightarrow> ('r, 's, 'a) world" where
  "sample_world r s a = \<lparr>w_repo = r, w_store = s, w_audit = a, w_clock = int, w_ticks = 0,
     w_uuids = sample_uuids, w_drawn = 0, w_today = Date 2026 4 1, w_metrics = [], w_sizes = []\<rparr>"

definition sample_service :: "(memory_repository, filesystem, access_audit_event list) archive_service" where
  "sample_service = in_memory_service (filesystem_store ''local'') 1024 no_workbooks"

definition sample_create :: create_command where
  "sample_create = \<lparr>cc_metadata = sample_input, cc_content_base64 = ''YWJj''\<rparr>"

lemma sample_uuids_ok: "inj sample_uuids" "proper_token (sample_uuids n)"
proof -
  show "inj sample_uuids"
    by (rule injI) (metis length_replicate nat.inject sample_uuids_def)
  show "proper_token (sample_uuids n)"
    by (auto simp: proper_token_def sample_uuids_def is_space_def)
qed

lemma sample_stripped: "strip_input sample_input = sample_input"
  by (simp add: strip_input_def sample_input_def py_strip_def is_space_def strip_opt_def)

lemma sample_input_valid: "input_valid sample_input"
  unfolding input_valid_def validate_document_input_def sample_stripped Let_def
  by (simp add: sample_input_def optional_def validate_declared_sha256_def validate_template_publication_def
    check_input_fields_def report_scope_must_agree_def dates_must_be_ordered_def and_then_def nonempty_def
    nonempty_opt_def less_date_def less_eq_date_def)

lemma sample_content: "decode_document_content ''YWJj'' 1024 = Inr [97, 98, 99]"
  by code_simp

abbreviation abc_digest :: string where
  "abc_digest \<equiv> sha256_hexdigest [97, 98, 99]"

definition sample_document :: document_metadata where
  "sample_document = document_input.extend sample_input (document_metadata.fields ''doc_a'' ''filesystem'' ''local''
     ''sg/tenant-1/portfolio_review/doc_a.pdf'' ''sha256'' abc_digest 3 None None None NOT_ELIGIBLE CLEAR 0
     None None None None 0 0)"

definition sample_key :: string where
  "sample_key = ''sg/tenant-1/portfolio_review/doc_a.pdf''"

lemma sample_storage_key: "storage_key_for sample_input ''doc_a'' = sample_key"
  by (simp add: storage_key_for_def sample_input_def sample_key_def Let_def ascii_lower_def, code_simp)

lemma sample_path: "path_for_key sample_key = Inr [''sg'', ''tenant-1'', ''portfolio_review'', ''doc_a.pdf'']"
  unfolding sample_key_def by code_simp

lemma sample_put:
  "fs_put ''local'' sample_key [97, 98, 99] abc_digest ''sha256'' empty_filesystem
   = (Inr \<lparr>stored_provider = ''filesystem'', stored_namespace = ''local'', stored_key = sample_key,
           stored_checksum_algorithm = ''sha256'', stored_checksum = abc_digest, stored_size_bytes = 3\<rparr>,
      \<lparr>fs_files = [([''sg'', ''tenant-1'', ''portfolio_review'', ''doc_a.pdf''], [97, 98, 99])],
       fs_dirs = [[''sg''], [''sg'', ''tenant-1''], [''sg'', ''tenant-1'', ''portfolio_review'']], fs_ready = True\<rparr>)"
  by (simp add: fs_put_def io_simps sample_path fs_mkdir_def prefixes_of_def fs_is_file_def empty_filesystem_def
      fs_write_bytes_def fs_is_dir_def temporary_path_def fs_write_file_def dict_set_def fs_replace_def
      dict_get_def fs_delete_file_def upt_rec [of _ "Suc _"])

lemma sample_metadata:
  "build_metadata sample_input ''doc_a'' \<lparr>stored_provider = ''filesystem'', stored_namespace = ''local'',
     stored_key = sample_key, stored_checksum_algorithm = ''sha256'', stored_checksum = abc_digest,
     stored_size_bytes = 3\<rparr> 0 = Inr sample_document"
proof -
  have "py_strip abc_digest = abc_digest"
    by (rule digest_stripped(1) [of "[97, 98, 99]" "''sha256''"]) simp
  moreover have "py_lower (py_strip ''sha256'') = ''sha256''" "py_strip ''filesystem'' = ''filesystem''"
    "py_strip ''local'' = ''local''" "py_strip sample_key = sample_key" "py_strip ''doc_a'' = ''doc_a''"
    by (simp_all add: py_strip_def is_space_def sample_key_def ascii_lower_def)
  ultimately show ?thesis
    using sample_input_valid
    by (simp add: build_metadata_def input_valid_def Let_def SUPPORTED_CHECKSUM_ALGORITHM_def
        sample_document_def sample_key_def)
qed

lemma sample_document_id [simp]:
  "document_id sample_document = ''doc_a''" "archive_request_id sample_document = ''req-1''"
  "tenant_id sample_document = ''tenant-1''" "region sample_document = ''SG''"
  "storage_key sample_document = sample_key" "checksum sample_document = abc_digest"
  "checksum_algorithm sample_document = ''sha256''" "size_bytes sample_document = 3"
  "purge_status sample_document = NOT_ELIGIBLE" "purge_started_at sample_document = None"
  "superseded_by_document_id sample_document = None" "legal_hold_status sample_document = CLEAR"
  by (simp_all add: sample_document_def sample_input_def sample_key_def document_input.defs document_metadata.defs)

lemma sample_store:
  "store_new_document sample_service sample_input [97, 98, 99] abc_digest
     (sample_world empty_memory_repository empty_filesystem [])
   = (Inr sample_document, sample_world
       \<lparr>by_document_id = [(''doc_a'', sample_document)],
        by_archive_request_id = [(''req-1'', ''doc_a'')], legal_holds = [], lifecycle_relationships = []\<rparr>
       \<lparr>fs_files = [([''sg'', ''tenant-1'', ''portfolio_review'', ''doc_a.pdf''], [97, 98, 99])],
        fs_dirs = [[''sg''], [''sg'', ''tenant-1''], [''sg'', ''tenant-1'', ''portfolio_review'']], fs_ready = True\<rparr>
       [] \<lparr>w_drawn := 1, w_ticks := 1\<rparr>)"
  using sample_put sample_metadata
  by (simp add: store_new_document_def run_steps bind_on_store sample_world_def sample_service_def
      filesystem_store_def sample_uuids_def sample_storage_key SUPPORTED_CHECKSUM_ALGORITHM_def
      try_except_def on_repo_def memory_ops_def mem_save_def empty_memory_repository_def mem_put_def
      dict_set_def dict_get_def Let_def)

definition sample_ingested :: "(memory_repository, filesystem, access_audit_event list) world" where
  "sample_ingested = snd (create_document sample_service sample_create (sample_caller ''lotus-render'') ''t-1''
     (sample_world empty_memory_repository empty_filesystem []))"

lemma sample_ingest:
  "create_document sample_service sample_create (sample_caller ''lotus-render'') ''t-1''
     (sample_world empty_memory_repository empty_filesystem []) = (Inr sample_document, sample_ingested)"
  "w_repo sample_ingested = \<lparr>by_document_id = [(''doc_a'', sample_document)],
     by_archive_request_id = [(''req-1'', ''doc_a'')], legal_holds = [], lifecycle_relationships = []\<rparr>"
  "w_store sample_ingested = \<lparr>fs_files = [([''sg'', ''tenant-1'', ''portfolio_review'', ''doc_a.pdf''], [97, 98, 99])],
     fs_dirs = [[''sg''], [''sg'', ''tenant-1''], [''sg'', ''tenant-1'', ''portfolio_review'']], fs_ready = True\<rparr>"
proof -
  have "\<exists>w. create_document sample_service sample_create (sample_caller ''lotus-render'') ''t-1''
     (sample_world empty_memory_repository empty_filesystem []) = (Inr sample_document, w)
     \<and> w_repo w = \<lparr>by_document_id = [(''doc_a'', sample_document)],
          by_archive_request_id = [(''req-1'', ''doc_a'')], legal_holds = [], lifecycle_relationships = []\<rparr>
     \<and> w_store w = \<lparr>fs_files = [([''sg'', ''tenant-1'', ''portfolio_review'', ''doc_a.pdf''], [97, 98, 99])],
          fs_dirs = [[''sg''], [''sg'', ''tenant-1''], [''sg'', ''tenant-1'', ''portfolio_review'']], fs_ready = True\<rparr>"
    using sample_store
    by (simp add: create_document_def archive_metric_def seq_io_def bind_io_def authorize_def allowed_callers_for_def
        default_policy_def sample_caller_def sample_service_def in_memory_service_def sample_create_def skip_io_def
        ret_def sample_input_def archive_document_def of_result_def validate_artifact_format_def XLSX_MIME_def
        SUPPORTED_CHECKSUM_ALGORITHM_def check_artifact_identity_def on_repo_def memory_ops_def
        mem_get_by_archive_request_id_def empty_memory_repository_def sample_world_def sample_content
        record_allowed_def record_access_def draw_uuid_def read_clock_def on_audit_def memory_audit_def modify_io_def
        record_archive_operation_def IMPLEMENTED_ARCHIVE_OPERATIONS_def record_archive_document_size_def
        size_from_result_def Let_def)
  then show "create_document sample_service sample_create (sample_caller ''lotus-render'') ''t-1''
     (sample_world empty_memory_repository empty_filesystem []) = (Inr sample_document, sample_ingested)"
  "w_repo sample_ingested = \<lparr>by_document_id = [(''doc_a'', sample_document)],
     by_archive_request_id = [(''req-1'', ''doc_a'')], legal_holds = [], lifecycle_relationships = []\<rparr>"
  "w_store sample_ingested = \<lparr>fs_files = [([''sg'', ''tenant-1'', ''portfolio_review'', ''doc_a.pdf''], [97, 98, 99])],
     fs_dirs = [[''sg''], [''sg'', ''tenant-1''], [''sg'', ''tenant-1'', ''portfolio_review'']], fs_ready = True\<rparr>"
    unfolding sample_ingested_def by (metis snd_conv)+
qed

end
