(* ===== verification/Histories.thy ===== *)
theory Histories
  imports Behaviour Samples
begin

text \<open>
  Histories that begin with an empty archive: the custody invariant holds at the start, so the
  invariants of \<open>ServiceCalls\<close> hold after every call. The PostgreSQL platform is run once, from
  empty tables, on the ingest of \<open>Samples\<close>.
\<close>

definition uuids_fresh :: "('r, 's, 'a) world \<Rightarrow> bool" where
  "uuids_fresh w \<longleftrightarrow> inj (w_uuids w) \<and> (\<forall>n. proper_token (w_uuids w n))"

definition empty_tables :: tables where
  "empty_tables = \<lparr>archive_documents = [], archive_legal_holds = [], archive_lifecycle_relationships = []\<rparr>"

lemma empty_repositories [simp]:
  "mem_abs empty_memory_repository = empty_archive" "mem_wf empty_memory_repository"
  "pg_tables p = empty_tables \<Longrightarrow> pg_abs p = empty_archive" "pg_tables p = empty_tables \<Longrightarrow> pg_wf p"
  by (simp_all add: mem_abs_def mem_wf_def empty_memory_repository_def empty_archive_def dict_get_def dict_ok_def
      fun_eq_iff pg_abs_def pg_wf_def tables_wf_def tables_abs_def empty_tables_def row_of_def)

lemma custody_at_start:
  assumes "uuids_fresh w" "wfr (w_repo w)" "absr (w_repo w) = empty_archive"
  shows "custody absr wfr objects addr scratch owner atomic empty_archive w"
  using assms empty_archive_inv
  by (simp add: custody_def repo_inv_def fresh_ids_def uuids_fresh_def) (simp add: empty_archive_def)

lemma custody_continues:
  assumes "custody absr wfr objects addr scratch owner atomic s0 w"
  shows "custody absr wfr objects addr scratch owner atomic (absr (w_repo w)) w"
  using assms by (simp add: custody_def repo_inv_def)

lemma run_calls_append: "run_calls svc (as @ bs) w = run_calls svc bs (run_calls svc as w)"
  by (induction as arbitrary: w) simp_all

section \<open>Any history of the PostgreSQL platform\<close>

lemma pg_history:
  assumes "uuids_fresh w" "pg_tables (w_repo w) = empty_tables" "list_all valid_call cs"
    and "w' = run_calls (postgresql_service (filesystem_store ns) n rd) cs w"
  shows "archive_inv (pg_abs (w_repo w'))" "pg_wf (w_repo w')"
    "custody pg_abs pg_wf fs_objects fs_addr temporary_path fs_owner False empty_archive w'"
proof -
  show "custody pg_abs pg_wf fs_objects fs_addr temporary_path fs_owner False empty_archive w'"
    unfolding assms(4) by (rule pg_fs.kept.calls_keep [OF custody_at_start assms(3)]) (simp_all add: assms(1,2))
  then show "archive_inv (pg_abs (w_repo w'))" "pg_wf (w_repo w')"
    by (simp_all add: custody_def repo_inv_def)
qed

lemma pg_later:
  assumes "uuids_fresh w" "pg_tables (w_repo w) = empty_tables" "list_all valid_call (as @ bs)"
    and "w1 = run_calls (postgresql_service (filesystem_store ns) n rd) as w"
    and "w2 = run_calls (postgresql_service (filesystem_store ns) n rd) bs w1"
  shows "archive_evolves (pg_abs (w_repo w1)) (pg_abs (w_repo w2))"
proof -
  have v: "list_all valid_call as" "list_all valid_call bs" using assms(3) by simp_all
  note I = custody_continues [OF pg_history(3) [OF assms(1,2) v(1) assms(4)]]
  show ?thesis
    using pg_fs.kept.calls_keep [OF I v(2), of ns n rd] assms(5)
    by (simp add: custody_def repo_inv_def)
qed

lemma pg_bytes:
  assumes "uuids_fresh w" "pg_tables (w_repo w) = empty_tables" "serves (w_repo w)" "list_all valid_call cs"
    and "w' = run_calls (postgresql_service (filesystem_store ns) n rd) cs w"
    and "st_docs (pg_abs (w_repo w')) d = Some m" "purge_started_at m = None"
  shows "bytes_held fs_objects fs_addr (w_store w') m"
proof -
  have "custody pg_abs (\<lambda>p. pg_wf p \<and> serves p) fs_objects fs_addr temporary_path fs_owner True empty_archive w'"
    unfolding assms(5)
    by (rule pg_fs_reliable.kept.calls_keep [OF custody_at_start assms(4)]) (simp_all add: assms(1-3))
  then show ?thesis using assms(6,7) by (simp add: custody_def)
qed

section \<open>The sample ingest on PostgreSQL\<close>

definition pg_sample :: "(postgres, filesystem, access_audit_event list database) archive_service" where
  "pg_sample = postgresql_service (filesystem_store ''local'') 1024 no_workbooks"

definition reliable_database :: "'t \<Rightarrow> 't database" where
  "reliable_database t = \<lparr>pg_tables = t, pg_faults = []\<rparr>"

definition pg_start :: "(postgres, filesystem, access_audit_event list database) world" where
  "pg_start = sample_world (reliable_database empty_tables) empty_filesystem (reliable_database [])"

definition sample_calls :: "service_call list" where
  "sample_calls = [CreateCall sample_create (sample_caller ''lotus-render'') ''t-1'']"

lemma pg_start_ok:
  "uuids_fresh pg_start" "pg_tables (w_repo pg_start) = empty_tables" "serves (w_repo pg_start)"
  "list_all valid_call sample_calls"
  using sample_uuids_ok sample_input_valid
  by (simp_all add: uuids_fresh_def pg_start_def sample_world_def reliable_database_def serves_def sample_calls_def
      sample_create_def)

definition sample_tables :: tables where
  "sample_tables = empty_tables\<lparr>archive_documents := [sample_document]\<rparr>"

definition stored_sample :: filesystem where
  "stored_sample = \<lparr>fs_files = [([''sg'', ''tenant-1'', ''portfolio_review'', ''doc_a.pdf''], [97, 98, 99])],
     fs_dirs = [[''sg''], [''sg'', ''tenant-1''], [''sg'', ''tenant-1'', ''portfolio_review'']], fs_ready = True\<rparr>"

lemma pg_sample_store:
  "store_new_document pg_sample sample_input [97, 98, 99] abc_digest pg_start
   = (Inr sample_document, pg_start\<lparr>w_repo := reliable_database sample_tables, w_store := stored_sample,
        w_drawn := 1, w_ticks := 1\<rparr>)"
  using sample_put sample_metadata
  by (simp add: store_new_document_def sample_world_def pg_sample_def postgresql_service_def pg_start_def
      filesystem_store_def sample_uuids_def sample_storage_key SUPPORTED_CHECKSUM_ALGORITHM_def
      try_except_def on_repo_def postgres_ops_def pg_save_def pg_get_by_archive_request_id_def pg_fetch_document_def
      reliable_database_def empty_tables_def transaction_def next_fault_def sql_select_document_def
      sql_save_document_def sample_tables_def stored_sample_def seq_io_def bind_io_def gets_def ret_def skip_io_def
      draw_uuid_def read_clock_def on_store_def of_result_def modify_io_def
      Let_def)

lemma pg_sample_ingest:
  "w_repo (run_calls pg_sample sample_calls pg_start) = reliable_database sample_tables"
  "w_store (run_calls pg_sample sample_calls pg_start) = stored_sample"
proof -
  have "\<exists>w. run_call pg_sample (hd sample_calls) pg_start = (Inr (), w)
     \<and> w_repo w = reliable_database sample_tables \<and> w_store w = stored_sample"
    using pg_sample_store
    by (simp add: sample_calls_def ignore_result_def
        create_document_def archive_metric_def seq_io_def bind_io_def authorize_def allowed_callers_for_def
        default_policy_def sample_caller_def pg_sample_def postgresql_service_def sample_create_def skip_io_def
        ret_def sample_input_def archive_document_def of_result_def validate_artifact_format_def XLSX_MIME_def
        SUPPORTED_CHECKSUM_ALGORITHM_def check_artifact_identity_def on_repo_def postgres_ops_def
        pg_get_by_archive_request_id_def pg_fetch_document_def transaction_def next_fault_def reliable_database_def
        sql_select_document_def gets_def empty_tables_def sample_world_def sample_content pg_start_def
        record_allowed_def record_access_def draw_uuid_def read_clock_def on_audit_def postgres_audit_def modify_io_def
        record_archive_operation_def IMPLEMENTED_ARCHIVE_OPERATIONS_def record_archive_document_size_def
        size_from_result_def Let_def)
  then show "w_repo (run_calls pg_sample sample_calls pg_start) = reliable_database sample_tables"
    "w_store (run_calls pg_sample sample_calls pg_start) = stored_sample"
    by (auto simp: sample_calls_def)
qed

lemma pg_sample_row: "st_docs (pg_abs (reliable_database sample_tables)) ''doc_a'' = Some (untimed sample_document)"
  by (simp add: reliable_database_def sample_tables_def empty_tables_def pg_abs_def row_of_def)

end
