(* ===== verification/S3Storage.thy ===== *)
theory S3Storage
  imports Storage ArtifactFormat
begin

text \<open>
  \<open>S3ObjectStorage\<close> of \<open>src/app/archive/s3_storage.py\<close>. The client library is a parameter: a
  record of the four calls the code makes, each over the client's own state, returning what the
  call answers or one of the two error classes the code catches. \<open>s3_client_ok\<close> is the service's
  documented behaviour; \<open>bucket_client\<close> is a client that has it, with a schedule of refusals
  and lost answers.
\<close>

section \<open>The client\<close>

datatype s3_error = ClientError string | BotoCoreError string

record s3_request =
  req_bucket :: string
  req_key :: string
  req_body :: bytes
  req_content_length :: nat
  req_checksum_sha256 :: string
  req_server_side_encryption :: string
  req_kms_key_id :: "string option option"
  req_metadata :: "(string, string) dict"

text \<open>The body of a response may be missing, which reading it turns into a \<open>KeyError\<close>.\<close>

record 'c s3_client =
  head_bucket :: "string \<Rightarrow> 'c \<Rightarrow> (s3_error + unit) \<times> 'c"
  put_object :: "s3_request \<Rightarrow> 'c \<Rightarrow> (s3_error + unit) \<times> 'c"
  get_object :: "string \<Rightarrow> string \<Rightarrow> 'c \<Rightarrow> (s3_error + bytes option) \<times> 'c"
  delete_object :: "string \<Rightarrow> string \<Rightarrow> 'c \<Rightarrow> (s3_error + unit) \<times> 'c"

section \<open>The store\<close>

record s3_settings =
  s3_bucket :: string
  s3_namespace :: string
  s3_prefix :: string
  s3_encryption :: string
  s3_kms_key :: "string option"

definition strip_slashes :: "string \<Rightarrow> string" where
  "strip_slashes s = rev (dropWhile ((=) CHR ''/'') (rev (dropWhile ((=) CHR ''/'') s)))"

definition s3_init :: "string \<Rightarrow> string \<Rightarrow> string \<Rightarrow> string \<Rightarrow> string option \<Rightarrow> exc + s3_settings" where
  "s3_init bucket namespace key_prefix encryption kms =
     (if py_strip bucket = [] then Inl (ValueError ''S3 bucket must not be blank'')
      else Inr \<lparr>s3_bucket = bucket, s3_namespace = namespace, s3_prefix = strip_slashes key_prefix,
                s3_encryption = encryption, s3_kms_key = kms\<rparr>)"

definition object_key :: "s3_settings \<Rightarrow> string \<Rightarrow> exc + string" where
  "object_key cfg key =
     (if is_absolute key \<or> ''..'' \<in> set (path_parts key)
      then Inl (StorageReadFailedError ''unsafe storage key'')
      else Inr (py_join ''/'' (filter (\<lambda>p. p \<noteq> []) [s3_prefix cfg, dropWhile ((=) CHR ''/'') key])))"

definition s3_check_ready :: "s3_settings \<Rightarrow> 'c s3_client \<Rightarrow> ('c, unit) io" where
  "s3_check_ready cfg client s =
     (case head_bucket client (s3_bucket cfg) s of
        (Inl _, s') \<Rightarrow> (Inl (DriverError ''archive_storage_unavailable''), s')
      | (Inr _, s') \<Rightarrow> (Inr (), s'))"

fun bytes_of_hex :: "string \<Rightarrow> nat list" where
  "bytes_of_hex (a # b # s) =
     (case (position a hex_digits, position b hex_digits) of
        (Some i, Some j) \<Rightarrow> (16 * i + j) # bytes_of_hex s | _ \<Rightarrow> bytes_of_hex s)"
| "bytes_of_hex _ = []"

definition put_request :: "s3_settings \<Rightarrow> string \<Rightarrow> bytes \<Rightarrow> string \<Rightarrow> string \<Rightarrow> s3_request" where
  "put_request cfg k content actual algorithm =
     \<lparr>req_bucket = s3_bucket cfg, req_key = k, req_body = content, req_content_length = length content,
      req_checksum_sha256 = encode_bytes (bytes_of_hex actual),
      req_server_side_encryption = s3_encryption cfg,
      req_kms_key_id = (if s3_encryption cfg = ''aws:kms'' then Some (s3_kms_key cfg) else None),
      req_metadata = [(''checksum-algorithm'', algorithm), (''checksum'', actual)]\<rparr>"

definition s3_put ::
    "s3_settings \<Rightarrow> 'c s3_client \<Rightarrow> string \<Rightarrow> bytes \<Rightarrow> string \<Rightarrow> string \<Rightarrow> ('c, stored_object) io" where
  "s3_put cfg client key content expected algorithm =
     bind_io (of_result (calculate_checksum content algorithm)) (\<lambda>actual.
       if actual \<noteq> expected
       then raise (DocumentChecksumMismatchError ''document checksum did not match expected value'')
       else bind_io (of_result (object_key cfg key)) (\<lambda>k s.
         case put_object client (put_request cfg k content actual algorithm) s of
           (Inl _, s') \<Rightarrow> (Inl (StorageWriteFailedError ''archive object could not be stored''), s')
         | (Inr _, s') \<Rightarrow> (Inr \<lparr>stored_provider = ''s3'', stored_namespace = s3_namespace cfg, stored_key = key,
             stored_checksum_algorithm = algorithm, stored_checksum = actual,
             stored_size_bytes = length content\<rparr>, s')))"

definition s3_get :: "s3_settings \<Rightarrow> 'c s3_client \<Rightarrow> string \<Rightarrow> ('c, bytes) io" where
  "s3_get cfg client key =
     bind_io (of_result (object_key cfg key)) (\<lambda>k s.
       case get_object client (s3_bucket cfg) k s of
         (Inl (ClientError code), s') \<Rightarrow>
           (Inl (if code \<in> {''404'', ''NoSuchKey'', ''NotFound''}
                 then StorageReadFailedError ''stored document object was not found''
                 else StorageReadFailedError ''archive object could not be read''), s')
       | (Inl (BotoCoreError _), s') \<Rightarrow> (Inl (StorageReadFailedError ''archive object could not be read''), s')
       | (Inr None, s') \<Rightarrow> (Inl (StorageReadFailedError ''archive object could not be read''), s')
       | (Inr (Some bs), s') \<Rightarrow> (Inr bs, s'))"

definition s3_delete :: "s3_settings \<Rightarrow> 'c s3_client \<Rightarrow> string \<Rightarrow> ('c, unit) io" where
  "s3_delete cfg client key =
     bind_io (of_result (object_key cfg key)) (\<lambda>k s.
       case delete_object client (s3_bucket cfg) k s of
         (Inl _, s') \<Rightarrow> (Inl (StorageWriteFailedError ''archive object could not be deleted''), s')
       | (Inr _, s') \<Rightarrow> (Inr (), s'))"

definition s3_store :: "s3_settings \<Rightarrow> 'c s3_client \<Rightarrow> 'c object_storage" where
  "s3_store cfg client = \<lparr>store_check_ready = s3_check_ready cfg client, store_put = s3_put cfg client,
     store_get = s3_get cfg client, store_delete = s3_delete cfg client\<rparr>"

section \<open>What the store relies on\<close>

text \<open>
  A call touches the one object it names; a write or a deletion that answers has happened, one
  that raises may have; a read returns the object's bytes.
\<close>

definition s3_client_ok :: "'c s3_client \<Rightarrow> ('c \<Rightarrow> string \<times> string \<Rightarrow> bytes option) \<Rightarrow> bool" where
  "s3_client_ok client objs \<longleftrightarrow>
     (\<forall>b s. objs (snd (head_bucket client b s)) = objs s)
     \<and> (\<forall>q s x s'. put_object client q s = (x, s') \<longrightarrow>
          (\<forall>p. p \<noteq> (req_bucket q, req_key q) \<longrightarrow> objs s' p = objs s p)
          \<and> (x = Inr () \<longrightarrow> objs s' (req_bucket q, req_key q) = Some (req_body q)))
     \<and> (\<forall>b k s x s'. get_object client b k s = (x, s') \<longrightarrow>
          objs s' = objs s \<and> (\<forall>bs. x = Inr (Some bs) \<longrightarrow> objs s (b, k) = Some bs))
     \<and> (\<forall>b k s x s'. delete_object client b k s = (x, s') \<longrightarrow>
          (\<forall>p. p \<noteq> (b, k) \<longrightarrow> objs s' p = objs s p) \<and> (x = Inr () \<longrightarrow> objs s' (b, k) = None))"

definition s3_objects ::
    "s3_settings \<Rightarrow> ('c \<Rightarrow> string \<times> string \<Rightarrow> bytes option) \<Rightarrow> 'c \<Rightarrow> string \<Rightarrow> bytes option" where
  "s3_objects cfg objs s k = objs s (s3_bucket cfg, k)"

definition s3_addr :: "s3_settings \<Rightarrow> string \<Rightarrow> string option" where
  "s3_addr cfg key = (case object_key cfg key of Inl _ \<Rightarrow> None | Inr k \<Rightarrow> Some k)"

lemma s3_store_sel [simp]:
  "store_check_ready (s3_store cfg c) = s3_check_ready cfg c" "store_put (s3_store cfg c) = s3_put cfg c"
  "store_get (s3_store cfg c) = s3_get cfg c" "store_delete (s3_store cfg c) = s3_delete cfg c"
  by (simp_all add: s3_store_def)

lemma s3_put_cases:
  assumes "s3_put cfg c key bs cs alg s = (x, s')"
  obtains (before) e where "x = Inl e" "s' = s"
    | (asked) k y where "object_key cfg key = Inr k" "calculate_checksum bs alg = Inr cs"
        "put_object c (put_request cfg k bs cs alg) s = (y, s')"
        "x = (case y of Inl _ \<Rightarrow> Inl (StorageWriteFailedError ''archive object could not be stored'')
           | Inr _ \<Rightarrow> Inr \<lparr>stored_provider = ''s3'', stored_namespace = s3_namespace cfg, stored_key = key,
                 stored_checksum_algorithm = alg, stored_checksum = cs, stored_size_bytes = length bs\<rparr>)"
proof (cases "calculate_checksum bs alg = Inr cs \<and> (\<exists>k. object_key cfg key = Inr k)")
  case False
  with assms have "\<exists>e. x = Inl e" "s' = s"
    by (auto simp: s3_put_def bind_io_def of_result_def raise_def split: sum.splits if_splits)
  with before show thesis by blast
next
  case True
  then obtain k where k: "calculate_checksum bs alg = Inr cs" "object_key cfg key = Inr k" by blast
  obtain y s1 where y: "put_object c (put_request cfg k bs cs alg) s = (y, s1)" by fastforce
  show thesis
    by (rule asked [OF k(2,1), of y]) (use assms k y in
      \<open>cases y; simp add: s3_put_def bind_io_def of_result_def\<close>)+
qed

lemma s3_object_storage:
  assumes ok: "s3_client_ok c objs"
  shows "object_storage (s3_store cfg c) (s3_objects cfg objs) (s3_addr cfg) (\<lambda>k. k)"
proof
  fix key bs cs alg s x s' q
  assume put: "store_put (s3_store cfg c) key bs cs alg s = (x, s')" and q: "s3_addr cfg key \<noteq> Some q"
  from put [simplified] show "s3_objects cfg objs s' q = s3_objects cfg objs s q"
  proof (cases rule: s3_put_cases)
    case (asked k y)
    then have "k \<noteq> q" using q by (simp add: s3_addr_def)
    then show ?thesis
      using ok asked(3) unfolding s3_client_ok_def by (simp add: s3_objects_def put_request_def)
  qed simp
next
  fix key bs cs alg s so s'
  assume put: "store_put (s3_store cfg c) key bs cs alg s = (Inr so, s')"
  from put [simplified] show "(\<exists>p. s3_addr cfg key = Some p \<and> s3_objects cfg objs s' p = Some bs)
      \<and> calculate_checksum bs alg = Inr cs \<and> stored_key so = key \<and> stored_checksum so = cs
      \<and> stored_checksum_algorithm so = alg \<and> stored_size_bytes so = length bs"
  proof (cases rule: s3_put_cases)
    case (asked k y)
    then have y: "y = Inr ()" by (cases y) auto
    then have "objs s' (s3_bucket cfg, k) = Some bs"
      using ok asked(3) unfolding s3_client_ok_def by (fastforce simp: put_request_def)
    then show ?thesis using asked y by (simp add: s3_addr_def s3_objects_def)
  qed simp
next
  fix key s y s'
  assume get: "store_get (s3_store cfg c) key s = (y, s')"
  show "s3_objects cfg objs s' = s3_objects cfg objs s
      \<and> (\<forall>bs. y = Inr bs \<longrightarrow> (\<exists>p. s3_addr cfg key = Some p \<and> s3_objects cfg objs s p = Some bs))"
  proof (cases "object_key cfg key")
    case (Inr k)
    obtain z s1 where z: "get_object c (s3_bucket cfg) k s = (z, s1)" by fastforce
    then have "objs s1 = objs s" "\<forall>bs. z = Inr (Some bs) \<longrightarrow> objs s (s3_bucket cfg, k) = Some bs"
      using ok unfolding s3_client_ok_def by blast+
    then show ?thesis
      using get z Inr
      by (auto simp: s3_get_def io_simps s3_objects_def s3_addr_def fun_eq_iff
          split: sum.splits s3_error.splits option.splits)
  qed (use get in \<open>auto simp: s3_get_def io_simps\<close>)
next
  fix key s z s' q
  assume del: "store_delete (s3_store cfg c) key s = (z, s')" and q: "s3_addr cfg key \<noteq> Some q"
  show "s3_objects cfg objs s' q = s3_objects cfg objs s q"
  proof (cases "object_key cfg key")
    case (Inr k)
    then show ?thesis
      using ok del q unfolding s3_client_ok_def
      by (auto simp: s3_delete_def io_simps s3_objects_def s3_addr_def split: prod.splits sum.splits)
  qed (use del in \<open>simp add: s3_delete_def io_simps\<close>)
next
  fix key s u s'
  assume del: "store_delete (s3_store cfg c) key s = (Inr u, s')"
  show "\<exists>p. s3_addr cfg key = Some p \<and> s3_objects cfg objs s' p = None"
  proof (cases "object_key cfg key")
    case (Inr k)
    obtain y where "delete_object c (s3_bucket cfg) k s = (Inr y, s')"
      using del Inr by (auto simp: s3_delete_def io_simps split: prod.splits sum.splits)
    then have "objs s' (s3_bucket cfg, k) = None"
      using ok unfolding s3_client_ok_def by (metis (full_types) old.unit.exhaust)
    then show ?thesis using Inr by (simp add: s3_addr_def s3_objects_def)
  qed (use del in \<open>simp add: s3_delete_def io_simps\<close>)
next
  fix s v s'
  assume ready: "store_check_ready (s3_store cfg c) s = (v, s')"
  then have "s' = snd (head_bucket c (s3_bucket cfg) s)"
    by (auto simp: s3_check_ready_def split: prod.splits sum.splits)
  then show "s3_objects cfg objs s' = s3_objects cfg objs s"
    using ok unfolding s3_client_ok_def by (simp add: s3_objects_def fun_eq_iff)
qed


section \<open>A client that has the documented behaviour\<close>

text \<open>
  A bucket as a dictionary, and a schedule saying what becomes of each call: it is served, it is
  refused before it happens, or it happens and its answer is lost.
\<close>

datatype s3_fault = S3Served | S3Refused s3_error | S3AnswerLost s3_error

record bucket =
  bucket_objects :: "(string \<times> string, bytes) dict"
  bucket_faults :: "s3_fault list"

definition bucket_call ::
    "(bucket \<Rightarrow> 'x) \<Rightarrow> (bucket \<Rightarrow> (string \<times> string, bytes) dict) \<Rightarrow> bucket \<Rightarrow> (s3_error + 'x) \<times> bucket" where
  "bucket_call answer effect b =
     (let rest = b\<lparr>bucket_faults := tl (bucket_faults b)\<rparr> in
      case bucket_faults b of
        S3Refused e # _ \<Rightarrow> (Inl e, rest)
      | S3AnswerLost e # _ \<Rightarrow> (Inl e, rest\<lparr>bucket_objects := effect b\<rparr>)
      | _ \<Rightarrow> (Inr (answer b), rest\<lparr>bucket_objects := effect b\<rparr>))"

definition bucket_get :: "string \<Rightarrow> string \<Rightarrow> bucket \<Rightarrow> (s3_error + bytes option) \<times> bucket" where
  "bucket_get bk k b =
     (case bucket_call (\<lambda>b. dict_get (bucket_objects b) (bk, k)) bucket_objects b of
        (Inr None, b') \<Rightarrow> (Inl (ClientError ''NoSuchKey''), b') | r \<Rightarrow> r)"

definition bucket_client :: "bucket s3_client" where
  "bucket_client = \<lparr>
     head_bucket = (\<lambda>bk. bucket_call (\<lambda>_. ()) bucket_objects),
     put_object = (\<lambda>q. bucket_call (\<lambda>_. ()) (\<lambda>b. dict_set (req_bucket q, req_key q) (req_body q) (bucket_objects b))),
     get_object = bucket_get,
     delete_object = (\<lambda>bk k. bucket_call (\<lambda>_. ()) (\<lambda>b. AList.delete (bk, k) (bucket_objects b)))\<rparr>"

definition bucket_contents :: "bucket \<Rightarrow> string \<times> string \<Rightarrow> bytes option" where
  "bucket_contents b = dict_get (bucket_objects b)"

lemma bucket_call_cases:
  assumes "bucket_call answer effect b = (x, b')"
  shows "bucket_objects b' = bucket_objects b \<and> (\<forall>y. x \<noteq> Inr y)
    \<or> bucket_objects b' = effect b \<and> (\<forall>y. x = Inr y \<longrightarrow> y = answer b)"
  using assms by (auto simp: bucket_call_def Let_def split: list.splits s3_fault.splits)

lemma bucket_client_ok: "s3_client_ok bucket_client bucket_contents"
  unfolding s3_client_ok_def
proof (intro conjI allI impI)
  fix bk and b :: bucket
  show "bucket_contents (snd (head_bucket bucket_client bk b)) = bucket_contents b"
    using bucket_call_cases [of "\<lambda>_. ()" bucket_objects b] by (cases "head_bucket bucket_client bk b")
      (auto simp: bucket_client_def bucket_contents_def)
next
  fix q b x b' p
  assume "put_object bucket_client q b = (x, b')"
  note run = bucket_call_cases [OF this [unfolded bucket_client_def s3_client.select_convs]]
  show "bucket_contents b' p = bucket_contents b p" if "p \<noteq> (req_bucket q, req_key q)"
    using run that by (auto simp: bucket_contents_def)
  show "bucket_contents b' (req_bucket q, req_key q) = Some (req_body q)" if "x = Inr ()"
    using run that by (auto simp: bucket_contents_def)
next
  fix bk k b x b'
  assume get: "get_object bucket_client bk k b = (x, b')"
  obtain y b1 where y: "bucket_call (\<lambda>b. dict_get (bucket_objects b) (bk, k)) bucket_objects b = (y, b1)" by fastforce
  note run = bucket_call_cases [OF y]
  show "bucket_contents b' = bucket_contents b"
    using run y get by (auto simp: bucket_client_def bucket_get_def bucket_contents_def split: sum.splits option.splits)
  show "bucket_contents b (bk, k) = Some bs" if "x = Inr (Some bs)" for bs
    using run y get that
    by (auto simp: bucket_client_def bucket_get_def bucket_contents_def split: sum.splits option.splits)
next
  fix bk k b x b' p
  assume "delete_object bucket_client bk k b = (x, b')"
  note run = bucket_call_cases [OF this [unfolded bucket_client_def s3_client.select_convs]]
  show "bucket_contents b' p = bucket_contents b p" if "p \<noteq> (bk, k)"
    using run that by (auto simp: bucket_contents_def dict_get_delete)
  show "bucket_contents b' (bk, k) = None" if "x = Inr ()"
    using run that by (auto simp: bucket_contents_def dict_get_delete)
qed

section \<open>The declared digest\<close>

lemma bytes_of_hex_digits:
  assumes "\<forall>b \<in> set bs. b < 256"
  shows "bytes_of_hex (concat (map hex_of_byte bs)) = bs"
proof -
  have d: "distinct hex_digits" "length hex_digits = 16" by (simp_all add: hex_digits_def)
  show ?thesis
    using assms
  proof (induction bs)
    case (Cons b bs)
    have "16 * (b div 16 mod 16) + b mod 16 = b"
    proof -
      have "b div 16 < 16" using Cons.prems by (simp add: less_mult_imp_div_less)
      then show ?thesis by (simp only: mod_less mult_div_mod_eq)
    qed
    then show ?case using Cons by (simp add: hex_of_byte_def position_nth [OF d(1)] d(2))
  qed simp
qed

lemma sha256_digest_bytes: "\<forall>b \<in> set (sha256_digest bs). b < 256"
proof -
  have "unat (w AND 0xff) < 256" for w :: "32 word"
  proof -
    have "w AND 0xff = take_bit 8 w" by (simp add: take_bit_eq_mask mask_eq_exp_minus_1)
    then have "unat (w AND 0xff) = take_bit 8 (unat w)" by (simp only: unsigned_take_bit_eq)
    then show ?thesis by (simp add: take_bit_eq_mod)
  qed
  then show ?thesis by (auto simp: sha256_digest_def Let_def bytes_of_word_def)
qed

text \<open>The header the object store checks carries exactly the SHA-256 of the body.\<close>

lemma put_request_digest:
  assumes "calculate_checksum content algorithm = Inr actual"
  shows "b64decode (req_checksum_sha256 (put_request cfg k content actual algorithm)) = Some (sha256_digest content)"
proof -
  have "actual = sha256_hexdigest content" using assms by (simp add: calculate_checksum_def split: if_splits)
  then have "bytes_of_hex actual = sha256_digest content"
    by (simp add: sha256_hexdigest_def bytes_of_hex_digits [OF sha256_digest_bytes])
  then show ?thesis using sha256_digest_bytes by (simp add: put_request_def b64_decode_encode)
qed

end
