(* ===== verification/Platforms.thy ===== *)
theory Platforms
  imports Histories S3Storage
begin

text \<open>
  The durable platform of \<open>build_archive_service\<close>: PostgreSQL metadata and audit with an S3
  bucket. The store's key ends in the file name of \<open>storage_key_for\<close>, whatever the prefix, so
  the custody invariant carries over to every client that behaves as S3 documents.
\<close>

context custody_platform
begin

lemma platform_calls_keep:
  assumes "I s0 w" "list_all valid_call cs"
  shows "I s0 (run_calls svc cs w)"
  using assms by (rule kept.calls_keep)

end

definition s3_owner :: "string \<Rightarrow> string" where
  "s3_owner k = takeWhile (\<lambda>c. c \<noteq> CHR ''.'') (last (py_split CHR ''/'' k))"

lemma last_split_segment:
  assumes "CHR ''/'' \<notin> set n"
  shows "last (py_split CHR ''/'' (pre @ CHR ''/'' # n)) = n" "last (py_split CHR ''/'' n) = n"
  using assms by (simp_all add: py_split_append py_split_no_sep)

lemma dropWhile_segment:
  assumes "n \<noteq> []" "CHR ''/'' \<notin> set n"
  shows "dropWhile ((=) CHR ''/'') (pre @ CHR ''/'' # n) = n
    \<or> (\<exists>pre'. dropWhile ((=) CHR ''/'') (pre @ CHR ''/'' # n) = pre' @ CHR ''/'' # n)"
proof (induction pre)
  case Nil
  have "dropWhile ((=) CHR ''/'') n = n" using assms by (cases n) auto
  then show ?case by simp
next
  case (Cons c pre)
  then show ?case by (cases "c = CHR ''/''") (auto intro: exI [of _ "c # pre"])
qed

lemma s3_owner_key:
  assumes d: "proper_token d" and p: "s3_addr cfg (storage_key_for m d) = Some p"
  shows "s3_owner p = d \<and> s3_owner p = d"
proof -
  let ?f = "py_replace_char CHR ''/'' CHR ''-'' (py_lower (output_format m))"
  let ?n = "d @ CHR ''.'' # ?f"
  obtain pre where key: "storage_key_for m d = pre @ CHR ''/'' # ?n"
    by (simp add: storage_key_for_def Let_def)
  have n: "?n \<noteq> []" "CHR ''/'' \<notin> set ?n"
    using d py_replace_char_set [of "CHR ''/''" "CHR ''-''"] by (auto simp: proper_token_def)
  obtain k where kd: "dropWhile ((=) CHR ''/'') (storage_key_for m d) = k" by blast
  have k: "k = ?n \<or> (\<exists>pre'. k = pre' @ CHR ''/'' # ?n)"
    unfolding kd [symmetric] key by (rule dropWhile_segment [OF n])
  have ne: "k \<noteq> []" using k by (elim disjE exE) simp_all
  have "Inr p = object_key cfg (storage_key_for m d)"
    using p by (simp add: s3_addr_def split: sum.splits)
  then have "p = k \<or> p = s3_prefix cfg @ CHR ''/'' # k"
    using ne by (simp add: object_key_def kd split: if_splits)
  with k have "p = ?n \<or> (\<exists>pre'. p = pre' @ CHR ''/'' # ?n)"
    by (metis append.assoc append_Cons)
  then have "last (py_split CHR ''/'' p) = ?n" using last_split_segment [OF n(2)] by blast
  then show ?thesis using takeWhile_token [OF d] by (simp add: s3_owner_def)
qed

definition s3_postgresql_service ::
    "s3_settings \<Rightarrow> 'c s3_client \<Rightarrow> nat \<Rightarrow> workbook_reader
      \<Rightarrow> (postgres, 'c, access_audit_event list database) archive_service" where
  "s3_postgresql_service cfg client limit reader = postgresql_service (s3_store cfg client) limit reader"

lemma s3_platform:
  assumes "s3_client_ok client objs"
  shows "custody_platform (s3_postgresql_service cfg client n rd) pg_abs (\<lambda>p. pg_wf p \<and> serves p)
      (s3_objects cfg objs) (s3_addr cfg) (\<lambda>k. k) s3_owner True"
proof (intro custody_platform.intro custody_platform_axioms.intro,
    unfold s3_postgresql_service_def service_parts)
  show "document_repository postgres_ops pg_abs (\<lambda>p. pg_wf p \<and> serves p)"
    by (rule pg_reliable.document_repository_axioms)
  show "object_storage (s3_store cfg client) (s3_objects cfg objs) (s3_addr cfg) (\<lambda>k. k)"
    by (rule s3_object_storage [OF assms])
qed (fact s3_owner_key | rule pg_reliable.save_atomic; assumption)+

lemma s3_bytes:
  assumes "s3_client_ok client objs" "uuids_fresh w" "pg_tables (w_repo w) = empty_tables" "serves (w_repo w)"
    and "list_all valid_call cs" "w' = run_calls (s3_postgresql_service cfg client n rd) cs w"
    and "st_docs (pg_abs (w_repo w')) d = Some m" "purge_started_at m = None"
  shows "bytes_held (s3_objects cfg objs) (s3_addr cfg) (w_store w') m"
proof -
  have "custody pg_abs (\<lambda>p. pg_wf p \<and> serves p) (s3_objects cfg objs) (s3_addr cfg) (\<lambda>k. k) s3_owner True
      empty_archive w'"
    unfolding assms(6)
    by (rule custody_platform.platform_calls_keep [OF s3_platform [OF assms(1)] custody_at_start assms(5)])
      (simp_all add: assms(2-4))
  then show ?thesis using assms(7,8) by (simp add: custody_def)
qed


section \<open>The sample ingest on S3\<close>

definition sample_s3 :: s3_settings where
  "sample_s3 = \<lparr>s3_bucket = ''custody'', s3_namespace = ''prod'', s3_prefix = ''archive'',
     s3_encryption = ''AES256'', s3_kms_key = None\<rparr>"

definition s3_sample :: "(postgres, bucket, access_audit_event list database) archive_service" where
  "s3_sample = s3_postgresql_service sample_s3 bucket_client 1024 no_workbooks"

definition s3_start :: "(postgres, bucket, access_audit_event list database) world" where
  "s3_start = sample_world (reliable_database empty_tables) \<lparr>bucket_objects = [], bucket_faults = []\<rparr>
     (reliable_database [])"

lemma s3_start_ok:
  "uuids_fresh s3_start" "pg_tables (w_repo s3_start) = empty_tables" "serves (w_repo s3_start)"
  "list_all valid_call sample_calls"
  using sample_uuids_ok sample_input_valid
  by (simp_all add: uuids_fresh_def s3_start_def sample_world_def reliable_database_def serves_def sample_calls_def
      sample_create_def)

definition s3_document :: document_metadata where
  "s3_document = sample_document\<lparr>storage_provider := ''s3'', storage_namespace := ''prod''\<rparr>"

definition s3_sample_key :: string where
  "s3_sample_key = ''archive/sg/tenant-1/portfolio_review/doc_a.pdf''"

lemma s3_sample_object_key: "object_key sample_s3 sample_key = Inr s3_sample_key"
  unfolding sample_s3_def sample_key_def s3_sample_key_def by code_simp

lemma sample_s3_sel [simp]: "s3_bucket sample_s3 = ''custody''" "s3_namespace sample_s3 = ''prod''"
  by (simp_all add: sample_s3_def)

definition stored_bucket :: bucket where
  "stored_bucket = \<lparr>bucket_objects = [((''custody'', s3_sample_key), [97, 98, 99])], bucket_faults = []\<rparr>"

lemma s3_sample_put:
  "s3_put sample_s3 bucket_client sample_key [97, 98, 99] abc_digest ''sha256'' \<lparr>bucket_objects = [], bucket_faults = []\<rparr>
   = (Inr \<lparr>stored_provider = ''s3'', stored_namespace = ''prod'', stored_key = sample_key,
           stored_checksum_algorithm = ''sha256'', stored_checksum = abc_digest, stored_size_bytes = 3\<rparr>, stored_bucket)"
  by (simp add: s3_put_def io_simps s3_sample_object_key put_request_def bucket_client_def bucket_call_def Let_def
      stored_bucket_def dict_set_def)

lemma s3_sample_metadata:
  "build_metadata sample_input ''doc_a'' \<lparr>stored_provider = ''s3'', stored_namespace = ''prod'',
     stored_key = sample_key, stored_checksum_algorithm = ''sha256'', stored_checksum = abc_digest,
     stored_size_bytes = 3\<rparr> 0 = Inr s3_document"
proof -
  have "py_strip abc_digest = abc_digest"
    by (rule digest_stripped(1) [of "[97, 98, 99]" "''sha256''"]) simp
  moreover have "py_lower (py_strip ''sha256'') = ''sha256''" "py_strip ''s3'' = ''s3''"
    "py_strip ''prod'' = ''prod''" "py_strip sample_key = sample_key" "py_strip ''doc_a'' = ''doc_a''"
    by (simp_all add: py_strip_def is_space_def sample_key_def ascii_lower_def)
  ultimately show ?thesis
    using sample_input_valid
    by (simp add: build_metadata_def input_valid_def Let_def SUPPORTED_CHECKSUM_ALGORITHM_def s3_document_def
        sample_document_def sample_key_def document_input.defs document_metadata.defs)
qed

lemma s3_document_sel [simp]:
  "document_id s3_document = ''doc_a''" "archive_request_id s3_document = ''req-1''"
  "tenant_id s3_document = ''tenant-1''" "region s3_document = ''SG''"
  "storage_key s3_document = sample_key" "purge_started_at s3_document = None" "size_bytes s3_document = 3"
  by (simp_all add: s3_document_def)

definition s3_tables :: tables where
  "s3_tables = empty_tables\<lparr>archive_documents := [s3_document]\<rparr>"

lemma s3_sample_store:
  "store_new_document s3_sample sample_input [97, 98, 99] abc_digest s3_start
   = (Inr s3_document, s3_start\<lparr>w_repo := reliable_database s3_tables, w_store := stored_bucket,
        w_drawn := 1, w_ticks := 1\<rparr>)"
  using s3_sample_put s3_sample_metadata
  by (simp add: store_new_document_def sample_world_def s3_sample_def s3_postgresql_service_def postgresql_service_def
      s3_start_def sample_uuids_def sample_storage_key SUPPORTED_CHECKSUM_ALGORITHM_def
      try_except_def on_repo_def postgres_ops_def pg_save_def pg_get_by_archive_request_id_def pg_fetch_document_def
      reliable_database_def empty_tables_def transaction_def next_fault_def sql_select_document_def
      sql_save_document_def s3_tables_def seq_io_def bind_io_def gets_def ret_def skip_io_def
      draw_uuid_def read_clock_def on_store_def of_result_def modify_io_def Let_def)

lemma s3_sample_ingest:
  "w_repo (run_calls s3_sample sample_calls s3_start) = reliable_database s3_tables"
  "w_store (run_calls s3_sample sample_calls s3_start) = stored_bucket"
proof -
  have "\<exists>w. run_call s3_sample (hd sample_calls) s3_start = (Inr (), w)
     \<and> w_repo w = reliable_database s3_tables \<and> w_store w = stored_bucket"
    using s3_sample_store
    by (simp add: sample_calls_def ignore_result_def
        create_document_def archive_metric_def seq_io_def bind_io_def authorize_def allowed_callers_for_def
        default_policy_def sample_caller_def s3_sample_def s3_postgresql_service_def postgresql_service_def
        sample_create_def skip_io_def ret_def sample_input_def archive_document_def of_result_def
        validate_artifact_format_def XLSX_MIME_def SUPPORTED_CHECKSUM_ALGORITHM_def check_artifact_identity_def
        on_repo_def postgres_ops_def pg_get_by_archive_request_id_def pg_fetch_document_def transaction_def
        next_fault_def reliable_database_def sql_select_document_def gets_def empty_tables_def sample_world_def
        sample_content s3_start_def record_allowed_def record_access_def draw_uuid_def read_clock_def on_audit_def
        postgres_audit_def modify_io_def record_archive_operation_def IMPLEMENTED_ARCHIVE_OPERATIONS_def
        record_archive_document_size_def size_from_result_def Let_def)
  then show "w_repo (run_calls s3_sample sample_calls s3_start) = reliable_database s3_tables"
    "w_store (run_calls s3_sample sample_calls s3_start) = stored_bucket"
    by (auto simp: sample_calls_def)
qed

lemma s3_sample_row: "st_docs (pg_abs (reliable_database s3_tables)) ''doc_a'' = Some (untimed s3_document)"
  by (simp add: reliable_database_def s3_tables_def empty_tables_def pg_abs_def row_of_def)

end
