(* ===== verification/PurgeDecisions.thy ===== *)
theory PurgeDecisions
  imports Platforms
begin

text \<open>
  What the purge decisions of \<open>Purge\<close> and \<open>ServiceCommands\<close> establish, over any repository that
  keeps its contract: destruction happens only when retention has elapsed and no hold is active,
  and a purge that returns has recorded it and removed the object.
\<close>

section \<open>Runs that return\<close>

abbreviation (input) returning :: "('w \<Rightarrow> bool) \<Rightarrow> ('w, 'a) io \<Rightarrow> ('a \<Rightarrow> 'w \<Rightarrow> bool) \<Rightarrow> bool" where
  "returning P m Q \<equiv> triple P m Q (\<lambda>_ _. True)"

lemma returningI: "(\<And>w x w'. P w \<Longrightarrow> m w = (Inr x, w') \<Longrightarrow> Q x w') \<Longrightarrow> returning P m Q"
  by (rule tripleI) simp_all

lemma returning_pure: "(A \<Longrightarrow> triple P m Q E) \<Longrightarrow> triple (\<lambda>w. P w \<and> A) m Q E"
  by (auto simp: triple_def)

lemma returning_ex: "(\<And>x. triple (P x) m Q E) \<Longrightarrow> triple (\<lambda>w. \<exists>x. P x w) m Q E"
  by (fastforce simp: triple_def)

lemma returning_post: "returning P m Q \<Longrightarrow> (\<And>x w. Q x w \<Longrightarrow> Q' x w) \<Longrightarrow> returning P m Q'"
  by (erule triple_post) simp_all

text \<open>The repository is in a state, on a day.\<close>

definition repo_at ::
    "('r \<Rightarrow> archive_state) \<Rightarrow> ('r \<Rightarrow> bool) \<Rightarrow> archive_state \<Rightarrow> date \<Rightarrow> ('r, 's, 'a) world \<Rightarrow> bool" where
  "repo_at absr wfr s day w \<longleftrightarrow> wfr (w_repo w) \<and> absr (w_repo w) = s \<and> w_today w = day"

definition same_custody :: "('r, 's, 'a) world \<Rightarrow> ('r, 's, 'a) world \<Rightarrow> bool" where
  "same_custody w w' \<longleftrightarrow> w_repo w' = w_repo w \<and> w_store w' = w_store w \<and> w_today w' = w_today w"

lemma recording_frame:
  "record_access A ty caller trace dec reason doc op w = (x, w') \<Longrightarrow> same_custody w w'"
  by (auto simp: record_access_def run_steps on_audit_def same_custody_def split: prod.splits)

lemma metric_frame:
  assumes "archive_metric op view f w = (Inr y, w')"
  obtains w1 where "f w = (Inr y, w1)" "same_custody w1 w'"
  using assms
  by (auto simp: archive_metric_def Let_def returns record_archive_operation_def record_archive_document_size_def
      modify_io_def same_custody_def split: prod.splits sum.splits option.splits if_splits)

lemma repo_at_frame: "same_custody w w' \<Longrightarrow> repo_at absr wfr s day w \<Longrightarrow> repo_at absr wfr s day w'"
  by (simp add: same_custody_def repo_at_def)

text \<open>When a document may be destroyed on a day: its destruction has begun, or no hold is active and retention is over.\<close>

definition purge_lawful :: "archive_state \<Rightarrow> string \<Rightarrow> date \<Rightarrow> bool" where
  "purge_lawful s d day \<longleftrightarrow> (\<exists>m. st_docs s d = Some m \<and> (purge_started_at m \<noteq> None
     \<or> active_holds s d = 0 \<and> (\<exists>until. retain_until_date m = Some until \<and> until \<le> day)))"

section \<open>Decisions on the stored row\<close>

text \<open>A decision made: where the row is afterwards, and why it may be destroyed if it may.\<close>

definition decided ::
    "('r \<Rightarrow> archive_state) \<Rightarrow> ('r \<Rightarrow> bool) \<Rightarrow> archive_state \<Rightarrow> string \<Rightarrow> date \<Rightarrow> date
      \<Rightarrow> document_metadata \<times> bool \<times> string \<Rightarrow> ('r, 's, 'a) world \<Rightarrow> bool" where
  "decided absr wfr s d on_day day = (\<lambda>(m, eligible, _) w. \<exists>s'. repo_at absr wfr s' day w \<and> archive_inv s'
     \<and> st_docs s' d = Some (untimed m) \<and> (eligible \<longrightarrow> purge_lawful s d on_day))"

lemma marked_row:
  "fst (spec_mark_eligible d t s) = Some x \<Longrightarrow> st_docs (snd (spec_mark_eligible d t s)) d = Some x \<and> active_holds s d = 0"
  "fst (spec_mark_eligible d t s) = None \<Longrightarrow> snd (spec_mark_eligible d t s) = s"
  "fst (spec_mark_not_eligible d s) = Some x \<Longrightarrow> st_docs (snd (spec_mark_not_eligible d s)) d = Some x"
  "fst (spec_mark_not_eligible d s) = None \<Longrightarrow> snd (spec_mark_not_eligible d s) = s"
proof -
  have put: "fst (Some y, put_doc d y s) = Some x \<Longrightarrow> st_docs (snd (Some y, put_doc d y s)) d = Some x" for x y
    by simp
  have "spec_mark_eligible d t s = (None, s) \<or> active_holds s d = 0 \<and> (\<exists>y. spec_mark_eligible d t s = (Some y, put_doc d y s))"
    unfolding spec_mark_eligible_def Let_def by (cases "st_docs s d"; simp only: option.case split: if_split) blast+
  then show "fst (spec_mark_eligible d t s) = Some x \<Longrightarrow> st_docs (snd (spec_mark_eligible d t s)) d = Some x \<and> active_holds s d = 0"
    "fst (spec_mark_eligible d t s) = None \<Longrightarrow> snd (spec_mark_eligible d t s) = s" using put by force+
  have "spec_mark_not_eligible d s = (None, s) \<or> (\<exists>y. spec_mark_not_eligible d s = (Some y, put_doc d y s))"
    unfolding spec_mark_not_eligible_def Let_def by (cases "st_docs s d"; simp only: option.case split: if_split) blast+
  then show "fst (spec_mark_not_eligible d s) = Some x \<Longrightarrow> st_docs (snd (spec_mark_not_eligible d s)) d = Some x"
    "fst (spec_mark_not_eligible d s) = None \<Longrightarrow> snd (spec_mark_not_eligible d s) = s" using put by force+
qed

context current_resolution
begin

abbreviation (input) here :: "archive_state \<Rightarrow> date \<Rightarrow> ('r, 's, 'a) world \<Rightarrow> bool" where
  "here s day w \<equiv> repo_at absr wfr s day w"

lemma reading:
  assumes "reads absr wfr m P" "archive_inv s"
  shows "returning (here s day) (on_repo m) (\<lambda>y w. here s day w \<and> P s y)"
proof (rule returningI)
  fix w y w' assume w: "here s day w" and run: "on_repo m w = (Inr y, w')"
  obtain r where "m (w_repo w) = (Inr y, r)" "w' = w\<lparr>w_repo := r\<rparr>"
    using run by (auto simp: on_repo_def split: prod.splits)
  then show "here s day w' \<and> P s y"
    using assms(1) [unfolded reads_def, rule_format, of "w_repo w"] w assms(2) by (simp add: repo_at_def)
qed

lemma refining:
  assumes "refines absr wfr (\<lambda>_. True) m g f" "archive_inv s"
  shows "returning (here s day) (on_repo m) (\<lambda>y w. here (snd (f s)) day w \<and> g y = fst (f s))"
proof (rule returningI)
  fix w y w' assume w: "here s day w" and run: "on_repo m w = (Inr y, w')"
  obtain r where "m (w_repo w) = (Inr y, r)" "w' = w\<lparr>w_repo := r\<rparr>"
    using run by (auto simp: on_repo_def split: prod.splits)
  then show "here (snd (f s)) day w' \<and> g y = fst (f s)"
    using refines_state(1,3) [OF assms(1), of "w_repo w" "Inr y" r] w assms(2) by (simp add: repo_at_def)
qed

lemma clocking: "returning (here s day) read_clock (\<lambda>_. here s day)" "returning (here s day) read_today (\<lambda>t w. here s day w \<and> t = day)"
  by (simp_all add: triple_def read_clock_def read_today_def gets_def repo_at_def)

lemma looking:
  assumes "archive_inv s"
  shows "returning (here s day) (get_existing_metadata svc d) (\<lambda>m w. here s day w \<and> st_docs s d = Some (untimed m))"
    "returning (here s day) (stored_or_raise svc d) (\<lambda>m w. here s day w \<and> st_docs s d = Some (untimed m))"
proof -
  show *: "returning (here s day) (get_existing_metadata svc d) (\<lambda>m w. here s day w \<and> st_docs s d = Some (untimed m))" for d
    unfolding get_existing_metadata_def
    by (rule triple_bind [OF reading [OF get_by_document_id assms]])
      (auto intro!: triple_raise returningI simp: returns split: option.splits)
  show "returning (here s day) (stored_or_raise svc d) (\<lambda>m w. here s day w \<and> st_docs s d = Some (untimed m))"
    using * [unfolded get_existing_metadata_def] by (simp add: stored_or_raise_def)
qed

lemma refreshing:
  assumes "archive_inv s" "st_docs s (document_id m0) = Some (untimed m0)"
  shows "returning (here s day) (refresh_legal_hold_summary svc m0)
    (\<lambda>m w. here s day w \<and> untimed m = untimed m0)"
  unfolding refresh_legal_hold_summary_def
  by (rule triple_bind [OF clocking(1)], rule triple_bind [OF refining [OF refresh assms(1)]])
    (use assms in \<open>auto intro!: triple_ret simp: refresh_unchanged\<close>)

lemma reclassifying_row:
  assumes "archive_inv s"
  shows "returning (here s day) (reclassify_refused_transition svc d)
    (\<lambda>(m, eligible, _) w. here s day w \<and> st_docs s d = Some (untimed m) \<and> (eligible \<longrightarrow> purge_started_at m \<noteq> None))"
proof -
  have started: "\<exists>t. purge_started_at m = Some t" if "st_docs s d = Some (untimed m)" "purge_status m = PURGED" for m
    using purge_recordedD(2) [OF archive_invD(2) [OF assms that(1)]] that(2) by simp
  have listing: "returning (here s day) (on_repo (repo_list_legal_holds (svc_repository svc) d)) (\<lambda>_. here s day)"
    by (rule returning_post [OF reading [OF list_holds assms]]) (rule conjunct1)
  show ?thesis
    unfolding reclassify_refused_transition_def
    by (rule triple_bind [OF looking(2) [OF assms]], rule returning_pure, intro triple_if triple_bind [OF listing])
      (auto intro!: triple_ret dest: started)
qed

lemma undecided:
  assumes "archive_inv s"
  shows "returning (here s day) (reclassify_refused_transition svc d) (decided absr wfr s d on_day day)"
  by (rule returning_post [OF reclassifying_row [OF assms]])
    (use assms in \<open>auto simp: decided_def purge_lawful_def\<close>)

lemma withdrawing:
  assumes "archive_inv s" "document_id m = d"
  shows "returning (here s day) (withdraw_eligibility svc m code) (decided absr wfr s d on_day day)"
  unfolding withdraw_eligibility_def assms(2)
proof (rule triple_bind [OF clocking(1)], rule triple_bind [OF refining [OF mark_not_eligible assms(1)]],
    rule returning_pure, rule triple_option)
  fix now x assume g: "map_option untimed x = fst (spec_mark_not_eligible d s)"
  show "returning (here (snd (spec_mark_not_eligible d s)) day) (reclassify_refused_transition svc d)
      (decided absr wfr s d on_day day)" if "x = None"
    using undecided [OF assms(1)] g that marked_row(4) [of d s] by simp
  show "returning (here (snd (spec_mark_not_eligible d s)) day) (ret (y, False, code)) (decided absr wfr s d on_day day)"
    if "x = Some y" for y
    using g that marked_row(3) [of d s "untimed y"] mark_not_eligible_inv [OF assms(1)]
    by (auto intro!: triple_ret simp: decided_def)
qed

lemma granting:
  assumes "archive_inv s" "document_id m = d" "st_docs s d = Some (untimed m)"
    and "retain_until_date m = Some until" "until \<le> on_day"
  shows "returning (here s day) (grant_eligibility svc m) (decided absr wfr s d on_day day)"
  unfolding grant_eligibility_def assms(2)
proof (rule triple_bind [OF clocking(1)], rule triple_bind [OF clocking(1)],
    rule triple_bind [OF refining [OF mark_eligible assms(1)]], rule returning_pure, rule triple_option)
  fix t x assume g: "map_option untimed x = fst (spec_mark_eligible d t s)"
  show "returning (here (snd (spec_mark_eligible d t s)) day) (reclassify_refused_transition svc d)
      (decided absr wfr s d on_day day)" if "x = None"
    using undecided [OF assms(1)] g that marked_row(2) [of d t s] by simp
  show "returning (here (snd (spec_mark_eligible d t s)) day) (ret (y, True, ''retention_elapsed''))
      (decided absr wfr s d on_day day)" if "x = Some y" for y
    using g that marked_row(1) [of d t s "untimed y"] mark_eligible_inv [OF assms(1)] assms
    by (auto intro!: triple_ret simp: decided_def purge_lawful_def)
qed

text \<open>
  An evaluation never calls a document eligible unless its destruction has begun or its retention
  is over and no hold row is active, and it answers with the row as it then is.
\<close>

lemma evaluation_sound:
  assumes inv: "archive_inv s" and row: "st_docs s d = Some (untimed m)" and on: "on_day = (case when of Some t \<Rightarrow> t | None \<Rightarrow> day)"
  shows "returning (here s day) (evaluate_purge svc m when) (decided absr wfr s d on_day day)"
proof -
  have id: "document_id m = d" using archive_invD(1) [OF inv row] by simp
  have started: "purge_status m = PURGED \<Longrightarrow> purge_started_at m \<noteq> None"
    using purge_recordedD(2) [OF archive_invD(2) [OF inv row]] by simp
  have held: "legal_hold_status m \<noteq> ACTIVE \<Longrightarrow> active_holds s d = 0"
    using archive_invD(4) [OF inv row] by (simp split: if_splits)
  have until: "retain_until_date (untimed m) = retain_until_date m" by (simp add: untimed_def)
  have answered: "returning (here s day) (ret (m, True, code)) (decided absr wfr s d on_day day)"
    if "purge_lawful s d on_day" for code
    using inv row that by (auto intro!: triple_ret simp: decided_def)
  have reading_date: "returning (here s day) (case when of Some t \<Rightarrow> ret t | None \<Rightarrow> read_today)
      (\<lambda>t w. here s day w \<and> t = on_day)"
    by (cases "when") (auto simp: on intro!: triple_ret clocking(2))
  show ?thesis
    unfolding evaluate_purge_def
    by (intro triple_if triple_option withdrawing [OF inv id] answered
        triple_bind [OF reading_date] returning_pure granting [OF inv id row])
      (use row started held until in \<open>auto simp: purge_lawful_def\<close>)
qed

end

context current_resolution
begin

text \<open>The posture a lifecycle decision is signed over is the stored row, and its reading leaves every object alone.\<close>

lemma posture_store: "keeps (\<lambda>w. J (w_store w)) (get_lifecycle_posture svc d)"
  unfolding get_lifecycle_posture_def get_existing_metadata_def refresh_legal_hold_summary_def evaluate_purge_def
    withdraw_eligibility_def grant_eligibility_def reclassify_refused_transition_def stored_or_raise_def
  by (intro wp keeps_prod)

lemma posture_sound:
  assumes inv: "archive_inv s" and w: "here s day w" and run: "get_lifecycle_posture svc d w = (Inr m, w')"
  shows "\<exists>s'. here s' day w' \<and> archive_inv s' \<and> st_docs s' d = Some (untimed m) \<and> w_store w' = w_store w"
proof -
  obtain m0 w1 m1 w2 code e where m0: "get_existing_metadata svc d w = (Inr m0, w1)"
    and m1: "refresh_legal_hold_summary svc m0 w1 = (Inr m1, w2)"
    and e: "evaluate_purge svc m1 (Some (w_today w2)) w2 = (Inr (m, e, code), w')"
    using run by (auto simp: get_lifecycle_posture_def returns read_today_def gets_def split: prod.splits)
  have at1: "here s day w1" and row0: "st_docs s d = Some (untimed m0)"
    using triple_returns [OF looking(1) [OF inv] w m0] by simp_all
  have self: "st_docs s (document_id m0) = Some (untimed m0)"
    using row0 archive_invD(1) [OF inv row0] by simp
  have at2: "here s day w2" and row1: "st_docs s d = Some (untimed m1)"
    using triple_returns [OF refreshing [OF inv self] at1 m1] row0 by simp_all
  have "decided absr wfr s d (w_today w2) day (m, e, code) w'"
    by (rule triple_returns [OF evaluation_sound [OF inv row1] at2 e]) simp
  moreover have "w_store w' = w_store w"
    using keepsD [OF posture_store [of "\<lambda>x. x = w_store w"], of w d] run by simp
  ultimately show ?thesis unfolding decided_def prod.case by blast
qed

end

section \<open>Destruction\<close>

lemma claimed_row:
  "fst (spec_begin_purge d t s) = Some x \<Longrightarrow> st_docs (snd (spec_begin_purge d t s)) d = Some x \<and> purge_started_at x \<noteq> None"
proof -
  have put: "fst (Some y, put_doc d y s) = Some x \<Longrightarrow> st_docs (snd (Some y, put_doc d y s)) d = Some x" for x y
    by simp
  have "spec_begin_purge d t s = (None, s)
    \<or> (\<exists>y. st_docs s d = Some y \<and> purge_started_at y \<noteq> None \<and> spec_begin_purge d t s = (Some y, s))
    \<or> (\<exists>y. spec_begin_purge d t s = (Some (y\<lparr>purge_started_at := Some t\<rparr>), put_doc d (y\<lparr>purge_started_at := Some t\<rparr>) s))"
    unfolding spec_begin_purge_def Let_def by (cases "st_docs s d"; simp only: option.case split: if_split) blast+
  then show "fst (spec_begin_purge d t s) = Some x \<Longrightarrow> st_docs (snd (spec_begin_purge d t s)) d = Some x \<and> purge_started_at x \<noteq> None"
    using put by force
qed

lemma completed_row:
  assumes "st_docs s d = Some m" "purge_started_at m \<noteq> None"
  shows "\<exists>x. fst (spec_complete_purge d t s) = Some x \<and> purge_status x = PURGED
    \<and> storage_key x = storage_key m \<and> st_docs (snd (spec_complete_purge d t s)) d = Some x"
  unfolding spec_complete_purge_def Let_def using assms by (simp split: if_split)

definition object_gone ::
    "('s \<Rightarrow> 'p \<Rightarrow> bytes option) \<Rightarrow> (string \<Rightarrow> 'p option) \<Rightarrow> string \<Rightarrow> ('r, 's, 'a) world \<Rightarrow> bool" where
  "object_gone objects addr key w \<longleftrightarrow> (\<exists>p. addr key = Some p \<and> objects (w_store w) p = None)"

definition purge_done ::
    "('r \<Rightarrow> archive_state) \<Rightarrow> ('r \<Rightarrow> bool) \<Rightarrow> ('s \<Rightarrow> 'p \<Rightarrow> bytes option) \<Rightarrow> (string \<Rightarrow> 'p option)
      \<Rightarrow> string \<Rightarrow> date \<Rightarrow> document_metadata \<times> string \<Rightarrow> ('r, 's, 'a) world \<Rightarrow> bool" where
  "purge_done absr wfr objects addr d day = (\<lambda>(m, reason) w. purge_status m = PURGED
     \<and> (reason = ''purged'' \<longrightarrow> object_gone objects addr (storage_key m) w)
     \<and> (\<exists>s. repo_at absr wfr s day w \<and> archive_inv s \<and> st_docs s d = Some (untimed m)))"

locale purging = current_resolution svc absr wfr + object_storage "svc_storage svc" objects addr scratch
  for svc :: "('r, 's, 'a) archive_service" and absr wfr and objects :: "'s \<Rightarrow> 'p \<Rightarrow> bytes option" and addr scratch
begin

abbreviation (input) gone where "gone \<equiv> object_gone objects addr"
abbreviation (input) destroyed where "destroyed \<equiv> purge_done absr wfr objects addr"

lemma destroyed_frame: "same_custody w w' \<Longrightarrow> destroyed d day r w \<Longrightarrow> destroyed d day r w'"
  by (auto simp: purge_done_def object_gone_def same_custody_def repo_at_def split: prod.splits)

lemma deleting: "returning (here s day) (on_store (store_delete (svc_storage svc) key)) (\<lambda>_ w. here s day w \<and> gone key w)"
  using delete_removes by (fastforce intro!: returningI simp: on_store_def object_gone_def repo_at_def split: prod.splits)

lemma beside_store:
  "returning (here s day) (on_repo m) Q \<Longrightarrow> returning (\<lambda>w. here s day w \<and> gone key w) (on_repo m) (\<lambda>y w. Q y w \<and> gone key w)"
  "returning (\<lambda>w. here s day w \<and> gone key w) read_clock (\<lambda>_ w. here s day w \<and> gone key w)"
  by (auto simp: triple_def on_repo_def object_gone_def read_clock_def repo_at_def split: prod.splits sum.splits)

lemma recorded: "(\<And>w w'. same_custody w w' \<Longrightarrow> P w \<Longrightarrow> P w') \<Longrightarrow> returning P (record_allowed svc ty caller trace d op) (\<lambda>_. P)"
  unfolding record_allowed_def by (rule returningI) (metis recording_frame)

lemma executing:
  assumes inv: "archive_inv s"
  shows "returning (here s day) (execute_purge svc d caller trace) (destroyed d day)"
proof -
  have claim: "returning (here s day) (on_repo (repo_begin_purge (svc_repository svc) d t))
      (\<lambda>x w. here (snd (spec_begin_purge d t s)) day w \<and> map_option untimed x = fst (spec_begin_purge d t s))" for t
    by (rule refining [OF begin_purge inv])
  have rest: "returning (here s1 day) (seq_io (on_store (store_delete (svc_storage svc) (storage_key m)))
           (bind_io read_clock (\<lambda>purged. bind_io read_clock (\<lambda>now.
            bind_io (on_repo (repo_complete_purge (svc_repository svc) d purged now)) (\<lambda>completed.
            let m' = (case completed of Some x \<Rightarrow> x | None \<Rightarrow> m) in
              seq_io (record_allowed svc PURGE_EXECUTION caller trace d (Some ''purged''))
                (ret (m', ''purged''))))))) (destroyed d day)"
    if s1: "archive_inv s1" "st_docs s1 d = Some (untimed m)" "purge_started_at m \<noteq> None" for s1 m
  proof (rule triple_seq [OF deleting], rule triple_bind [OF beside_store(2)], rule triple_bind [OF beside_store(2)],
      rule triple_bind [OF beside_store(1) [OF refining [OF complete_purge s1(1)]]])
    fix purged now and completed :: "document_metadata option"
    let ?s2 = "snd (spec_complete_purge d purged s1)"
    obtain x where x: "fst (spec_complete_purge d purged s1) = Some x" "purge_status x = PURGED"
      "storage_key x = storage_key m" "st_docs ?s2 d = Some x"
      using completed_row [OF s1(2), of purged] s1(3) by fastforce
    have ends: "destroyed d day (y, ''purged'') w"
      if "(here ?s2 day w \<and> map_option untimed (Some y) = fst (spec_complete_purge d purged s1)) \<and> gone (storage_key m) w"
      for w y
      using that x complete_purge_inv [OF s1(1), of d purged] by (auto simp: purge_done_def)
    show "returning (\<lambda>w. (here ?s2 day w \<and> map_option untimed completed = fst (spec_complete_purge d purged s1)) \<and> gone (storage_key m) w)
        (let m' = (case completed of Some x \<Rightarrow> x | None \<Rightarrow> m) in
              seq_io (record_allowed svc PURGE_EXECUTION caller trace d (Some ''purged''))
                (ret (m', ''purged''))) (destroyed d day)"
    proof (cases completed)
      case None
      then show ?thesis using x(1) by (simp add: triple_def)
    next
      case (Some y)
      show ?thesis
        unfolding Some Let_def option.case
        by (rule triple_pre [OF triple_seq [OF recorded [OF destroyed_frame] triple_ret]], assumption+)
            (rule ends, simp only: Some)
    qed
  qed
  show ?thesis
    unfolding execute_purge_def
  proof (rule triple_bind [OF clocking(1)], rule triple_bind [OF claim], rule returning_pure, rule triple_option)
    fix t x assume g: "map_option untimed x = fst (spec_begin_purge d t s)"
    show "returning (here (snd (spec_begin_purge d t s)) day)
        (seq_io (record_allowed svc PURGE_EXECUTION caller trace d (Some ''legal_hold_active'')) (raise LegalHoldActiveError))
        (destroyed d day)" by (rule returningI) (simp add: returns)
    show "returning (here (snd (spec_begin_purge d t s)) day) (seq_io (on_store (store_delete (svc_storage svc) (storage_key m)))
           (bind_io read_clock (\<lambda>purged. bind_io read_clock (\<lambda>now.
            bind_io (on_repo (repo_complete_purge (svc_repository svc) d purged now)) (\<lambda>completed.
            let m' = (case completed of Some x \<Rightarrow> x | None \<Rightarrow> m) in
              seq_io (record_allowed svc PURGE_EXECUTION caller trace d (Some ''purged''))
                (ret (m', ''purged''))))))) (destroyed d day)" if "x = Some m" for m
      using g that claimed_row [of d t s "untimed m"] by (intro rest begin_purge_inv [OF inv]) simp_all
  qed
qed

lemma looking_authorized:
  assumes "archive_inv s"
  shows "returning (here s day) (get_tenant_authorized_document_metadata svc d p caller trace)
    (\<lambda>m w. here s day w \<and> st_docs s d = Some (untimed m))"
proof (rule returningI)
  fix w m w' assume w: "here s day w" and run: "get_tenant_authorized_document_metadata svc d p caller trace w = (Inr m, w')"
  then have "get_existing_metadata svc d w = (Inr m, w')"
    by (auto simp: get_tenant_authorized_document_metadata_def returns authorize_returns tenant_scope_returns)
  then show "here s day w' \<and> st_docs s d = Some (untimed m)"
    using triple_returns [OF looking(1) [OF assms] w] by blast
qed

lemma concluding:
  "returning (decided absr wfr s d on_day day (m2, eligible, code))
     (if \<not> eligible
      then seq_io (record_allowed svc PURGE_EXECUTION caller trace d (Some code))
             (if code = ''legal_hold_active'' then raise LegalHoldActiveError else raise PurgeNotEligibleError)
      else execute_purge svc d caller trace)
     (\<lambda>r w. destroyed d day r w \<and> purge_lawful s d on_day)"
proof (rule triple_if)
  assume "\<not> \<not> eligible"
  then have pre: "\<exists>s'. here s' day w \<and> archive_inv s' \<and> purge_lawful s d on_day"
    if "decided absr wfr s d on_day day (m2, eligible, code) w" for w
    using that \<open>\<not> \<not> eligible\<close> unfolding decided_def prod.case by blast
  have step: "returning (\<lambda>w. here s' day w \<and> archive_inv s' \<and> purge_lawful s d on_day) (execute_purge svc d caller trace)
      (\<lambda>r w. destroyed d day r w \<and> purge_lawful s d on_day)" for s'
    by (rule returning_pure, rule returning_post [OF executing]) simp_all
  show "returning (decided absr wfr s d on_day day (m2, eligible, code)) (execute_purge svc d caller trace)
      (\<lambda>r w. destroyed d day r w \<and> purge_lawful s d on_day)"
    by (rule triple_pre [OF returning_ex [OF step]]) (rule pre)
qed (rule returningI, simp add: returns split: if_splits)

lemma already_purged:
  assumes "archive_inv s" "st_docs s d = Some (untimed m)" "purge_status m = PURGED"
  shows "returning (here s day) (seq_io (record_allowed svc PURGE_EXECUTION caller trace d (Some ''already_purged''))
      (ret (m, ''already_purged''))) (\<lambda>r w. destroyed d day r w \<and> purge_lawful s d on_day)"
proof -
  have ends: "destroyed d day (m, ''already_purged'') w \<and> purge_lawful s d on_day" if "here s day w" for w
    using that assms purge_recordedD(2) [OF archive_invD(2) [OF assms(1,2)]]
    by (auto simp: purge_done_def purge_lawful_def)
  show ?thesis
    by (rule triple_seq [OF recorded [OF repo_at_frame] triple_ret], assumption+) (erule ends)
qed

text \<open>
  A purge that returns has recorded the destruction, and removed the object unless that was done
  before; and it was lawful in the state the call began in.
\<close>

lemma purge_sound:
  assumes inv: "archive_inv s" and day: "on_day = (case when of Some t \<Rightarrow> t | None \<Rightarrow> day)"
    and w: "here s day w" and run: "purge_document svc d caller trace when w = (Inr r, w')"
  shows "destroyed d day r w' \<and> purge_lawful s d on_day"
proof -
  obtain w1 where run1: "(bind_io (get_tenant_authorized_document_metadata svc d EXECUTE_PURGE caller trace) (\<lambda>m0.
      bind_io (refresh_legal_hold_summary svc m0) (\<lambda>m1.
        if purge_status m1 = PURGED
        then seq_io (record_allowed svc PURGE_EXECUTION caller trace d (Some ''already_purged''))
               (ret (m1, ''already_purged''))
        else bind_io (evaluate_purge svc m1 when) (\<lambda>(m2, eligible, reason_code).
          if \<not> eligible
          then seq_io (record_allowed svc PURGE_EXECUTION caller trace d (Some reason_code))
                 (if reason_code = ''legal_hold_active'' then raise LegalHoldActiveError
                  else raise PurgeNotEligibleError)
          else execute_purge svc d caller trace)))) w = (Inr r, w1)" and same: "same_custody w1 w'"
    by (rule metric_frame [OF run [unfolded purge_document_def]])
  obtain m0 w2 where m0: "get_tenant_authorized_document_metadata svc d EXECUTE_PURGE caller trace w = (Inr m0, w2)"
    and run2: "(bind_io (refresh_legal_hold_summary svc m0) (\<lambda>m1.
        if purge_status m1 = PURGED
        then seq_io (record_allowed svc PURGE_EXECUTION caller trace d (Some ''already_purged''))
               (ret (m1, ''already_purged''))
        else bind_io (evaluate_purge svc m1 when) (\<lambda>(m2, eligible, reason_code).
          if \<not> eligible
          then seq_io (record_allowed svc PURGE_EXECUTION caller trace d (Some reason_code))
                 (if reason_code = ''legal_hold_active'' then raise LegalHoldActiveError
                  else raise PurgeNotEligibleError)
          else execute_purge svc d caller trace))) w2 = (Inr r, w1)"
    using run1 unfolding bind_returns by blast
  have at2: "here s day w2" and row0: "st_docs s d = Some (untimed m0)"
    using triple_returns [OF looking_authorized [OF inv] w m0] by simp_all
  have self: "st_docs s (document_id m0) = Some (untimed m0)"
    using row0 archive_invD(1) [OF inv row0] by simp
  obtain m1 w3 where m1: "refresh_legal_hold_summary svc m0 w2 = (Inr m1, w3)"
    and run3: "(if purge_status m1 = PURGED
        then seq_io (record_allowed svc PURGE_EXECUTION caller trace d (Some ''already_purged''))
               (ret (m1, ''already_purged''))
        else bind_io (evaluate_purge svc m1 when) (\<lambda>(m2, eligible, reason_code).
          if \<not> eligible
          then seq_io (record_allowed svc PURGE_EXECUTION caller trace d (Some reason_code))
                 (if reason_code = ''legal_hold_active'' then raise LegalHoldActiveError
                  else raise PurgeNotEligibleError)
          else execute_purge svc d caller trace)) w3 = (Inr r, w1)"
    using run2 unfolding bind_returns [of "refresh_legal_hold_summary svc m0"] by blast
  have at3: "here s day w3" and row1: "st_docs s d = Some (untimed m1)"
    using triple_returns [OF refreshing [OF inv self] at2 m1] row0 by simp_all
  have "destroyed d day r w1 \<and> purge_lawful s d on_day"
  proof (cases "purge_status m1 = PURGED")
    case True
    then show ?thesis using run3 triple_returns [OF already_purged [OF inv row1 True] at3] by simp
  next
    case False
    obtain x w4 where e: "evaluate_purge svc m1 when w3 = (Inr x, w4)"
      and run4: "(case x of (m2, eligible, code) \<Rightarrow> if \<not> eligible
          then seq_io (record_allowed svc PURGE_EXECUTION caller trace d (Some code))
                 (if code = ''legal_hold_active'' then raise LegalHoldActiveError else raise PurgeNotEligibleError)
          else execute_purge svc d caller trace) w4 = (Inr r, w1)"
      using run3 unfolding if_not_P [OF False] bind_returns [of "evaluate_purge svc m1 when"] by blast
    obtain m2 eligible code where x: "x = (m2, eligible, code)" by (cases x)
    show ?thesis
      by (rule triple_returns [OF concluding triple_returns [OF evaluation_sound [OF inv row1 day] at3 e, unfolded x]
            run4 [unfolded x prod.case]])
  qed
  then show ?thesis using destroyed_frame [OF same] by blast
qed

end

interpretation mem_purge: purging "in_memory_service (filesystem_store ns) n rd" mem_abs mem_wf fs_objects fs_addr temporary_path
  by (intro purging.intro mem_current.current_resolution_axioms) (simp add: fs.object_storage_axioms)

interpretation pg_purge: purging "postgresql_service (filesystem_store ns) n rd" pg_abs pg_wf fs_objects fs_addr temporary_path
  by (intro purging.intro pg_current.current_resolution_axioms) (simp add: fs.object_storage_axioms)

end
