(* ===== verification/HttpApi.thy ===== *)
theory HttpApi
  imports LifecycleDecisions RequestCorrelation PurgeDecisions
begin

text \<open>
  The routes of \<open>src/app/archive/api.py\<close> with the request and response models of
  \<open>src/app/archive/api_models.py\<close>, over a service composed as \<open>runtime.py\<close> composes it. The
  framework resolves a route's dependencies, the caller context among them, before it validates
  the body and the query; a body that fails validation answers 422.
\<close>

section \<open>Requests\<close>

record http_request =
  rq_headers :: headers
  rq_ids :: request_ids

definition request_caller_context :: "http_request \<Rightarrow> exc + caller_context" where
  "request_caller_context rq = caller_context_from_headers (rq_headers rq) (req_correlation_id (rq_ids rq))"

definition request_trace_id :: "http_request \<Rightarrow> string" where
  "request_trace_id rq = req_trace_id (rq_ids rq)"

definition DEFAULT_EVENT_LIMIT :: int where
  "DEFAULT_EVENT_LIMIT = 50"

definition MAX_EVENT_LIMIT :: int where
  "MAX_EVENT_LIMIT = 100"

definition validate_page_query :: "int option \<Rightarrow> int option \<Rightarrow> exc + nat \<times> nat" where
  "validate_page_query limit offset =
     (let l = (case limit of None \<Rightarrow> DEFAULT_EVENT_LIMIT | Some n \<Rightarrow> n);
          k = (case offset of None \<Rightarrow> 0 | Some n \<Rightarrow> n) in
      and_then (run_checks [(1 \<le> l \<and> l \<le> MAX_EVENT_LIMIT, ValidationError ''limit''), (0 \<le> k, ValidationError ''offset'')])
        (Inr (nat l, nat k)))"

definition validate_preflight_request :: "string list \<Rightarrow> exc + string list" where
  "validate_preflight_request raw =
     (let values = map py_strip raw in
      and_then (run_checks
        [(1 \<le> length values \<and> length values \<le> MAX_PREFLIGHT_DOCUMENT_IDS, ValidationError ''document_ids''),
         (list_all (\<lambda>v. v \<noteq> [] \<and> length v \<le> 128) values,
          ValueError ''document identifiers must be non-empty and at most 128 characters''),
         (list_all (\<lambda>v. CHR ''/'' \<notin> set v \<and> CHR 0x5C \<notin> set v \<and> CHR 0x00 \<notin> set v) values,
          ValueError ''document identifiers must be opaque single-segment values''),
         (distinct values, ValueError ''document identifiers must be unique'')]) (Inr values))"

definition validate_create_request :: "create_command \<Rightarrow> exc + create_command" where
  "validate_create_request raw =
     bind_result (validate_document_input (cc_metadata raw)) (\<lambda>m.
       if cc_content_base64 raw = [] then Inl (ValidationError ''content_base64'')
       else Inr \<lparr>cc_metadata = m, cc_content_base64 = cc_content_base64 raw\<rparr>)"

definition validate_hold_request :: "legal_hold_command \<Rightarrow> exc + legal_hold_command" where
  "validate_hold_request c =
     and_then (run_checks [(lh_hold_reason c \<noteq> [], ValidationError ''hold_reason''),
       (lh_authority_reference c \<noteq> [], ValidationError ''authority_reference'')]) (Inr c)"

definition validate_release_request :: "string \<Rightarrow> exc + string" where
  "validate_release_request reason = (if reason = [] then Inl (ValidationError ''release_reason'') else Inr reason)"

definition blocked_tokens :: "string list" where
  "blocked_tokens = [''client-ref'', ''client_reference'', ''storage_key'', ''s3://'', ''raw_payload'', ''trace_id'',
     ''correlation_id'']"

definition validate_lifecycle_request :: "lifecycle_command \<Rightarrow> exc + lifecycle_command" where
  "validate_lifecycle_request c =
     and_then (run_checks
       [(lc_target_document_id c \<noteq> [], ValidationError ''target_document_id''),
        (lc_transition_reason c \<noteq> [] \<and> length (lc_transition_reason c) \<le> 200, ValidationError ''transition_reason''),
        (\<not> list_ex (\<lambda>t. contains_sub t (py_lower (lc_transition_reason c))) blocked_tokens,
         ValueError ''transition_reason must not contain sensitive support identifiers'')]) (Inr c)"

section \<open>Responses\<close>

text \<open>\<open>ArchiveDocumentResponse\<close>: the input's fields and the ones below.\<close>

record document_response = document_input +
  res_document_id :: string
  res_checksum_algorithm :: string
  res_checksum :: string
  res_size_bytes :: int
  res_purge_status :: purge_status
  res_legal_hold_status :: legal_hold_status
  res_legal_hold_count :: int
  res_supersedes_document_id :: "string option"
  res_superseded_by_document_id :: "string option"
  res_correction_of_document_id :: "string option"
  res_reissue_of_document_id :: "string option"
  res_created_at :: instant
  res_updated_at :: instant

definition document_response_of :: "document_metadata \<Rightarrow> document_response" where
  "document_response_of m = document_input.extend (input_fields m)
     (document_response.fields (document_id m) (checksum_algorithm m) (checksum m) (size_bytes m) (purge_status m)
        (legal_hold_status m) (legal_hold_count m) (supersedes_document_id m) (superseded_by_document_id m)
        (correction_of_document_id m) (reissue_of_document_id m) (created_at m) (updated_at m))"

record retention_response =
  ret_document_id :: string
  ret_retention_policy_id :: "string option"
  ret_retention_start_date :: "date option"
  ret_retain_until_date :: "date option"
  ret_purge_eligible_at :: "instant option"
  ret_purged_at :: "instant option"
  ret_purge_status :: purge_status
  ret_legal_hold_status :: legal_hold_status
  ret_legal_hold_count :: int

definition retention_response_of :: "document_metadata \<Rightarrow> retention_response" where
  "retention_response_of m =
     \<lparr>ret_document_id = document_id m, ret_retention_policy_id = retention_policy_id m,
      ret_retention_start_date = retention_start_date m, ret_retain_until_date = retain_until_date m,
      ret_purge_eligible_at = purge_eligible_at m, ret_purged_at = purged_at m, ret_purge_status = purge_status m,
      ret_legal_hold_status = legal_hold_status m, ret_legal_hold_count = legal_hold_count m\<rparr>"

record purge_evaluation_response = retention_response +
  pe_purge_eligible :: bool
  pe_reason_code :: string

record purge_execution_response = retention_response +
  px_purged :: bool
  px_reason_code :: string

record preflight_response =
  pf_result_state :: preflight_result_state
  pf_requested_count :: nat
  pf_returned_count :: nat
  pf_items :: "access_preflight_item list"

definition preflight_response_of :: "preflight_result \<Rightarrow> exc + preflight_response" where
  "preflight_response_of r =
     (if list_all (\<lambda>i. item_reason i \<in> RESPONSE_REASON_CODES) (preflight_items r)
      then Inr \<lparr>pf_result_state = preflight_state r, pf_requested_count = length (preflight_items r),
                pf_returned_count = length (preflight_items r), pf_items = preflight_items r\<rparr>
      else Inl (ValidationError ''reason_code''))"

record relationship_response = lifecycle_relationship +
  rel_current_document_id :: string

definition relationship_response_of :: "lifecycle_relationship \<Rightarrow> string \<Rightarrow> relationship_response" where
  "relationship_response_of r current = lifecycle_relationship.extend r (relationship_response.fields current)"

definition page_of :: "'x list \<Rightarrow> nat \<Rightarrow> nat \<Rightarrow> 'x list \<times> nat option" where
  "page_of items limit offset =
     (take limit (drop offset items), if offset + limit < length items then Some (offset + limit) else None)"

record access_event_list_response =
  ael_document_id :: string
  ael_returned_count :: nat
  ael_total_count :: nat
  ael_limit :: nat
  ael_offset :: nat
  ael_next_offset :: "nat option"
  ael_events :: "access_audit_event list"

record source_events_response =
  se_service :: string
  se_source_event_family :: string
  se_document_id :: string
  se_current_document_id :: string
  se_portfolio_id :: "string option"
  se_composite_id :: "string option"
  se_composite_report_identity :: "composite_custody_identity option"
  se_report_type :: generated_report_type
  se_event_count :: nat
  se_returned_count :: nat
  se_total_count :: nat
  se_limit :: nat
  se_offset :: nat
  se_next_offset :: "nat option"
  se_delivery_mode :: string
  se_replay_contract :: string
  se_no_raw_payloads :: bool
  se_latest_event_at :: "instant option"
  se_events :: "source_event list"

definition source_events_response_of ::
    "document_metadata \<Rightarrow> document_metadata \<Rightarrow> source_event list \<Rightarrow> nat \<Rightarrow> nat \<Rightarrow> source_events_response" where
  "source_events_response_of m current events limit offset =
     (case page_of events limit offset of (shown, next_offset) \<Rightarrow>
       \<lparr>se_service = ''lotus-archive'', se_source_event_family = SOURCE_EVENT_FAMILY,
        se_document_id = document_id m, se_current_document_id = document_id current,
        se_portfolio_id = portfolio_id m, se_composite_id = composite_id m,
        se_composite_report_identity = composite_report_identity m, se_report_type = report_type m,
        se_event_count = length shown, se_returned_count = length shown, se_total_count = length events,
        se_limit = limit, se_offset = offset, se_next_offset = next_offset, se_delivery_mode = DELIVERY_MODE,
        se_replay_contract = REPLAY_CONTRACT, se_no_raw_payloads = True,
        se_latest_event_at = latest_event_time shown, se_events = shown\<rparr>)"

record download_response =
  dl_content :: bytes
  dl_media_type :: string
  dl_headers :: headers

definition download_response_of :: "document_metadata \<times> bytes \<Rightarrow> download_response" where
  "download_response_of = (\<lambda>(m, content).
     \<lparr>dl_content = content, dl_media_type = mime_type m,
      dl_headers = [(''Content-Disposition'', ''attachment; filename='' @ [CHR 0x22] @ document_id m @ ''.'' @ output_format m @ [CHR 0x22]),
                    (''X-Document-Checksum-Algorithm'', checksum_algorithm m),
                    (''X-Document-Checksum'', checksum m)]\<rparr>)"

section \<open>Routes\<close>

type_synonym 'b http_answer = "nat \<times> (error_detail + 'b)"

definition refusal :: "nat \<times> error_detail \<Rightarrow> 'b http_answer" where
  "refusal r = (fst r, Inl (snd r))"

definition answer :: "nat \<Rightarrow> http_request \<Rightarrow> ('w, 'b) io \<Rightarrow> 'w \<Rightarrow> 'b http_answer \<times> 'w" where
  "answer ok rq handler w = (case handler w of
     (Inl e, w') \<Rightarrow> (refusal (exception_response (req_correlation_id (rq_ids rq)) e), w')
   | (Inr b, w') \<Rightarrow> ((ok, Inr b), w'))"

definition route ::
    "nat \<Rightarrow> http_request \<Rightarrow> exc + 'v \<Rightarrow> ('v \<Rightarrow> caller_context \<Rightarrow> ('w, 'b) io) \<Rightarrow> 'w \<Rightarrow> 'b http_answer \<times> 'w" where
  "route ok rq input handler w =
     (case request_caller_context rq of
        Inl e \<Rightarrow> (refusal (exception_response (req_correlation_id (rq_ids rq)) e), w)
      | Inr u \<Rightarrow> (case input of
          Inl _ \<Rightarrow> (refusal (request_validation_response (req_correlation_id (rq_ids rq))), w)
        | Inr v \<Rightarrow> answer ok rq (handler v u) w))"

definition http_create_document where
  "http_create_document svc raw rq = route 201 rq (validate_create_request raw) (\<lambda>c u.
     bind_io (create_document svc c u (request_trace_id rq)) (\<lambda>m. ret (document_response_of m)))"

definition http_preflight_document_access where
  "http_preflight_document_access svc raw rq = route 200 rq (validate_preflight_request raw) (\<lambda>ds u.
     bind_io (preflight_document_access svc ds u (request_trace_id rq)) (\<lambda>r. of_result (preflight_response_of r)))"

definition http_get_document_by_request_id where
  "http_get_document_by_request_id svc q rq = route 200 rq (Inr ()) (\<lambda>_ u.
     bind_io (get_document_metadata_by_request_id svc q u (request_trace_id rq)) (\<lambda>m. ret (document_response_of m)))"

definition http_get_document where
  "http_get_document svc d rq = route 200 rq (Inr ()) (\<lambda>_ u.
     bind_io (get_document_metadata svc d u (request_trace_id rq)) (\<lambda>m. ret (document_response_of m)))"

definition http_get_current_document where
  "http_get_current_document svc d rq = route 200 rq (Inr ()) (\<lambda>_ u.
     bind_io (get_current_document_metadata svc d u (request_trace_id rq)) (\<lambda>m. ret (document_response_of m)))"

definition http_list_document_source_events where
  "http_list_document_source_events svc d limit offset rq = route 200 rq (validate_page_query limit offset) (\<lambda>(l, k) u.
     bind_io (list_document_source_events svc d u (request_trace_id rq)) (\<lambda>(m, current, events).
       ret (source_events_response_of m current events l k)))"

definition http_download_document where
  "http_download_document svc d rq = route 200 rq (Inr ()) (\<lambda>_ u.
     bind_io (get_document_binary svc d u (request_trace_id rq)) (\<lambda>r. ret (download_response_of r)))"

definition http_list_access_events where
  "http_list_access_events svc d limit offset rq = route 200 rq (validate_page_query limit offset) (\<lambda>(l, k) u.
     bind_io (list_access_events svc d u (request_trace_id rq) (Some l) k) (\<lambda>(shown, total).
       ret \<lparr>ael_document_id = d, ael_returned_count = length shown, ael_total_count = total, ael_limit = l, ael_offset = k,
            ael_next_offset = (if k + l < total then Some (k + l) else None), ael_events = shown\<rparr>))"

definition http_get_retention where
  "http_get_retention svc d rq = route 200 rq (Inr ()) (\<lambda>_ u.
     bind_io (get_retention svc d u (request_trace_id rq)) (\<lambda>m. ret (retention_response_of m)))"

definition http_evaluate_purge where
  "http_evaluate_purge svc d rq = route 200 rq (Inr ()) (\<lambda>_ u.
     bind_io (service_evaluate_purge svc d u (request_trace_id rq) None) (\<lambda>(m, eligible, reason).
       ret (retention_response.extend (retention_response_of m) (purge_evaluation_response.fields eligible reason))))"

definition http_purge_document where
  "http_purge_document svc d rq = route 200 rq (Inr ()) (\<lambda>_ u.
     bind_io (purge_document svc d u (request_trace_id rq) None) (\<lambda>(m, reason).
       ret (retention_response.extend (retention_response_of m) (purge_execution_response.fields True reason))))"

definition http_set_legal_hold where
  "http_set_legal_hold svc d raw rq = route 201 rq (validate_hold_request raw) (\<lambda>c u. set_legal_hold svc d c u (request_trace_id rq))"

definition http_release_legal_hold where
  "http_release_legal_hold svc d hid raw rq = route 200 rq (validate_release_request raw) (\<lambda>reason u.
     release_legal_hold svc d hid reason u (request_trace_id rq))"

definition http_supersede_document where
  "http_supersede_document svc d raw rq = route 201 rq (validate_lifecycle_request raw) (\<lambda>c u.
     bind_io (supersede_document svc d c u (request_trace_id rq)) (\<lambda>(r, current). ret (relationship_response_of r (document_id current))))"

definition http_correct_document where
  "http_correct_document svc d raw rq = route 201 rq (validate_lifecycle_request raw) (\<lambda>c u.
     bind_io (correct_document svc d c u (request_trace_id rq)) (\<lambda>(r, current). ret (relationship_response_of r (document_id current))))"

definition http_reissue_document where
  "http_reissue_document svc d raw rq = route 201 rq (validate_lifecycle_request raw) (\<lambda>c u.
     bind_io (reissue_document svc d c u (request_trace_id rq)) (\<lambda>(r, current). ret (relationship_response_of r (document_id current))))"

text \<open>The idempotency key is a header with at least one character, stripped afterwards.\<close>

definition http_issue_idea_lifecycle_decision where
  "http_issue_idea_lifecycle_decision show_time svc d raw key rq =
     route 201 rq (and_then (run_checks [(truthy key, ValidationError ''Idempotency-Key'')]) (validate_decision_request raw))
       (\<lambda>req u. issue show_time svc d req (py_strip (the key)) u (request_trace_id rq) None)"

section \<open>What a caller can rely on\<close>

lemma caller_refusal: "request_caller_context rq = Inl e \<Longrightarrow> \<exists>hs. e = CallerContextMissingError hs \<and> hs \<noteq> []"
  by (auto simp: request_caller_context_def caller_context_from_headers_def Let_def split: if_splits)

lemma route_unidentified:
  assumes "request_caller_context rq = Inl e"
  shows "fst (fst (route ok rq input handler w)) = 401 \<and> snd (route ok rq input handler w) = w"
  using caller_refusal [OF assms] assms
  by (auto simp: route_def refusal_def exception_response_def error_response_def handler_for_def)

definition turned_away :: "('w \<Rightarrow> 'b http_answer \<times> 'w) \<Rightarrow> bool" where
  "turned_away m \<longleftrightarrow> (\<forall>w. fst (fst (m w)) = 401 \<and> snd (m w) = w)"

lemma route_turned_away: "request_caller_context rq = Inl e \<Longrightarrow> turned_away (route ok rq input handler)"
  unfolding turned_away_def by (rule allI) (rule route_unidentified)

lemmas routes = http_create_document_def http_preflight_document_access_def http_get_document_by_request_id_def
  http_get_document_def http_get_current_document_def http_list_document_source_events_def
  http_download_document_def http_list_access_events_def http_get_retention_def http_evaluate_purge_def
  http_purge_document_def http_set_legal_hold_def http_release_legal_hold_def http_supersede_document_def
  http_correct_document_def http_reissue_document_def http_issue_idea_lifecycle_decision_def

lemma route_invalid:
  assumes "request_caller_context rq = Inr u" "input = Inl e"
  shows "fst (fst (route ok rq input handler w)) = 422 \<and> snd (route ok rq input handler w) = w"
  using assms by (simp add: route_def refusal_def request_validation_response_def error_response_def)

lemma route_returns:
  assumes "route ok rq input handler w = ((code, Inr b), w')"
  obtains u v where "request_caller_context rq = Inr u" "input = Inr v" "handler v u w = (Inr b, w')" "code = ok"
  using assms by (auto simp: route_def answer_def refusal_def split: sum.splits prod.splits)

lemma route_refusal:
  assumes "route ok rq input handler w = ((code, Inl d), w')"
  shows "err_correlation_id d = req_correlation_id (rq_ids rq) \<and> code \<in> {400, 401, 403, 404, 409, 422, 500, 503}
    \<and> (err_message d \<in> snd ` set SAFE_ERROR_MESSAGES
       \<or> (\<exists>u v e. request_caller_context rq = Inr u \<and> input = Inr v \<and> handler v u w = (Inl e, w') \<and> discloses_text e))"
proof -
  have safe: "err_correlation_id (snd (request_validation_response c)) = c" "fst (request_validation_response c) = 422"
    "err_message (snd (request_validation_response c)) \<in> snd ` set SAFE_ERROR_MESSAGES" for c
    using safe_message_member [of "''validation_failed''"] by (simp_all add: request_validation_response_def error_response_def)
  have stat: "fst (exception_response c e) \<in> {400, 401, 403, 404, 409, 422, 500, 503}"
    "err_correlation_id (snd (exception_response c e)) = c" for c e
    using handler_status [of e] by (cases "handler_for e"; simp add: exception_response_def error_response_def)+
  show ?thesis
  proof (cases "request_caller_context rq")
    case (Inl e)
    then have e: "d = snd (exception_response (req_correlation_id (rq_ids rq)) e)"
      "code = fst (exception_response (req_correlation_id (rq_ids rq)) e)"
      using assms by (simp_all add: route_def refusal_def)
    have "\<not> discloses_text e" using caller_refusal [OF Inl] by auto
    then show ?thesis using e stat response_support_safe(1) by metis
  next
    case (Inr u)
    note u = Inr
    show ?thesis
    proof (cases input)
      case (Inl e)
      then show ?thesis using assms u safe by (auto simp: route_def refusal_def)
    next
      case (Inr v)
      then obtain e where e: "handler v u w = (Inl e, w')"
        "d = snd (exception_response (req_correlation_id (rq_ids rq)) e)"
        "code = fst (exception_response (req_correlation_id (rq_ids rq)) e)"
        using assms u by (auto simp: route_def answer_def refusal_def split: sum.splits prod.splits)
      then show ?thesis using u Inr stat response_support_safe(1) by metis
    qed
  qed
qed

text \<open>The projection of a document does not depend on where its bytes are.\<close>

lemma response_hides_storage:
  "document_response_of (m\<lparr>storage_provider := p, storage_namespace := n, storage_key := k\<rparr>) = document_response_of m"
  by (simp add: document_response_of_def input_fields_def document_input.truncate_def)

text \<open>Following \<open>next_offset\<close> from an offset collects every later item once, in order.\<close>

function all_pages :: "'x list \<Rightarrow> nat \<Rightarrow> nat \<Rightarrow> 'x list" where
  "all_pages items limit offset =
     (if limit = 0 then [] else (case page_of items limit offset of
        (p, None) \<Rightarrow> p | (p, Some k) \<Rightarrow> p @ all_pages items limit k))"
  by pat_completeness auto
termination
  by (relation "measure (\<lambda>(items, limit, offset). length items - offset)")
    (auto simp: page_of_def split: if_splits)

declare all_pages.simps [simp del]

lemma pages_complete: "0 < limit \<Longrightarrow> all_pages items limit offset = drop offset items"
proof (induction items limit offset rule: all_pages.induct)
  case (1 items limit offset)
  show ?case
  proof (cases "offset + limit < length items")
    case True
    then have "all_pages items limit (offset + limit) = drop (offset + limit) items"
      using 1 by (simp add: page_of_def)
    then have "all_pages items limit offset = take limit (drop offset items) @ drop limit (drop offset items)"
      using True 1(2) by (subst all_pages.simps) (simp add: page_of_def add.commute)
    then show ?thesis by (simp only: append_take_drop_id)
  next
    case False
    then show ?thesis using 1(2) by (subst all_pages.simps) (simp add: page_of_def)
  qed
qed

lemma accepted_page: "validate_page_query limit offset = Inr (l, k) \<Longrightarrow> 0 < l \<and> l \<le> 100"
  by (auto simp: validate_page_query_def Let_def MAX_EVENT_LIMIT_def split: option.splits if_splits)

lemma accepted_preflight:
  assumes "validate_preflight_request raw = Inr ds"
  shows "ds \<noteq> []" "length ds \<le> MAX_PREFLIGHT_DOCUMENT_IDS" "distinct ds"
    "d \<in> set ds \<Longrightarrow> d \<noteq> [] \<and> length d \<le> 128 \<and> CHR ''/'' \<notin> set d"
proof -
  have ds: "ds = map py_strip raw" and checks: "ds \<noteq> [] \<and> length ds \<le> MAX_PREFLIGHT_DOCUMENT_IDS" "distinct ds"
    "\<forall>v \<in> set ds. v \<noteq> [] \<and> length v \<le> 128" "\<forall>v \<in> set ds. CHR ''/'' \<notin> set v"
    using assms by (auto simp: validate_preflight_request_def Let_def list_all_iff Suc_le_eq split: if_splits) metis
  show "ds \<noteq> []" "length ds \<le> MAX_PREFLIGHT_DOCUMENT_IDS" "distinct ds"
    "d \<in> set ds \<Longrightarrow> d \<noteq> [] \<and> length d \<le> 128 \<and> CHR ''/'' \<notin> set d"
    using checks by blast+
qed

section \<open>A request without an actor\<close>

definition anonymous_request :: http_request where
  "anonymous_request = \<lparr>rq_headers = [(''x-caller-service'', ''lotus-report'')],
     rq_ids = \<lparr>req_correlation_id = ''c-1'', req_trace_id = ''t-1''\<rparr>\<rparr>"

lemma anonymous:
  "request_caller_context anonymous_request = Inl (CallerContextMissingError [''x-actor-type'', ''x-actor-id''])"
  by (simp add: anonymous_request_def request_caller_context_def caller_context_from_headers_def normalized_headers_def
      missing_headers_def Let_def dict_set_def dict_get_def ascii_lower_def py_strip_def is_space_def)

lemma anonymous_route:
  "\<exists>d. route ok anonymous_request input handler w = ((401, Inl d), w)"
  by (simp add: route_def anonymous refusal_def exception_response_def error_response_def handler_for_def)

end
