(* ===== verification/LifecycleGuarantees.thy ===== *)
theory LifecycleGuarantees
  imports PurgeDecisions LifecycleDecisions
begin

text \<open>
  What issuing lifecycle decisions guarantees: the ledger keeps what it was given, one key has
  one decision, a new decision states the posture of the stored row and is accepted against the
  published keys, and issuing preserves what the archive service preserves.
\<close>

section \<open>The ledger\<close>

abbreviation ledger_rows :: "('r, 's, 'a) decision_world \<Rightarrow> string \<rightharpoonup> string \<times> lifecycle_decision" where
  "ledger_rows w \<equiv> dict_get (pg_tables (dw_ledger w))"

lemma transaction_run:
  assumes "transaction body p = (x, p')"
  shows "pg_tables p' = pg_tables p \<or> pg_tables p' = snd (body (pg_tables p))"
    "x = Inr y \<Longrightarrow> body (pg_tables p) = (Inr y, pg_tables p')"
  using assms by (auto simp: transaction_def Let_def split: fault.splits prod.splits sum.splits)

lemma ledger_get_run:
  assumes "ledger_get key l = (x, l')"
  shows "pg_tables l' = pg_tables l" "x = Inr r \<Longrightarrow> r = dict_get (pg_tables l) key"
  using transaction_run [OF assms [unfolded ledger_get_def]] by (auto simp: gets_def)

lemma ledger_insert_run:
  assumes "transaction (ledger_insert key f d) l = (x, l')"
  shows "dict_get (pg_tables l) \<subseteq>\<^sub>m dict_get (pg_tables l')"
    "x = Inr b \<Longrightarrow> b \<longleftrightarrow> dict_get (pg_tables l) key = None"
    "x = Inr True \<Longrightarrow> pg_tables l' = dict_set key (f, d) (pg_tables l)"
    "x = Inr False \<Longrightarrow> pg_tables l' = pg_tables l"
proof -
  have new: "dict_get t \<subseteq>\<^sub>m dict_get (dict_set key (f, d) t)" if "dict_get t key = None" for t
    using that by (auto simp: map_le_def)
  note run = transaction_run [OF assms]
  show "dict_get (pg_tables l) \<subseteq>\<^sub>m dict_get (pg_tables l')"
    using run(1) new [of "pg_tables l"] by (auto simp only: ledger_insert_def map_le_refl snd_conv split: if_splits)
  show "x = Inr b \<Longrightarrow> b \<longleftrightarrow> dict_get (pg_tables l) key = None"
    using run(2) [of b] by (cases "dict_get (pg_tables l) key") (simp_all add: ledger_insert_def)
  show "x = Inr True \<Longrightarrow> pg_tables l' = dict_set key (f, d) (pg_tables l)"
    using run(2) [of True] by (simp add: ledger_insert_def split: if_splits)
  show "x = Inr False \<Longrightarrow> pg_tables l' = pg_tables l"
    using run(2) [of False] by (simp add: ledger_insert_def split: if_splits)
qed

lemma ledger_save_run:
  assumes "ledger_save key f d l = (x, l')"
  shows "dict_get (pg_tables l) \<subseteq>\<^sub>m dict_get (pg_tables l')"
    "x = Inr e \<Longrightarrow> dict_get (pg_tables l') key = Some (f, e)"
    "x = Inr e \<Longrightarrow> dict_get (pg_tables l) key = None \<Longrightarrow> e = d"
proof -
  obtain y l1 where ins: "transaction (ledger_insert key f d) l = (y, l1)" by fastforce
  note i = ledger_insert_run [OF ins]
  have "dict_get (pg_tables l) \<subseteq>\<^sub>m dict_get (pg_tables l')
    \<and> (\<forall>e. x = Inr e \<longrightarrow> dict_get (pg_tables l') key = Some (f, e) \<and> (dict_get (pg_tables l) key = None \<longrightarrow> e = d))"
  proof (cases y)
    case (Inl e)
    then show ?thesis using assms ins i(1) by (auto simp: ledger_save_def bind_io_def)
  next
    case (Inr b)
    show ?thesis
    proof (cases b)
      case True
      then show ?thesis using assms ins i(1,3) Inr by (auto simp: ledger_save_def bind_io_def ret_def)
    next
      case False
      obtain z l2 where get: "ledger_get key l1 = (z, l2)" by fastforce
      note g = ledger_get_run [OF get]
      have "pg_tables l1 = pg_tables l" "dict_get (pg_tables l) key \<noteq> None" using i(2,4) Inr False by auto
      then show ?thesis
        using assms ins Inr False get g
        by (auto simp: ledger_save_def bind_io_def ret_def raise_def split: sum.splits option.splits if_splits)
    qed
  qed
  then show "dict_get (pg_tables l) \<subseteq>\<^sub>m dict_get (pg_tables l')"
    "x = Inr e \<Longrightarrow> dict_get (pg_tables l') key = Some (f, e)"
    "x = Inr e \<Longrightarrow> dict_get (pg_tables l) key = None \<Longrightarrow> e = d" by blast+
qed

section \<open>The two halves of the state\<close>

lemma keeps_on_archive [wp]: "keeps I m \<Longrightarrow> keeps (\<lambda>w. I (dw_archive w)) (on_archive m)"
  by (simp add: keeps_iff on_archive_def split_def)

lemma keeps_on_ledger [wp]: "keeps I m \<Longrightarrow> keeps (\<lambda>w. I (dw_ledger w)) (on_ledger m)"
  by (simp add: keeps_iff on_ledger_def split_def)

lemma keeps_halves [wp]: "keeps (\<lambda>w. I (dw_archive w)) (on_ledger k)" "keeps (\<lambda>w. J (dw_ledger w)) (on_archive m)"
  by (simp_all add: keeps_iff on_ledger_def on_archive_def split_def)

lemma keeps_case_pair [wp]: "(\<And>a b. keeps I (f a b)) \<Longrightarrow> keeps I (case p of (a, b) \<Rightarrow> f a b)"
  by (cases p) simp

lemma ledger_ops_grow:
  "keeps (\<lambda>l. L \<subseteq>\<^sub>m dict_get (pg_tables l)) (ledger_get key)"
  "keeps (\<lambda>l. L \<subseteq>\<^sub>m dict_get (pg_tables l)) (ledger_save key f d)"
  unfolding keeps_iff
  using ledger_get_run(1) [OF prod.collapse [symmetric]] ledger_save_run(1) [OF prod.collapse [symmetric]]
  by (auto intro: map_le_trans)

text \<open>Whatever a call to issue does, the rows of the ledger stay as they are.\<close>

lemma issue_grows: "keeps (\<lambda>w. L \<subseteq>\<^sub>m ledger_rows w) (issue show_time svc d req key caller trace at)"
  unfolding issue_def issue_new_def Let_def
  by (intro wp keeps_on_ledger ledger_ops_grow)

text \<open>Issuing reads the posture and records one access: the archive keeps what its service keeps.\<close>

context service_invariant
begin

lemma issue_keeps:
  assumes "ds_archive ds = svc"
  shows "keeps (\<lambda>w. I (dw_archive w)) (issue show_time ds d req key caller trace at)"
  unfolding issue_def issue_new_def Let_def assms
  by (intro wp keeps_on_archive authorizing posture_keeps recording clock)

end

section \<open>One key, one decision\<close>

lemma on_archive_returns [returns]:
  "on_archive m w = (Inr y, w') \<longleftrightarrow> (\<exists>a. m (dw_archive w) = (Inr y, a) \<and> w' = w\<lparr>dw_archive := a\<rparr>)"
  by (auto simp: on_archive_def split: prod.splits)

lemma on_ledger_returns [returns]:
  "on_ledger m w = (Inr y, w') \<longleftrightarrow> (\<exists>l. m (dw_ledger w) = (Inr y, l) \<and> w' = w\<lparr>dw_ledger := l\<rparr>)"
  by (auto simp: on_ledger_def split: prod.splits)

text \<open>What an issued decision is: the row that was there, or a decision freshly signed over a posture.\<close>

definition freshly_issued ::
    "(instant \<Rightarrow> string) \<Rightarrow> ('r, 's, 'a) decision_service \<Rightarrow> string \<Rightarrow> decision_request \<Rightarrow> string \<Rightarrow> string
      \<Rightarrow> caller_context \<Rightarrow> string \<Rightarrow> string \<Rightarrow> instant option \<Rightarrow> ('r, 's, 'a) decision_world
      \<Rightarrow> document_metadata \<Rightarrow> lifecycle_decision \<Rightarrow> ('r, 's, 'a) decision_world \<Rightarrow> bool" where
  "freshly_issued show_time svc d req key fingerprint caller tenant trace at w m dec w' \<longleftrightarrow>
     (\<exists>a retention issued. get_lifecycle_posture (ds_archive svc) d (dw_archive w) = (Inr m, a)
        \<and> same_custody a (dw_archive w') \<and> tenant_id m = tenant \<and> report_type m = PROOF_PACK
        \<and> retention_policy_id m = Some retention \<and> (\<forall>t. at = Some t \<longrightarrow> issued = t)
        \<and> is_region_code (region m)
        \<and> dec = signed_decision show_time (ds_signer svc)
             (decision_for svc d req key fingerprint caller tenant trace m retention issued))"

lemma same_custody_trans: "same_custody a b \<Longrightarrow> same_custody b c \<Longrightarrow> same_custody a c"
  by (simp add: same_custody_def)

lemma read_clock_frame: "read_clock w = (x, w') \<Longrightarrow> same_custody w w'"
  by (auto simp: read_clock_def same_custody_def)

lemma issue_new_returns:
  assumes "issue_new show_time svc d req key fingerprint caller tenant trace at w = (Inr dec, w')"
  shows "ledger_rows w' key = Some (fingerprint, dec)"
    "ledger_rows w key = None \<Longrightarrow> \<exists>m. freshly_issued show_time svc d req key fingerprint caller tenant trace at w m dec w'"
proof -
  obtain m a where m: "get_lifecycle_posture (ds_archive svc) d (dw_archive w) = (Inr m, a)"
    and run1: "(if tenant_id m \<noteq> tenant
       then raise (LifecycleDecisionTenantError ''document tenant does not match caller tenant'')
       else if report_type m \<noteq> PROOF_PACK
       then raise (LifecycleDecisionDocumentError
              ''Idea lifecycle decisions require an archived proof-pack document'')
       else (case retention_policy_id m of
         None \<Rightarrow> raise (LifecycleDecisionDocumentError ''document has no retention policy'')
       | Some retention \<Rightarrow>
           bind_io (case at of Some t \<Rightarrow> ret t | None \<Rightarrow> on_archive read_clock) (\<lambda>issued.
           let body = decision_for svc d req key fingerprint caller tenant trace m retention issued in
           seq_io (of_result (validate_decision body))
           (bind_io (on_ledger (ledger_save key fingerprint (signed_decision show_time (ds_signer svc) body)))
             (\<lambda>stored.
              seq_io (on_archive (record_access (svc_audit (ds_archive svc)) IDEA_LIFECYCLE_DECISION_READ caller trace
                 AUDIT_ALLOWED ''idea_lifecycle_decision_read_allowed'' (Some d) (Some (ld_decision_reason_code stored))))
                (ret stored)))))) (w\<lparr>dw_archive := a\<rparr>) = (Inr dec, w')"
    using assms unfolding issue_new_def bind_returns on_archive_returns by blast
  obtain retention where ok: "tenant_id m = tenant" "report_type m = PROOF_PACK" "retention_policy_id m = Some retention"
    using run1 by (auto simp: returns split: if_splits option.splits)
  obtain issued w2 where c: "(case at of Some t \<Rightarrow> ret t | None \<Rightarrow> on_archive read_clock) (w\<lparr>dw_archive := a\<rparr>) = (Inr issued, w2)"
    and run2: "(let body = decision_for svc d req key fingerprint caller tenant trace m retention issued in
           seq_io (of_result (validate_decision body))
           (bind_io (on_ledger (ledger_save key fingerprint (signed_decision show_time (ds_signer svc) body)))
             (\<lambda>stored.
              seq_io (on_archive (record_access (svc_audit (ds_archive svc)) IDEA_LIFECYCLE_DECISION_READ caller trace
                 AUDIT_ALLOWED ''idea_lifecycle_decision_read_allowed'' (Some d) (Some (ld_decision_reason_code stored))))
                (ret stored)))) w2 = (Inr dec, w')"
    using run1 ok by (auto simp: bind_returns)
  have w2: "dw_ledger w2 = dw_ledger w" "same_custody a (dw_archive w2)" "\<forall>t. at = Some t \<longrightarrow> issued = t"
    using c by (auto simp: returns same_custody_def read_clock_def split: option.splits)
  let ?body = "decision_for svc d req key fingerprint caller tenant trace m retention issued"
  obtain l a' where valid: "validate_decision ?body = Inr ()"
    and save: "ledger_save key fingerprint (signed_decision show_time (ds_signer svc) ?body) (dw_ledger w2) = (Inr dec, l)"
    and audit: "record_access (svc_audit (ds_archive svc)) IDEA_LIFECYCLE_DECISION_READ caller trace
                 AUDIT_ALLOWED ''idea_lifecycle_decision_read_allowed'' (Some d) (Some (ld_decision_reason_code dec)) (dw_archive w2) = (Inr (), a')"
    and w': "w' = w2\<lparr>dw_ledger := l, dw_archive := a'\<rparr>"
    using run2 by (auto simp: returns Let_def)
  note s = ledger_save_run [OF save]
  show "ledger_rows w' key = Some (fingerprint, dec)" using s(2) w' by simp
  have "same_custody a (dw_archive w')" using same_custody_trans [OF w2(2) recording_frame [OF audit]] w' by simp
  moreover have "is_region_code (region m)"
    using valid by (simp add: validate_decision_def decision_for_def split: if_splits)
  moreover have "dec = signed_decision show_time (ds_signer svc) ?body" if "ledger_rows w key = None"
    using s(3) that w2(1) by simp
  ultimately show "\<exists>m. freshly_issued show_time svc d req key fingerprint caller tenant trace at w m dec w'"
    if "ledger_rows w key = None"
    unfolding freshly_issued_def using m ok w2(3) that by blast
qed

text \<open>Every returned decision is the row the ledger then has under its key.\<close>

lemma issue_returns:
  assumes "issue show_time svc d req key caller trace at w = (Inr dec, w')"
  obtains tenant where "caller_tenant_id caller = Some tenant"
    "ledger_rows w' key = Some (request_fingerprint d req tenant, dec)"
    "\<And>row. ledger_rows w key = Some row \<Longrightarrow> row = (request_fingerprint d req tenant, dec)"
    "ledger_rows w key = None \<Longrightarrow>
       \<exists>m. freshly_issued show_time svc d req key (request_fingerprint d req tenant) caller tenant trace at w m dec w'"
    "signer_key_id (ds_signer svc) \<notin> set (ds_revoked svc)"
    "caller_service caller \<in> set (allowed_callers_for (svc_policy (ds_archive svc)) READ_IDEA_LIFECYCLE_DECISION)"
proof -
  obtain tenant where t: "caller_tenant_id caller = Some tenant" "signer_key_id (ds_signer svc) \<notin> set (ds_revoked svc)"
    "caller_service caller \<in> set (allowed_callers_for (svc_policy (ds_archive svc)) READ_IDEA_LIFECYCLE_DECISION)"
    using assms by (auto simp: issue_def returns authorize_returns split: if_splits option.splits)
  let ?f = "request_fingerprint d req tenant"
  obtain x l where get: "ledger_get key (dw_ledger w) = (Inr x, l)"
    and rest: "(case x of Some (f, e) \<Rightarrow> if f \<noteq> ?f then raise LifecycleDecisionConflictError else ret e
       | None \<Rightarrow> issue_new show_time svc d req key ?f caller tenant trace at) (w\<lparr>dw_ledger := l\<rparr>) = (Inr dec, w')"
    using assms t by (auto simp: issue_def returns authorize_returns Let_def)
  note g = ledger_get_run [OF get]
  show thesis
  proof (cases x)
    case None
    note n = issue_new_returns [OF rest [unfolded None option.case]]
    have none: "ledger_rows w key = None" using g None by simp
    moreover have "freshly_issued show_time svc d req key ?f caller tenant trace at (w\<lparr>dw_ledger := l\<rparr>) m dec w'
        \<longleftrightarrow> freshly_issued show_time svc d req key ?f caller tenant trace at w m dec w'" for m
      by (simp add: freshly_issued_def)
    ultimately show thesis using that [OF t(1) n(1) _ _ t(2,3)] n(2) g(1) by simp
  next
    case (Some row)
    obtain f e where row: "row = (f, e)" by (cases row)
    have "f = ?f" "e = dec" "w' = w\<lparr>dw_ledger := l\<rparr>"
      using rest Some row by (auto simp: returns split: if_splits)
    note eqs = this
    have old: "ledger_rows w key = Some (?f, dec)" using g(2) [OF refl] unfolding Some row eqs(1,2) by (rule sym)
    have new: "ledger_rows w' key = Some (?f, dec)" using old g(1) eqs(3) by simp
    show thesis
      by (rule that [OF t(1) new _ _ t(2,3)]) (simp_all only: old option.inject option.distinct)
  qed
qed

lemma one_key_one_decision:
  assumes "issue show_time svc d req key caller trace at w = (Inr dec, w1)"
    and "ledger_rows w1 \<subseteq>\<^sub>m ledger_rows w2"
    and "issue show_time svc' d' req' key caller' trace' at' w2 = (Inr dec', w3)"
  shows "dec' = dec"
proof -
  obtain f where "ledger_rows w1 key = Some (f, dec)" by (rule issue_returns [OF assms(1)]) blast
  then have "ledger_rows w2 key = Some (f, dec)" using assms(2) by (auto simp: map_le_def dest!: bspec [where x = key])
  note row = this
  show ?thesis by (rule issue_returns [OF assms(3)]) (use row in \<open>metis prod.inject\<close>)
qed

section \<open>What a ledger row says\<close>

definition row_of_signer :: "(instant \<Rightarrow> string) \<Rightarrow> signer \<Rightarrow> string \<Rightarrow> string \<times> lifecycle_decision \<Rightarrow> bool" where
  "row_of_signer show_time s key row \<longleftrightarrow> signed_by show_time s (snd row)
     \<and> ld_decision_id (snd row) = decision_id_for key (fst row) \<and> is_region_code (ld_residency_region (snd row))"

definition ledger_genuine :: "(instant \<Rightarrow> string) \<Rightarrow> signer \<Rightarrow> ledger database \<Rightarrow> bool" where
  "ledger_genuine show_time s l \<longleftrightarrow> (\<forall>key row. dict_get (pg_tables l) key = Some row \<longrightarrow> row_of_signer show_time s key row)"

lemma signed_decision_body [simp]:
  "decision_body.truncate (signed_decision show_time s b) = b"
  "signed_by show_time s (signed_decision show_time s b) \<longleftrightarrow> ld_signing_key_id b = signer_key_id s"
  "ld_decision_id (signed_decision show_time s b) = ld_decision_id b"
  "ld_residency_region (signed_decision show_time s b) = ld_residency_region b"
  "ld_signing_key_id (signed_decision show_time s b) = ld_signing_key_id b"
  "ld_issued_at (signed_decision show_time s b) = ld_issued_at b"
  "ld_expires_at (signed_decision show_time s b) = ld_expires_at b"
  "ld_lifecycle_action (signed_decision show_time s b) = ld_lifecycle_action b"
  "ld_decision_reason_code (signed_decision show_time s b) = ld_decision_reason_code b"
  "ld_legal_hold_count (signed_decision show_time s b) = ld_legal_hold_count b"
  "ld_tenant_id (signed_decision show_time s b) = ld_tenant_id b"
  by (cases b; simp add: signed_decision_def split_def decision_body.defs lifecycle_decision.defs signed_by_def
      decision_payload_def)+

lemma saving_genuine:
  assumes "row_of_signer show_time s key (f, d)"
  shows "keeps (ledger_genuine show_time s) (ledger_save key f d)" "keeps (ledger_genuine show_time s) (ledger_get k)"
proof -
  have get: "keeps (ledger_genuine show_time s) (ledger_get k)" for k
    unfolding keeps_iff ledger_genuine_def using ledger_get_run(1) [OF prod.collapse [symmetric]] by metis
  have ins: "keeps (ledger_genuine show_time s) (transaction (ledger_insert key f d))"
    unfolding keeps_iff
  proof (intro allI impI)
    fix l assume l: "ledger_genuine show_time s l"
    obtain x l' where run: "transaction (ledger_insert key f d) l = (x, l')" by fastforce
    have "pg_tables l' = pg_tables l \<or> pg_tables l' = dict_set key (f, d) (pg_tables l)"
      using transaction_run(1) [OF run] by (simp add: ledger_insert_def split: if_splits)
    then show "ledger_genuine show_time s (snd (transaction (ledger_insert key f d) l))"
      using l assms run by (auto simp only: ledger_genuine_def snd_conv dict_get_set fun_upd_apply option.inject split: if_splits)
  qed
  show "keeps (ledger_genuine show_time s) (ledger_save key f d)"
    unfolding ledger_save_def by (intro wp ins get)
  show "keeps (ledger_genuine show_time s) (ledger_get k)" by (rule get)
qed

lemma keeps_valid_decision:
  "(validate_decision b = Inr () \<Longrightarrow> keeps I m) \<Longrightarrow> keeps I (seq_io (of_result (validate_decision b)) m)"
  by (cases "validate_decision b") (simp_all add: keeps_iff seq_io_def bind_io_def of_result_def)

lemma issue_genuine:
  "keeps (\<lambda>w. ledger_genuine show_time (ds_signer svc) (dw_ledger w)) (issue show_time svc d req key caller trace at)"
proof -
  have row: "row_of_signer show_time (ds_signer svc) key (f, signed_decision show_time (ds_signer svc)
      (decision_for svc d req key f caller tenant trace m retention issued))"
    if "validate_decision (decision_for svc d req key f caller tenant trace m retention issued) = Inr ()"
    for f tenant m retention issued
    using that by (simp add: row_of_signer_def validate_decision_def decision_for_def split: if_splits)
  have getting: "keeps (ledger_genuine show_time (ds_signer svc)) (ledger_get key)"
    unfolding keeps_iff ledger_genuine_def using ledger_get_run(1) [OF prod.collapse [symmetric]] by metis
  show ?thesis
    unfolding issue_def issue_new_def Let_def
    by (intro wp keeps_on_ledger getting keeps_valid_decision saving_genuine(1) row)
qed

section \<open>Histories of the whole platform\<close>

datatype platform_call =
    Archive service_call
  | Issue string decision_request string caller_context string "instant option"

definition run_platform_call ::
    "(instant \<Rightarrow> string) \<Rightarrow> ('r, 's, 'a) decision_service \<Rightarrow> platform_call \<Rightarrow> (('r, 's, 'a) decision_world, unit) io" where
  "run_platform_call show_time svc c = (case c of
     Archive k \<Rightarrow> on_archive (run_call (ds_archive svc) k)
   | Issue d req key caller trace at \<Rightarrow> ignore_result (issue show_time svc d req key caller trace at))"

fun run_platform ::
    "(instant \<Rightarrow> string) \<Rightarrow> ('r, 's, 'a) decision_service \<Rightarrow> platform_call list \<Rightarrow> ('r, 's, 'a) decision_world
      \<Rightarrow> ('r, 's, 'a) decision_world" where
  "run_platform show_time svc [] w = w"
| "run_platform show_time svc (c # cs) w = run_platform show_time svc cs (snd (run_platform_call show_time svc c w))"

fun valid_platform_call :: "platform_call \<Rightarrow> bool" where
  "valid_platform_call (Archive c) = valid_call c"
| "valid_platform_call (Issue d req key caller trace at) = True"

lemma platform_history:
  assumes "\<And>c. c \<in> set cs \<Longrightarrow> keeps I (run_platform_call show_time svc c)" "I w"
  shows "I (run_platform show_time svc cs w)"
  using assms by (induction cs arbitrary: w) (simp_all add: keeps_iff)

text \<open>Rows are kept, and every row is a genuine decision of the service's signer.\<close>

lemma ledger_history:
  "ledger_rows w \<subseteq>\<^sub>m ledger_rows (run_platform show_time svc cs w)"
proof -
  have "keeps (\<lambda>w'. ledger_rows w \<subseteq>\<^sub>m ledger_rows w') (run_platform_call show_time svc c)" for c
    unfolding run_platform_call_def by (cases c) (auto intro!: wp keeps_ignore issue_grows)
  then show ?thesis by (rule platform_history [of cs "\<lambda>w'. ledger_rows w \<subseteq>\<^sub>m ledger_rows w'"]) (rule map_le_refl)
qed

lemma ledger_stays_genuine:
  assumes "ledger_genuine show_time (ds_signer svc) (dw_ledger w)"
  shows "ledger_genuine show_time (ds_signer svc) (dw_ledger (run_platform show_time svc cs w))"
proof -
  have "keeps (\<lambda>w. ledger_genuine show_time (ds_signer svc) (dw_ledger w)) (run_platform_call show_time svc c)" for c
    unfolding run_platform_call_def by (cases c) (auto intro!: wp keeps_ignore issue_genuine)
  then show ?thesis
    by (rule platform_history [of cs "\<lambda>w. ledger_genuine show_time (ds_signer svc) (dw_ledger w)"]) (rule assms)
qed

text \<open>The archive's own invariants hold through histories in which decisions are issued as well.\<close>

context service_invariant
begin

lemma platform_keeps:
  assumes "ds_archive ds = svc" "I (dw_archive w)" "list_all valid_platform_call cs"
  shows "I (dw_archive (run_platform show_time ds cs w))"
proof (rule platform_history [of cs "\<lambda>w. I (dw_archive w)"])
  fix c assume "c \<in> set cs"
  then have "valid_platform_call c" using assms(3) by (simp add: list_all_iff)
  then show "keeps (\<lambda>w. I (dw_archive w)) (run_platform_call show_time ds c)"
    unfolding run_platform_call_def
    by (cases c) (auto intro!: keeps_on_archive call_keeps keeps_ignore issue_keeps simp: assms(1))
qed (rule assms(2))

end

section \<open>A new decision is accepted, and states the stored row\<close>

text \<open>
  A consumer that reads the published keys accepts a fresh decision until it expires: the signing
  key is published once, in force, managed and not revoked.
\<close>

lemma fresh_is_accepted:
  assumes fresh: "freshly_issued show_time svc d req key f caller tenant trace at w m dec w'"
    and s: "signer_ok verify (ds_signer svc)"
    and id: "signer_key_id (ds_signer svc) \<notin> rk_key_id ` set (ds_retained svc)"
    and live: "signer_key_id (ds_signer svc) \<notin> set (ds_revoked svc)"
    and managed: "\<not> startswith (signer_key_id (ds_signer svc)) ''ephemeral-local''"
    and window: "ds_not_before svc = Some t" "t \<le> ld_issued_at dec"
    and now: "now < ld_issued_at dec + ds_ttl svc"
  shows "refuse_against_bundle show_time verify dec (verification_keys svc) now = Inr None"
proof -
  let ?s = "ds_signer svc"
  obtain retention issued where dec: "dec = signed_decision show_time ?s (decision_for svc d req key f caller tenant trace m retention issued)"
    using fresh by (auto simp: freshly_issued_def)
  have id_dec: "ld_signing_key_id dec = signer_key_id ?s" "ld_issued_at dec = issued" "ld_expires_at dec = issued + ds_ttl svc"
    by (simp_all add: dec decision_for_def)
  have "signed_by show_time ?s dec" by (simp add: dec decision_for_def)
  then have ok: "verify_lifecycle_decision show_time verify dec [signer_key_id ?s \<mapsto> signer_public_raw ?s] now"
    using signed_verifies s now id_dec by metis
  have "filter (\<lambda>k. vk_key_id k = ld_signing_key_id dec) (verification_keys svc) = [signing_entry svc]"
    using id [unfolded image_iff]
    by (force simp: verification_keys_def signing_entry_def Let_def id_dec retained_entry_def filter_empty_conv)
  then show ?thesis
    using ok load_published_key [OF s] managed live window
    by (simp add: refuse_against_bundle_def signing_entry_def Let_def status_for_def)
qed

text \<open>
  The signed posture is the stored row's: the action is the one the row calls for, the hold count
  is a recount of the hold rows, and an action other than disposal is signed only while the
  document's destruction has not begun.
\<close>

lemma action_preserves: "fst (decision_action m) \<noteq> DISPOSAL_EXECUTED \<Longrightarrow> purge_started_at m = None"
  by (auto simp: decision_action_def split: if_splits)

context current_resolution
begin

lemma fresh_states_row:
  assumes fresh: "freshly_issued show_time ds d req key f caller tenant trace at w m dec w'" and ds: "ds_archive ds = svc"
    and inv: "wfr (w_repo (dw_archive w))" "archive_inv (absr (w_repo (dw_archive w)))"
  shows "st_docs (absr (w_repo (dw_archive w'))) d = Some (untimed m)"
    "(ld_lifecycle_action dec, ld_decision_reason_code dec) = decision_action m"
    "ld_legal_hold_count dec = int (active_holds (absr (w_repo (dw_archive w'))) d)"
    "ld_tenant_id dec = tenant_id m" "caller_tenant_id caller = Some tenant \<Longrightarrow> caller_tenant_id caller = Some (tenant_id m)"
    "w_store (dw_archive w') = w_store (dw_archive w)"
proof -
  obtain a retention issued where run: "get_lifecycle_posture svc d (dw_archive w) = (Inr m, a)"
    and same: "same_custody a (dw_archive w')" and tenant: "tenant_id m = tenant"
    and dec: "dec = signed_decision show_time (ds_signer ds) (decision_for ds d req key f caller tenant trace m retention issued)"
    using fresh ds by (auto simp: freshly_issued_def)
  have "here (absr (w_repo (dw_archive w))) (w_today (dw_archive w)) (dw_archive w)"
    using inv by (simp add: repo_at_def)
  from posture_sound [OF inv(2) this run] obtain s' where
    s': "here s' (w_today (dw_archive w)) a" "archive_inv s'" "st_docs s' d = Some (untimed m)" "w_store a = w_store (dw_archive w)" by blast
  have abs: "absr (w_repo (dw_archive w')) = s'" using s'(1) same by (simp add: repo_at_def same_custody_def)
  show "st_docs (absr (w_repo (dw_archive w'))) d = Some (untimed m)" using s'(3) abs by simp
  show "(ld_lifecycle_action dec, ld_decision_reason_code dec) = decision_action m" by (simp add: dec decision_for_def)
  show "ld_legal_hold_count dec = int (active_holds (absr (w_repo (dw_archive w'))) d)"
    using archive_invD(3) [OF s'(2,3)] abs by (simp add: dec decision_for_def)
  show "ld_tenant_id dec = tenant_id m" using tenant by (simp add: dec decision_for_def)
  show "caller_tenant_id caller = Some tenant \<Longrightarrow> caller_tenant_id caller = Some (tenant_id m)" using tenant by simp
  show "w_store (dw_archive w') = w_store (dw_archive w)" using s'(4) same by (simp add: same_custody_def)
qed

end

section \<open>Revocation\<close>

lemma revoked_signer_signs_nothing:
  "signer_key_id (ds_signer svc) \<in> set (ds_revoked svc)
    \<Longrightarrow> issue show_time svc d req key caller trace at w = (Inl LifecycleDecisionSigningKeyRevokedError, w)"
  by (simp add: issue_def raise_def)

text \<open>
  A replay does not look at the key that signed the stored row: a decision signed by a retained
  key that has since been revoked is handed out again, and a consumer refuses it.
\<close>

lemma replay_ignores_revocation:
  assumes row: "ledger_rows w key = Some (request_fingerprint d req tenant, dec)" and f: "pg_faults (dw_ledger w) = []"
    and caller: "caller_tenant_id caller = Some tenant"
      "caller_service caller \<in> set (allowed_callers_for (svc_policy (ds_archive svc)) READ_IDEA_LIFECYCLE_DECISION)"
    and live: "signer_key_id (ds_signer svc) \<notin> set (ds_revoked svc)"
    and old: "k \<in> set (ds_retained svc)" "rk_key_id k = ld_signing_key_id dec" "ld_signing_key_id dec \<in> set (ds_revoked svc)"
  shows "fst (issue show_time svc d req key caller trace at w) = Inr dec
    \<and> refuse_against_bundle show_time verify dec (verification_keys svc) now \<in> {Inr (Some KEY_REVOKED), Inr (Some KEY_ID_NOT_UNIQUE)}"
proof
  have auth: "authorize (svc_policy (ds_archive svc)) (svc_audit (ds_archive svc)) READ_IDEA_LIFECYCLE_DECISION caller trace
      (Some d) (dw_archive w) = (Inr (), dw_archive w)"
    using caller(2) by (simp add: authorize_def skip_io_def ret_def)
  have get: "ledger_get key (dw_ledger w) = (Inr (Some (request_fingerprint d req tenant, dec)), dw_ledger w)"
    using row f by (simp add: ledger_get_def transaction_def next_fault_def gets_def)
  show "fst (issue show_time svc d req key caller trace at w) = Inr dec"
    using live auth get caller(1)
    by (simp add: issue_def seq_io_def bind_io_def on_archive_def on_ledger_def Let_def ret_def)
  have "retained_entry svc k \<in> set (verification_keys svc)" using old(1) by (simp add: verification_keys_def)
  then show "refuse_against_bundle show_time verify dec (verification_keys svc) now \<in> {Inr (Some KEY_REVOKED), Inr (Some KEY_ID_NOT_UNIQUE)}"
    by (rule refused_revoked) (use old in \<open>simp_all add: retained_entry_def status_for_def\<close>)
qed

end
