(* ===== verification/DecisionSamples.thy ===== *)
theory DecisionSamples
  imports LifecycleGuarantees
begin

text \<open>
  A proof pack in custody on PostgreSQL, past its retention date, and the decisions issued for it.
\<close>

definition proof_document :: document_metadata where
  "proof_document = sample_document\<lparr>report_type := PROOF_PACK, retention_policy_id := Some ''rp-7'',
     retain_until_date := Some (Date 2026 3 31)\<rparr>"

definition proof_tables :: tables where
  "proof_tables = empty_tables\<lparr>archive_documents := [proof_document]\<rparr>"

definition proof_world :: "(postgres, filesystem, access_audit_event list database) decision_world" where
  "proof_world = \<lparr>dw_archive = sample_world (reliable_database proof_tables) stored_sample (reliable_database []),
     dw_ledger = reliable_database []\<rparr>"

definition eligible_document :: document_metadata where
  "eligible_document = proof_document\<lparr>purge_status := ELIGIBLE, purge_eligible_at := Some 1, updated_at := 2\<rparr>"

lemma proof_document_sel [simp]:
  "document_id proof_document = ''doc_a''" "tenant_id proof_document = ''tenant-1''" "region proof_document = ''SG''"
  "purge_status proof_document = NOT_ELIGIBLE" "purge_started_at proof_document = None"
  "legal_hold_status proof_document = CLEAR" "retain_until_date proof_document = Some (Date 2026 3 31)"
  "report_type proof_document = PROOF_PACK" "retention_policy_id proof_document = Some ''rp-7''"
  "storage_key proof_document = sample_key" "checksum proof_document = abc_digest" "size_bytes proof_document = 3"
  "checksum_algorithm proof_document = ''sha256''" "purge_eligible_at proof_document = None" "legal_hold_count proof_document = 0"
  by (simp_all add: proof_document_def)
   (simp_all add: sample_document_def document_metadata.defs document_input.defs)

lemma proof_posture:
  "get_lifecycle_posture pg_sample ''doc_a'' (dw_archive proof_world)
   = (Inr eligible_document, (dw_archive proof_world)\<lparr>w_repo := reliable_database (empty_tables\<lparr>archive_documents := [eligible_document]\<rparr>), w_ticks := 3\<rparr>)"
  by (simp add: get_lifecycle_posture_def get_existing_metadata_def refresh_legal_hold_summary_def evaluate_purge_def
      grant_eligibility_def pg_sample_def postgresql_service_def postgres_ops_def on_repo_def read_clock_def read_today_def
      bind_io_def gets_def ret_def proof_world_def sample_world_def pg_get_by_document_id_def pg_fetch_document_def
      pg_refresh_legal_hold_summary_def sql_refresh_summary_def pg_mark_purge_eligible_def sql_update_documents_def
      transaction_def next_fault_def reliable_database_def proof_tables_def empty_tables_def sql_select_document_def
      update_rows_def updated_row_def active_hold_rows_def less_date_def less_eq_date_def eligible_document_def Let_def)

definition sample_signer :: signer where
  "sample_signer = \<lparr>signer_key_id = ''archive-v2'', signer_sign = (\<lambda>msg. [length msg mod 256]), signer_public_raw = replicate 32 7\<rparr>"

definition sample_verify :: ed25519_verify where
  "sample_verify public_key signature msg \<longleftrightarrow> public_key = replicate 32 7 \<and> signature = [length msg mod 256]"

lemma sample_signer_ok: "signer_ok sample_verify sample_signer"
  by (simp add: signer_ok_def sample_signer_def sample_verify_def)

definition sample_decisions :: "(postgres, filesystem, access_audit_event list database) decision_service" where
  "sample_decisions = \<lparr>ds_archive = pg_sample, ds_signer = sample_signer, ds_ttl = 300, ds_not_before = Some 0,
     ds_retained = [\<lparr>rk_key_id = ''archive-v1'', rk_public_key_base64 = ''AA=='', rk_not_before = -10, rk_not_after = 0\<rparr>],
     ds_revoked = [''archive-v1'']\<rparr>"

definition sample_request :: decision_request where
  "sample_request = \<lparr>dr_idea_evidence_pack_id = ''pack-1'', dr_idea_candidate_id = ''cand-1'', dr_source_correlation_ref = ''src-1''\<rparr>"

definition decision_caller :: "string \<Rightarrow> caller_context" where
  "decision_caller tenant = (sample_caller ''lotus-idea'')\<lparr>caller_tenant_id := Some tenant\<rparr>"

lemma decision_caller_sel [simp]:
  "caller_tenant_id (decision_caller t) = Some t" "caller_service (decision_caller t) = ''lotus-idea''"
  by (simp_all add: decision_caller_def sample_caller_def)

lemma sample_authorized: "''lotus-idea'' \<in> set (allowed_callers_for (svc_policy pg_sample) READ_IDEA_LIFECYCLE_DECISION)"
  by (simp add: pg_sample_def default_policy_def allowed_callers_for_def)

lemma eligible_document_sel [simp]:
  "tenant_id eligible_document = ''tenant-1''" "report_type eligible_document = PROOF_PACK"
  "retention_policy_id eligible_document = Some ''rp-7''" "region eligible_document = ''SG''"
  "purge_status eligible_document = ELIGIBLE" "purge_started_at eligible_document = None"
  by (simp_all add: eligible_document_def)

lemma empty_ledger_get: "ledger_get key (reliable_database []) = (Inr None, reliable_database [])"
  by (simp add: ledger_get_def transaction_def next_fault_def reliable_database_def gets_def)

lemma proof_ledger [simp]: "dw_ledger proof_world = reliable_database []"
  by (simp add: proof_world_def)

lemma sample_save: "ledger_save key f d (reliable_database []) = (Inr d, reliable_database [(key, f, d)])"
  by (simp add: ledger_save_def bind_io_def ret_def transaction_def ledger_insert_def next_fault_def reliable_database_def
      dict_set_def)

lemma sample_record:
  "\<exists>a. record_access (svc_audit pg_sample) ty caller trace dec reason doc op
     ((dw_archive proof_world)\<lparr>w_repo := r, w_ticks := n\<rparr>) = (Inr (), a)"
  by (simp add: record_access_def run_steps on_audit_def pg_sample_def postgres_audit_def proof_world_def sample_world_def
      transaction_def next_fault_def reliable_database_def)

lemma sample_parts [simp]:
  "ds_archive sample_decisions = pg_sample" "ds_signer sample_decisions = sample_signer" "ds_ttl sample_decisions = 300"
  "ds_revoked sample_decisions = [''archive-v1'']" "signer_key_id sample_signer = ''archive-v2''"
  "ds_not_before sample_decisions = Some 0" "rk_key_id ` set (ds_retained sample_decisions) = {''archive-v1''}"
  by (simp_all add: sample_decisions_def sample_signer_def)

lemma sample_admitted:
  "authorize (svc_policy pg_sample) A READ_IDEA_LIFECYCLE_DECISION (decision_caller t) trace doc a = (Inr (), a)"
  using sample_authorized by (simp add: authorize_def skip_io_def ret_def)

lemma sample_issue_row:
  "\<exists>dec w'. issue print_int sample_decisions ''doc_a'' sample_request ''key-1'' (decision_caller ''tenant-1'') ''t-9'' (Some 5) proof_world
     = (Inr dec, w')
     \<and> dw_ledger w' = reliable_database [(''key-1'', request_fingerprint ''doc_a'' sample_request ''tenant-1'', dec)]"
proof -
  have region: "validate_decision (decision_for svc d req key f caller t trace eligible_document rp n) = Inr ()"
    for svc :: "(postgres, filesystem, access_audit_event list database) decision_service" and d req key f caller t trace rp n
    by (simp add: validate_decision_def decision_for_def is_region_code_def is_upper_letter_def)
  let ?f = "request_fingerprint ''doc_a'' sample_request ''tenant-1''"
  let ?dec = "signed_decision print_int sample_signer (decision_for sample_decisions ''doc_a'' sample_request ''key-1'' ?f
      (decision_caller ''tenant-1'') ''tenant-1'' ''t-9'' eligible_document ''rp-7'' 5)"
  obtain a where "record_access (svc_audit pg_sample) IDEA_LIFECYCLE_DECISION_READ (decision_caller ''tenant-1'') ''t-9''
      AUDIT_ALLOWED ''idea_lifecycle_decision_read_allowed'' (Some ''doc_a'') (Some (ld_decision_reason_code ?dec))
      ((dw_archive proof_world)\<lparr>w_repo := reliable_database (empty_tables\<lparr>archive_documents := [eligible_document]\<rparr>), w_ticks := 3\<rparr>)
      = (Inr (), a)" using sample_record by blast
  then have "\<exists>w'. issue print_int sample_decisions ''doc_a'' sample_request ''key-1'' (decision_caller ''tenant-1'') ''t-9'' (Some 5) proof_world
     = (Inr ?dec, w') \<and> dw_ledger w' = reliable_database [(''key-1'', ?f, ?dec)]"
    by (simp add: issue_def issue_new_def sample_admitted empty_ledger_get sample_save region proof_posture seq_io_def bind_io_def
        on_archive_def on_ledger_def ret_def of_result_def Let_def del: signed_decision_body)
  then show ?thesis by blast
qed

lemma sample_issue:
  "\<exists>dec w'. issue print_int sample_decisions ''doc_a'' sample_request ''key-1'' (decision_caller ''tenant-1'') ''t-9'' (Some 5) proof_world
     = (Inr dec, w')"
  using sample_issue_row by blast

text \<open>The call is repeated and answered from the ledger.\<close>

lemma sample_replay:
  "\<exists>dec w' w''. issue print_int sample_decisions ''doc_a'' sample_request ''key-1'' (decision_caller ''tenant-1'') ''t-9'' (Some 5) proof_world
     = (Inr dec, w')
     \<and> issue print_int sample_decisions ''doc_a'' sample_request ''key-1'' (decision_caller ''tenant-1'') ''t-10'' None w' = (Inr dec, w'')"
proof -
  let ?f = "request_fingerprint ''doc_a'' sample_request ''tenant-1''"
  obtain dec w' where run: "issue print_int sample_decisions ''doc_a'' sample_request ''key-1'' (decision_caller ''tenant-1'') ''t-9'' (Some 5)
      proof_world = (Inr dec, w')" and row: "dw_ledger w' = reliable_database [(''key-1'', ?f, dec)]"
    using sample_issue_row by blast
  have "ledger_get ''key-1'' (dw_ledger w') = (Inr (Some (?f, dec)), dw_ledger w')"
    unfolding row by (simp add: ledger_get_def transaction_def next_fault_def reliable_database_def gets_def dict_get_def)
  then have "issue print_int sample_decisions ''doc_a'' sample_request ''key-1'' (decision_caller ''tenant-1'') ''t-10'' None w' = (Inr dec, w')"
    by (simp add: issue_def sample_admitted seq_io_def bind_io_def on_archive_def on_ledger_def Let_def ret_def)
  with run show ?thesis by blast
qed

text \<open>A decision signed by the key that has been withdrawn since, in the ledger.\<close>

definition sample_retained :: retained_key where
  "sample_retained = \<lparr>rk_key_id = ''archive-v1'', rk_public_key_base64 = ''AA=='', rk_not_before = -10, rk_not_after = 0\<rparr>"

definition withdrawn_signer :: signer where
  "withdrawn_signer = sample_signer\<lparr>signer_key_id := ''archive-v1''\<rparr>"

definition withdrawn_decision :: lifecycle_decision where
  "withdrawn_decision = signed_decision print_int withdrawn_signer
     (decision_for (sample_decisions\<lparr>ds_signer := withdrawn_signer\<rparr>) ''doc_a'' sample_request ''key-1''
       (request_fingerprint ''doc_a'' sample_request ''tenant-1'') (decision_caller ''tenant-1'') ''tenant-1'' ''t-1''
       proof_document ''rp-7'' (-5))"

definition withdrawn_world :: "(postgres, filesystem, access_audit_event list database) decision_world" where
  "withdrawn_world = proof_world\<lparr>dw_ledger := reliable_database
     [(''key-1'', request_fingerprint ''doc_a'' sample_request ''tenant-1'', withdrawn_decision)]\<rparr>"

lemma withdrawn_key: "ld_signing_key_id withdrawn_decision = ''archive-v1''"
  by (simp add: withdrawn_decision_def decision_for_def withdrawn_signer_def)

lemma inj_print_int: "inj print_int"
  by (rule injI) (use print_int_inj [where r = "[]" and u = "[]"] in \<open>simp add: is_decimal_digit_def\<close>)

lemma withdrawn_verifies:
  "verify_lifecycle_decision print_int sample_verify withdrawn_decision
     [signer_key_id withdrawn_signer \<mapsto> signer_public_raw withdrawn_signer] 0"
proof (rule signed_verifies)
  show "signed_by print_int withdrawn_signer withdrawn_decision"
    unfolding withdrawn_decision_def signed_decision_body(2) by (simp add: decision_for_def)
  show "signer_ok sample_verify withdrawn_signer"
    using sample_signer_ok by (simp add: signer_ok_def withdrawn_signer_def)
  show "0 < ld_expires_at withdrawn_decision"
    by (simp add: withdrawn_decision_def decision_for_def)
qed

text \<open>The call of another tenant is refused, after the document has been written.\<close>

lemma cross_tenant_run:
  "issue print_int sample_decisions ''doc_a'' sample_request ''key-1'' (decision_caller ''tenant-2'') ''t-9'' (Some 5) proof_world
   = (Inl (LifecycleDecisionTenantError ''document tenant does not match caller tenant''),
      proof_world\<lparr>dw_archive := (dw_archive proof_world)\<lparr>w_repo := reliable_database (empty_tables\<lparr>archive_documents := [eligible_document]\<rparr>),
        w_ticks := 3\<rparr>\<rparr>)"
  by (simp add: issue_def issue_new_def sample_admitted empty_ledger_get proof_posture seq_io_def bind_io_def
      on_archive_def on_ledger_def Let_def raise_def)

lemma single_row_inv:
  assumes "pristine m" "document_id m \<noteq> []"
  shows "archive_inv (pg_abs (reliable_database (empty_tables\<lparr>archive_documents := [m]\<rparr>)))"
    "pg_wf (reliable_database (empty_tables\<lparr>archive_documents := [m]\<rparr>))"
proof -
  have "pg_abs (reliable_database (empty_tables\<lparr>archive_documents := [m]\<rparr>)) = spec_save m empty_archive"
    by (simp add: pg_abs_def tables_abs_def reliable_database_def empty_tables_def row_of_def spec_save_def put_doc_def
        empty_archive_def fun_eq_iff)
  moreover have "archive_inv (spec_save m empty_archive)"
    by (rule save_inv [OF empty_archive_inv]) (use assms in \<open>simp add: new_document_def empty_archive_def\<close>)
  ultimately show "archive_inv (pg_abs (reliable_database (empty_tables\<lparr>archive_documents := [m]\<rparr>)))" by simp
  show "pg_wf (reliable_database (empty_tables\<lparr>archive_documents := [m]\<rparr>))"
    by (simp add: pg_wf_def tables_wf_def reliable_database_def empty_tables_def)
qed

lemma proof_pristine: "pristine proof_document"
  by (simp add: pristine_def) (simp add: proof_document_def sample_document_def document_metadata.defs document_input.defs)

lemma proof_world_ok:
  "archive_inv (pg_abs (w_repo (dw_archive proof_world)))" "pg_wf (w_repo (dw_archive proof_world))"
  using single_row_inv [OF proof_pristine] by (simp_all add: proof_world_def sample_world_def proof_tables_def)

lemma proof_bytes: "bytes_held fs_objects fs_addr (w_store (dw_archive proof_world)) (untimed proof_document)"
  by (simp add: bytes_held_def proof_world_def sample_world_def fs_addr_def sample_path fs_objects_def stored_sample_def
      dict_get_def calculate_checksum_def untimed_def SUPPORTED_CHECKSUM_ALGORITHM_def ascii_lower_def)

lemma proof_row: "st_docs (pg_abs (w_repo (dw_archive proof_world))) d = Some m
    \<longleftrightarrow> d = ''doc_a'' \<and> m = untimed proof_document"
  by (auto simp: proof_world_def sample_world_def proof_tables_def pg_abs_def tables_abs_def reliable_database_def
      empty_tables_def row_of_def)

section \<open>Its purge\<close>

lemma report_caller_admitted:
  "authorize (svc_policy pg_sample) A EXECUTE_PURGE (sample_caller ''lotus-report'') trace doc w = (Inr (), w)"
  by (simp add: authorize_def pg_sample_def allowed_callers_for_def default_policy_def sample_caller_def skip_io_def ret_def)

lemma report_caller_scope:
  "authorize_document_tenant_scope A proof_document (sample_caller ''lotus-report'') trace w = (Inr (), w)"
  by (simp add: tenant_scope_returns tenant_decision_allowed missing_scope_def sample_caller_def)

lemma sample_purge:
  "\<exists>m w'. purge_document pg_sample ''doc_a'' (sample_caller ''lotus-report'') ''t-9'' None (dw_archive proof_world)
     = (Inr (m, ''purged''), w')"
proof -
  let ?r = "\<lambda>m. reliable_database (empty_tables\<lparr>archive_documents := [m]\<rparr>)"
  have r: "svc_repository pg_sample = postgres_ops" "svc_storage pg_sample = filesystem_store ''local''" "svc_audit pg_sample = postgres_audit"
    by (simp_all add: pg_sample_def)
  have start: "get_tenant_authorized_document_metadata pg_sample ''doc_a'' EXECUTE_PURGE (sample_caller ''lotus-report'') ''t-9'' (dw_archive proof_world)
      = (Inr proof_document, (dw_archive proof_world)\<lparr>w_repo := ?r proof_document\<rparr>)"
    by (simp add: get_tenant_authorized_document_metadata_def get_existing_metadata_def seq_io_def bind_io_def
        report_caller_admitted report_caller_scope r postgres_ops_def on_repo_def pg_get_by_document_id_def
        pg_fetch_document_def transaction_def next_fault_def sql_select_document_def gets_def proof_world_def
        sample_world_def proof_tables_def reliable_database_def empty_tables_def ret_def)
  show ?thesis
    using start
    by (simp add: purge_document_def refresh_legal_hold_summary_def evaluate_purge_def execute_purge_def
      grant_eligibility_def r postgres_ops_def on_repo_def read_clock_def read_today_def
      bind_io_def seq_io_def gets_def ret_def proof_world_def sample_world_def
      pg_refresh_legal_hold_summary_def sql_refresh_summary_def pg_mark_purge_eligible_def sql_update_documents_def
      transaction_def next_fault_def reliable_database_def proof_tables_def empty_tables_def sql_select_document_def
      update_rows_def updated_row_def active_hold_rows_def less_date_def less_eq_date_def Let_def
      pg_begin_purge_def pg_complete_purge_def on_store_def filesystem_store_def fs_delete_def fs_is_dir_def sample_path stored_sample_def
      record_allowed_def record_access_def draw_uuid_def on_audit_def postgres_audit_def of_result_def
      archive_metric_def record_archive_operation_def modify_io_def IMPLEMENTED_ARCHIVE_OPERATIONS_def
      record_archive_document_size_def size_from_result_def)
qed

end
