(* ===== verification/HttpSamples.thy ===== *)
theory HttpSamples
  imports HttpApi DecisionSamples
begin

text \<open>Requests to the routes for the proof pack in custody.\<close>

definition reader_request :: http_request where
  "reader_request = \<lparr>rq_headers = [(''x-caller-service'', ''lotus-gateway''), (''x-actor-type'', ''service''),
      (''x-actor-id'', ''svc''), (''x-tenant-id'', ''tenant-1''), (''x-region'', ''SG'')],
     rq_ids = \<lparr>req_correlation_id = ''corr-1'', req_trace_id = ''t-9''\<rparr>\<rparr>"

lemma reader: "request_caller_context reader_request = Inr (sample_caller ''lotus-gateway'')"
  by (simp add: reader_request_def request_caller_context_def caller_context_from_headers_def normalized_headers_def
      missing_headers_def Let_def dict_set_def dict_get_def ascii_lower_def py_strip_def is_space_def sample_caller_def)

lemma reader_trace: "request_trace_id reader_request = ''t-9''"
  by (simp add: request_trace_id_def reader_request_def)

lemma reader_admitted:
  "authorize (svc_policy pg_sample) A DOWNLOAD_BINARY (sample_caller ''lotus-gateway'') trace doc w = (Inr (), w)"
  by (simp add: authorize_def pg_sample_def allowed_callers_for_def default_policy_def sample_caller_def skip_io_def ret_def)

lemma reader_scope:
  "authorize_document_scope A proof_document (sample_caller ''lotus-gateway'') trace w = (Inr (), w)"
  by (simp add: scope_returns scope_decision_allowed tenant_decision_allowed missing_scope_def sample_caller_def)

lemma sample_download:
  "\<exists>r w'. http_download_document pg_sample ''doc_a'' reader_request (dw_archive proof_world) = ((200, Inr r), w')"
proof -
  let ?W = "dw_archive proof_world"
  let ?W1 = "?W\<lparr>w_repo := reliable_database (empty_tables\<lparr>archive_documents := [proof_document]\<rparr>)\<rparr>"
  have r: "svc_repository pg_sample = postgres_ops" "svc_storage pg_sample = filesystem_store ''local''" "svc_audit pg_sample = postgres_audit"
    by (simp_all add: pg_sample_def)
  have row: "get_authorized_document_metadata pg_sample ''doc_a'' DOWNLOAD_BINARY (sample_caller ''lotus-gateway'') ''t-9'' ?W
      = (Inr proof_document, ?W1)"
    by (simp add: get_authorized_document_metadata_def get_existing_metadata_def seq_io_def bind_io_def
        reader_admitted reader_scope r postgres_ops_def on_repo_def pg_get_by_document_id_def
        pg_fetch_document_def transaction_def next_fault_def sql_select_document_def gets_def proof_world_def
        sample_world_def proof_tables_def reliable_database_def empty_tables_def ret_def)
  have bytes: "on_store (store_get (svc_storage pg_sample) sample_key) ?W1 = (Inr [97, 98, 99], ?W1)"
    by (simp add: on_store_def r filesystem_store_def fs_get_def sample_path fs_is_file_def proof_world_def sample_world_def
        stored_sample_def dict_get_def io_simps)
  obtain a where rec: "record_allowed pg_sample BINARY_DOWNLOAD (sample_caller ''lotus-gateway'') ''t-9'' ''doc_a''
      (Some ''download_succeeded'') ?W1 = (Inr (), a)"
    by (simp add: record_allowed_def record_access_def run_steps on_audit_def r postgres_audit_def proof_world_def
        sample_world_def transaction_def next_fault_def reliable_database_def)
  have "fst (get_document_binary pg_sample ''doc_a'' (sample_caller ''lotus-gateway'') ''t-9'' ?W) = Inr (proof_document, [97, 98, 99])"
    unfolding get_document_binary_def
    by (subst archive_metric_transparent(1), simp add: IMPLEMENTED_ARCHIVE_OPERATIONS_def)
      (simp add: bind_io_def [of "get_authorized_document_metadata a b c d e" for a b c d e] row
        bind_io_def [of "try_except a b" for a b] try_except_def bytes of_result_def bind_io_def seq_io_def rec ret_def
        calculate_checksum_def ascii_lower_def SUPPORTED_CHECKSUM_ALGORITHM_def)
  then have "\<exists>w'. get_document_binary pg_sample ''doc_a'' (sample_caller ''lotus-gateway'') ''t-9'' ?W
      = (Inr (proof_document, [97, 98, 99]), w')" by (metis prod.collapse)
  then show ?thesis
    by (auto simp: http_download_document_def route_def reader answer_def bind_io_def ret_def reader_trace)
qed

lemma sample_preflight:
  "\<exists>r w'. http_preflight_document_access sample_service [''doc_a'', '' doc_z ''] reader_request sample_ingested = ((200, Inr r), w')"
proof -
  let ?u = "sample_caller ''lotus-gateway''"
  have svc: "svc_repository sample_service = memory_ops" "svc_audit sample_service = memory_audit"
    "caller_service ?u \<in> set (allowed_callers_for (svc_policy sample_service) READ_BATCH_ACCESS_PREFLIGHT)"
    by (simp_all add: sample_service_def in_memory_service_def allowed_callers_for_def default_policy_def sample_caller_def)
  have ids: "validate_preflight_request [''doc_a'', '' doc_z ''] = Inr [''doc_a'', ''doc_z'']" by code_simp
  have "[''doc_a'', ''doc_z''] \<noteq> []" "length [''doc_a'', ''doc_z''] \<le> MAX_PREFLIGHT_DOCUMENT_IDS" "missing_scope ?u = []"
    by (simp_all add: MAX_PREFLIGHT_DOCUMENT_IDS_def missing_scope_def sample_caller_def)
  from preflight_memory [OF svc(1,2) this(1,2) svc(3) this(3), of "''t-9''" sample_ingested]
  obtain res w' where run: "preflight_document_access sample_service [''doc_a'', ''doc_z''] ?u ''t-9'' sample_ingested = (Inr res, w')"
    unfolding Let_def by blast
  have "list_all (\<lambda>i. item_reason i \<in> RESPONSE_REASON_CODES) (preflight_items res)"
    using response_items(2) [OF run] by (simp add: list_all_iff)
  then obtain r where "preflight_response_of res = Inr r" by (simp add: preflight_response_of_def)
  then show ?thesis
    by (simp add: http_preflight_document_access_def route_def reader reader_trace ids answer_def bind_io_def run of_result_def ret_def)
qed

text \<open>A relationship row.\<close>

definition sample_relationship :: "string \<Rightarrow> lifecycle_relationship" where
  "sample_relationship i = \<lparr>lifecycle_relationship_id = i, source_document_id = ''doc_a'', target_document_id = ''doc_b'',
     transition_type = CORRECT, transition_reason = ''restated'', relationship_reason_code = ''r-1'',
     relationship_requested_by = ''ops'', relationship_requested_at = 7\<rparr>"

end
