(* ===== verification/DecisionCustody.thy ===== *)
theory DecisionCustody
  imports LifecycleGuarantees
begin

text \<open>
  A decision that does not report disposal is about bytes still in custody: reading the posture
  may move the row's eligibility and its hold summary, and neither is part of the row's identity.
\<close>

lemma posture_keeps_step:
  assumes steps: "keeps J read_clock" "\<And>e. keeps J (on_repo (repo_get_by_document_id (svc_repository svc) e))"
    "\<And>e t. keeps J (on_repo (repo_refresh_legal_hold_summary (svc_repository svc) e t))"
    "\<And>e t n. keeps J (on_repo (repo_mark_purge_eligible (svc_repository svc) e t n))"
    "\<And>e n. keeps J (on_repo (repo_mark_purge_not_eligible (svc_repository svc) e n))"
    "\<And>e. keeps J (on_repo (repo_list_legal_holds (svc_repository svc) e))"
  shows "keeps J (get_lifecycle_posture svc d)"
proof -
  have reclassify: "keeps J (reclassify_refused_transition svc e)" for e
    unfolding reclassify_refused_transition_def stored_or_raise_def by (intro wp steps)
  have evaluate: "keeps J (evaluate_purge svc m on_date)" for m on_date
    unfolding evaluate_purge_def withdraw_eligibility_def grant_eligibility_def read_today_def
    by (intro wp steps reclassify)
  show ?thesis
    unfolding get_lifecycle_posture_def get_existing_metadata_def refresh_legal_hold_summary_def read_today_def
    by (intro wp steps evaluate)
qed

context current_resolution
begin

lemma posture_evolves: "keeps (\<lambda>w. repo_inv absr wfr s0 (w_repo w)) (get_lifecycle_posture svc d)"
  by (rule posture_keeps_step) (simp add: keeps_iff read_clock_def,
      (rule keeps_on_repo [where I = "repo_inv absr wfr s0"], rule reads_keep transitions_keep)+)

lemma posture_row:
  assumes inv: "wfr (w_repo w)" "archive_inv (absr (w_repo w))" and run: "get_lifecycle_posture svc d w = (Inr m, w')"
  obtains m0 where "st_docs (absr (w_repo w)) d = Some m0" "immutable_part (untimed m) = immutable_part m0"
    "purge_started_at m = None \<longrightarrow> purge_started_at m0 = None"
proof -
  have here: "here (absr (w_repo w)) (w_today w) w" using inv by (simp add: repo_at_def)
  obtain m0 w1 where m0: "get_existing_metadata svc d w = (Inr m0, w1)"
    using run by (auto simp: get_lifecycle_posture_def returns split: prod.splits)
  have row: "st_docs (absr (w_repo w)) d = Some (untimed m0)"
    using triple_returns [OF looking(1) [OF inv(2)] here m0] by simp
  obtain s' where s': "here s' (w_today w) w'" "st_docs s' d = Some (untimed m)"
    using posture_sound [OF inv(2) here run] by blast
  have "repo_inv absr wfr (absr (w_repo w)) (w_repo w)" using inv by (simp add: repo_inv_def)
  then have "repo_inv absr wfr (absr (w_repo w)) (w_repo w')"
    using posture_evolves [of "absr (w_repo w)" d] run by (metis keeps_iff snd_conv)
  then have "archive_evolves (absr (w_repo w)) s'" using s'(1) by (simp add: repo_inv_def repo_at_def)
  then have "evolves (untimed m0) (untimed m)"
    unfolding archive_evolves_def using row s'(2) by (metis option.inject)
  then show thesis
    by (intro that [OF row]) (auto simp: evolves_def settled_def)
qed

lemma fresh_decision_bytes:
  assumes fresh: "freshly_issued show_time ds d req key f caller tenant trace at w m dec w'" and ds: "ds_archive ds = svc"
    and inv: "wfr (w_repo (dw_archive w))" "archive_inv (absr (w_repo (dw_archive w)))"
    and held: "\<And>m0. st_docs (absr (w_repo (dw_archive w))) d = Some m0 \<Longrightarrow> purge_started_at m0 = None
      \<Longrightarrow> bytes_held objects addr (w_store (dw_archive w)) m0"
    and action: "ld_lifecycle_action dec \<noteq> DISPOSAL_EXECUTED"
  shows "bytes_held objects addr (w_store (dw_archive w')) m"
proof -
  note facts = fresh_states_row [OF fresh ds inv]
  have "purge_started_at m = None" using action_preserves [of m] facts(2) action by (metis fst_conv)
  moreover obtain a where run: "get_lifecycle_posture svc d (dw_archive w) = (Inr m, a)"
    using fresh ds by (auto simp: freshly_issued_def)
  ultimately obtain m0 where "st_docs (absr (w_repo (dw_archive w))) d = Some m0"
    "immutable_part (untimed m) = immutable_part m0" "purge_started_at m0 = None"
    using posture_row [OF inv run] by metis
  then have "bytes_held objects addr (w_store (dw_archive w)) (untimed m)"
    using held row_facts_immutable(2) by metis
  then show ?thesis using facts(6) by (simp add: bytes_held_def untimed_def)
qed

end

end
