(* ===== verification/RuntimeSettings.thy ===== *)
theory RuntimeSettings
  imports Complex_Main LifecycleDecisions Platforms
begin

text \<open>
  \<open>src/app/archive/settings.py\<close>, \<open>runtime.py\<close>, \<open>service_profile.py\<close> and the readiness probe of
  \<open>main.py\<close>: the settings with their field bounds and startup validation, the services they
  compose, and the posture the process reports. \<open>json.loads\<close>, \<open>str\<close> of a parsed value and
  \<open>datetime.fromisoformat\<close> are the fields of a \<open>settings_parser\<close>; reading the environment is
  pydantic's.
\<close>

section \<open>Settings\<close>

datatype runtime_profile = Local_development | Test | Production
datatype repository_mode = In_memory | Postgresql
datatype storage_mode = Filesystem_mode | S3_mode
datatype server_side_encryption = AES256 | Aws_kms

record archive_runtime_settings =
  runtime_profile :: runtime_profile
  repository_mode :: repository_mode
  storage_mode :: storage_mode
  set_storage_namespace :: string
  database_url :: "string option"
  database_connect_timeout_seconds :: int
  database_statement_timeout_ms :: int
  database_pool_min_size :: int
  database_pool_max_size :: int
  set_s3_bucket :: "string option"
  set_s3_key_prefix :: string
  set_s3_region :: "string option"
  set_s3_endpoint_url :: "string option"
  set_s3_server_side_encryption :: server_side_encryption
  set_s3_kms_key_id :: "string option"
  s3_connect_timeout_seconds :: rat
  s3_read_timeout_seconds :: rat
  s3_max_attempts :: int
  max_decoded_document_bytes :: int
  decision_private_key_base64 :: string
  decision_signing_key_id :: string
  decision_signing_key_not_before :: "instant option"
  decision_retained_keys :: string
  decision_revoked_key_ids :: string

definition optional_length :: "nat \<Rightarrow> string option \<Rightarrow> bool" where
  "optional_length n v = (case v of None \<Rightarrow> True | Some s \<Rightarrow> n \<le> length s)"

text \<open>The bounds declared on the fields.\<close>

definition validate_setting_fields :: "archive_runtime_settings \<Rightarrow> exc + unit" where
  "validate_setting_fields s = run_checks
    [(1 \<le> length (set_storage_namespace s), ValidationError ''storage_namespace''),
     (1 \<le> database_connect_timeout_seconds s \<and> database_connect_timeout_seconds s \<le> 60,
      ValidationError ''database_connect_timeout_seconds''),
     (100 \<le> database_statement_timeout_ms s \<and> database_statement_timeout_ms s \<le> 600000,
      ValidationError ''database_statement_timeout_ms''),
     (0 \<le> database_pool_min_size s \<and> database_pool_min_size s \<le> 10, ValidationError ''database_pool_min_size''),
     (1 \<le> database_pool_max_size s \<and> database_pool_max_size s \<le> 50, ValidationError ''database_pool_max_size''),
     (optional_length 3 (set_s3_bucket s), ValidationError ''s3_bucket''),
     (1 \<le> length (set_s3_key_prefix s), ValidationError ''s3_key_prefix''),
     (optional_length 1 (set_s3_region s), ValidationError ''s3_region''),
     (optional_length 1 (set_s3_endpoint_url s), ValidationError ''s3_endpoint_url''),
     (optional_length 1 (set_s3_kms_key_id s), ValidationError ''s3_kms_key_id''),
     (0 < s3_connect_timeout_seconds s \<and> s3_connect_timeout_seconds s \<le> 60, ValidationError ''s3_connect_timeout_seconds''),
     (0 < s3_read_timeout_seconds s \<and> s3_read_timeout_seconds s \<le> 300, ValidationError ''s3_read_timeout_seconds''),
     (1 \<le> s3_max_attempts s \<and> s3_max_attempts s \<le> 10, ValidationError ''s3_max_attempts''),
     (1 \<le> max_decoded_document_bytes s, ValidationError ''max_decoded_document_bytes''),
     (3 \<le> length (decision_signing_key_id s), ValidationError ''idea_lifecycle_decision_signing_key_id'')]"

definition max_encoded_document_chars :: "archive_runtime_settings \<Rightarrow> int" where
  "max_encoded_document_chars s = ((max_decoded_document_bytes s + 2) div 3) * 4"

section \<open>Key lists in JSON\<close>

datatype config_json =
    CText string
  | CNumber rat
  | CBool bool
  | CNull
  | CList "config_json list"
  | CObject "(string \<times> config_json) list"

record settings_parser =
  json_loads :: "string \<Rightarrow> config_json option"
  str_of :: "config_json \<Rightarrow> string"
  fromisoformat :: "string \<Rightarrow> (instant \<times> bool) option"

fun config_truthy :: "config_json \<Rightarrow> bool" where
  "config_truthy (CText t) = (t \<noteq> [])"
| "config_truthy (CNumber n) = (n \<noteq> 0)"
| "config_truthy (CBool b) = b"
| "config_truthy CNull = False"
| "config_truthy (CList xs) = (xs \<noteq> [])"
| "config_truthy (CObject kvs) = (kvs \<noteq> [])"

text \<open>
  A retained key as \<open>RetainedVerificationKey(**entry)\<close> builds it: exactly the four fields, the
  id and the key whatever JSON value they are, the instants read with their offset.
\<close>

record raw_retained_key =
  raw_key_id :: config_json
  raw_public_key :: config_json
  raw_not_before :: instant
  raw_not_after :: instant

definition as_datetime :: "settings_parser \<Rightarrow> config_json \<Rightarrow> instant option" where
  "as_datetime P v = (case fromisoformat P (str_of P v) of
     None \<Rightarrow> None | Some (t, aware) \<Rightarrow> if aware then Some t else None)"

definition retained_key_of :: "settings_parser \<Rightarrow> config_json \<Rightarrow> raw_retained_key option" where
  "retained_key_of P entry =
     (case entry of
        CObject kvs \<Rightarrow>
          if set (map fst kvs) \<noteq> {''key_id'', ''public_key_base64'', ''not_before_utc'', ''not_after_utc''} then None
          else (let field = (\<lambda>k. the (map_of kvs k)) in
            if \<not> config_truthy (field ''key_id'') \<or> \<not> config_truthy (field ''public_key_base64'') then None
            else (case (as_datetime P (field ''not_before_utc''), as_datetime P (field ''not_after_utc'')) of
              (Some b, Some e) \<Rightarrow> Some \<lparr>raw_key_id = field ''key_id'', raw_public_key = field ''public_key_base64'',
                                      raw_not_before = b, raw_not_after = e\<rparr>
            | _ \<Rightarrow> None))
      | _ \<Rightarrow> None)"

definition retained_verification_keys ::
    "settings_parser \<Rightarrow> archive_runtime_settings \<Rightarrow> exc + raw_retained_key list" where
  "retained_verification_keys P s =
     (let raw = py_strip (decision_retained_keys s) in
      if raw = [] then Inr []
      else (case json_loads P raw of
        None \<Rightarrow> Inl (RuntimeConfigurationError ''retained lifecycle verification keys must be valid JSON'')
      | Some (CList entries) \<Rightarrow>
          (case those (map (retained_key_of P) entries) of
             None \<Rightarrow> Inl (RuntimeConfigurationError ''a retained lifecycle verification key entry is malformed'')
           | Some ks \<Rightarrow> Inr ks)
      | Some _ \<Rightarrow> Inl (RuntimeConfigurationError ''retained lifecycle verification keys must be a JSON list'')))"

definition revoked_entry :: "config_json \<Rightarrow> string option" where
  "revoked_entry e = (case e of CText t \<Rightarrow> if py_strip t \<noteq> [] then Some (py_strip t) else None | _ \<Rightarrow> None)"

definition revoked_key_ids :: "settings_parser \<Rightarrow> archive_runtime_settings \<Rightarrow> exc + string list" where
  "revoked_key_ids P s =
     (let raw = py_strip (decision_revoked_key_ids s) in
      if raw = [] then Inr []
      else (case json_loads P raw of
        None \<Rightarrow> Inl (RuntimeConfigurationError ''revoked lifecycle verification key IDs must be valid JSON'')
      | Some (CList entries) \<Rightarrow>
          (case those (map revoked_entry entries) of
             None \<Rightarrow> Inl (RuntimeConfigurationError
                       ''revoked lifecycle verification key IDs must be a JSON list of non-empty strings'')
           | Some ids \<Rightarrow> Inr ids)
      | Some _ \<Rightarrow> Inl (RuntimeConfigurationError
                    ''revoked lifecycle verification key IDs must be a JSON list of non-empty strings'')))"

section \<open>Startup validation\<close>

definition local_profile :: "archive_runtime_settings \<Rightarrow> bool" where
  "local_profile s \<longleftrightarrow> runtime_profile s \<in> {Local_development, Test}"

definition check_private_key :: "string \<Rightarrow> exc + unit" where
  "check_private_key encoded =
     (if encoded = [] then Inr ()
      else (case b64decode encoded of
        None \<Rightarrow> Inl (RuntimeConfigurationError ''lifecycle decision private key must be valid base64'')
      | Some k \<Rightarrow> if length k \<noteq> 32
          then Inl (RuntimeConfigurationError ''lifecycle decision Ed25519 private key must contain 32 bytes'')
          else Inr ()))"

text \<open>
  A duplicate id, when it is no text, cannot be joined into the message, and an id that JSON
  gives as a list or an object cannot be hashed: Python raises \<open>TypeError\<close> there.
\<close>

fun is_text :: "config_json \<Rightarrow> bool" where
  "is_text (CText t) = True" | "is_text _ = False"

fun is_hashable :: "config_json \<Rightarrow> bool" where
  "is_hashable (CList xs) = False" | "is_hashable (CObject kvs) = False" | "is_hashable _ = True"

definition type_error :: exc where
  "type_error = DriverError ''TypeError''"

definition validate_retained :: "raw_retained_key list \<Rightarrow> string \<Rightarrow> exc + unit" where
  "validate_retained retained signing_id =
     (let ids = map raw_key_id retained in
      if \<not> list_all (\<lambda>k. raw_not_before k < raw_not_after k) retained
      then Inl (RuntimeConfigurationError ''a retained lifecycle verification key window must end after it begins'')
      else if \<not> distinct ids
      then Inl (if list_all is_text (filter (\<lambda>i. 1 < count_list ids i) ids)
                then RuntimeConfigurationError ''retained lifecycle verification key IDs must be unique'' else type_error)
      else if CText signing_id \<in> set ids
      then Inl (RuntimeConfigurationError ''the active signing key ID must not also appear in the retained verification keys'')
      else Inr ())"

definition validate_revoked :: "raw_retained_key list \<Rightarrow> string \<Rightarrow> string list \<Rightarrow> exc + unit" where
  "validate_revoked retained signing_id revoked =
     (let ids = map raw_key_id retained in
      if \<not> list_all is_hashable ids then Inl type_error
      else if \<not> (\<forall>i \<in> set revoked. CText i \<in> set ids \<or> i = signing_id)
      then Inl (RuntimeConfigurationError ''revoked lifecycle key IDs match no published key'')
      else Inr ())"

definition validate_lifecycle_decision_keys :: "settings_parser \<Rightarrow> archive_runtime_settings \<Rightarrow> exc + unit" where
  "validate_lifecycle_decision_keys P s =
     and_then (check_private_key (decision_private_key_base64 s))
    (and_then (run_checks
       [(local_profile s \<or> decision_private_key_base64 s \<noteq> [] \<and> \<not> startswith (decision_signing_key_id s) ''ephemeral-local'',
         RuntimeConfigurationError ''production lifecycle decisions require managed signing key material''),
        (local_profile s \<or> decision_signing_key_not_before s \<noteq> None,
         RuntimeConfigurationError ''production lifecycle decisions require a provisioned signing key start instant'')])
    (bind_result (retained_verification_keys P s) (\<lambda>retained.
       and_then (validate_retained retained (decision_signing_key_id s))
         (bind_result (revoked_key_ids P s) (\<lambda>revoked.
            validate_revoked retained (decision_signing_key_id s) revoked)))))"

definition validate_runtime_posture :: "settings_parser \<Rightarrow> archive_runtime_settings \<Rightarrow> exc + unit" where
  "validate_runtime_posture P s =
     and_then (run_checks
       [(database_pool_min_size s \<le> database_pool_max_size s,
         RuntimeConfigurationError ''database pool min size cannot exceed max size''),
        (local_profile s \<or> repository_mode s \<noteq> In_memory,
         RuntimeConfigurationError ''in-memory archive repository requires local-development or test profile''),
        (local_profile s \<or> storage_mode s \<noteq> Filesystem_mode,
         RuntimeConfigurationError ''filesystem archive storage requires local-development or test profile''),
        (repository_mode s \<noteq> Postgresql \<or> truthy (database_url s),
         RuntimeConfigurationError ''PostgreSQL archive repository requires database URL''),
        (storage_mode s \<noteq> S3_mode \<or> truthy (set_s3_bucket s),
         RuntimeConfigurationError ''S3 archive storage requires bucket''),
        (set_s3_server_side_encryption s \<noteq> Aws_kms \<or> truthy (set_s3_kms_key_id s),
         RuntimeConfigurationError ''S3 KMS encryption requires key ID'')])
     (validate_lifecycle_decision_keys P s)"

definition validate_settings :: "settings_parser \<Rightarrow> archive_runtime_settings \<Rightarrow> exc + unit" where
  "validate_settings P s = and_then (validate_setting_fields s) (validate_runtime_posture P s)"

section \<open>Composition\<close>

text \<open>The repository modes times the storage modes; the S3 client is the cloud library's.\<close>

datatype 'c runtime_service =
    Memory_filesystem "(memory_repository, filesystem, access_audit_event list) archive_service"
  | Memory_s3 "(memory_repository, 'c, access_audit_event list) archive_service"
  | Postgres_filesystem "(postgres, filesystem, access_audit_event list database) archive_service"
  | Postgres_s3 "(postgres, 'c, access_audit_event list database) archive_service"

fun encryption_value :: "server_side_encryption \<Rightarrow> string" where
  "encryption_value AES256 = ''AES256''" | "encryption_value Aws_kms = ''aws:kms''"

text \<open>\<open>pooled_connection_factory\<close> and the two repositories refuse a blank DSN.\<close>

definition connect :: "string option \<Rightarrow> exc + unit" where
  "connect url = (case url of None \<Rightarrow> Inl (DriverError ''AssertionError'')
     | Some dsn \<Rightarrow> if py_strip dsn = [] then Inl (ValueError ''PostgreSQL DSN must not be blank'') else Inr ())"

definition s3_of_settings :: "archive_runtime_settings \<Rightarrow> exc + s3_settings" where
  "s3_of_settings s = (case set_s3_bucket s of None \<Rightarrow> Inl (DriverError ''AssertionError'')
     | Some bucket \<Rightarrow> s3_init bucket (set_storage_namespace s) (set_s3_key_prefix s)
         (encryption_value (set_s3_server_side_encryption s)) (set_s3_kms_key_id s))"

definition build_archive_service ::
    "'c s3_client \<Rightarrow> workbook_reader \<Rightarrow> archive_runtime_settings \<Rightarrow> exc + 'c runtime_service" where
  "build_archive_service client rd s =
     (let limit = nat (max_decoded_document_bytes s) in
      case (repository_mode s, storage_mode s) of
        (Postgresql, S3_mode) \<Rightarrow> and_then (connect (database_url s))
           (bind_result (s3_of_settings s) (\<lambda>cfg. Inr (Postgres_s3 (postgresql_service (s3_store cfg client) limit rd))))
      | (Postgresql, Filesystem_mode) \<Rightarrow> and_then (connect (database_url s))
           (Inr (Postgres_filesystem (postgresql_service (filesystem_store (set_storage_namespace s)) limit rd)))
      | (In_memory, S3_mode) \<Rightarrow>
           bind_result (s3_of_settings s) (\<lambda>cfg. Inr (Memory_s3 (in_memory_service (s3_store cfg client) limit rd)))
      | (In_memory, Filesystem_mode) \<Rightarrow>
           Inr (Memory_filesystem (in_memory_service (filesystem_store (set_storage_namespace s)) limit rd)))"

text \<open>
  \<open>idea_lifecycle_decision_service\<close> of \<open>api.py\<close>, for retained keys whose id and public key are
  texts: the signer is the parameter's key pair under the configured id, decisions live five
  minutes, and the archive service's policy and trail are shared.
\<close>

definition raw_of_retained :: "retained_key \<Rightarrow> raw_retained_key" where
  "raw_of_retained k = \<lparr>raw_key_id = CText (rk_key_id k), raw_public_key = CText (rk_public_key_base64 k),
     raw_not_before = rk_not_before k, raw_not_after = rk_not_after k\<rparr>"

definition idea_lifecycle_decision_service ::
    "(bytes option \<Rightarrow> (bytes \<Rightarrow> bytes) \<times> bytes) \<Rightarrow> retained_key list \<Rightarrow> string list \<Rightarrow> archive_runtime_settings
      \<Rightarrow> ('r, 's, 'a) archive_service \<Rightarrow> ('r, 's, 'a) decision_service" where
  "idea_lifecycle_decision_service key_pair retained revoked s svc =
     (let encoded = decision_private_key_base64 s;
          pair = key_pair (if encoded = [] then None else b64decode encoded) in
      \<lparr>ds_archive = svc,
       ds_signer = \<lparr>signer_key_id = decision_signing_key_id s, signer_sign = fst pair, signer_public_raw = snd pair\<rparr>,
       ds_ttl = 5 * 60 * 1000000, ds_not_before = decision_signing_key_not_before s, ds_retained = retained,
       ds_revoked = revoked\<rparr>)"

record archive_runtime_posture =
  posture_profile :: runtime_profile
  posture_repository_mode :: repository_mode
  posture_storage_mode :: storage_mode
  durable_metadata :: bool
  durable_audit :: bool
  durable_storage :: bool
  posture_state :: string
  posture_reason :: string

definition runtime_posture :: "archive_runtime_settings \<Rightarrow> archive_runtime_posture" where
  "runtime_posture s =
     (let dm = (repository_mode s = Postgresql); ds = (storage_mode s = S3_mode);
          (st, why) =
            (if local_profile s then (if dm \<and> ds then ''ready'' else ''degraded'', ''explicit_local_development_runtime'')
             else if \<not> dm \<or> \<not> ds then (''unavailable'', ''durable_archive_runtime_missing'')
             else (''ready'', ''durable_archive_runtime_configured'')) in
      \<lparr>posture_profile = runtime_profile s, posture_repository_mode = repository_mode s,
       posture_storage_mode = storage_mode s, durable_metadata = dm, durable_audit = dm, durable_storage = ds,
       posture_state = st, posture_reason = why\<rparr>)"

section \<open>Supportability and readiness\<close>

definition measured_unavailability_reason :: "archive_runtime_readiness \<Rightarrow> string option" where
  "measured_unavailability_reason r =
     (if \<not> repository_ready r then Some ''archive_repository_unavailable''
      else if \<not> storage_ready r then Some ''archive_storage_unavailable''
      else if \<not> access_audit_ready r then Some ''archive_access_audit_unavailable''
      else None)"

record supportability =
  sup_state :: string
  sup_reason :: string
  sup_freshness_bucket :: string
  sup_retrieval_supported :: bool
  sup_retention_supported :: bool
  sup_legal_hold_supported :: bool
  sup_access_audit_supported :: bool
  sup_document_lifecycle_supported :: bool
  sup_gateway_retrieval_supported :: bool
  sup_workbench_retrieval_supported :: bool
  sup_readiness :: archive_runtime_readiness
  sup_draining :: bool

definition archive_supportability :: "bool \<Rightarrow> archive_runtime_readiness \<Rightarrow> supportability" where
  "archive_supportability draining r =
     (let (st, why, fresh) =
        (if draining then (''degraded'', ''archive_supportability_draining'', ''current'')
         else (case measured_unavailability_reason r of
           Some reason \<Rightarrow> (''unavailable'', reason, ''unknown'')
         | None \<Rightarrow> (''ready'', ''archive_supportability_ready'', ''current'')));
        retrieval = (repository_ready r \<and> storage_ready r) in
      \<lparr>sup_state = st, sup_reason = why, sup_freshness_bucket = fresh, sup_retrieval_supported = retrieval,
       sup_retention_supported = repository_ready r, sup_legal_hold_supported = repository_ready r,
       sup_access_audit_supported = access_audit_ready r, sup_document_lifecycle_supported = repository_ready r,
       sup_gateway_retrieval_supported = retrieval, sup_workbench_retrieval_supported = retrieval,
       sup_readiness = r, sup_draining = draining\<rparr>)"

text \<open>\<open>/health/ready\<close>: the status code, the status and the reason of the answer.\<close>

definition health_ready ::
    "bool \<Rightarrow> archive_runtime_settings \<Rightarrow> ('r, 's, 'a) archive_service
      \<Rightarrow> (('r, 's, 'a) world, nat \<times> string \<times> string option) io" where
  "health_ready draining s svc =
     (if draining then ret (503, ''draining'', None)
      else (let posture = runtime_posture s in
        if posture_state posture = ''unavailable'' then ret (503, posture_state posture, Some (posture_reason posture))
        else bind_io (runtime_readiness svc) (\<lambda>readiness.
          case measured_unavailability_reason readiness of
            Some reason \<Rightarrow> ret (503, ''unavailable'', Some reason)
          | None \<Rightarrow> ret (200, posture_state posture, Some (posture_reason posture)))))"

section \<open>What accepted settings guarantee\<close>

lemma both_accept: "and_then r k = Inr y \<longleftrightarrow> r = Inr () \<and> k = Inr y"
  by (cases r) (auto simp: and_then_def)

lemma run_checks_Inr: "run_checks cs = Inr u \<longleftrightarrow> (\<forall>(b, e) \<in> set cs. b)"
  by (induction cs) (auto split: if_splits prod.splits)

lemma validate_settings_Inr:
  "validate_settings P s = Inr u \<longleftrightarrow> validate_setting_fields s = Inr () \<and> validate_runtime_posture P s = Inr u"
  by (simp add: validate_settings_def both_accept)

text \<open>Outside local development and test, accepted settings name the durable platform.\<close>

lemma accepted_fields:
  assumes "validate_setting_fields s = Inr ()"
  shows "1 \<le> max_decoded_document_bytes s" "1 \<le> length (set_storage_namespace s)" "1 \<le> length (set_s3_key_prefix s)"
    "1 \<le> database_pool_max_size s" "3 \<le> length (decision_signing_key_id s)"
  using assms unfolding validate_setting_fields_def run_checks_Inr by simp_all

lemma accepted_posture:
  assumes "validate_runtime_posture P s = Inr u"
  shows "database_pool_min_size s \<le> database_pool_max_size s"
    "local_profile s \<or> repository_mode s \<noteq> In_memory" "local_profile s \<or> storage_mode s \<noteq> Filesystem_mode"
    "repository_mode s = Postgresql \<Longrightarrow> truthy (database_url s)"
    "storage_mode s = S3_mode \<Longrightarrow> truthy (set_s3_bucket s)"
    "set_s3_server_side_encryption s = Aws_kms \<Longrightarrow> truthy (set_s3_kms_key_id s)"
    "validate_lifecycle_decision_keys P s = Inr u"
  using assms unfolding validate_runtime_posture_def both_accept run_checks_Inr by simp_all

lemma accepted_keys:
  assumes "validate_lifecycle_decision_keys P s = Inr u"
  obtains retained revoked where
    "retained_verification_keys P s = Inr retained" "revoked_key_ids P s = Inr revoked"
    "validate_retained retained (decision_signing_key_id s) = Inr ()"
    "validate_revoked retained (decision_signing_key_id s) revoked = Inr ()"
    "check_private_key (decision_private_key_base64 s) = Inr ()"
    "local_profile s \<or> decision_private_key_base64 s \<noteq> [] \<and> \<not> startswith (decision_signing_key_id s) ''ephemeral-local''
       \<and> decision_signing_key_not_before s \<noteq> None"
proof -
  have "check_private_key (decision_private_key_base64 s) = Inr ()"
    and checks: "local_profile s \<or> decision_private_key_base64 s \<noteq> [] \<and> \<not> startswith (decision_signing_key_id s) ''ephemeral-local''"
      "local_profile s \<or> decision_signing_key_not_before s \<noteq> None"
    and v: "bind_result (retained_verification_keys P s) (\<lambda>retained.
       and_then (validate_retained retained (decision_signing_key_id s))
         (bind_result (revoked_key_ids P s) (\<lambda>revoked.
            validate_revoked retained (decision_signing_key_id s) revoked))) = Inr u"
    using assms unfolding validate_lifecycle_decision_keys_def both_accept run_checks_Inr by simp_all
  moreover from v obtain retained where "retained_verification_keys P s = Inr retained"
    by (cases "retained_verification_keys P s") (simp_all add: bind_result_def)
  moreover from v this obtain revoked where "revoked_key_ids P s = Inr revoked"
    by (cases "revoked_key_ids P s") (simp_all add: both_accept bind_result_def)
  ultimately show thesis by (intro that) (auto simp: both_accept bind_result_def)
qed

lemma blank_text [simp]: "py_strip [] = []"
  by (simp add: py_strip_def)

text \<open>Accepted settings outside local development compose PostgreSQL and S3, and report so.\<close>

lemma accepted_is_durable:
  assumes "validate_settings P s = Inr u" "\<not> local_profile s"
  shows "posture_state (runtime_posture s) = ''ready''"
    "posture_reason (runtime_posture s) = ''durable_archive_runtime_configured''"
    "durable_metadata (runtime_posture s) \<and> durable_audit (runtime_posture s) \<and> durable_storage (runtime_posture s)"
proof -
  have "repository_mode s = Postgresql" "storage_mode s = S3_mode"
    using accepted_posture(2,3) [of P s u] assms repository_mode.exhaust [of "repository_mode s"]
      storage_mode.exhaust [of "storage_mode s"] by (auto simp: validate_settings_Inr)
  then show "posture_state (runtime_posture s) = ''ready''"
    "posture_reason (runtime_posture s) = ''durable_archive_runtime_configured''"
    "durable_metadata (runtime_posture s) \<and> durable_audit (runtime_posture s) \<and> durable_storage (runtime_posture s)"
    using assms(2) by (simp_all add: runtime_posture_def)
qed

lemma accepted_composition:
  assumes "validate_settings P s = Inr u" "\<not> local_profile s"
  shows "build_archive_service client rd s =
    (if py_strip (the (database_url s)) = [] then Inl (ValueError ''PostgreSQL DSN must not be blank'')
     else if py_strip (the (set_s3_bucket s)) = [] then Inl (ValueError ''S3 bucket must not be blank'')
     else Inr (Postgres_s3 (postgresql_service
       (s3_store \<lparr>s3_bucket = the (set_s3_bucket s), s3_namespace = set_storage_namespace s,
          s3_prefix = strip_slashes (set_s3_key_prefix s), s3_encryption = encryption_value (set_s3_server_side_encryption s),
          s3_kms_key = set_s3_kms_key_id s\<rparr> client)
       (nat (max_decoded_document_bytes s)) rd)))"
proof -
  have "repository_mode s = Postgresql" "storage_mode s = S3_mode"
    using accepted_posture(2,3) [of P s u] assms repository_mode.exhaust [of "repository_mode s"]
      storage_mode.exhaust [of "storage_mode s"] by (auto simp: validate_settings_Inr)
  moreover have "truthy (database_url s)" "truthy (set_s3_bucket s)"
    using accepted_posture(4,5) [of P s u] assms calculation by (simp_all add: validate_settings_Inr)
  ultimately show ?thesis
    by (cases "database_url s"; cases "set_s3_bucket s")
      (simp_all add: build_archive_service_def connect_def s3_of_settings_def s3_init_def and_then_def bind_result_def)
qed

text \<open>
  The probe answers 200 exactly when the posture is usable and supportability, computed from the
  same measurement, is \<open>ready\<close>; otherwise it gives supportability's reason.
\<close>

lemma health_agrees:
  assumes "\<not> draining" "posture_state (runtime_posture s) \<noteq> ''unavailable''"
    and "runtime_readiness svc w = (Inr r, w')" "health_ready draining s svc w = (Inr (code, status, why), w')"
  shows "code = 200 \<longleftrightarrow> sup_state (archive_supportability draining r) = ''ready''"
    "code = 503 \<longleftrightarrow> status = ''unavailable''"
    "code = 503 \<Longrightarrow> why = Some (sup_reason (archive_supportability draining r))"
    "code = 200 \<longleftrightarrow> repository_ready r \<and> storage_ready r \<and> access_audit_ready r"
  using assms
  by (auto simp: health_ready_def bind_io_def Let_def ret_def archive_supportability_def measured_unavailability_reason_def
      split: option.splits if_splits)

text \<open>
  The bundle published under accepted settings: no id twice, every withdrawn id published as
  withdrawn, every retained window closed after it opens.
\<close>

lemma accepted_bundle:
  assumes "validate_lifecycle_decision_keys P s = Inr u"
    and "retained_verification_keys P s = Inr (map raw_of_retained retained)" "revoked_key_ids P s = Inr revoked"
    and "keys = verification_keys (idea_lifecycle_decision_service key_pair retained revoked s svc)"
  shows "distinct (map vk_key_id keys)"
    "r \<in> set revoked \<Longrightarrow> \<exists>k \<in> set keys. vk_key_id k = r \<and> vk_status k = KEY_STATUS_REVOKED"
    "k \<in> set retained \<Longrightarrow> rk_not_before k < rk_not_after k"
    "\<not> local_profile s \<Longrightarrow> k' \<in> set keys \<Longrightarrow> vk_provenance k' = ''managed''"
proof -
  have ok: "validate_retained (map raw_of_retained retained) (decision_signing_key_id s) = Inr ()"
    "validate_revoked (map raw_of_retained retained) (decision_signing_key_id s) revoked = Inr ()"
    by (rule accepted_keys [OF assms(1)], simp add: assms(2,3))+
  have ids: "map raw_key_id (map raw_of_retained retained) = map CText (map rk_key_id retained)"
    by (simp add: raw_of_retained_def)
  have "distinct (map CText (map rk_key_id retained))" "CText (decision_signing_key_id s) \<notin> CText ` rk_key_id ` set retained"
    and windows: "k \<in> set retained \<Longrightarrow> rk_not_before k < rk_not_after k" for k
    using ok(1) by (auto simp: validate_retained_def Let_def ids list_all_iff raw_of_retained_def image_image
        simp flip: map_map split: if_splits)
  then have d: "distinct (map rk_key_id retained)" "decision_signing_key_id s \<notin> rk_key_id ` set retained"
    by (auto simp: distinct_map inj_on_def)
  show "distinct (map vk_key_id keys)"
    using d by (simp add: assms(4) verification_keys_def idea_lifecycle_decision_service_def signing_entry_def
        retained_entry_def Let_def comp_def image_image)
  show "k \<in> set retained \<Longrightarrow> rk_not_before k < rk_not_after k" by (rule windows)
  show "\<exists>k \<in> set keys. vk_key_id k = r \<and> vk_status k = KEY_STATUS_REVOKED" if r: "r \<in> set revoked"
  proof -
    have "CText r \<in> set (map CText (map rk_key_id retained)) \<or> r = decision_signing_key_id s"
      using ok(2) r unfolding validate_revoked_def Let_def ids by (auto split: if_splits)
    then show ?thesis using r
      by (auto simp: assms(4) verification_keys_def idea_lifecycle_decision_service_def signing_entry_def
          retained_entry_def status_for_def Let_def)
  qed
  show "vk_provenance k' = ''managed''" if "\<not> local_profile s" "k' \<in> set keys"
  proof -
    have "\<not> startswith (decision_signing_key_id s) ''ephemeral-local''"
      by (rule accepted_keys [OF assms(1)]) (use that(1) in blast)
    then show ?thesis using that(2)
      by (auto simp: assms(4) verification_keys_def idea_lifecycle_decision_service_def signing_entry_def
          retained_entry_def Let_def)
  qed
qed

end
