(* ===== verification/SettingsSamples.thy ===== *)
theory SettingsSamples
  imports RuntimeSettings DecisionSamples
begin

text \<open>
  Production settings with a durable platform, a managed signing key and one retained key that
  is withdrawn, and the parser that reads their two key lists.
\<close>

definition sample_seed :: string where
  "sample_seed = encode_bytes (replicate 32 7)"

definition sample_settings :: archive_runtime_settings where
  "sample_settings = \<lparr>runtime_profile = Production, repository_mode = Postgresql, storage_mode = S3_mode,
     set_storage_namespace = ''archive'', database_url = Some ''postgresql://db'', database_connect_timeout_seconds = 5,
     database_statement_timeout_ms = 5000, database_pool_min_size = 1, database_pool_max_size = 10,
     set_s3_bucket = Some ''bucket'', set_s3_key_prefix = ''archive'', set_s3_region = None, set_s3_endpoint_url = None,
     set_s3_server_side_encryption = AES256, set_s3_kms_key_id = None, s3_connect_timeout_seconds = 5,
     s3_read_timeout_seconds = 30, s3_max_attempts = 3, max_decoded_document_bytes = 1024,
     decision_private_key_base64 = sample_seed, decision_signing_key_id = ''key-2026'',
     decision_signing_key_not_before = Some 0, decision_retained_keys = ''retained'', decision_revoked_key_ids = ''revoked''\<rparr>"

definition sample_parser :: settings_parser where
  "sample_parser = \<lparr>json_loads = (\<lambda>t.
       if t = ''retained'' then Some (CList [CObject [(''key_id'', CText ''archive-v1''), (''public_key_base64'', CText ''AA==''),
         (''not_before_utc'', CText ''2025''), (''not_after_utc'', CText ''2026'')]])
       else if t = ''revoked'' then Some (CList [CText ''archive-v1'']) else None),
     str_of = (\<lambda>v. case v of CText t \<Rightarrow> t | _ \<Rightarrow> []),
     fromisoformat = (\<lambda>t. if t = ''2025'' then Some (-10, True) else if t = ''2026'' then Some (0, True) else None)\<rparr>"

definition sample_key_pair :: "bytes option \<Rightarrow> (bytes \<Rightarrow> bytes) \<times> bytes" where
  "sample_key_pair seed = ((\<lambda>payload. payload), [1])"

lemma sample_settings_fields [simp]:
  "runtime_profile sample_settings = Production" "repository_mode sample_settings = Postgresql"
  "decision_private_key_base64 sample_settings = sample_seed"
  "decision_signing_key_id sample_settings = ''key-2026''" "decision_signing_key_not_before sample_settings = Some 0"
  "decision_retained_keys sample_settings = ''retained''" "decision_revoked_key_ids sample_settings = ''revoked''"
  "\<not> local_profile sample_settings"
  by (simp_all add: sample_settings_def local_profile_def)

lemma sample_list_texts: "py_strip ''retained'' = ''retained''" "py_strip ''revoked'' = ''revoked''"
  by code_simp+

lemma sample_entry:
  "retained_key_of sample_parser (CObject [(''key_id'', CText ''archive-v1''), (''public_key_base64'', CText ''AA==''),
     (''not_before_utc'', CText ''2025''), (''not_after_utc'', CText ''2026'')]) = Some (raw_of_retained sample_retained)"
  unfolding sample_parser_def sample_retained_def by code_simp

lemma sample_revoked_entry: "revoked_entry (CText ''archive-v1'') = Some ''archive-v1''"
  by code_simp

lemma sample_loads:
  "json_loads sample_parser ''retained'' = Some (CList [CObject [(''key_id'', CText ''archive-v1''), (''public_key_base64'', CText ''AA==''),
     (''not_before_utc'', CText ''2025''), (''not_after_utc'', CText ''2026'')]])"
  "json_loads sample_parser ''revoked'' = Some (CList [CText ''archive-v1''])"
  by (simp_all add: sample_parser_def)

lemma sample_lists:
  "retained_verification_keys sample_parser sample_settings = Inr (map raw_of_retained [sample_retained])"
  "revoked_key_ids sample_parser sample_settings = Inr [''archive-v1'']"
  by (simp_all add: retained_verification_keys_def revoked_key_ids_def sample_list_texts sample_loads sample_entry sample_revoked_entry)

lemma sample_private_key: "check_private_key sample_seed = Inr ()" "sample_seed \<noteq> []"
proof -
  have decodes: "b64decode sample_seed = Some (replicate 32 7)"
    unfolding sample_seed_def by (rule b64_decode_encode) simp
  show "sample_seed \<noteq> []"
  proof
    assume "sample_seed = []"
    moreover have "b64decode [] = Some []" by code_simp
    ultimately show False using decodes by (simp add: eq_commute [of "[]"])
  qed
  with decodes show "check_private_key sample_seed = Inr ()" by (simp add: check_private_key_def)
qed

lemma sample_keys_ok: "validate_lifecycle_decision_keys sample_parser sample_settings = Inr ()"
  by (simp add: validate_lifecycle_decision_keys_def sample_private_key both_accept startswith_def sample_lists bind_result_def
      validate_retained_def validate_revoked_def raw_of_retained_def sample_retained_def and_then_def)

lemma sample_settings_ok: "validate_settings sample_parser sample_settings = Inr ()"
  by (simp add: validate_settings_Inr validate_runtime_posture_def both_accept sample_keys_ok)
    (simp add: validate_setting_fields_def sample_settings_def optional_length_def truthy_def)

lemma sample_posture: "posture_state (runtime_posture sample_settings) = ''ready''"
  by (simp add: runtime_posture_def sample_settings_def local_profile_def)

definition sample_readiness :: archive_runtime_readiness where
  "sample_readiness = \<lparr>repository_ready = True, storage_ready = True, access_audit_ready = True\<rparr>"

lemma sample_ready: "runtime_readiness pg_sample pg_start = (Inr sample_readiness, pg_start)"
  by (simp add: runtime_readiness_def dependency_is_ready_def pg_sample_def postgresql_service_def postgres_ops_def
      postgres_audit_def pg_check_ready_def filesystem_store_def fs_check_ready_def pg_start_def sample_world_def
      empty_filesystem_def reliable_database_def transaction_def next_fault_def gets_def on_repo_def on_store_def on_audit_def
      try_except_def bind_io_def seq_io_def ret_def sample_readiness_def)

lemma health_ready_sample:
  "health_ready False sample_settings pg_sample pg_start
     = (Inr (200, ''ready'', Some (posture_reason (runtime_posture sample_settings))), pg_start)"
  by (simp add: health_ready_def Let_def sample_posture sample_ready bind_io_def measured_unavailability_reason_def
      sample_readiness_def ret_def)

text \<open>The same settings with a bucket of three blanks: the validation accepts them too.\<close>

definition sample_blank_bucket :: archive_runtime_settings where
  "sample_blank_bucket = sample_settings\<lparr>set_s3_bucket := Some ''   ''\<rparr>"

lemma sample_blank_bucket_ok: "validate_settings sample_parser sample_blank_bucket = Inr ()"
proof -
  have "retained_verification_keys sample_parser sample_blank_bucket = retained_verification_keys sample_parser sample_settings"
    "revoked_key_ids sample_parser sample_blank_bucket = revoked_key_ids sample_parser sample_settings"
    by (simp_all add: retained_verification_keys_def revoked_key_ids_def sample_blank_bucket_def)
  then have "validate_lifecycle_decision_keys sample_parser sample_blank_bucket = Inr ()"
    by (simp add: validate_lifecycle_decision_keys_def sample_private_key both_accept startswith_def sample_lists bind_result_def
        validate_retained_def validate_revoked_def raw_of_retained_def sample_retained_def and_then_def sample_blank_bucket_def
        local_profile_def)
  then show ?thesis
    by (simp add: validate_settings_Inr validate_runtime_posture_def both_accept)
      (simp add: validate_setting_fields_def sample_settings_def sample_blank_bucket_def optional_length_def truthy_def
        local_profile_def)
qed

lemma sample_blank_bucket_fields:
  "\<not> local_profile sample_blank_bucket" "py_strip (the (database_url sample_blank_bucket)) \<noteq> []"
  "py_strip (the (set_s3_bucket sample_blank_bucket)) = []"
  by (simp_all add: sample_blank_bucket_def sample_settings_def local_profile_def py_strip_def is_space_def)

end
