(* ===== verification/FormatSamples.thy ===== *)
theory FormatSamples
  imports ArtifactFormat
begin

text \<open>
  A workbook of one sheet, as the package reader and the XML parser present it, and the round
  trip of the content of an ingest.
\<close>

definition small_part :: "string \<Rightarrow> nat \<Rightarrow> zip_part" where
  "small_part name b = \<lparr>part_name = name, part_file_size = 512, part_flag_bits = 0, part_content = Inr [b]\<rparr>"

definition relationship_node :: "string \<Rightarrow> string \<Rightarrow> xml" where
  "relationship_node kind target =
     Xml (REL_NS @ ''Relationship'') [(''Id'', ''rId1''), (''Type'', DOC_REL_NS @ kind), (''Target'', target)] []"

definition override_node :: "string \<Rightarrow> string \<Rightarrow> xml" where
  "override_node name kind = Xml (CONTENT_NS @ ''Override'') [(''PartName'', name), (''ContentType'', kind)] []"

definition sample_xml :: "bytes \<Rightarrow> exc + xml" where
  "sample_xml content =
     (if content = [1] then Inr (Xml ''Types'' [] [override_node ''/xl/workbook.xml'' MAIN_TYPE, override_node ''/xl/worksheets/sheet1.xml'' SHEET_TYPE])
      else if content = [2] then Inr (Xml ''Relationships'' [] [relationship_node ''/officeDocument'' ''xl/workbook.xml''])
      else if content = [3] then Inr (Xml (SHEET_NS @ ''workbook'') []
        [Xml (SHEET_NS @ ''sheets'') [] [Xml (SHEET_NS @ ''sheet'') [(''{'' @ DOC_REL_NS @ ''}id'', ''rId1'')] []]])
      else if content = [4] then Inr (Xml ''Relationships'' [] [relationship_node ''/worksheet'' ''worksheets/sheet1.xml''])
      else Inr (Xml (SHEET_NS @ ''worksheet'') [] []))"

definition sample_parts :: "zip_part list" where
  "sample_parts = [small_part ''[Content_Types].xml'' 1, small_part ''_rels/.rels'' 2, small_part ''xl/workbook.xml'' 3,
     small_part ''xl/_rels/workbook.xml.rels'' 4, small_part ''xl/worksheets/sheet1.xml'' 5]"

definition sample_reader :: workbook_reader where
  "sample_reader = \<lparr>open_zip = (\<lambda>content. if content = [80, 75] then Inr sample_parts else Inl (DriverError ''BadZipFile'')),
     parse_xml = sample_xml\<rparr>"

lemma sample_read: "read_xml sample_reader [b] = sample_xml [b]"
  by (simp add: read_xml_def sample_reader_def bytes_of_string_def)

lemma sample_part:
  "read_part sample_parts ''[Content_Types].xml'' = Inr [1]" "read_part sample_parts ''_rels/.rels'' = Inr [2]"
  "read_part sample_parts ''xl/workbook.xml'' = Inr [3]" "read_part sample_parts ''xl/_rels/workbook.xml.rels'' = Inr [4]"
  "read_part sample_parts ''xl/worksheets/sheet1.xml'' = Inr [5]"
  by (simp_all add: read_part_def sample_parts_def small_part_def)

lemma sample_bounds: "validate_package_bounds sample_parts = Inr ()"
  by (simp add: validate_package_bounds_def sample_parts_def small_part_def MAX_XLSX_PARTS_def MAX_XLSX_EXPANDED_BYTES_def
      startswith_def)

lemma sample_links:
  "relationships sample_reader sample_parts ''_rels/.rels'' = Inr [(''rId1'', (DOC_REL_NS @ ''/officeDocument'', ''xl/workbook.xml''))]"
  "relationships sample_reader sample_parts ''xl/_rels/workbook.xml.rels'' = Inr [(''rId1'', (DOC_REL_NS @ ''/worksheet'', ''worksheets/sheet1.xml''))]"
  by (simp_all add: relationships_def sample_part bind_result_def sample_read sample_xml_def find_children_def
      relationship_node_def attribute_def attribute_required_def dict_get_def dict_set_def)

lemma sample_sheet_part: "sheet_part ''worksheets/sheet1.xml'' = ''xl/worksheets/sheet1.xml''"
  by code_simp

lemma sample_types:
  "content_type (Xml ''Types'' [] [override_node ''/xl/workbook.xml'' MAIN_TYPE, override_node ''/xl/worksheets/sheet1.xml'' SHEET_TYPE]) ''/xl/workbook.xml'' = Some MAIN_TYPE"
  "content_type (Xml ''Types'' [] [override_node ''/xl/workbook.xml'' MAIN_TYPE, override_node ''/xl/worksheets/sheet1.xml'' SHEET_TYPE]) ''/xl/worksheets/sheet1.xml'' = Some SHEET_TYPE"
  by (simp_all add: content_type_def find_children_def override_node_def attribute_def)

lemma sample_workbook: "validate_artifact_format sample_reader ''xlsx'' XLSX_MIME [80, 75] = Inr ()"
proof -
  have "validate_workbook sample_reader sample_parts = Inr ()"
    unfolding validate_workbook_def
    by (simp add: sample_part bind_result_def sample_read sample_links dict_values_def sample_xml_def sample_types
        find_children_def attribute_required_def attribute_def dict_get_def Let_def sample_sheet_part)
  moreover have "open_zip sample_reader [80, 75] = Inr sample_parts" by (simp add: sample_reader_def)
  ultimately show ?thesis
    by (simp add: validate_artifact_format_def bind_result_def sample_bounds and_then_def)
qed

section \<open>The encoded text is admitted by the decoder\<close>

lemma alphabet_ascii: "i < 64 \<Longrightarrow> of_char (base64_alphabet ! i) < (128 :: nat)"
proof -
  assume "i < 64"
  then have "base64_alphabet ! i \<in> set base64_alphabet" by (simp add: base64_alphabet_facts)
  moreover have "list_all (\<lambda>c. of_char c < (128 :: nat)) base64_alphabet" by code_simp
  ultimately show ?thesis by (simp add: list_all_iff)
qed

lemma encoded_ascii: "\<forall>b \<in> set bs. b < 256 \<Longrightarrow> is_ascii (encode_bytes bs)"
proof (induction bs rule: encode_bytes.induct)
  case (4 a b c rest)
  then show ?case by (auto simp: is_ascii_def intro!: alphabet_ascii)
qed (auto simp: is_ascii_def intro!: alphabet_ascii)

lemma decode_encoded:
  assumes "\<forall>b \<in> set bs. b < 256" "length bs \<le> n"
  shows "decode_document_content (encode_bytes bs) n = Inr bs"
  using b64_decode_encode [OF assms(1)] encoded_ascii [OF assms(1)] assms(2) by (simp add: decode_document_content_def)

end
