(* ===== verification/PurgeResumption.thy ===== *)
theory PurgeResumption
  imports PurgeDecisions
begin

text \<open>
  A destruction that has begun can be finished: on PostgreSQL, when the driver serves what the
  call asks of it, the store answers the delete and the next audit identifier is unused, purging
  again returns and every row of the document says \<open>PURGED\<close>. The steps are total: \<open>goes\<close> is the
  total-correctness form of \<open>returning\<close>.
\<close>

definition goes :: "('w \<Rightarrow> bool) \<Rightarrow> ('w, 'x) io \<Rightarrow> ('x \<Rightarrow> 'w \<Rightarrow> bool) \<Rightarrow> bool" where
  "goes P m Q \<longleftrightarrow> (\<forall>w. P w \<longrightarrow> (\<exists>x w'. m w = (Inr x, w') \<and> Q x w'))"

lemma goes_bind: "goes P m Q \<Longrightarrow> (\<And>x. goes (Q x) (f x) R) \<Longrightarrow> goes P (bind_io m f) R"
  unfolding goes_def bind_io_def by fastforce

lemma goes_seq: "goes P m (\<lambda>_. Q) \<Longrightarrow> goes Q k R \<Longrightarrow> goes P (seq_io m k) R"
  unfolding seq_io_def by (rule goes_bind) 

lemma goes_ret: "(\<And>w. P w \<Longrightarrow> Q x w) \<Longrightarrow> goes P (ret x) Q"
  by (simp add: goes_def ret_def)

lemma goes_if: "(c \<Longrightarrow> goes P a Q) \<Longrightarrow> (\<not> c \<Longrightarrow> goes P b Q) \<Longrightarrow> goes P (if c then a else b) Q"
  by simp

lemma goes_pre: "goes P m Q \<Longrightarrow> (\<And>w. P' w \<Longrightarrow> P w) \<Longrightarrow> goes P' m Q"
  by (simp add: goes_def)

lemma goes_fact: "(A \<Longrightarrow> goes P m Q) \<Longrightarrow> goes (\<lambda>w. P w \<and> A) m Q"
  by (auto simp: goes_def)

text \<open>The rows of the document, and what the rest of the call needs of the world.\<close>

definition begun :: "caller_context \<Rightarrow> string \<Rightarrow> document_metadata \<Rightarrow> bool" where
  "begun caller key m \<longleftrightarrow> purge_started_at m \<noteq> None \<and> storage_key m = key
     \<and> decision_state (document_tenant_scope_decision m caller) = ALLOWED"

definition rows_with :: "string \<Rightarrow> (document_metadata \<Rightarrow> bool) \<Rightarrow> tables \<Rightarrow> bool" where
  "rows_with d G t \<longleftrightarrow> (\<exists>m \<in> set (archive_documents t). document_id m = d)
     \<and> (\<forall>m \<in> set (archive_documents t). document_id m = d \<longrightarrow> G m)"

definition audit_free :: "(postgres, 's, access_audit_event list database) world \<Rightarrow> bool" where
  "audit_free w \<longleftrightarrow> pg_faults (w_audit w) = []
     \<and> ''audit_'' @ w_uuids w (w_drawn w) \<notin> audit_event_id ` set (pg_tables (w_audit w))"

definition ready_at ::
    "(tables \<Rightarrow> bool) \<Rightarrow> 's \<Rightarrow> (postgres, 's, access_audit_event list database) world \<Rightarrow> bool" where
  "ready_at R s w \<longleftrightarrow> pg_faults (w_repo w) = [] \<and> R (pg_tables (w_repo w)) \<and> w_store w = s \<and> audit_free w"

lemma served: "pg_faults p = [] \<Longrightarrow> transaction body p =
    (case body (pg_tables p) of (Inl e, _) \<Rightarrow> (Inl e, p) | (Inr x, t) \<Rightarrow> (Inr x, p\<lparr>pg_tables := t\<rparr>))"
  by (cases p) (auto simp: transaction_def next_fault_def Let_def split: prod.split sum.split)

lemma goes_transaction:
  assumes "goes R body (\<lambda>x t. Q x t)"
  shows "goes (ready_at R s) (on_repo (transaction body)) (\<lambda>x. ready_at (Q x) s)"
  unfolding goes_def
proof (intro allI impI)
  fix w assume w: "ready_at R s w"
  then obtain x t where "body (pg_tables (w_repo w)) = (Inr x, t)" "Q x t"
    using assms by (auto simp: goes_def ready_at_def)
  then show "\<exists>x w'. on_repo (transaction body) w = (Inr x, w') \<and> ready_at (Q x) s w'"
    using w by (simp add: on_repo_def served ready_at_def audit_free_def)
qed

lemma goes_clock: "goes (ready_at R s) read_clock (\<lambda>_. ready_at R s)"
  by (simp add: goes_def read_clock_def ready_at_def audit_free_def)

lemma ready_conj: "ready_at (\<lambda>t. R t \<and> A) s w \<longleftrightarrow> ready_at R s w \<and> A"
  by (auto simp: ready_at_def)

lemma found_begun:
  assumes "rows_with d G t"
  obtains m where "List.find (\<lambda>m. document_id m = d) (archive_documents t) = Some m" "document_id m = d" "G m"
proof -
  obtain m where m: "List.find (\<lambda>m. document_id m = d) (archive_documents t) = Some m"
    using assms by (cases "List.find (\<lambda>m. document_id m = d) (archive_documents t)") (auto simp: rows_with_def find_None_iff)
  then have "m \<in> set (archive_documents t)" "document_id m = d" by (auto simp: find_Some_iff)
  with m assms that show thesis by (simp add: rows_with_def)
qed

lemma selecting_begun:
  "goes (rows_with d G) (sql_select_document (\<lambda>m. document_id m = d))
     (\<lambda>x t. rows_with d G t \<and> (\<exists>m. x = Some m \<and> document_id m = d \<and> G m))"
  unfolding goes_def sql_select_document_def gets_def by (auto elim: found_begun)

text \<open>An update of the rows of the document, and one that keeps what they are known to satisfy.\<close>

lemma updated_with:
  assumes "rows_with d G t" "\<And>m. document_id (f m) = document_id m"
    and "\<And>m. document_id m = d \<Longrightarrow> G m \<Longrightarrow> H (if P m then f m else m)"
  shows "rows_with d H (t\<lparr>archive_documents := update_rows (\<lambda>m. document_id m = d \<and> P m) f (archive_documents t)\<rparr>)"
proof -
  let ?g = "\<lambda>m. if document_id m = d \<and> P m then f m else m"
  have g: "document_id (?g m) = document_id m" for m using assms(2) by simp
  have "\<exists>m \<in> ?g ` set (archive_documents t). document_id m = d"
    using assms(1) g unfolding rows_with_def bex_simps by blast
  moreover have "H m" if m: "m \<in> ?g ` set (archive_documents t)" "document_id m = d" for m
  proof -
    obtain x where x: "x \<in> set (archive_documents t)" "m = ?g x" using m(1) by blast
    then have "document_id x = d" using m(2) g [of x] by simp
    then show ?thesis using assms(1,3) x by (simp add: rows_with_def)
  qed
  moreover have "set (archive_documents (t\<lparr>archive_documents := update_rows (\<lambda>m. document_id m = d \<and> P m) f (archive_documents t)\<rparr>))
      = ?g ` set (archive_documents t)"
    by (cases t) (simp only: tables.simps update_rows_def list.set_map)
  ultimately show ?thesis unfolding rows_with_def by blast
qed

lemma updating_begun:
  assumes "\<And>m. document_id (f m) = document_id m" "\<And>m. G m \<Longrightarrow> G (f m)"
  shows "goes (rows_with d G) (sql_update_documents (\<lambda>m. document_id m = d \<and> P m) f)
     (\<lambda>x t. rows_with d G t \<and> (\<forall>m. x = Some m \<longrightarrow> document_id m = d \<and> G m))"
proof -
  let ?P = "\<lambda>m. document_id m = d \<and> P m"
  have rows: "rows_with d G (t\<lparr>archive_documents := update_rows ?P f (archive_documents t)\<rparr>)" if "rows_with d G t" for t
    by (rule updated_with [OF that]) (use assms in simp_all)
  have "document_id m = d \<and> G m" if t: "rows_with d G t" "updated_row ?P f (archive_documents t) = Some m" for t m
  proof -
    obtain x where x: "List.find ?P (archive_documents t) = Some x" "m = f x"
      using t(2) by (auto simp: updated_row_def)
    then have "x \<in> set (archive_documents t)" "document_id x = d" by (auto simp: find_Some_iff)
    then show ?thesis using t(1) x(2) assms by (simp add: rows_with_def)
  qed
  with rows show ?thesis by (simp add: goes_def sql_update_documents_def)
qed

lemma getting_begun:
  assumes "svc_repository svc = postgres_ops"
  shows "goes (ready_at (rows_with d G) s) (get_existing_metadata svc d)
    (\<lambda>m w. ready_at (rows_with d G) s w \<and> document_id m = d \<and> G m)"
  unfolding get_existing_metadata_def assms postgres_ops_sel pg_get_by_document_id_def pg_fetch_document_def
  by (rule goes_bind [OF goes_transaction [OF selecting_begun]], unfold ready_conj, rule goes_fact)
    (auto intro: goes_ret)

lemma refreshing_begun:
  assumes "svc_repository svc = postgres_ops" "document_id m = d" "G m"
    and "\<And>m st n now. G m \<Longrightarrow> G (m\<lparr>legal_hold_status := st, legal_hold_count := n, updated_at := now\<rparr>)"
  shows "goes (ready_at (rows_with d G) s) (refresh_legal_hold_summary svc m)
    (\<lambda>m w. ready_at (rows_with d G) s w \<and> document_id m = d \<and> G m)"
proof -
  have summary: "goes (rows_with d G) (sql_refresh_summary d now)
      (\<lambda>x t. rows_with d G t \<and> (\<forall>m. x = Some m \<longrightarrow> document_id m = d \<and> G m))" for now
    unfolding goes_def sql_refresh_summary_def Let_def
    using updating_begun [unfolded goes_def] assms(4) by simp
  have body: "goes (rows_with d G) (bind_io (sql_select_document (\<lambda>m. document_id m = d)) (\<lambda>locked. case locked of
        None \<Rightarrow> ret None
      | Some m \<Rightarrow> bind_io (sql_refresh_summary d now) (\<lambda>row. ret (case row of Some m' \<Rightarrow> Some m' | None \<Rightarrow> Some m))))
    (\<lambda>x t. rows_with d G t \<and> (\<exists>m. x = Some m \<and> document_id m = d \<and> G m))" for now
  proof (rule goes_bind [OF selecting_begun], rule goes_fact)
    fix x assume "\<exists>m. x = Some m \<and> document_id m = d \<and> G m"
    then obtain m where m: "x = Some m" "document_id m = d" "G m" by blast
    show "goes (rows_with d G) (case x of None \<Rightarrow> ret None
        | Some m \<Rightarrow> bind_io (sql_refresh_summary d now) (\<lambda>row. ret (case row of Some m' \<Rightarrow> Some m' | None \<Rightarrow> Some m)))
      (\<lambda>x t. rows_with d G t \<and> (\<exists>m. x = Some m \<and> document_id m = d \<and> G m))"
      unfolding m(1) option.case
      by (rule goes_bind [OF summary], rule goes_fact, rule goes_ret) (use m in \<open>auto split: option.splits\<close>)
  qed
  show ?thesis
    unfolding refresh_legal_hold_summary_def assms(1,2) postgres_ops_sel pg_refresh_legal_hold_summary_def
    by (rule goes_bind [OF goes_clock], rule goes_bind [OF goes_transaction [OF body]], unfold ready_conj, rule goes_fact)
      (auto intro: goes_ret)
qed

text \<open>\<open>begin_purge\<close> finds the destruction begun and returns the row; \<open>complete_purge\<close> ends it.\<close>

lemma beginning_begun:
  assumes "\<And>m. G m \<Longrightarrow> purge_started_at m \<noteq> None"
  shows "goes (ready_at (rows_with d G) s) (on_repo (pg_begin_purge d now))
    (\<lambda>x w. ready_at (rows_with d G) s w \<and> (\<exists>m. x = Some m \<and> document_id m = d \<and> G m))"
  unfolding goes_def
proof (intro allI impI)
  fix w assume w: "ready_at (rows_with d G) s w"
  define t where "t = pg_tables (w_repo w)"
  let ?P = "\<lambda>m. document_id m = d \<and> purge_started_at m = None \<and> legal_hold_status m \<noteq> ACTIVE \<and> active_hold_rows d t = []"
  have t: "rows_with d G t" using w by (simp add: ready_at_def t_def)
  then have none: "\<not> ?P m" if "m \<in> set (archive_documents t)" for m
    using that assms by (auto simp: rows_with_def)
  have "update_rows ?P f (archive_documents t) = archive_documents t" for f
    unfolding update_rows_def by (rule map_idI) (simp only: none if_False)
  moreover have "List.find ?P (archive_documents t) = None" unfolding find_None_iff using none by blast
  ultimately have upd: "sql_update_documents ?P f t = (Inr None, t)" for f
    by (simp add: sql_update_documents_def updated_row_def)
  obtain m where m: "List.find (\<lambda>m. document_id m = d) (archive_documents t) = Some m" "document_id m = d" "G m"
    using t by (rule found_begun)
  have "pg_begin_purge d now (w_repo w) = (Inr (Some m), w_repo w)"
    using w upd m(1) assms [OF m(3)]
    by (simp add: pg_begin_purge_def bind_io_def served ready_at_def t_def [symmetric] sql_select_document_def gets_def ret_def)
  then show "\<exists>x w'. on_repo (pg_begin_purge d now) w = (Inr x, w')
      \<and> ready_at (rows_with d G) s w' \<and> (\<exists>m. x = Some m \<and> document_id m = d \<and> G m)"
    using w m by (simp add: on_repo_def)
qed

lemma completing_begun:
  assumes "\<And>m. G m \<Longrightarrow> purge_started_at m \<noteq> None"
  shows "goes (ready_at (rows_with d G) s) (on_repo (pg_complete_purge d t now)) (\<lambda>_. ready_at (rows_with d (\<lambda>m. purge_status m = PURGED)) s)"
  unfolding pg_complete_purge_def
proof (rule goes_transaction, unfold goes_def, intro allI impI)
  fix u assume u: "rows_with d G u"
  show "\<exists>x v. sql_update_documents (\<lambda>m. document_id m = d \<and> purge_started_at m \<noteq> None) (\<lambda>m. m\<lparr>purge_status := PURGED,
        purged_at := Some (case purged_at m of Some p \<Rightarrow> p | None \<Rightarrow> t), updated_at := now\<rparr>) u = (Inr x, v)
      \<and> rows_with d (\<lambda>m. purge_status m = PURGED) v"
    unfolding sql_update_documents_def by (intro exI conjI, rule refl, rule updated_with [OF u]) (use assms in simp_all)
qed

lemma deleting_goes:
  assumes "store_delete st key s = (Inr u, s')"
  shows "goes (ready_at R s) (on_store (store_delete st key)) (\<lambda>_. ready_at R s')"
  using assms by (auto simp: goes_def on_store_def ready_at_def audit_free_def)

definition repo_and_store ::
    "(tables \<Rightarrow> bool) \<Rightarrow> 's \<Rightarrow> (postgres, 's, 'a) world \<Rightarrow> bool" where
  "repo_and_store R s w \<longleftrightarrow> R (pg_tables (w_repo w)) \<and> w_store w = s"

lemma recording_goes:
  assumes "svc_audit svc = postgres_audit"
  shows "goes (ready_at R s) (record_allowed svc ty caller trace d op) (\<lambda>_. repo_and_store R s)"
  using assms
  by (auto simp: goes_def record_allowed_def record_access_def run_steps on_audit_def postgres_audit_def served ready_at_def
      audit_free_def make_audit_event_def repo_and_store_def)

lemma executing_begun:
  assumes "svc_repository svc = postgres_ops" "svc_audit svc = postgres_audit"
    and "store_delete (svc_storage svc) key s = (Inr u, s')"
    and "\<And>m. G m \<Longrightarrow> purge_started_at m \<noteq> None \<and> storage_key m = key"
  shows "goes (ready_at (rows_with d G) s) (execute_purge svc d caller trace)
    (\<lambda>r w. snd r = ''purged'' \<and> repo_and_store (rows_with d (\<lambda>m. purge_status m = PURGED)) s' w)"
  unfolding execute_purge_def assms(1) postgres_ops_sel
proof (rule goes_bind [OF goes_clock], rule goes_bind [OF beginning_begun], use assms(4) in blast, rule goes_fact)
  fix now x assume "\<exists>m. x = Some m \<and> document_id m = d \<and> G m"
  then obtain m where m: "x = Some m" "G m" by blast
  have started: "\<And>m. G m \<Longrightarrow> purge_started_at m \<noteq> None" and key: "storage_key m = key" using assms(4) m(2) by blast+
  show "goes (ready_at (rows_with d G) s)
     (case x of None \<Rightarrow> seq_io (record_allowed svc PURGE_EXECUTION caller trace d (Some ''legal_hold_active'')) (raise LegalHoldActiveError)
      | Some m \<Rightarrow> seq_io (on_store (store_delete (svc_storage svc) (storage_key m)))
           (bind_io read_clock (\<lambda>purged. bind_io read_clock (\<lambda>now.
            bind_io (on_repo (pg_complete_purge d purged now)) (\<lambda>completed.
            let m' = (case completed of Some x \<Rightarrow> x | None \<Rightarrow> m) in
              seq_io (record_allowed svc PURGE_EXECUTION caller trace d (Some ''purged'')) (ret (m', ''purged'')))))))
     (\<lambda>r w. snd r = ''purged'' \<and> repo_and_store (rows_with d (\<lambda>m. purge_status m = PURGED)) s' w)"
    unfolding m(1) option.case key Let_def
    by (rule goes_seq [OF deleting_goes [OF assms(3)]], rule goes_bind [OF goes_clock], rule goes_bind [OF goes_clock],
        rule goes_bind [OF completing_begun [OF started]], assumption, rule goes_seq [OF recording_goes [OF assms(2)]])
      (auto intro: goes_ret)
qed

lemma purge_resumes:
  assumes "svc = postgresql_service st n rd"
    and "pg_faults (w_repo w) = []" "audit_free w"
    and "rows_with d (begun caller key) (pg_tables (w_repo w))"
    and "missing_scope caller = []" "caller_service caller \<in> set (allowed_callers_for default_policy EXECUTE_PURGE)"
    and "store_delete st key (w_store w) = (Inr (), s')"
    and "\<forall>m \<in> set (archive_documents (pg_tables (w_repo w))). document_id m = d \<longrightarrow> purge_status m \<noteq> PURGED"
  shows "\<exists>r w'. purge_document svc d caller trace evaluated w = (Inr r, w') \<and> snd r = ''purged''
    \<and> rows_with d (\<lambda>m. purge_status m = PURGED) (pg_tables (w_repo w')) \<and> w_store w' = s'"
proof -
  let ?G = "\<lambda>m. begun caller key m \<and> purge_status m \<noteq> PURGED"
  have parts: "svc_repository svc = postgres_ops" "svc_audit svc = postgres_audit" "svc_storage svc = st" "svc_policy svc = default_policy"
    by (simp_all add: assms(1) postgresql_service_def)
  have ready: "ready_at (rows_with d ?G) (w_store w) w"
    using assms(2,3,4,8) by (auto simp: ready_at_def rows_with_def)
  have G: "?G m \<Longrightarrow> ?G (m\<lparr>legal_hold_status := h, legal_hold_count := c, updated_at := now\<rparr>)" for m h c now
    by (simp add: begun_def document_tenant_scope_decision_def)
  have allowed: "goes (ready_at R s) (authorize (svc_policy svc) A EXECUTE_PURGE caller trace doc) (\<lambda>_. ready_at R s)" for R s A doc
    by (simp add: goes_def authorize_returns parts(4) assms(6))
  have scope: "goes (ready_at R s) (authorize_document_tenant_scope A m caller trace) (\<lambda>_. ready_at R s)" if "?G m" for R s A m
    using that by (simp add: goes_def tenant_scope_returns assms(5) begun_def)
  have look: "goes (ready_at (rows_with d ?G) s) (get_tenant_authorized_document_metadata svc d EXECUTE_PURGE caller trace)
      (\<lambda>m w. ready_at (rows_with d ?G) s w \<and> document_id m = d \<and> ?G m)" for s
    unfolding get_tenant_authorized_document_metadata_def
    by (rule goes_seq [OF allowed], rule goes_bind [OF getting_begun [OF parts(1)]], rule goes_fact, elim conjE,
        rule goes_seq [OF scope], simp, rule goes_ret) simp
  have refresh: "goes (ready_at (rows_with d ?G) s) (refresh_legal_hold_summary svc m)
      (\<lambda>m w. ready_at (rows_with d ?G) s w \<and> document_id m = d \<and> ?G m)" if "document_id m = d \<and> ?G m" for s m
    by (rule refreshing_begun [where G = ?G, OF parts(1)]) (use that G in \<open>simp_all only: simp_thms\<close>)
  have go: "goes (ready_at (rows_with d ?G) (w_store w)) (execute_purge svc d caller trace)
      (\<lambda>r w. snd r = ''purged'' \<and> repo_and_store (rows_with d (\<lambda>m. purge_status m = PURGED)) s' w)"
    by (rule executing_begun [OF parts(1,2)]) (use assms(7) in \<open>simp_all add: parts(3) begun_def\<close>)
  have run: "goes (ready_at (rows_with d ?G) (w_store w))
    (bind_io (get_tenant_authorized_document_metadata svc d EXECUTE_PURGE caller trace) (\<lambda>m0.
      bind_io (refresh_legal_hold_summary svc m0) (\<lambda>m1.
        if purge_status m1 = PURGED
        then seq_io (record_allowed svc PURGE_EXECUTION caller trace d (Some ''already_purged''))
               (ret (m1, ''already_purged''))
        else bind_io (evaluate_purge svc m1 evaluated) (\<lambda>(m2, eligible, reason_code).
          if \<not> eligible
          then seq_io (record_allowed svc PURGE_EXECUTION caller trace d (Some reason_code))
                 (if reason_code = ''legal_hold_active'' then raise LegalHoldActiveError
                  else raise PurgeNotEligibleError)
          else execute_purge svc d caller trace))))
    (\<lambda>r w. snd r = ''purged'' \<and> repo_and_store (rows_with d (\<lambda>m. purge_status m = PURGED)) s' w)"
  proof (rule goes_bind [OF look], rule goes_fact, rule goes_bind [OF refresh], assumption, rule goes_fact, elim conjE)
    fix m0 m1 assume "begun caller key m1" "purge_status m1 \<noteq> PURGED"
    then have "evaluate_purge svc m1 evaluated = ret (m1, True, ''purge_in_progress'')"
      by (simp add: evaluate_purge_def begun_def)
    then show "goes (ready_at (rows_with d ?G) (w_store w)) (if purge_status m1 = PURGED
        then seq_io (record_allowed svc PURGE_EXECUTION caller trace d (Some ''already_purged'')) (ret (m1, ''already_purged''))
        else bind_io (evaluate_purge svc m1 evaluated) (\<lambda>(m2, eligible, reason_code).
          if \<not> eligible
          then seq_io (record_allowed svc PURGE_EXECUTION caller trace d (Some reason_code))
                 (if reason_code = ''legal_hold_active'' then raise LegalHoldActiveError else raise PurgeNotEligibleError)
          else execute_purge svc d caller trace))
      (\<lambda>r w. snd r = ''purged'' \<and> repo_and_store (rows_with d (\<lambda>m. purge_status m = PURGED)) s' w)"
      using go \<open>purge_status m1 \<noteq> PURGED\<close> by (simp add: bind_io_def ret_def)
  qed
  from run [unfolded goes_def, rule_format, OF ready] show ?thesis
    unfolding purge_document_def
    by (auto simp: archive_metric_def record_archive_operation_def record_archive_document_size_def repo_and_store_def
        io_simps Let_def split: option.split)
qed

lemma rows_with_row: "rows_with d G t \<Longrightarrow> \<exists>m. row_of document_id (archive_documents t) d = Some m \<and> G m"
  unfolding row_of_def by (erule found_begun) blast

lemma row_rows_with:
  assumes "tables_wf t" "row_of document_id (archive_documents t) d = Some m" "G m"
  shows "rows_with d G t"
proof -
  have m: "m \<in> set (archive_documents t)" "document_id m = d"
    using assms(2) by (auto simp: row_of_def find_Some_iff)
  have "m' = m" if "m' \<in> set (archive_documents t)" "document_id m' = d" for m'
    using assms(1) m that by (auto simp: tables_wf_def distinct_map inj_on_def)
  with m assms(3) show ?thesis unfolding rows_with_def by blast
qed

lemma purge_resumes_row:
  assumes "pg_wf (w_repo w)" "pg_faults (w_repo w) = []" "audit_free w"
    and "row_of document_id (archive_documents (pg_tables (w_repo w))) d = Some m"
    and "purge_started_at m \<noteq> None" "purge_status m \<noteq> PURGED"
    and "missing_scope caller = []" "decision_state (document_tenant_scope_decision m caller) = ALLOWED"
    and "caller_service caller \<in> set (allowed_callers_for default_policy EXECUTE_PURGE)"
    and "store_delete st (storage_key m) (w_store w) = (Inr (), s')"
  shows "\<exists>r w' m'. purge_document (postgresql_service st n rd) d caller trace evaluated w = (Inr r, w') \<and> snd r = ''purged''
    \<and> st_docs (pg_abs (w_repo w')) d = Some m' \<and> purge_status m' = PURGED \<and> w_store w' = s'"
proof -
  have wf: "tables_wf (pg_tables (w_repo w))" using assms(1) by (simp add: pg_wf_def)
  have "rows_with d (begun caller (storage_key m)) (pg_tables (w_repo w))"
    by (rule row_rows_with [OF wf assms(4)]) (simp add: begun_def assms(5,8))
  moreover have "\<forall>x \<in> set (archive_documents (pg_tables (w_repo w))). document_id x = d \<longrightarrow> purge_status x \<noteq> PURGED"
    using row_rows_with [OF wf assms(4), of "\<lambda>m. purge_status m \<noteq> PURGED"] assms(6) by (simp add: rows_with_def)
  ultimately obtain r w' where run: "purge_document (postgresql_service st n rd) d caller trace evaluated w = (Inr r, w')"
      "snd r = ''purged''" "w_store w' = s'" and "rows_with d (\<lambda>m. purge_status m = PURGED) (pg_tables (w_repo w'))"
    using purge_resumes [OF refl assms(2,3) _ assms(7,9,10)] by blast
  then obtain x where "row_of document_id (archive_documents (pg_tables (w_repo w'))) d = Some x" "purge_status x = PURGED"
    using rows_with_row by blast
  then have "st_docs (pg_abs (w_repo w')) d = Some (untimed x)" "purge_status (untimed x) = PURGED" by (simp_all add: pg_abs_def)
  with run show ?thesis by blast
qed

end
