(* ===== verification/FaultSamples.thy ===== *)
theory FaultSamples
  imports PurgeResumption
begin

text \<open>
  The sample ingest when the answer of the row's commit is lost: the driver raises although the
  transaction is committed, and the writer's compensation deletes the object.
\<close>

definition ambiguous_start :: "(postgres, filesystem, access_audit_event list database) world" where
  "ambiguous_start = pg_start\<lparr>w_repo := \<lparr>pg_tables = empty_tables, pg_faults = [Served, Served, AnswerLost ''connection reset'']\<rparr>\<rparr>"

definition emptied_store :: filesystem where
  "emptied_store = stored_sample\<lparr>fs_files := []\<rparr>"

lemma sample_discard: "fs_delete sample_key stored_sample = (Inr (), emptied_store)"
  by (simp add: fs_delete_def sample_path bind_io_def of_result_def fs_is_file_def stored_sample_def dict_get_def
      fs_delete_file_def emptied_store_def)

lemma ambiguous_store:
  "store_new_document pg_sample sample_input [97, 98, 99] abc_digest
     (pg_start\<lparr>w_repo := \<lparr>pg_tables = empty_tables, pg_faults = [Served, AnswerLost ''connection reset'']\<rparr>\<rparr>)
   = (Inl (DriverError ''connection reset''), pg_start\<lparr>w_repo := reliable_database sample_tables, w_store := emptied_store,
        w_drawn := 1, w_ticks := 1\<rparr>)"
  using sample_put sample_metadata sample_discard
  by (simp add: store_new_document_def sample_world_def pg_sample_def postgresql_service_def pg_start_def
      filesystem_store_def sample_uuids_def sample_storage_key SUPPORTED_CHECKSUM_ALGORITHM_def
      try_except_def on_repo_def postgres_ops_def pg_save_def pg_get_by_archive_request_id_def pg_fetch_document_def
      reliable_database_def empty_tables_def transaction_def next_fault_def sql_select_document_def
      sql_save_document_def sample_tables_def stored_sample_def seq_io_def bind_io_def gets_def ret_def skip_io_def
      draw_uuid_def read_clock_def on_store_def of_result_def modify_io_def discard_object_def raise_def unique_violation_def
      Let_def)

lemma ambiguous_ingest:
  "w_repo (run_calls pg_sample sample_calls ambiguous_start) = reliable_database sample_tables"
  "w_store (run_calls pg_sample sample_calls ambiguous_start) = emptied_store"
proof -
  have "\<exists>w. run_call pg_sample (hd sample_calls) ambiguous_start = (Inl (DriverError ''connection reset''), w)
     \<and> w_repo w = reliable_database sample_tables \<and> w_store w = emptied_store"
    using ambiguous_store
    by (simp add: sample_calls_def ignore_result_def ambiguous_start_def
        create_document_def archive_metric_def seq_io_def bind_io_def authorize_def allowed_callers_for_def
        default_policy_def sample_caller_def pg_sample_def postgresql_service_def sample_create_def skip_io_def
        ret_def sample_input_def archive_document_def of_result_def validate_artifact_format_def XLSX_MIME_def
        SUPPORTED_CHECKSUM_ALGORITHM_def check_artifact_identity_def on_repo_def postgres_ops_def
        pg_get_by_archive_request_id_def pg_fetch_document_def transaction_def next_fault_def reliable_database_def
        sql_select_document_def gets_def empty_tables_def sample_world_def sample_content pg_start_def
        record_allowed_def record_access_def draw_uuid_def read_clock_def on_audit_def postgres_audit_def modify_io_def
        record_archive_operation_def IMPLEMENTED_ARCHIVE_OPERATIONS_def record_archive_document_size_def
        size_from_result_def raise_def Let_def)
  then show "w_repo (run_calls pg_sample sample_calls ambiguous_start) = reliable_database sample_tables"
    "w_store (run_calls pg_sample sample_calls ambiguous_start) = emptied_store"
    by (auto simp: sample_calls_def)
qed

lemma nothing_held: "\<not> bytes_held fs_objects fs_addr emptied_store (untimed sample_document)"
  by (simp add: bytes_held_def emptied_store_def fs_objects_def dict_get_def)

text \<open>The sample document, its purge begun and then interrupted before the object was deleted.\<close>

definition begun_document :: document_metadata where
  "begun_document = sample_document\<lparr>purge_status := ELIGIBLE, purge_started_at := Some 3\<rparr>"

definition interrupted_world :: "(postgres, filesystem, access_audit_event list database) world" where
  "interrupted_world = pg_start\<lparr>w_repo := reliable_database (empty_tables\<lparr>archive_documents := [begun_document]\<rparr>),
     w_store := stored_sample\<rparr>"

lemma begun_document_facts:
  "document_id begun_document = ''doc_a''" "purge_started_at begun_document = Some 3" "purge_status begun_document = ELIGIBLE"
  "storage_key begun_document = sample_key" "tenant_id begun_document = ''tenant-1''" "region begun_document = ''SG''"
  by (simp_all add: begun_document_def sample_document_def sample_input_def sample_key_def document_input.defs document_metadata.defs)

lemma interrupted_world_ready:
  "pg_wf (w_repo interrupted_world)" "pg_faults (w_repo interrupted_world) = []" "audit_free interrupted_world"
  "row_of document_id (archive_documents (pg_tables (w_repo interrupted_world))) ''doc_a'' = Some begun_document"
  "store_delete (filesystem_store ''local'') (storage_key begun_document) (w_store interrupted_world) = (Inr (), emptied_store)"
  by (simp_all add: interrupted_world_def pg_start_def sample_world_def reliable_database_def pg_wf_def tables_wf_def
      empty_tables_def audit_free_def row_of_def begun_document_facts filesystem_store_def sample_discard)

end
