(* ===== verification/OperationsApi.thy ===== *)
theory OperationsApi
  imports RuntimeSettings HttpErrors
begin

text \<open>
  What operators read: the build document of \<open>src/app/archive/build_metadata.py\<close>, the static
  posture of \<open>service_profile.py\<close>, the metric contracts of \<open>metrics.py\<close>, and the endpoints
  \<open>/health\<close>, \<open>/metadata\<close> and \<open>/version\<close> of \<open>main.py\<close>. The process environment is a map of
  variables. Of \<open>urllib.parse.urlparse\<close> the scheme and the network location are written out; its
  checks of bracketed hosts and of characters beyond ASCII are the parameter \<open>netloc_check\<close>.
\<close>

section \<open>Build metadata\<close>

record build_document =
  bm_service :: string
  bm_version :: string
  bm_commit_sha :: string
  bm_repository_url :: string
  bm_git_ref :: string
  bm_build_timestamp_utc :: string
  bm_ci_run_id :: string
  bm_image_ref :: string
  bm_image_digest :: string
  bm_image_digest_posture :: string

definition env_value :: "(string \<rightharpoonup> string) \<Rightarrow> string \<Rightarrow> string \<Rightarrow> string" where
  "env_value env name fallback =
     (let v = py_strip (case env name of Some x \<Rightarrow> x | None \<Rightarrow> fallback) in if v = [] then fallback else v)"

definition is_ascii_alpha :: "char \<Rightarrow> bool" where
  "is_ascii_alpha c \<longleftrightarrow> (let n = (of_char c :: nat) in 65 \<le> n \<and> n \<le> 90 \<or> 97 \<le> n \<and> n \<le> 122)"

definition is_scheme_char :: "char \<Rightarrow> bool" where
  "is_scheme_char c \<longleftrightarrow> is_alnum c \<or> c \<in> {CHR ''+'', CHR ''-'', CHR ''.''}"

definition after_scheme :: "string \<Rightarrow> string" where
  "after_scheme url =
     (let scheme = takeWhile (\<lambda>c. c \<noteq> CHR '':'') url in
      if scheme \<noteq> [] \<and> length scheme < length url \<and> is_ascii_alpha (hd url) \<and> list_all is_scheme_char scheme
      then drop (Suc (length scheme)) url else url)"

definition url_netloc :: "string \<Rightarrow> string" where
  "url_netloc url =
     (let cleaned = filter (\<lambda>c. c \<notin> {CHR 0x09, CHR 0x0A, CHR 0x0D})
                      (dropWhile (\<lambda>c. (of_char c :: nat) \<le> 32) url);
          rest = after_scheme cleaned in
      if take 2 rest = ''//'' then takeWhile (\<lambda>c. c \<notin> {CHR ''/'', CHR ''?'', CHR ''#''}) (drop 2 rest) else [])"

text \<open>A user name or a password is there only when the location has an \<open>@\<close>.\<close>

definition source_safe_repository_url :: "(string \<Rightarrow> exc + unit) \<Rightarrow> string \<Rightarrow> exc + string" where
  "source_safe_repository_url netloc_check url =
     and_then (netloc_check (url_netloc url))
       (Inr (if CHR ''@'' \<in> set (url_netloc url) then ''invalid-repository-url-redacted'' else url))"

definition image_digest_posture :: "string \<Rightarrow> string" where
  "image_digest_posture d =
     (if startswith d ''sha256:'' \<and> length d > length ''sha256:'' then ''immutable_digest'' else ''not_published'')"

definition build_info :: "(string \<Rightarrow> exc + unit) \<Rightarrow> (string \<rightharpoonup> string) \<Rightarrow> exc + build_document" where
  "build_info netloc_check env =
     (let image_digest = env_value env ''LOTUS_ARCHIVE_IMAGE_DIGEST'' ''not-published'' in
      bind_result (source_safe_repository_url netloc_check
        (env_value env ''LOTUS_ARCHIVE_REPOSITORY_URL'' ''https://github.com/sgajbi/lotus-archive'')) (\<lambda>url.
        Inr \<lparr>bm_service = env_value env ''LOTUS_ARCHIVE_SERVICE_NAME'' ''lotus-archive'',
             bm_version = env_value env ''LOTUS_ARCHIVE_VERSION'' ''0.1.0'',
             bm_commit_sha = env_value env ''LOTUS_ARCHIVE_COMMIT_SHA'' ''local'',
             bm_repository_url = url,
             bm_git_ref = env_value env ''LOTUS_ARCHIVE_BUILD_REF'' ''local'',
             bm_build_timestamp_utc = env_value env ''LOTUS_ARCHIVE_BUILD_TIMESTAMP_UTC'' ''local'',
             bm_ci_run_id = env_value env ''LOTUS_ARCHIVE_CI_RUN_ID'' ''local'',
             bm_image_ref = env_value env ''LOTUS_ARCHIVE_IMAGE_REF'' ''lotus-archive:local'',
             bm_image_digest = image_digest, bm_image_digest_posture = image_digest_posture image_digest\<rparr>))"

section \<open>Static posture\<close>

record module_family =
  family_name :: string
  responsibility :: string
  source_of_truth :: string

definition ARCHIVE_MODULE_FAMILIES :: "module_family list" where
  "ARCHIVE_MODULE_FAMILIES =
    [\<lparr>family_name = ''metadata'',
        responsibility = ''archived document identity, source-backed metadata, and support-safe lookup'',
        source_of_truth = ''lotus-archive metadata model; upstream references from lotus-report and lotus-render''\<rparr>,
     \<lparr>family_name = ''storage'',
        responsibility = ''object storage abstraction, checksum verification, and binary retrieval boundary'',
        source_of_truth = ''lotus-archive storage adapter and checksum evidence''\<rparr>,
     \<lparr>family_name = ''audit'',
        responsibility = ''access and lifecycle audit records for archive reads and mutations'',
        source_of_truth = ''lotus-archive access-audit model''\<rparr>,
     \<lparr>family_name = ''retention'',
        responsibility = ''retention policy assignment, purge eligibility, and support-safe purge evidence'',
        source_of_truth = ''lotus-archive retention model''\<rparr>,
     \<lparr>family_name = ''legal_hold'',
        responsibility = ''legal hold set, release, authority reference, and purge blocking'',
        source_of_truth = ''lotus-archive legal-hold model''\<rparr>,
     \<lparr>family_name = ''lifecycle'',
        responsibility = ''supersession, correction, reissue, and historical document relationships'',
        source_of_truth = ''lotus-archive lifecycle relationship model''\<rparr>,
     \<lparr>family_name = ''source_events'',
        responsibility = ''support-safe generated-document and client-delivery lifecycle source events for downstream portfolio-memory consumers'',
        source_of_truth = ''lotus-archive metadata and lifecycle relationship models''\<rparr>]"

definition SUPPORTED_ARCHIVE_FEATURES :: "string list" where
  "SUPPORTED_ARCHIVE_FEATURES =
    [''generated_document_archival'', ''controlled_document_metadata_lookup'',
     ''controlled_document_binary_download'', ''access_audit_for_archive_api'',
     ''retention_policy_posture'', ''purge_eligibility_and_execution'',
     ''legal_hold_set_release_with_purge_blocking'', ''document_lifecycle_relationships'',
     ''current_document_resolution'', ''archive_document_source_events'', ''report_to_archive_handoff'',
     ''reviewed_advisory_narrative_archive_summary'', ''advisor_proposal_memo_archive_summary'',
     ''advisor_commentary_archive_summary'', ''idea_evidence_pack_archive_summary'',
     ''gateway_backed_document_retrieval'', ''gateway_backed_workbench_document_retrieval'']"

definition UNSUPPORTED_PRODUCT_CAPABILITIES :: "(string \<times> string) list" where
  "UNSUPPORTED_PRODUCT_CAPABILITIES =
    [(''direct_workbench_archive_calls'',
        ''out of scope; Workbench retrieval must stay gateway-backed''),
     (''arbitrary_file_storage'',
        ''out of scope; lotus-archive is limited to Lotus-generated documents''),
     (''manual_document_upload'',
        ''out of scope for RFC-0103 first-wave archive support'')]"

record posture_document =
  implemented_scope :: string
  supported_features :: "string list"
  module_families :: "module_family list"
  unsupported_capabilities :: "(string \<times> string) list"

definition service_posture :: posture_document where
  "service_posture = \<lparr>implemented_scope =
      ''retention_purge_legal_hold_lifecycle_source_events_report_handoff_reviewed_narrative_advisor_memo_idea_evidence_gateway_workbench_retrieval'',
     supported_features = SUPPORTED_ARCHIVE_FEATURES, module_families = ARCHIVE_MODULE_FAMILIES,
     unsupported_capabilities = UNSUPPORTED_PRODUCT_CAPABILITIES\<rparr>"

section \<open>Metric contracts\<close>

definition ARCHIVE_METRIC_LABELS :: "string list" where
  "ARCHIVE_METRIC_LABELS = [''freshness_bucket'', ''operation'', ''reason'', ''state'', ''status'', ''failure_category'']"

definition FORBIDDEN_METRIC_LABELS :: "string list" where
  "FORBIDDEN_METRIC_LABELS =
    [''account_id'', ''archive_request_id'', ''booking_center_code'', ''bucket'', ''client_id'',
     ''client_name'', ''correlation_id'', ''document_id'', ''idempotency_key'', ''legal_hold_id'',
     ''lifecycle_relationship_id'', ''portfolio_id'', ''portfolio_name'', ''raw_document_content'',
     ''raw_upstream_payload'', ''render_job_id'', ''report_job_id'', ''request_id'', ''snapshot_id'',
     ''storage_key'', ''tenant_id'', ''trace_id'']"

record metric_contract =
  metric_name :: string
  metric_type :: string
  metric_labels :: "string list"
  metric_implemented :: bool
  metric_description :: string

definition ARCHIVE_METRIC_CONTRACTS :: "metric_contract list" where
  "ARCHIVE_METRIC_CONTRACTS =
    [\<lparr>metric_name = ''lotus_archive_operations_total'', metric_type = ''counter'',
      metric_labels = [''operation'', ''status'', ''failure_category''],
      metric_implemented = True,
      metric_description = ''Counts supported archive create, retrieval, retention, purge, legal-hold, and lifecycle operations by bounded operation, status, and failure category.''\<rparr>,
     \<lparr>metric_name = ''lotus_archive_operation_duration_seconds'', metric_type = ''histogram'',
      metric_labels = [''operation'', ''status'', ''failure_category''],
      metric_implemented = True,
      metric_description = ''Measures supported archive operation duration using bounded labels only.''\<rparr>,
     \<lparr>metric_name = ''lotus_archive_document_size_bytes'', metric_type = ''histogram'', metric_labels = [''status''],
      metric_implemented = True,
      metric_description = ''Measures archived or downloaded generated-document size without document, report, render, portfolio, tenant, trace, correlation, or storage identifiers.''\<rparr>,
     \<lparr>metric_name = ''lotus_archive_supportability_total'', metric_type = ''counter'',
      metric_labels = [''state'', ''reason'', ''freshness_bucket''],
      metric_implemented = True,
      metric_description = ''Counts source-backed RFC-0108 archive supportability observations using bounded state, reason, and freshness labels.''\<rparr>]"

definition validate_labels :: "string list \<Rightarrow> exc + unit" where
  "validate_labels labels =
     (let forbidden = set labels \<inter> set FORBIDDEN_METRIC_LABELS;
          unsupported = set labels - set ARCHIVE_METRIC_LABELS in
      if forbidden \<noteq> {} then Inl (ValueError (''forbidden_archive_metric_label:'' @ Min forbidden))
      else if unsupported \<noteq> {} then Inl (ValueError (''unsupported_archive_metric_label:'' @ Min unsupported))
      else Inr ())"

definition validate_metric_contracts :: "metric_contract list \<Rightarrow> exc + unit" where
  "validate_metric_contracts contracts =
     (if \<not> distinct (map metric_name contracts) then Inl (ValueError ''duplicate_archive_metric_name'')
      else check_all (\<lambda>c. validate_labels (metric_labels c)) contracts)"

section \<open>Endpoints\<close>

text \<open>The supportability counter is a list of label triples beside the service's world.\<close>

type_synonym support_samples = "(string \<times> string \<times> string) list"

definition record_archive_supportability ::
    "string \<Rightarrow> string \<Rightarrow> string \<Rightarrow> support_samples \<Rightarrow> support_samples" where
  "record_archive_supportability st reason fresh samples =
     samples @ [(bounded_supportability_state st, bounded_supportability_reason reason, bounded_freshness_bucket fresh)]"

record metadata_document =
  md_service :: string
  md_version :: string
  md_rounding_policy_version :: string
  md_posture :: posture_document
  md_runtime :: archive_runtime_posture
  md_supportability :: supportability
  md_build :: build_document

definition metadata_endpoint ::
    "(string \<Rightarrow> exc + unit) \<Rightarrow> (string \<rightharpoonup> string) \<Rightarrow> bool \<Rightarrow> archive_runtime_settings \<Rightarrow> ('r, 's, 'a) archive_service
      \<Rightarrow> (('r, 's, 'a) world \<times> support_samples, metadata_document) io" where
  "metadata_endpoint netloc_check env draining s svc = (\<lambda>(w, samples).
     case runtime_readiness svc w of
       (Inl e, w') \<Rightarrow> (Inl e, (w', samples))
     | (Inr readiness, w') \<Rightarrow>
         (let support = archive_supportability draining readiness;
              samples' = record_archive_supportability (sup_state support) (sup_reason support)
                           (sup_freshness_bucket support) samples in
          (bind_result (build_info netloc_check env) (\<lambda>build.
             Inr \<lparr>md_service = SERVICE_NAME, md_version = ''0.1.0'', md_rounding_policy_version = ''v1'',
                  md_posture = service_posture, md_runtime = runtime_posture s, md_supportability = support,
                  md_build = build\<rparr>), (w', samples'))))"

definition health :: "string \<times> string" where
  "health = (''ok'', SERVICE_NAME)"

definition health_live :: string where
  "health_live = ''live''"

text \<open>The verification keys are published without a caller context (\<open>api.py\<close>).\<close>

definition http_get_lifecycle_verification_keys ::
    "('r, 's, 'a) decision_service \<Rightarrow> nat \<times> verification_key list" where
  "http_get_lifecycle_verification_keys svc = (200, verification_keys svc)"

text \<open>\<open>ArchiveDocumentService.close\<close>: the composed resources are released in order.\<close>

fun close_service :: "('w, unit) io list \<Rightarrow> ('w, unit) io" where
  "close_service [] = skip_io"
| "close_service (release # rest) = seq_io release (close_service rest)"

section \<open>What the documents tell\<close>

text \<open>No build document carries the credentials of a repository URL.\<close>

lemma redacted_netloc: "url_netloc ''invalid-repository-url-redacted'' = []"
  by code_simp

lemma build_url_is_safe:
  assumes "build_info netloc_check env = Inr b"
  shows "CHR ''@'' \<notin> set (url_netloc (bm_repository_url b))"
  using assms
  by (auto simp: build_info_def Let_def bind_result_Inr source_safe_repository_url_def both_accept redacted_netloc split: if_splits)

text \<open>A digest is reported immutable exactly when something follows the algorithm.\<close>

lemma build_digest_posture:
  assumes "build_info netloc_check env = Inr b"
  shows "bm_image_digest_posture b = ''immutable_digest'' \<longleftrightarrow> (\<exists>d. d \<noteq> [] \<and> bm_image_digest b = ''sha256:'' @ d)"
proof -
  have "bm_image_digest_posture b = image_digest_posture (bm_image_digest b)"
    using assms by (auto simp: build_info_def Let_def bind_result_Inr)
  moreover have "startswith d p \<and> length d > length p \<longleftrightarrow> (\<exists>r. r \<noteq> [] \<and> d = p @ r)" for d p
  proof
    assume d: "startswith d p \<and> length d > length p"
    then have "d = p @ drop (length p) d" by (metis append_take_drop_id startswith_def)
    moreover from d have "drop (length p) d \<noteq> []" by simp
    ultimately show "\<exists>r. r \<noteq> [] \<and> d = p @ r" by blast
  qed (auto simp: startswith_def)
  ultimately show ?thesis by (simp only: image_digest_posture_def split: if_split) simp
qed

text \<open>Startup: the metric contracts are valid, and none of their labels names an identifier.\<close>

lemma allowed_labels:
  "list_all (\<lambda>l. l \<in> set ARCHIVE_METRIC_LABELS \<and> l \<notin> set FORBIDDEN_METRIC_LABELS) labels \<Longrightarrow> validate_labels labels = Inr ()"
proof -
  assume "list_all (\<lambda>l. l \<in> set ARCHIVE_METRIC_LABELS \<and> l \<notin> set FORBIDDEN_METRIC_LABELS) labels"
  then have "set labels \<inter> set FORBIDDEN_METRIC_LABELS = {}" "set labels - set ARCHIVE_METRIC_LABELS = {}"
    by (auto simp: list_all_iff)
  then show ?thesis unfolding validate_labels_def by (simp only: Let_def simp_thms if_False)
qed

lemma labels_disjoint: "list_all (\<lambda>l. l \<in> set ARCHIVE_METRIC_LABELS \<and> l \<notin> set FORBIDDEN_METRIC_LABELS) ARCHIVE_METRIC_LABELS"
  unfolding ARCHIVE_METRIC_LABELS_def FORBIDDEN_METRIC_LABELS_def by code_simp

lemma contracts_valid: "validate_metric_contracts ARCHIVE_METRIC_CONTRACTS = Inr ()"
proof -
  have "list_all (\<lambda>c. list_all (\<lambda>l. l \<in> set ARCHIVE_METRIC_LABELS) (metric_labels c)) ARCHIVE_METRIC_CONTRACTS"
    unfolding ARCHIVE_METRIC_CONTRACTS_def ARCHIVE_METRIC_LABELS_def by code_simp
  then have ok: "validate_labels (metric_labels c) = Inr ()" if "c \<in> set ARCHIVE_METRIC_CONTRACTS" for c
    using that labels_disjoint by (intro allowed_labels) (auto simp: list_all_iff)
  have "check_all (\<lambda>c. validate_labels (metric_labels c)) cs = Inr ()" if "set cs \<subseteq> set ARCHIVE_METRIC_CONTRACTS" for cs
    using that by (induction cs) (simp_all add: ok and_then_def)
  moreover have "distinct (map metric_name ARCHIVE_METRIC_CONTRACTS)" unfolding ARCHIVE_METRIC_CONTRACTS_def by code_simp
  ultimately show ?thesis by (simp add: validate_metric_contracts_def)
qed

lemma accepted_labels:
  assumes "validate_metric_contracts contracts = Inr ()" "c \<in> set contracts"
  shows "set (metric_labels c) \<subseteq> set ARCHIVE_METRIC_LABELS - set FORBIDDEN_METRIC_LABELS"
proof -
  have "check_all (\<lambda>c. validate_labels (metric_labels c)) contracts = Inr ()"
    using assms(1) by (simp add: validate_metric_contracts_def split: if_splits)
  then have "validate_labels (metric_labels c) = Inr ()" using assms(2)
    by (induction contracts) (auto simp: both_accept)
  then show ?thesis by (auto simp: validate_labels_def Let_def split: if_splits)
qed

text \<open>The labels counted are those the document states: bounding them changes nothing.\<close>

lemma supportability_bounded:
  "bounded_supportability_state (sup_state (archive_supportability draining r)) = sup_state (archive_supportability draining r)"
  "bounded_supportability_reason (sup_reason (archive_supportability draining r)) = sup_reason (archive_supportability draining r)"
  "bounded_freshness_bucket (sup_freshness_bucket (archive_supportability draining r)) = sup_freshness_bucket (archive_supportability draining r)"
  by (simp_all add: archive_supportability_def measured_unavailability_reason_def bounded_supportability_state_def
      bounded_supportability_reason_def bounded_freshness_bucket_def ARCHIVE_SUPPORTABILITY_STATES_def
      ARCHIVE_SUPPORTABILITY_REASONS_def Let_def)

lemma metadata_counts_what_it_states:
  assumes "metadata_endpoint netloc_check env draining s svc (w, samples) = (Inr m, (w', samples'))"
  shows "samples' = samples @ [(sup_state (md_supportability m), sup_reason (md_supportability m),
      sup_freshness_bucket (md_supportability m))]"
    "CHR ''@'' \<notin> set (url_netloc (bm_repository_url (md_build m)))"
proof -
  obtain r where r: "runtime_readiness svc w = (Inr r, w')"
    and m: "md_supportability m = archive_supportability draining r" "build_info netloc_check env = Inr (md_build m)"
    and samples: "samples' = record_archive_supportability (sup_state (md_supportability m)) (sup_reason (md_supportability m))
      (sup_freshness_bucket (md_supportability m)) samples"
    using assms unfolding metadata_endpoint_def by (auto simp: Let_def bind_result_Inr split: prod.splits sum.splits)
  show "samples' = samples @ [(sup_state (md_supportability m), sup_reason (md_supportability m),
      sup_freshness_bucket (md_supportability m))]"
    unfolding samples record_archive_supportability_def m(1) supportability_bounded ..
  show "CHR ''@'' \<notin> set (url_netloc (bm_repository_url (md_build m)))" by (rule build_url_is_safe [OF m(2)])
qed

end
