(* ===== verification/ReleaseTooling.thy ===== *)
theory ReleaseTooling
  imports OperationsApi
begin

text \<open>
  The release tooling of \<open>src/scripts\<close>: \<open>reclaim_main_releasability_tag.py\<close>, which deletes the tag a
  releasability run was dispatched on, \<open>audit_main_gate_coverage.py\<close>, which asks what commits of main
  the gate evaluated, and \<open>generate_release_evidence.py\<close>. The commands they run (\<open>gh\<close>, \<open>git\<close>) are
  parameters, as is the JSON the first prints.
\<close>

section \<open>Reclaiming the dispatch tag\<close>

record command_result =
  returncode :: int
  cr_stdout :: string

type_synonym 'w runner = "string list \<Rightarrow> 'w \<Rightarrow> command_result \<times> 'w"

definition dispatch_tag_sha :: "string \<Rightarrow> string option" where
  "dispatch_tag_sha ref =
     (let prefix = ''main-releasability-''; sha = drop (length prefix) ref in
      if startswith ref prefix \<and> length sha = 40 \<and> list_all (\<lambda>c. c \<in> set hex_digits) sha then Some sha else None)"

definition is_repository_char :: "char \<Rightarrow> bool" where
  "is_repository_char c \<longleftrightarrow> is_alnum c \<or> c \<in> {CHR ''_'', CHR ''.'', CHR ''-''}"

definition is_repository :: "string \<Rightarrow> bool" where
  "is_repository s \<longleftrightarrow> (case py_split CHR ''/'' s of
     [owner, name] \<Rightarrow> owner \<noteq> [] \<and> name \<noteq> [] \<and> list_all is_repository_char owner \<and> list_all is_repository_char name
   | _ \<Rightarrow> False)"

definition or_text :: "string \<Rightarrow> string \<Rightarrow> string" where
  "or_text s fallback = (if s = [] then fallback else s)"

definition lookup_command :: "string \<Rightarrow> string \<Rightarrow> string list" where
  "lookup_command repository ref =
     [''gh'', ''api'', ''repos/'' @ repository @ ''/git/ref/tags/'' @ ref, ''--jq'', ''.object.sha'']"

definition delete_command :: "string \<Rightarrow> string \<Rightarrow> string list" where
  "delete_command repository ref =
     [''gh'', ''api'', ''--method'', ''DELETE'', ''repos/'' @ repository @ ''/git/refs/tags/'' @ ref]"

text \<open>The result and the line printed.\<close>

definition reclaim_dispatch_tag :: "(string \<rightharpoonup> string) \<Rightarrow> 'w runner \<Rightarrow> 'w \<Rightarrow> (bool \<times> string) \<times> 'w" where
  "reclaim_dispatch_tag env run w =
     (let get = (\<lambda>n. case env n of Some v \<Rightarrow> v | None \<Rightarrow> []);
          ref = get ''DISPATCH_REF''; expected = get ''EXPECTED_SHA''; ref_type = get ''GITHUB_REF_TYPE'';
          repository = get ''GITHUB_REPOSITORY'' in
      if ref_type \<noteq> ''tag''
      then ((False, ''::warning::Ref '' @ or_text ref ''<unset>'' @ '' is not a tag; retaining it.''), w)
      else (case dispatch_tag_sha ref of
        None \<Rightarrow> ((False, ''::warning::Ref '' @ or_text ref ''<unset>'' @ '' is not a governed dispatch tag; retaining it.''), w)
      | Some sha \<Rightarrow>
          if \<not> is_repository repository
          then ((False, ''::warning::GITHUB_REPOSITORY is absent or invalid; retaining the dispatch tag.''), w)
          else if sha \<noteq> expected
          then ((False, ''::warning::Ref '' @ ref @ '' does not match expected SHA '' @ or_text expected ''unset'' @ ''; retaining it.''), w)
          else (case run (lookup_command repository ref) w of (lookup, w1) \<Rightarrow>
            if returncode lookup \<noteq> 0
            then ((False, ''::warning::Dispatch tag '' @ ref @ '' is already absent or could not be read.''), w1)
            else if py_strip (cr_stdout lookup) \<noteq> expected
            then ((False, ''::warning::Dispatch tag '' @ ref @ '' points to '' @ py_strip (cr_stdout lookup) @ '', not '' @ expected
                           @ ''; retaining it.''), w1)
            else (case run (delete_command repository ref) w1 of (deletion, w2) \<Rightarrow>
              if returncode deletion \<noteq> 0
              then ((False, ''::warning::Could not delete '' @ ref @ ''; releasability verdict is unchanged.''), w2)
              else ((True, ''Reclaimed consumed dispatch tag '' @ ref @ ''.''), w2)))))"

text \<open>A runner that keeps the commands it was given.\<close>

definition logged :: "'w runner \<Rightarrow> ('w \<times> string list list) runner" where
  "logged run args = (\<lambda>(w, issued). case run args w of (r, w') \<Rightarrow> (r, (w', issued @ [args])))"

text \<open>
  The only command that can delete is the deletion of a tag of the governed form at the expected
  commit, and only after a lookup told that the tag points there.
\<close>

lemma dispatch_tag:
  assumes "dispatch_tag_sha ref = Some sha"
  shows "ref = ''main-releasability-'' @ sha" "length sha = 40"
proof -
  have "startswith ref ''main-releasability-''" "sha = drop (length ''main-releasability-'') ref" "length sha = 40"
    using assms by (auto simp: dispatch_tag_sha_def Let_def split: if_splits)
  then show "ref = ''main-releasability-'' @ sha" "length sha = 40"
    unfolding startswith_def by (metis append_take_drop_id)+
qed

definition tag_governed :: "(string \<rightharpoonup> string) \<Rightarrow> string \<Rightarrow> string \<Rightarrow> string \<Rightarrow> bool" where
  "tag_governed env repository ref sha \<longleftrightarrow> env ''GITHUB_REF_TYPE'' = Some ''tag'' \<and> env ''DISPATCH_REF'' = Some ref
     \<and> ref = ''main-releasability-'' @ sha \<and> length sha = 40 \<and> env ''EXPECTED_SHA'' = Some sha \<and> is_repository repository
     \<and> env ''GITHUB_REPOSITORY'' = Some repository"

lemma set_variable: "(case env n of Some v \<Rightarrow> v | None \<Rightarrow> []) = (v :: string) \<Longrightarrow> v \<noteq> [] \<Longrightarrow> env n = Some v"
  by (auto split: option.splits)

lemma reclaim_commands:
  assumes "reclaim_dispatch_tag env (logged run) (w, []) = ((deleted, line), (w', issued))" "issued \<noteq> []"
  obtains repository ref sha where "tag_governed env repository ref sha"
    "issued = [lookup_command repository ref] \<and> \<not> deleted
     \<or> issued = [lookup_command repository ref, delete_command repository ref]
       \<and> returncode (fst (run (lookup_command repository ref) w)) = 0
       \<and> py_strip (cr_stdout (fst (run (lookup_command repository ref) w))) = sha"
proof -
  let ?get = "\<lambda>n. case env n of Some v \<Rightarrow> v | None \<Rightarrow> []"
  define ref where "ref = ?get ''DISPATCH_REF''"
  define repository where "repository = ?get ''GITHUB_REPOSITORY''"
  obtain sha where sha: "dispatch_tag_sha ref = Some sha" and istag: "?get ''GITHUB_REF_TYPE'' = ''tag''"
    and repo: "is_repository repository" and expected: "?get ''EXPECTED_SHA'' = sha"
    using assms unfolding reclaim_dispatch_tag_def Let_def ref_def repository_def
    by (auto split: if_splits option.splits)
  note tag = dispatch_tag [OF sha]
  have "repository \<noteq> []" using repo by (auto simp: is_repository_def)
  moreover have "ref \<noteq> []" "sha \<noteq> []" using tag by auto
  ultimately have "tag_governed env repository ref sha"
    unfolding tag_governed_def using tag repo
    by (auto intro!: set_variable istag expected simp: ref_def [symmetric] repository_def [symmetric])
  moreover have "issued = [lookup_command repository ref] \<and> \<not> deleted
     \<or> issued = [lookup_command repository ref, delete_command repository ref]
       \<and> returncode (fst (run (lookup_command repository ref) w)) = 0
       \<and> py_strip (cr_stdout (fst (run (lookup_command repository ref) w))) = sha"
    using assms(1) sha istag repo expected
    unfolding reclaim_dispatch_tag_def Let_def ref_def [symmetric] repository_def [symmetric]
    by (auto simp: logged_def split: if_splits prod.splits)
  ultimately show thesis by (rule that)
qed

section \<open>The coverage audit of main\<close>

text \<open>One workflow run as \<open>gh run list\<close> tells it; \<open>None\<close> for a listing that could not be fetched or read.\<close>

record gate_run =
  run_conclusion :: "string option"
  run_status :: "string option"

definition run_text :: "gate_run \<Rightarrow> string" where
  "run_text r = (let text = (\<lambda>v. case v of Some t \<Rightarrow> t | None \<Rightarrow> []) in or_text (text (run_conclusion r)) (text (run_status r)))"

text \<open>\<open>entry.split(" ", 2)\<close> unpacked into three names\<close>

definition split_commit :: "string \<Rightarrow> exc + string \<times> string \<times> string" where
  "split_commit entry =
     (let sha = takeWhile (\<lambda>c. c \<noteq> CHR '' '') entry; rest = drop (Suc (length sha)) entry;
          short = takeWhile (\<lambda>c. c \<noteq> CHR '' '') rest in
      if CHR '' '' \<in> set entry \<and> CHR '' '' \<in> set rest then Inr (sha, short, drop (Suc (length short)) rest)
      else Inl (ValueError ''not enough values to unpack''))"

record audit_report =
  ungated :: "string list"
  unknown_commits :: "string list"
  failing_commits :: "string list"
  passing_count :: nat

definition audit_commit :: "gate_run list option \<Rightarrow> string \<Rightarrow> string \<Rightarrow> audit_report \<Rightarrow> audit_report" where
  "audit_commit runs short subject report =
     (case runs of
        None \<Rightarrow> report\<lparr>unknown_commits := unknown_commits report @ [short]\<rparr>
      | Some rs \<Rightarrow>
          (let conclusions = map run_text rs;
               verdicts = filter (\<lambda>c. c \<in> {''success'', ''failure''}) conclusions in
           if verdicts \<noteq> [] then
             (if ''success'' \<in> set verdicts then report\<lparr>passing_count := Suc (passing_count report)\<rparr>
              else report\<lparr>failing_commits := failing_commits report @ [short @ ''  '' @ take 70 subject]\<rparr>)
           else if conclusions \<noteq> [] then report\<lparr>unknown_commits := unknown_commits report @ [short]\<rparr>
           else report\<lparr>ungated := ungated report @ [short @ ''  '' @ take 70 subject]\<rparr>))"

fun audit_commits :: "(string \<Rightarrow> gate_run list option) \<Rightarrow> string list \<Rightarrow> audit_report \<Rightarrow> exc + audit_report" where
  "audit_commits runs [] report = Inr report"
| "audit_commits runs (entry # entries) report =
     bind_result (split_commit entry) (\<lambda>(sha, short, subject).
       audit_commits runs entries (audit_commit (runs sha) short subject report))"

text \<open>
  The exit status, from the lines \<open>git log\<close> prints when asked for one commit more than the limit.
\<close>

definition audit_main ::
    "bool \<Rightarrow> bool \<Rightarrow> nat \<Rightarrow> (exc + string list) \<Rightarrow> (string \<Rightarrow> gate_run list option) \<Rightarrow> exc + int" where
  "audit_main gh_available fail_on_gap limit git_log runs =
     (if \<not> gh_available then Inr (if fail_on_gap then 1 else 0)
      else bind_result git_log (\<lambda>printed.
        let probed = filter (\<lambda>l. py_strip l \<noteq> []) printed;
            truncated = limit < length probed in
        bind_result (audit_commits runs (take limit probed) \<lparr>ungated = [], unknown_commits = [], failing_commits = [], passing_count = 0\<rparr>)
          (\<lambda>report. Inr (if fail_on_gap \<and> (ungated report \<noteq> [] \<or> unknown_commits report \<noteq> [] \<or> truncated) then 1 else 0))))"

definition has_verdict :: "(string \<Rightarrow> gate_run list option) \<Rightarrow> string \<Rightarrow> bool" where
  "has_verdict runs entry \<longleftrightarrow> (\<exists>sha short subject rs. split_commit entry = Inr (sha, short, subject) \<and> runs sha = Some rs
     \<and> (\<exists>r \<in> set rs. run_text r \<in> {''success'', ''failure''}))"

definition no_gap :: "audit_report \<Rightarrow> bool" where
  "no_gap report \<longleftrightarrow> ungated report = [] \<and> unknown_commits report = []"

lemma audit_commit_gap:
  "no_gap (audit_commit rs short subject report) \<longleftrightarrow> no_gap report
     \<and> (\<exists>l. rs = Some l \<and> (\<exists>r \<in> set l. run_text r \<in> {''success'', ''failure''}))"
proof (cases rs)
  case (Some l)
  have "filter (\<lambda>c. c \<in> {''success'', ''failure''}) (map run_text l) \<noteq> [] \<longleftrightarrow> (\<exists>r \<in> set l. run_text r \<in> {''success'', ''failure''})"
    unfolding filter_empty_conv by simp
  then show ?thesis unfolding Some audit_commit_def option.case Let_def no_gap_def by (auto split: if_split)
qed (simp add: audit_commit_def no_gap_def)

lemma audit_commits_gap:
  "audit_commits runs entries report = Inr final \<Longrightarrow> no_gap final \<longleftrightarrow> no_gap report \<and> (\<forall>e \<in> set entries. has_verdict runs e)"
proof (induction runs entries report rule: audit_commits.induct)
  case (2 runs entry entries report)
  then obtain sha short subject where sp: "split_commit entry = Inr (sha, short, subject)"
    and run: "audit_commits runs entries (audit_commit (runs sha) short subject report) = Inr final"
    by (auto simp: bind_result_Inr)
  from "2.IH" [OF run] show ?case
    using sp by (auto simp: audit_commit_gap has_verdict_def)
qed simp

text \<open>
  The watchdog fails closed: under \<open>--fail-on-gap\<close> it exits 0 only when it walked the whole window
  and every commit there has a run that reached a verdict.
\<close>

lemma audit_fails_closed:
  assumes "audit_main gh_available True limit git_log runs = Inr 0"
  shows "gh_available" "\<exists>printed. git_log = Inr printed \<and> length (filter (\<lambda>l. py_strip l \<noteq> []) printed) \<le> limit
    \<and> (\<forall>l \<in> set printed. py_strip l \<noteq> [] \<longrightarrow> has_verdict runs l)"
proof -
  show "gh_available" using assms by (auto simp: audit_main_def split: if_splits)
  then obtain printed report where g: "git_log = Inr printed"
    and a: "audit_commits runs (take limit (filter (\<lambda>l. py_strip l \<noteq> []) printed))
      \<lparr>ungated = [], unknown_commits = [], failing_commits = [], passing_count = 0\<rparr> = Inr report"
    and ok: "no_gap report" "length (filter (\<lambda>l. py_strip l \<noteq> []) printed) \<le> limit"
    using assms by (auto simp: audit_main_def bind_result_Inr Let_def no_gap_def split: if_splits)
  have "\<forall>l \<in> set (filter (\<lambda>l. py_strip l \<noteq> []) printed). has_verdict runs l"
    using audit_commits_gap [OF a] ok by simp
  with g ok(2) show "\<exists>printed. git_log = Inr printed \<and> length (filter (\<lambda>l. py_strip l \<noteq> []) printed) \<le> limit
    \<and> (\<forall>l \<in> set printed. py_strip l \<noteq> [] \<longrightarrow> has_verdict runs l)" by simp
qed

section \<open>Release evidence\<close>

definition secret_like :: "string \<Rightarrow> bool" where
  "secret_like text \<longleftrightarrow> list_ex (\<lambda>w. contains_sub w (py_lower text))
     [''secret'', ''token'', ''password'', ''credential'', ''privatekey'', ''private_key'', ''private-key'']"

definition validate_source_safe_metadata :: "(string \<times> string) list \<Rightarrow> string list" where
  "validate_source_safe_metadata values =
     concat (map (\<lambda>(key, value).
         (if secret_like key then [''release metadata key is secret-like: '' @ key] else [])
       @ (if secret_like value then [''release metadata value for '' @ key @ '' is secret-like''] else [])) values)
     @ (let url = (case dict_get values ''repository_url'' of Some u \<Rightarrow> u | None \<Rightarrow> []) in
        if CHR ''@'' \<in> set url then [''repository_url must not contain credentials''] else [])"

record release_source =
  rs_repository :: string
  rs_commit_sha :: string
  rs_git_ref :: string
  rs_workflow :: string
  rs_run_id :: string
  rs_image_name :: string
  rs_image_tag :: string
  rs_build_timestamp_utc :: string
  rs_repository_url :: string

definition source_values :: "release_source \<Rightarrow> (string \<times> string) list" where
  "source_values r = [(''repository'', rs_repository r), (''commit_sha'', rs_commit_sha r), (''git_ref'', rs_git_ref r),
     (''workflow'', rs_workflow r), (''run_id'', rs_run_id r), (''image_name'', rs_image_name r), (''image_tag'', rs_image_tag r),
     (''build_timestamp_utc'', rs_build_timestamp_utc r), (''repository_url'', rs_repository_url r)]"

record release_image =
  ri_name :: string
  ri_tag :: string
  ri_ref :: string
  ri_digest :: string
  ri_digest_ref :: string
  oci_labels :: "(string \<times> string) list"
  runtime_environment :: "(string \<times> string) list"

record release_evidence =
  ev_schema_version :: string
  ev_generated_at :: string
  ev_source :: release_source
  ev_dockerfile_path :: string
  ev_image :: release_image
  ev_sbom :: "string \<times> bool"
  ev_provenance :: "string \<times> bool"
  ev_non_proof_boundaries :: "string list"

text \<open>\<open>digest\<close> is the entry \<open>containerimage.digest\<close> of the build metadata, empty when it has none.\<close>

definition build_release_evidence ::
    "(string \<rightharpoonup> string) \<Rightarrow> string \<Rightarrow> string \<Rightarrow> release_source \<Rightarrow> exc + release_evidence" where
  "build_release_evidence env now digest r =
     (let image_ref = rs_image_name r @ '':'' @ rs_image_tag r;
          digest_ref = (if digest \<noteq> [] then rs_image_name r @ ''@'' @ digest else []);
          errors = validate_source_safe_metadata (source_values r) in
      if errors \<noteq> [] then Inl (ValueError (py_join ''; '' errors))
      else Inr \<lparr>ev_schema_version = ''lotus-archive-release-evidence.v1'', ev_generated_at = now, ev_source = r,
        ev_dockerfile_path = ''Dockerfile'',
        ev_image = \<lparr>ri_name = rs_image_name r, ri_tag = rs_image_tag r, ri_ref = image_ref, ri_digest = digest,
          ri_digest_ref = digest_ref,
          oci_labels = [(''org.opencontainers.image.version'', env_value env ''SERVICE_VERSION'' ''0.1.0''),
            (''org.opencontainers.image.revision'', rs_commit_sha r), (''org.opencontainers.image.source'', rs_repository_url r),
            (''org.opencontainers.image.ref.name'', rs_git_ref r), (''org.opencontainers.image.created'', rs_build_timestamp_utc r),
            (''io.lotus.pipeline.run-id'', rs_run_id r), (''io.lotus.image.ref'', image_ref), (''io.lotus.image.digest'', digest)],
          runtime_environment = [(''LOTUS_ARCHIVE_COMMIT_SHA'', rs_commit_sha r),
            (''LOTUS_ARCHIVE_REPOSITORY_URL'', rs_repository_url r), (''LOTUS_ARCHIVE_BUILD_REF'', rs_git_ref r),
            (''LOTUS_ARCHIVE_BUILD_TIMESTAMP_UTC'', rs_build_timestamp_utc r), (''LOTUS_ARCHIVE_CI_RUN_ID'', rs_run_id r),
            (''LOTUS_ARCHIVE_IMAGE_REF'', image_ref), (''LOTUS_ARCHIVE_IMAGE_DIGEST'', digest)]\<rparr>,
        ev_sbom = (''docker-buildx-sbom'', True), ev_provenance = (''docker-buildx-provenance'', True),
        ev_non_proof_boundaries =
          [''Release evidence proves CI image metadata and buildx attestation output only.'',
           ''Environment promotion remains uncertified until deployment manifests consume digest_ref.'',
           ''Keyless signature verification remains governed by the CI lane that signs the pushed digest.'']\<rparr>)"

text \<open>
  Evidence that is built names no secret-like value and no URL with credentials; the environment it
  hands the image makes the running service publish the same commit, URL and digest.
\<close>

lemma evidence_is_source_safe:
  assumes "build_release_evidence env now digest r = Inr e"
  shows "(k, v) \<in> set (source_values r) \<Longrightarrow> \<not> secret_like v" "CHR ''@'' \<notin> set (rs_repository_url r)"
proof -
  have none: "validate_source_safe_metadata (source_values r) = []"
    using assms(1) by (simp add: build_release_evidence_def Let_def split: if_splits)
  then show "(k, v) \<in> set (source_values r) \<Longrightarrow> \<not> secret_like v" by (fastforce simp: validate_source_safe_metadata_def split: if_splits)
  have "dict_get (source_values r) ''repository_url'' = Some (rs_repository_url r)"
    by (simp add: source_values_def dict_get_def)
  then show "CHR ''@'' \<notin> set (rs_repository_url r)"
    using none by (simp add: validate_source_safe_metadata_def split: if_splits)
qed

lemma env_value_given: "env n = Some v \<Longrightarrow> py_strip v = v \<Longrightarrow> v \<noteq> [] \<Longrightarrow> env_value env n fallback = v"
  by (simp add: env_value_def)

lemma evidence_environment:
  assumes "build_release_evidence env now digest r = Inr e"
  shows "map_of (runtime_environment (ev_image e)) ''LOTUS_ARCHIVE_COMMIT_SHA'' = Some (rs_commit_sha r)"
    "map_of (runtime_environment (ev_image e)) ''LOTUS_ARCHIVE_REPOSITORY_URL'' = Some (rs_repository_url r)"
    "map_of (runtime_environment (ev_image e)) ''LOTUS_ARCHIVE_CI_RUN_ID'' = Some (rs_run_id r)"
    "map_of (runtime_environment (ev_image e)) ''LOTUS_ARCHIVE_IMAGE_DIGEST'' = Some digest"
  using assms by (auto simp: build_release_evidence_def Let_def split: if_splits)

lemma netloc_part: "set (url_netloc url) \<subseteq> set url"
proof -
  have scheme: "set (after_scheme u) \<subseteq> set u" for u
    by (auto simp: after_scheme_def Let_def dest: in_set_dropD)
  show ?thesis
    unfolding url_netloc_def Let_def
    by (auto dest!: set_takeWhileD in_set_dropD subsetD [OF scheme] dest: set_dropWhileD)
qed

lemma published_build_matches:
  assumes "build_release_evidence env now digest r = Inr e"
    and "build_info netloc_check (map_of (runtime_environment (ev_image e))) = Inr b"
    and "\<forall>v \<in> {rs_commit_sha r, rs_repository_url r, rs_run_id r, digest}. py_strip v = v \<and> v \<noteq> []"
  shows "bm_commit_sha b = rs_commit_sha r" "bm_repository_url b = rs_repository_url r" "bm_ci_run_id b = rs_run_id r"
    "bm_image_digest b = digest"
proof -
  note env = evidence_environment [OF assms(1)]
  have url: "CHR ''@'' \<notin> set (url_netloc (rs_repository_url r))"
    using evidence_is_source_safe(2) [OF assms(1)] netloc_part by blast
  have given: "env_value (map_of (runtime_environment (ev_image e))) n fallback = v"
    if "map_of (runtime_environment (ev_image e)) n = Some v" "v \<in> {rs_commit_sha r, rs_repository_url r, rs_run_id r, digest}" for n v fallback
    by (rule env_value_given, rule that(1)) (use assms(3) that(2) in blast)+
  have published: "env_value (map_of (runtime_environment (ev_image e))) ''LOTUS_ARCHIVE_COMMIT_SHA'' ''local'' = rs_commit_sha r"
    "env_value (map_of (runtime_environment (ev_image e))) ''LOTUS_ARCHIVE_REPOSITORY_URL'' ''https://github.com/sgajbi/lotus-archive'' = rs_repository_url r"
    "env_value (map_of (runtime_environment (ev_image e))) ''LOTUS_ARCHIVE_CI_RUN_ID'' ''local'' = rs_run_id r"
    "env_value (map_of (runtime_environment (ev_image e))) ''LOTUS_ARCHIVE_IMAGE_DIGEST'' ''not-published'' = digest"
    by (rule given, rule env, simp)+
  show "bm_commit_sha b = rs_commit_sha r" "bm_repository_url b = rs_repository_url r" "bm_ci_run_id b = rs_run_id r"
    "bm_image_digest b = digest"
    using assms(2) unfolding build_info_def Let_def published bind_result_Inr source_safe_repository_url_def both_accept
    by (auto simp: url)
qed

end
