(* ===== verification/ToolingSamples.thy ===== *)
theory ToolingSamples
  imports ReleaseTooling
begin

text \<open>
  The concrete inputs of the tooling: the environment of a dispatched run and a server that holds one
  tag, answering a lookup with the commit it points to and losing it when it is deleted.
\<close>

definition sample_sha :: string where
  "sample_sha = ''0123456789abcdef0123456789abcdef01234567''"

definition sample_dispatch :: "string \<rightharpoonup> string" where
  "sample_dispatch =
     [''GITHUB_REF_TYPE'' \<mapsto> ''tag'', ''DISPATCH_REF'' \<mapsto> ''main-releasability-0123456789abcdef0123456789abcdef01234567'',
      ''EXPECTED_SHA'' \<mapsto> ''0123456789abcdef0123456789abcdef01234567'', ''GITHUB_REPOSITORY'' \<mapsto> ''sgajbi/lotus-archive'']"

definition tag_server :: "string runner" where
  "tag_server args w =
     (if w = [] then (\<lparr>returncode = 1, cr_stdout = []\<rparr>, w)
      else if ''DELETE'' \<in> set args then (\<lparr>returncode = 0, cr_stdout = []\<rparr>, [])
      else (\<lparr>returncode = 0, cr_stdout = w @ [CHR 0x0A]\<rparr>, w))"

lemma sample_reclaim:
  "reclaim_dispatch_tag sample_dispatch (logged tag_server) (sample_sha, [])
     = ((True, ''Reclaimed consumed dispatch tag main-releasability-'' @ sample_sha @ ''.''),
        ([], [lookup_command ''sgajbi/lotus-archive'' (''main-releasability-'' @ sample_sha),
              delete_command ''sgajbi/lotus-archive'' (''main-releasability-'' @ sample_sha)]))"
  by code_simp

lemma sample_reclaim_issues:
  "[lookup_command ''sgajbi/lotus-archive'' (''main-releasability-'' @ sample_sha),
    delete_command ''sgajbi/lotus-archive'' (''main-releasability-'' @ sample_sha)] \<noteq> []"
  by simp

end
