(* ===== verification/Application.thy ===== *)
theory Application
  imports OperationsApi RequestCorrelation
begin

text \<open>
  The application around the routes: the service every request depends on (\<open>archive_service\<close> of
  \<open>api.py\<close>), composed at the first request and kept, its release at shutdown (\<open>main.py\<close>), the
  middleware around a handler with the line it logs (\<open>middleware/correlation.py\<close>), and the check that
  a decorated operation is a declared one (\<open>metrics.py\<close>).
\<close>

section \<open>The composed service\<close>

text \<open>
  The application state with the connection pools that are open. \<open>fresh\<close> is \<open>ArchiveRuntimeSettings()\<close>,
  which reads the environment and may refuse it.
\<close>

record 'c app_state =
  app_settings :: "archive_runtime_settings option"
  app_service :: "'c runtime_service option"
  open_pools :: nat

definition opens_pool :: "archive_runtime_settings \<Rightarrow> bool" where
  "opens_pool s \<longleftrightarrow> repository_mode s = Postgresql \<and> accepted (connect (database_url s))"

definition compose_service ::
    "'c s3_client \<Rightarrow> workbook_reader \<Rightarrow> archive_runtime_settings \<Rightarrow> ('c app_state, 'c runtime_service) io" where
  "compose_service client rd s =
     seq_io (modify_io (\<lambda>st. st\<lparr>app_settings := Some s, open_pools := (if opens_pool s then Suc (open_pools st) else open_pools st)\<rparr>))
    (bind_io (of_result (build_archive_service client rd s)) (\<lambda>svc.
       seq_io (modify_io (\<lambda>st. st\<lparr>app_service := Some svc\<rparr>)) (ret svc)))"

definition composed_service ::
    "exc + archive_runtime_settings \<Rightarrow> 'c s3_client \<Rightarrow> workbook_reader \<Rightarrow> ('c app_state, 'c runtime_service) io" where
  "composed_service fresh client rd =
     bind_io (gets app_service) (\<lambda>found. case found of
        Some svc \<Rightarrow> ret svc
      | None \<Rightarrow> bind_io (gets app_settings) (\<lambda>settings. case settings of
            Some s \<Rightarrow> compose_service client rd s
          | None \<Rightarrow> bind_io (of_result fresh) (compose_service client rd)))"

text \<open>\<open>on_close\<close> of the composed service: the pool, for the services that have one.\<close>

fun has_pool :: "'c runtime_service \<Rightarrow> bool" where
  "has_pool (Postgres_filesystem _) = True"
| "has_pool (Postgres_s3 _) = True"
| "has_pool _ = False"

definition close_pool :: "('c app_state, unit) io" where
  "close_pool = modify_io (\<lambda>st. st\<lparr>open_pools := open_pools st - 1\<rparr>)"

definition close_application :: "('c app_state, unit) io" where
  "close_application =
     bind_io (gets app_service) (\<lambda>found. case found of
        Some svc \<Rightarrow> close_service (if has_pool svc then [close_pool] else [])
      | None \<Rightarrow> skip_io)"

fun requests :: "nat \<Rightarrow> exc + archive_runtime_settings \<Rightarrow> 'c s3_client \<Rightarrow> workbook_reader \<Rightarrow> 'c app_state \<Rightarrow> 'c app_state" where
  "requests 0 fresh client rd st = st"
| "requests (Suc n) fresh client rd st = requests n fresh client rd (snd (composed_service fresh client rd st))"

definition started :: "archive_runtime_settings \<Rightarrow> 'c app_state" where
  "started s = \<lparr>app_settings = Some s, app_service = None, open_pools = 0\<rparr>"

text \<open>A service once composed is the service of every later request.\<close>

lemma composed_once:
  assumes "composed_service fresh client rd st = (Inr svc, st')"
  shows "composed_service fresh' client' rd' st' = (Inr svc, st')"
proof -
  have "app_service st' = Some svc"
    using assms by (auto simp: composed_service_def compose_service_def io_simps split: option.splits sum.splits)
  then show ?thesis by (simp add: composed_service_def io_simps)
qed

lemma composed_requests: "app_service st = Some svc \<Longrightarrow> requests n fresh client rd st = st"
  by (induction n) (simp_all add: composed_service_def io_simps)

lemma built_pool: "build_archive_service client rd s = Inr svc \<Longrightarrow> has_pool svc \<longleftrightarrow> opens_pool s"
  unfolding build_archive_service_def opens_pool_def and_then_def accepted_def
  by (auto simp: Let_def bind_result_Inr split: repository_mode.splits storage_mode.splits sum.splits)

text \<open>When the composition succeeds, any number of requests opens one pool at most and shutdown closes it.\<close>

lemma shutdown_closes_the_pool:
  assumes "build_archive_service client rd s = Inr svc"
  shows "open_pools (requests n fresh client rd (started s)) \<le> 1"
    and "open_pools (snd (close_application (requests n fresh client rd (started s)))) = 0"
proof -
  have "requests n fresh client rd (started s) = (if n = 0 then started s
      else \<lparr>app_settings = Some s, app_service = Some svc, open_pools = (if opens_pool s then 1 else 0)\<rparr>)"
    using assms by (cases n) (simp_all add: composed_requests composed_service_def compose_service_def started_def io_simps)
  then show "open_pools (requests n fresh client rd (started s)) \<le> 1"
    "open_pools (snd (close_application (requests n fresh client rd (started s)))) = 0"
    using built_pool [OF assms] by (auto simp: started_def close_application_def close_pool_def io_simps)
qed

text \<open>
  When it fails after the pool was opened, as it does for a bucket of blanks, nothing keeps the pool:
  every request opens another and shutdown closes none.
\<close>

lemma a_failed_composition_leaks_pools:
  assumes "build_archive_service client rd s = Inl e" "opens_pool s"
  shows "open_pools (snd (close_application (requests n fresh client rd (started s)))) = n"
proof -
  have "requests n fresh client rd \<lparr>app_settings = Some s, app_service = None, open_pools = k\<rparr>
      = \<lparr>app_settings = Some s, app_service = None, open_pools = k + n\<rparr>" for k
    by (induction n arbitrary: k) (simp_all add: composed_service_def compose_service_def assms io_simps)
  then show ?thesis by (simp add: started_def close_application_def io_simps)
qed

lemma a_blank_bucket_fails_late:
  assumes "repository_mode s = Postgresql" "storage_mode s = S3_mode" "accepted (connect (database_url s))"
    and "set_s3_bucket s = Some b" "py_strip b = []"
  shows "build_archive_service client rd s = Inl (ValueError ''S3 bucket must not be blank'') \<and> opens_pool s"
  using assms
  by (auto simp: build_archive_service_def opens_pool_def and_then_def accepted_def s3_of_settings_def s3_init_def bind_result_def
      split: sum.splits)

text \<open>Together: which of the two happens under accepted settings depends on the bucket alone.\<close>

lemma accepted_settings_and_pools:
  assumes "validate_settings P s = Inr u" "\<not> local_profile s" "py_strip (the (database_url s)) \<noteq> []"
  shows "open_pools (snd (close_application (requests n fresh client rd (started s))))
    = (if py_strip (the (set_s3_bucket s)) = [] then n else 0)"
proof -
  have pool: "opens_pool s"
    using assms accepted_posture(2,4) [of P s u] repository_mode.exhaust [of "repository_mode s"]
    by (cases "database_url s") (auto simp: opens_pool_def connect_def accepted_def validate_settings_Inr)
  show ?thesis
  proof (cases "py_strip (the (set_s3_bucket s)) = []")
    case True
    then show ?thesis
      using a_failed_composition_leaks_pools [OF _ pool] accepted_composition [OF assms(1,2), of client rd] assms(3) by simp
  next
    case False
    then obtain svc where "build_archive_service client rd s = Inr svc"
      using accepted_composition [OF assms(1,2), of client rd] assms(3) by simp
    then show ?thesis using shutdown_closes_the_pool(2) False by simp
  qed
qed

section \<open>The middleware\<close>

record request_log =
  log_event :: string
  log_service :: string
  log_method :: string
  log_path :: string
  log_status_code :: nat
  log_correlation_id :: string
  log_trace_id :: string
  log_duration_ms :: rat

text \<open>The template of the matched route, or the path of the request.\<close>

definition route_template :: "string option \<Rightarrow> string \<Rightarrow> string" where
  "route_template template path = (case template of Some t \<Rightarrow> if t \<noteq> [] then t else path | None \<Rightarrow> path)"

text \<open>
  A handler answers with its status, its headers and the route that matched. The duration comes as its
  printed form and its rounded value; an exception passes through and nothing is logged.
\<close>

definition dispatch ::
    "string \<Rightarrow> string \<Rightarrow> string \<Rightarrow> string \<times> rat \<Rightarrow> headers \<Rightarrow> string \<Rightarrow> string
      \<Rightarrow> (request_ids \<Rightarrow> ('w, nat \<times> headers \<times> string option) io) \<Rightarrow> ('w, (nat \<times> headers) \<times> request_log) io" where
  "dispatch service uuid hex duration hs verb path handler =
     (let ids = identify hs uuid hex in
      bind_io (handler ids) (\<lambda>(status, out, template).
        ret ((status, response_headers service (fst duration) ids out),
             \<lparr>log_event = ''request_completed'', log_service = service, log_method = verb, log_path = route_template template path,
              log_status_code = status, log_correlation_id = req_correlation_id ids, log_trace_id = req_trace_id ids,
              log_duration_ms = snd duration\<rparr>)))"

text \<open>The line logged names the status and the identifiers the caller received.\<close>

lemma the_log_names_the_response:
  assumes "dispatch service uuid hex duration hs verb path handler w = (Inr ((status, out), entry), w')"
  shows "log_status_code entry = status" "get_header out ''X-Correlation-Id'' = Some (log_correlation_id entry)"
    "get_header out ''X-Trace-Id'' = Some (log_trace_id entry)"
  using assms
  by (auto simp: dispatch_def Let_def response_identifies io_simps split: prod.splits sum.splits)

text \<open>A route with a template is logged by it: no identifier of the path reaches the log.\<close>

lemma the_log_hides_the_path:
  assumes "\<And>ids w status out t. fst (handler ids w) = Inr (status, out, t) \<Longrightarrow> t = Some template" "template \<noteq> []"
    and "dispatch service uuid hex duration hs verb path handler w = (Inr (response, entry), w')"
  shows "log_path entry = template"
  using assms(2,3) assms(1) [of "identify hs uuid hex" w]
  by (auto simp: dispatch_def Let_def route_template_def io_simps split: prod.splits sum.splits)

section \<open>Declared operations\<close>

definition implemented_operation :: "string \<Rightarrow> exc + string" where
  "implemented_operation operation =
     (if operation \<notin> set IMPLEMENTED_ARCHIVE_OPERATIONS
      then Inl (ValueError (''unsupported_archive_metric_operation:'' @ operation)) else Inr operation)"

lemma recording_checks_the_operation:
  "record_archive_operation operation status failure w =
     (case implemented_operation operation of
        Inl e \<Rightarrow> (Inl e, w)
      | Inr op \<Rightarrow> (Inr (), w\<lparr>w_metrics := w_metrics w @ [operation_sample op status failure]\<rparr>))"
  by (simp add: record_archive_operation_def implemented_operation_def io_simps)

end
