(* ===== verification/CodeHealthTooling.thy ===== *)
theory CodeHealthTooling
  imports ReleaseTooling
begin

text \<open>
  The gates over the source tree and its dependencies: \<open>python_complexity_inventory.py\<close> over the
  entries radon prints, \<open>source_size_gate.py\<close> over the files found, and the exception policy of
  \<open>security_audit.py\<close>. Running radon and pip-audit and walking the tree are left to the caller;
  maintainability indices are rational numbers.
\<close>

section \<open>Complexity inventory\<close>

datatype radon_entry = Radon_entry (entry_name: string) (entry_type: string) (entry_rank: string) (entry_complexity: int)
  (entry_lineno: int) (entry_endline: "int option") (entry_methods: "radon_entry list") (entry_closures: "radon_entry list")

record complexity_finding =
  cf_path :: string
  cf_name :: string
  cf_kind :: string
  cf_rank :: string
  cf_complexity :: int
  cf_line :: int
  cf_end_line :: int

definition normalize_path :: "string \<Rightarrow> string" where
  "normalize_path path = py_replace_char CHR 0x5C CHR ''/'' path"

text \<open>\<open>entry.get("endline") or entry["lineno"]\<close>\<close>

fun entry_findings :: "string \<Rightarrow> radon_entry \<Rightarrow> complexity_finding list" where
  "entry_findings path (Radon_entry name kind rank cc line end_line methods closures) =
     \<lparr>cf_path = path, cf_name = name, cf_kind = kind, cf_rank = rank, cf_complexity = cc, cf_line = line,
      cf_end_line = (case end_line of Some n \<Rightarrow> if n \<noteq> 0 then n else line | None \<Rightarrow> line)\<rparr>
     # concat (map (entry_findings path) methods) @ concat (map (entry_findings path) closures)"

definition finding_order :: "complexity_finding \<Rightarrow> int \<times> string \<times> int \<times> string" where
  "finding_order f = (- cf_complexity f, cf_path f, cf_line f, cf_name f)"

definition parse_complexity_payload :: "(string \<times> radon_entry list) list \<Rightarrow> complexity_finding list" where
  "parse_complexity_payload payload =
     sort_key finding_order (concat (map (\<lambda>(path, entries). concat (map (entry_findings (normalize_path path)) entries)) payload))"

record maintainability_finding =
  mf_path :: string
  mf_rank :: string
  mf_index :: rat

definition parse_maintainability_payload :: "(string \<times> string \<times> rat) list \<Rightarrow> maintainability_finding list" where
  "parse_maintainability_payload payload =
     sort_key (\<lambda>f. (mf_index f, mf_path f))
       (map (\<lambda>(path, rank, mi). \<lparr>mf_path = normalize_path path, mf_rank = rank, mf_index = mi\<rparr>) payload)"

definition HIGH_COMPLEXITY_RANKS :: "string list" where
  "HIGH_COMPLEXITY_RANKS = [''D'', ''E'', ''F'']"

definition rank_count :: "complexity_finding list \<Rightarrow> string list \<Rightarrow> nat" where
  "rank_count findings ranks = length (filter (\<lambda>f. cf_rank f \<in> set ranks) findings)"

definition complexity_gate_failures ::
    "complexity_finding list \<Rightarrow> int option \<Rightarrow> int option \<Rightarrow> string list" where
  "complexity_gate_failures findings max_cc max_high =
     (let observed = (case findings of [] \<Rightarrow> 0 | f # _ \<Rightarrow> cf_complexity f);
          high = int (rank_count findings HIGH_COMPLEXITY_RANKS) in
      (case max_cc of Some m \<Rightarrow>
         if observed > m then [''max cyclomatic complexity '' @ print_int observed @ '' exceeds allowed '' @ print_int m] else []
       | None \<Rightarrow> [])
      @ (case max_high of Some m \<Rightarrow>
         if high > m then [''high-complexity function count '' @ print_int high @ '' exceeds allowed '' @ print_int m] else []
       | None \<Rightarrow> []))"

definition complexity_main ::
    "(string \<times> radon_entry list) list \<Rightarrow> int option \<Rightarrow> int option \<Rightarrow> int" where
  "complexity_main payload max_cc max_high =
     (let findings = parse_complexity_payload payload in
      if findings = [] then 1
      else if complexity_gate_failures findings max_cc max_high \<noteq> [] then 1 else 0)"

text \<open>Every block, at whatever depth it is nested.\<close>

inductive nested_in :: "radon_entry \<Rightarrow> radon_entry \<Rightarrow> bool" where
  here: "nested_in e e"
| inside: "nested_in e c \<Longrightarrow> c \<in> set (entry_methods p) \<union> set (entry_closures p) \<Longrightarrow> nested_in e p"

lemma finding_of_nested:
  "nested_in e p \<Longrightarrow> \<exists>f \<in> set (entry_findings path p). cf_complexity f = entry_complexity e \<and> cf_rank f = entry_rank e"
proof (induction rule: nested_in.induct)
  case (here e)
  then show ?case by (cases e) simp
next
  case (inside e c p)
  then show ?case by (cases p) auto
qed

lemma findings_sorted: "findings = parse_complexity_payload payload \<Longrightarrow> findings = f # fs \<Longrightarrow> g \<in> set findings \<Longrightarrow> cf_complexity g \<le> cf_complexity f"
proof -
  assume f: "findings = parse_complexity_payload payload" "findings = f # fs" and g: "g \<in> set findings"
  have "sorted (map finding_order findings)" unfolding f(1) parse_complexity_payload_def by simp
  then have "finding_order f \<le> finding_order g" using g f(2) by auto
  then show ?thesis by (auto simp: finding_order_def less_eq_prod_def)
qed

text \<open>The gate passes only if no block is above the limit, class methods and inner functions included.\<close>

lemma complexity_gate_covers:
  assumes "complexity_main payload (Some limit) max_high = 0"
    and "(path, entries) \<in> set payload" "p \<in> set entries" "nested_in e p"
  shows "entry_complexity e \<le> limit"
proof -
  let ?findings = "parse_complexity_payload payload"
  obtain g where g: "g \<in> set (entry_findings (normalize_path path) p)" "cf_complexity g = entry_complexity e"
    using finding_of_nested [OF assms(4)] by blast
  then have mem: "g \<in> set ?findings" using assms(2,3) by (force simp: parse_complexity_payload_def)
  then obtain f fs where f: "?findings = f # fs" by (cases ?findings) auto
  have "complexity_gate_failures ?findings (Some limit) max_high = []"
    using assms(1) by (simp add: complexity_main_def Let_def split: if_splits)
  then have "cf_complexity f \<le> limit" by (simp add: complexity_gate_failures_def f Let_def split: if_splits)
  with findings_sorted [OF refl f mem] g(2) show ?thesis by simp
qed

section \<open>Source size\<close>

text \<open>The files in the order of their paths, each with its path components and its text lines.\<close>

record source_file =
  file_path :: string
  file_parts :: "string list"
  file_lines :: "string list"

definition find_source_size_violations :: "source_file list \<Rightarrow> int \<Rightarrow> (string \<times> nat) list \<times> nat" where
  "find_source_size_violations files max_lines =
     (let inspected = filter (\<lambda>f. ''__pycache__'' \<notin> set (file_parts f)) files in
      (map (\<lambda>f. (file_path f, length (file_lines f))) (filter (\<lambda>f. int (length (file_lines f)) > max_lines) inspected),
       length inspected))"

definition source_size_main :: "source_file list \<Rightarrow> int \<Rightarrow> int" where
  "source_size_main files max_lines =
     (case find_source_size_violations files max_lines of (violations, inspected) \<Rightarrow>
        if inspected = 0 then 1 else if violations \<noteq> [] then 1 else 0)"

lemma source_size_passes:
  "source_size_main files max_lines = 0 \<longleftrightarrow> (\<exists>f \<in> set files. ''__pycache__'' \<notin> set (file_parts f))
     \<and> (\<forall>f \<in> set files. ''__pycache__'' \<notin> set (file_parts f) \<longrightarrow> int (length (file_lines f)) \<le> max_lines)"
  by (auto simp: source_size_main_def find_source_size_violations_def Let_def filter_empty_conv not_less)

section \<open>Dependency audit exceptions\<close>

text \<open>
  The policy is a JSON value; \<open>str_of\<close> is Python's \<open>str\<close> of one, \<open>read_date\<close> is \<open>date.fromisoformat\<close> and
  \<open>show_date\<close> is \<open>isoformat\<close>.
\<close>

record policy_reader =
  policy_str :: "config_json \<Rightarrow> string"
  read_date :: "string \<Rightarrow> date option"
  show_date :: "date \<Rightarrow> string"

definition REQUIRED_FIELDS :: "string list" where
  "REQUIRED_FIELDS = [''advisory_id'', ''affected_package'', ''severity'', ''owner'', ''review_by'', ''rationale'',
     ''dependency_constraint'', ''removal_condition'', ''compensating_controls'']"

text \<open>\<open>str(exception.get(name, ""))\<close>\<close>

definition text_field :: "policy_reader \<Rightarrow> (string \<times> config_json) list \<Rightarrow> string \<Rightarrow> string" where
  "text_field R entry name = (case map_of entry name of Some v \<Rightarrow> policy_str R v | None \<Rightarrow> [])"

definition controls_set :: "(string \<times> config_json) list \<Rightarrow> bool" where
  "controls_set entry = (case map_of entry ''compensating_controls'' of
     Some (CList controls) \<Rightarrow> controls \<noteq> [] \<and> list_all config_truthy controls | _ \<Rightarrow> False)"

definition exception_errors ::
    "policy_reader \<Rightarrow> date \<Rightarrow> string \<Rightarrow> nat \<Rightarrow> string list \<Rightarrow> (string \<times> config_json) list \<Rightarrow> string list" where
  "exception_errors R today lock_text index seen entry =
     (let missing = sort (filter (\<lambda>n. n \<notin> fst ` set entry) REQUIRED_FIELDS);
          i = print_int (int index);
          advisory_id = text_field R entry ''advisory_id'';
          constraint = text_field R entry ''dependency_constraint'' in
      (if missing \<noteq> [] then [''exception '' @ i @ '' missing fields: '' @ py_join '', '' missing] else [])
      @ (if advisory_id = [] then [''exception '' @ i @ '' advisory_id is required'']
         else if advisory_id \<in> set seen then [''exception '' @ advisory_id @ '' is duplicated''] else [])
      @ (case read_date R (text_field R entry ''review_by'') of
           None \<Rightarrow> [''exception '' @ or_text advisory_id i @ '' review_by must be YYYY-MM-DD'']
         | Some review_by \<Rightarrow> if review_by < today
             then [''exception '' @ advisory_id @ '' expired on '' @ show_date R review_by] else [])
      @ (if constraint \<noteq> [] \<and> \<not> contains_sub constraint lock_text
         then [''exception '' @ advisory_id @ '' dependency constraint is no longer present: '' @ constraint] else [])
      @ (if controls_set entry then [] else [''exception '' @ or_text advisory_id i @ '' compensating_controls must be set'']))"

fun exceptions_errors ::
    "policy_reader \<Rightarrow> date \<Rightarrow> string \<Rightarrow> nat \<Rightarrow> string list \<Rightarrow> config_json list \<Rightarrow> string list" where
  "exceptions_errors R today lock_text index seen [] = []"
| "exceptions_errors R today lock_text index seen (CObject entry # rest) =
     exception_errors R today lock_text index seen entry
     @ exceptions_errors R today lock_text (Suc index) (text_field R entry ''advisory_id'' # seen) rest"
| "exceptions_errors R today lock_text index seen (_ # rest) =
     (''exception '' @ print_int (int index) @ '' must be an object'')
     # exceptions_errors R today lock_text (Suc index) seen rest"

definition validate_audit_policy ::
    "policy_reader \<Rightarrow> date \<Rightarrow> string \<Rightarrow> (string \<times> config_json) list \<Rightarrow> string list" where
  "validate_audit_policy R today lock_text policy =
     (if map_of policy ''schema_version'' \<noteq> Some (CText ''lotus-pip-audit-exceptions.v1'')
      then [''policy schema_version must be lotus-pip-audit-exceptions.v1''] else [])
     @ (case map_of policy ''exceptions'' of
          Some (CList entries) \<Rightarrow> exceptions_errors R today lock_text 0 [] entries
        | _ \<Rightarrow> [''policy exceptions must be a list''])"

definition ignore_args :: "policy_reader \<Rightarrow> (string \<times> config_json) list list \<Rightarrow> string list" where
  "ignore_args R entries = concat (map (\<lambda>e. [''--ignore-vuln'', text_field R e ''advisory_id'']) entries)"

text \<open>
  A policy without errors: every exception is an object with a named advisory, none twice, none past
  its review date, and none whose constraint the lock no longer has.
\<close>

lemma accepted_exceptions:
  "exceptions_errors R today lock_text index seen entries = []
   \<Longrightarrow> \<exists>es. entries = map CObject es \<and> distinct (map (\<lambda>e. text_field R e ''advisory_id'') es)
     \<and> (\<forall>e \<in> set es. text_field R e ''advisory_id'' \<notin> set seen \<and> text_field R e ''advisory_id'' \<noteq> []
         \<and> (\<exists>d. read_date R (text_field R e ''review_by'') = Some d \<and> today \<le> d)
         \<and> (text_field R e ''dependency_constraint'' = [] \<or> contains_sub (text_field R e ''dependency_constraint'') lock_text)
         \<and> controls_set e)"
proof (induction R today lock_text index seen entries rule: exceptions_errors.induct)
  case (2 R today lock_text index seen entry rest)
  then have one: "exception_errors R today lock_text index seen entry = []" by simp
  from 2 obtain es where es: "rest = map CObject es" "distinct (map (\<lambda>e. text_field R e ''advisory_id'') es)"
    "\<forall>e \<in> set es. text_field R e ''advisory_id'' \<notin> set (text_field R entry ''advisory_id'' # seen) \<and> text_field R e ''advisory_id'' \<noteq> []
         \<and> (\<exists>d. read_date R (text_field R e ''review_by'') = Some d \<and> today \<le> d)
         \<and> (text_field R e ''dependency_constraint'' = [] \<or> contains_sub (text_field R e ''dependency_constraint'') lock_text)
         \<and> controls_set e" by auto
  have "text_field R entry ''advisory_id'' \<notin> set seen \<and> text_field R entry ''advisory_id'' \<noteq> []
         \<and> (\<exists>d. read_date R (text_field R entry ''review_by'') = Some d \<and> today \<le> d)
         \<and> (text_field R entry ''dependency_constraint'' = [] \<or> contains_sub (text_field R entry ''dependency_constraint'') lock_text)
         \<and> controls_set entry"
    using one by (auto simp: exception_errors_def Let_def not_less split: if_splits option.splits)
  with es show ?case by (intro exI [of _ "entry # es"]) auto
qed auto

lemma accepted_policy:
  assumes "validate_audit_policy R today lock_text policy = []"
  obtains es where "map_of policy ''exceptions'' = Some (CList (map CObject es))"
    "distinct (map (\<lambda>e. text_field R e ''advisory_id'') es)"
    "\<forall>e \<in> set es. (\<exists>d. read_date R (text_field R e ''review_by'') = Some d \<and> today \<le> d) \<and> controls_set e"
proof -
  obtain entries where e: "map_of policy ''exceptions'' = Some (CList entries)" "exceptions_errors R today lock_text 0 [] entries = []"
    using assms by (auto simp: validate_audit_policy_def split: option.splits config_json.splits if_splits)
  from accepted_exceptions [OF e(2)] e(1) that show thesis by auto
qed

end
