(* ===== verification/SourceGates.thy ===== *)
theory SourceGates
  imports CodeHealthTooling
begin

text \<open>
  The small gates: \<open>check_monetary_float_usage.py\<close>, \<open>runtime_dependency_boundary.py\<close>,
  \<open>coverage_gate.py\<close> and \<open>dead_code_gate.py\<close>. The files found, the installed distributions, the
  measured coverage and the run of vulture are what the interpreter and the tools report.
\<close>

section \<open>Monetary floats\<close>

text \<open>\<open>str.splitlines\<close>; the first argument is the line read so far.\<close>

definition is_line_break :: "char \<Rightarrow> bool" where
  "is_line_break c \<longleftrightarrow> (of_char c :: nat) \<in> {10, 11, 12, 13, 28, 29, 30}"

fun split_lines_from :: "string \<Rightarrow> string \<Rightarrow> string list" where
  "split_lines_from line [] = (if line = [] then [] else [line])"
| "split_lines_from line [c] = (if is_line_break c then [line] else [line @ [c]])"
| "split_lines_from line (c # d # cs) =
     (if c = CHR 0x0D \<and> d = CHR 0x0A then line # split_lines_from [] cs
      else if is_line_break c then line # split_lines_from [] (d # cs)
      else split_lines_from (line @ [c]) (d # cs))"

definition split_lines :: "string \<Rightarrow> string list" where
  "split_lines text = split_lines_from [] text"

definition MONETARY_HINTS :: "string list" where
  "MONETARY_HINTS = [''amount'', ''value'', ''price'', ''cost'', ''pnl'', ''market_value'', ''fx_rate'']"

definition likely_monetary :: "string \<Rightarrow> bool" where
  "likely_monetary line \<longleftrightarrow> list_ex (\<lambda>token. contains_sub token (py_lower line)) MONETARY_HINTS"

definition monetary_line :: "string \<Rightarrow> bool" where
  "monetary_line line \<longleftrightarrow> contains_sub ''float('' line \<and> likely_monetary line"

definition monetary_violations :: "(string \<times> string) list \<Rightarrow> string list" where
  "monetary_violations files =
     concat (map (\<lambda>(path, text).
       map (\<lambda>(i, line). path @ '':'' @ decimal i @ '': monetary float usage detected'')
         (filter (\<lambda>(i, line). monetary_line line) (enumerate 1 (split_lines text)))) files)"

text \<open>The join is a backslash and an n, as the source writes it.\<close>

definition monetary_main :: "(string \<times> string) list \<Rightarrow> nat \<times> string" where
  "monetary_main files =
     (if monetary_violations files \<noteq> [] then (1, py_join [CHR 0x5C, CHR ''n''] (monetary_violations files))
      else (0, ''Monetary float guard passed''))"

text \<open>A pass means that no line of any file turns a monetary name into a float.\<close>

lemma monetary_passes:
  "fst (monetary_main files) = 0 \<longleftrightarrow> (\<forall>(path, text) \<in> set files. \<forall>line \<in> set (split_lines text). \<not> monetary_line line)"
proof -
  have "filter (\<lambda>(i, line). monetary_line line) (enumerate n ls) = [] \<longleftrightarrow> (\<forall>line \<in> set ls. \<not> monetary_line line)" for n ls
    by (induction ls arbitrary: n) simp_all
  then show ?thesis unfolding monetary_main_def monetary_violations_def by (auto simp: case_prod_beta)
qed

text \<open>No text is lost in lines, and no line holds a break.\<close>

lemma split_lines_from_clean:
  "list_all (\<lambda>c. \<not> is_line_break c) current \<Longrightarrow> line \<in> set (split_lines_from current s) \<Longrightarrow> list_all (\<lambda>c. \<not> is_line_break c) line"
  by (induction current s rule: split_lines_from.induct) (auto split: if_splits)

lemma split_lines_from_keeps:
  "concat (split_lines_from current s) = current @ filter (\<lambda>c. \<not> is_line_break c) s"
proof (induction current s rule: split_lines_from.induct)
  case (3 current c d cs)
  have "is_line_break CHR 0x0D" "is_line_break CHR 0x0A" by (simp_all add: is_line_break_def)
  then show ?case using 3 by auto
qed auto

lemma split_lines_keeps:
  "concat (split_lines s) = filter (\<lambda>c. \<not> is_line_break c) s"
  "line \<in> set (split_lines s) \<Longrightarrow> list_all (\<lambda>c. \<not> is_line_break c) line"
  using split_lines_from_clean [of "[]"] by (simp_all add: split_lines_def split_lines_from_keeps)

section \<open>The runtime image\<close>

definition EXPECTED_DISTRIBUTIONS :: "(string \<times> string) list" where
  "EXPECTED_DISTRIBUTIONS = [(''cryptography'', ''50.0.0'')]"

definition FORBIDDEN_DISTRIBUTIONS :: "string list" where
  "FORBIDDEN_DISTRIBUTIONS = [''pip'', ''msgpack'', ''setuptools'', ''wheel'']"

datatype boundary_violation =
    Boundary_violation "(string \<times> string \<times> string option) list" "string list"
  | Installer_present string

text \<open>The distributions as reported, the last of a name standing; \<open>pip_file\<close> is where \<open>import pip\<close> finds it.\<close>

definition dependency_boundary_main :: "(string \<times> string) list \<Rightarrow> string option \<Rightarrow> boundary_violation + string" where
  "dependency_boundary_main distributions pip_file =
     (let installed = map_of (rev (map (\<lambda>(name, version). (py_lower name, version)) distributions));
          mismatches = map (\<lambda>(name, version). (name, version, installed name))
            (filter (\<lambda>(name, version). installed name \<noteq> Some version) EXPECTED_DISTRIBUTIONS);
          unexpected = sort (filter (\<lambda>name. installed name \<noteq> None) FORBIDDEN_DISTRIBUTIONS) in
      if mismatches \<noteq> [] \<or> unexpected \<noteq> [] then Inl (Boundary_violation mismatches unexpected)
      else (case pip_file of Some path \<Rightarrow> Inl (Installer_present path) | None \<Rightarrow> Inr ''Runtime dependency boundary verified.''))"

lemma sort_Nil: "sort xs = [] \<longleftrightarrow> xs = []"
  by (metis set_empty set_sort)

text \<open>An accepted image has no installer, under any spelling of its name, and the pinned library.\<close>

lemma accepted_image:
  assumes "dependency_boundary_main distributions pip_file = Inr line"
  shows "pip_file = None" "(name, version) \<in> set distributions \<Longrightarrow> py_lower name \<notin> set FORBIDDEN_DISTRIBUTIONS"
    and "\<exists>name. (name, ''50.0.0'') \<in> set distributions \<and> py_lower name = ''cryptography''"
proof -
  let ?pairs = "map (\<lambda>(name, version). (py_lower name, version)) distributions"
  have none: "filter (\<lambda>name. map_of (rev ?pairs) name \<noteq> None) FORBIDDEN_DISTRIBUTIONS = []"
    using assms unfolding dependency_boundary_main_def Let_def sort_Nil by (auto split: if_splits option.splits)
  show "pip_file = None" using assms by (auto simp: dependency_boundary_main_def Let_def split: if_splits option.splits)
  show "py_lower name \<notin> set FORBIDDEN_DISTRIBUTIONS" if member: "(name, version) \<in> set distributions"
  proof
    have "(py_lower name, version) \<in> set (rev ?pairs)" using member by force
    then have key: "py_lower name \<in> fst ` set (rev ?pairs)" by (rule image_eqI [rotated]) simp
    assume "py_lower name \<in> set FORBIDDEN_DISTRIBUTIONS"
    then have "map_of (rev ?pairs) (py_lower name) = None"
      using none unfolding filter_empty_conv by blast
    then have "py_lower name \<notin> fst ` set (rev ?pairs)" unfolding map_of_eq_None_iff .
    with key show False by contradiction
  qed
  have "map_of (rev ?pairs) ''cryptography'' = Some ''50.0.0''"
    using assms by (auto simp: dependency_boundary_main_def EXPECTED_DISTRIBUTIONS_def Let_def split: if_splits option.splits)
  then have "(''cryptography'', ''50.0.0'') \<in> set ?pairs" by (metis map_of_SomeD set_rev)
  then show "\<exists>name. (name, ''50.0.0'') \<in> set distributions \<and> py_lower name = ''cryptography''" by auto
qed

section \<open>Coverage and dead code\<close>

text \<open>
  \<open>found\<close> are the files of the directory given, \<open>exists_file\<close> tells those of the working directory;
  \<open>measure\<close> is the total the coverage library reports for files, printed by \<open>show_total\<close>.
\<close>

definition coverage_main ::
    "(string \<times> string list) option \<Rightarrow> (string \<Rightarrow> bool) \<Rightarrow> (string list \<Rightarrow> rat) \<Rightarrow> (rat \<Rightarrow> string) \<Rightarrow> (string list \<Rightarrow> string)
      \<Rightarrow> nat \<times> string" where
  "coverage_main given exists_file measured show_total show_list =
     (let verdict = (\<lambda>files. let total = measured files in
            if total < 99 then (1, ''Coverage gate failed: '' @ show_total total @ '' < 99.00'')
            else (0, ''Coverage gate passed: '' @ show_total total));
          suites = [''.coverage.unit'', ''.coverage.integration'', ''.coverage.e2e'']; missing = filter (\<lambda>f. \<not> exists_file f) suites in
      case given of
        Some (directory, found) \<Rightarrow>
          if found = [] then (1, ''No coverage files found in '' @ directory) else verdict (sort found)
      | None \<Rightarrow> if missing \<noteq> [] then (1, ''Missing coverage files: '' @ show_list missing) else verdict suites)"

lemma coverage_passes:
  assumes "coverage_main given exists_file measured show_total show_list = (0, line)"
  shows "\<exists>files. files \<noteq> [] \<and> 99 \<le> measured files"
proof (cases given)
  case None
  then have "99 \<le> measured [''.coverage.unit'', ''.coverage.integration'', ''.coverage.e2e'']"
    using assms by (auto simp: coverage_main_def Let_def split: if_splits)
  then show ?thesis by blast
next
  case (Some g)
  then have "snd g \<noteq> []" "99 \<le> measured (sort (snd g))"
    using assms by (auto simp: coverage_main_def Let_def split: if_splits prod.splits)
  then show ?thesis using sort_Nil by blast
qed

text \<open>
  The tree as the paths see it: what a path is once resolved against the root, whether it is a file or
  a directory, and the parts of each file below it that ends in \<open>.py\<close>.
\<close>

record source_tree =
  resolved_path :: "string \<Rightarrow> string list"
  is_file_at :: "string list \<Rightarrow> bool"
  is_dir_at :: "string list \<Rightarrow> bool"
  python_below :: "string list \<Rightarrow> string list list"

definition python_suffix :: "string list \<Rightarrow> bool" where
  "python_suffix p \<longleftrightarrow> p \<noteq> [] \<and> endswith (last p) ''.py'' \<and> length (last p) \<noteq> 3"

definition python_files_of :: "source_tree \<Rightarrow> string \<Rightarrow> string list list" where
  "python_files_of T raw =
     (let p = resolved_path T raw in
      if is_file_at T p \<and> python_suffix p then [p]
      else if is_dir_at T p then filter (\<lambda>c. ''__pycache__'' \<notin> set c) (python_below T p) else [])"

definition python_files :: "source_tree \<Rightarrow> string list \<Rightarrow> string list list" where
  "python_files T paths = sort (remdups (concat (map (python_files_of T) paths)))"

text \<open>\<open>run\<close> is the exit status of vulture over the paths and the whitelist.\<close>

definition dead_code_main ::
    "source_tree \<Rightarrow> string list option \<Rightarrow> string \<Rightarrow> int \<Rightarrow> (string list \<Rightarrow> int) \<Rightarrow> (string list \<Rightarrow> string) \<Rightarrow> int \<times> string" where
  "dead_code_main T given whitelist min_confidence run show_path =
     (let paths = (case given of Some ps \<Rightarrow> if ps \<noteq> [] then ps else [''src'', ''tests''] | None \<Rightarrow> [''src'', ''tests'']);
          w = resolved_path T whitelist in
      if python_files T paths = []
      then (1, ''Dead-code gate failed: inspected 0 Python files under '' @ py_join '', '' paths @ ''.'')
      else if \<not> is_file_at T w then (1, ''Dead-code gate failed: whitelist file is missing: '' @ show_path w @ ''.'')
      else (run ([''-m'', ''vulture''] @ paths @ [show_path w, ''--min-confidence'', print_int min_confidence]), []))"

text \<open>A pass means that vulture passed, over a tree that has a file to inspect, with the whitelist in place.\<close>

lemma dead_code_passes:
  assumes "dead_code_main T given whitelist n run show_path = (0, line)"
  shows "\<exists>paths. python_files T paths \<noteq> [] \<and> is_file_at T (resolved_path T whitelist)
    \<and> run ([''-m'', ''vulture''] @ paths @ [show_path (resolved_path T whitelist), ''--min-confidence'', print_int n]) = 0"
  using assms unfolding dead_code_main_def Let_def by (cases given) (auto split: if_splits)

lemma python_files_set: "f \<in> set (python_files T paths) \<longleftrightarrow> (\<exists>raw \<in> set paths. f \<in> set (python_files_of T raw))"
  by (simp add: python_files_def)

lemma inspected_once: "distinct (python_files T paths)"
  by (simp add: python_files_def)

end
