(* ===== verification/TextPatterns.thy ===== *)
theory TextPatterns
  imports OperationsApi "HOL-Library.Sublist"
begin

text \<open>
  The regular expressions of the tooling, as Python's \<open>re\<close> runs them: a pattern is a sequence of
  items, alternatives are tried in order, and the first way through is the match. A repetition is
  greedy or lazy and its continuation decides. A group contributes the text it matched.
\<close>

datatype item =
    Letter char
  | Spaces
  | Some_spaces
  | Word_group
  | Word_rest
  | Lazy_group
  | Perhaps "item list"

text \<open>
  \<open>Letter\<close> is a character with letter case ignored, \<open>Spaces\<close> is \<open>\s*\<close>, \<open>Some_spaces\<close> is \<open>\s+\<close>,
  \<open>Word_group\<close> is \<open>(\w+)\<close>, with \<open>Word_rest\<close> for the part of it after the first character,
  \<open>Lazy_group\<close> is \<open>(.*?)\<close> with the dot matching everything, \<open>Perhaps\<close> is \<open>(?:...)?\<close>.
\<close>

definition literal :: "string \<Rightarrow> item list" where
  "literal s = map Letter s"

definition is_word_char :: "char \<Rightarrow> bool" where
  "is_word_char c \<longleftrightarrow> is_alnum c \<or> c = CHR ''_''"

text \<open>The groups of the match and the text after it.\<close>

type_synonym matched = "(string list \<times> string) option"

definition extend_group :: "char \<Rightarrow> matched \<Rightarrow> matched" where
  "extend_group c m = (case m of Some (g # gs, rest) \<Rightarrow> Some ((c # g) # gs, rest) | _ \<Rightarrow> None)"

definition first_of :: "matched \<Rightarrow> matched \<Rightarrow> matched" where
  "first_of m m' = (case m of None \<Rightarrow> m' | _ \<Rightarrow> m)"

definition new_group :: "matched \<Rightarrow> matched" where
  "new_group m = map_option (\<lambda>(gs, rest). ([] # gs, rest)) m"

fun pattern_size :: "item list \<Rightarrow> nat" where
  "pattern_size [] = 0"
| "pattern_size (Perhaps q # p) = 2 + pattern_size q + pattern_size p"
| "pattern_size (Some_spaces # p) = 2 + pattern_size p"
| "pattern_size (Word_group # p) = 2 + pattern_size p"
| "pattern_size (_ # p) = 1 + pattern_size p"

lemma pattern_size_append [simp]: "pattern_size (p @ q) = pattern_size p + pattern_size q"
  by (induction p rule: pattern_size.induct) simp_all

function (sequential) match_here :: "item list \<Rightarrow> string \<Rightarrow> matched" where
  "match_here [] s = Some ([], s)"
| "match_here (Perhaps q # p) s = first_of (match_here (q @ p) s) (match_here p s)"
| "match_here (Spaces # p) [] = match_here p []"
| "match_here (Spaces # p) (c # cs) =
     (if is_space c then first_of (match_here (Spaces # p) cs) (match_here p (c # cs)) else match_here p (c # cs))"
| "match_here (Word_rest # p) [] = new_group (match_here p [])"
| "match_here (Word_rest # p) (c # cs) =
     (if is_word_char c then first_of (extend_group c (match_here (Word_rest # p) cs)) (new_group (match_here p (c # cs)))
      else new_group (match_here p (c # cs)))"
| "match_here (Lazy_group # p) [] = new_group (match_here p [])"
| "match_here (Lazy_group # p) (c # cs) =
     first_of (new_group (match_here p (c # cs))) (extend_group c (match_here (Lazy_group # p) cs))"
| "match_here (Letter l # p) (c # cs) = (if ascii_lower c = ascii_lower l then match_here p cs else None)"
| "match_here (Some_spaces # p) (c # cs) = (if is_space c then match_here (Spaces # p) cs else None)"
| "match_here (Word_group # p) (c # cs) = (if is_word_char c then extend_group c (match_here (Word_rest # p) cs) else None)"
| "match_here p [] = None"
  by pat_completeness auto
termination
  by (relation "(\<lambda>(p, s). pattern_size p) <*mlex*> measure (\<lambda>(p, s). length s)")
     (auto intro: mlex_less mlex_leq wf_mlex)

text \<open>\<open>findall\<close>: the groups of the matches from the left, none overlapping; \<open>skip\<close> is what the last match took.\<close>

fun find_from :: "nat \<Rightarrow> item list \<Rightarrow> string \<Rightarrow> string list list" where
  "find_from n p [] = []"
| "find_from (Suc n) p (c # cs) = find_from n p cs"
| "find_from 0 p (c # cs) =
     (case match_here p (c # cs) of
        None \<Rightarrow> find_from 0 p cs
      | Some (groups, rest) \<Rightarrow> groups # find_from (length cs - length rest) p cs)"

definition find_all :: "item list \<Rightarrow> string \<Rightarrow> string list list" where
  "find_all p s = find_from 0 p s"

section \<open>What a match is\<close>

text \<open>
  The texts a pattern describes, with the order of trying left out: what the matcher returns is one
  of them, and it returns something whenever there is one.
\<close>

inductive reads :: "item list \<Rightarrow> string \<Rightarrow> string list \<Rightarrow> string \<Rightarrow> bool" where
  reads_nil: "reads [] s [] s"
| reads_letter: "ascii_lower c = ascii_lower l \<Longrightarrow> reads p s gs rest \<Longrightarrow> reads (Letter l # p) (c # s) gs rest"
| reads_spaces: "list_all is_space w \<Longrightarrow> reads p s gs rest \<Longrightarrow> reads (Spaces # p) (w @ s) gs rest"
| reads_some_spaces: "is_space c \<Longrightarrow> reads (Spaces # p) s gs rest \<Longrightarrow> reads (Some_spaces # p) (c # s) gs rest"
| reads_word_rest: "list_all is_word_char w \<Longrightarrow> reads p s gs rest \<Longrightarrow> reads (Word_rest # p) (w @ s) (w # gs) rest"
| reads_word: "is_word_char c \<Longrightarrow> reads (Word_rest # p) s (w # gs) rest \<Longrightarrow> reads (Word_group # p) (c # s) ((c # w) # gs) rest"
| reads_lazy: "reads p s gs rest \<Longrightarrow> reads (Lazy_group # p) (w @ s) (w # gs) rest"
| reads_with: "reads (q @ p) s gs rest \<Longrightarrow> reads (Perhaps q # p) s gs rest"
| reads_without: "reads p s gs rest \<Longrightarrow> reads (Perhaps q # p) s gs rest"

inductive_cases reads_spacesE: "reads (Spaces # p) s gs rest"
inductive_cases reads_word_restE: "reads (Word_rest # p) s gs rest"
inductive_cases reads_lazyE: "reads (Lazy_group # p) s gs rest"

lemmas matched_simps = extend_group_def first_of_def new_group_def

lemma reads_more_spaces: "is_space c \<Longrightarrow> reads (Spaces # p) s gs rest \<Longrightarrow> reads (Spaces # p) (c # s) gs rest"
  by (metis append_Cons list.pred_inject(2) reads_spacesE reads_spaces)

lemma reads_more_word: "is_word_char c \<Longrightarrow> reads (Word_rest # p) s (w # gs) rest \<Longrightarrow> reads (Word_rest # p) (c # s) ((c # w) # gs) rest"
  by (metis append_Cons list.inject list.pred_inject(2) reads_word_restE reads_word_rest)

lemma reads_more_lazy: "reads (Lazy_group # p) s (w # gs) rest \<Longrightarrow> reads (Lazy_group # p) (c # s) ((c # w) # gs) rest"
  by (metis append_Cons list.inject reads_lazyE reads_lazy)

lemmas reads_here = reads_spaces [of "[]", simplified] reads_word_rest [of "[]", simplified] reads_lazy [of _ _ _ _ "[]", simplified]

lemma match_sound: "match_here p s = Some (gs, rest) \<Longrightarrow> reads p s gs rest"
  by (induction p s arbitrary: gs rest rule: match_here.induct)
     (auto simp: matched_simps intro: reads.intros reads_here reads_more_spaces reads_more_word reads_more_lazy
           split: if_splits option.splits list.splits)

lemma match_spaces: "list_all is_space w \<Longrightarrow> match_here p s \<noteq> None \<Longrightarrow> match_here (Spaces # p) (w @ s) \<noteq> None"
proof (induction w)
  case Nil
  then show ?case by (cases s) (auto simp: first_of_def split: option.splits)
qed (auto simp: first_of_def split: option.splits)

lemma group_matched: "match_here (Word_rest # p) s = Some (gs, rest) \<Longrightarrow> gs \<noteq> []" "match_here (Lazy_group # p) s = Some (gs, rest) \<Longrightarrow> gs \<noteq> []"
  by (drule match_sound, erule reads_word_restE reads_lazyE, simp)+

lemma match_word_rest: "list_all is_word_char w \<Longrightarrow> match_here p s \<noteq> None \<Longrightarrow> match_here (Word_rest # p) (w @ s) \<noteq> None"
proof (induction w)
  case Nil
  then show ?case by (cases s) (auto simp: matched_simps split: option.splits)
next
  case (Cons c w)
  then show ?case by (auto simp: matched_simps split: option.splits list.splits dest: group_matched)
qed

lemma match_lazy: "match_here p s \<noteq> None \<Longrightarrow> match_here (Lazy_group # p) (w @ s) \<noteq> None"
proof (induction w)
  case Nil
  then show ?case by (cases s) (auto simp: matched_simps split: option.splits)
next
  case (Cons c w)
  then show ?case by (auto simp: matched_simps split: option.splits list.splits dest: group_matched)
qed

lemma match_complete: "reads p s gs rest \<Longrightarrow> match_here p s \<noteq> None"
proof (induction rule: reads.induct)
  case (reads_word c p s w gs rest)
  then show ?case by (auto simp: matched_simps split: option.splits list.splits dest: group_matched)
qed (simp_all add: match_spaces match_word_rest match_lazy first_of_def split: option.split del: not_None_eq)

text \<open>What is left after a match ends the text.\<close>

lemma reads_suffix: "reads p s gs rest \<Longrightarrow> suffix rest s"
  by (induction rule: reads.induct) (auto intro: suffix_ConsI suffix_appendI)

lemma match_suffix: "match_here p s = Some (gs, rest) \<Longrightarrow> suffix rest s"
  by (rule reads_suffix [OF match_sound])

text \<open>Every match found begins somewhere in the text.\<close>

lemma find_from_sound: "gs \<in> set (find_from n p s) \<Longrightarrow> \<exists>pre s' rest. s = pre @ s' \<and> reads p s' gs rest"
proof (induction n p s rule: find_from.induct)
  case (2 n p c cs)
  then show ?case by simp (metis append_Cons)
next
  case (3 p c cs)
  show ?case
  proof (cases "\<exists>rest. match_here p (c # cs) = Some (gs, rest)")
    case True
    then show ?thesis by (metis append_Nil match_sound)
  next
    case False
    then have "\<exists>n. gs \<in> set (find_from n p cs)" "\<exists>pre s' rest. cs = pre @ s' \<and> reads p s' gs rest"
      using 3 by (auto split: option.splits)
    then show ?thesis by (metis append_Cons)
  qed
qed simp

lemma find_all_sound: "gs \<in> set (find_all p s) \<Longrightarrow> \<exists>pre s' rest. s = pre @ s' \<and> reads p s' gs rest"
  unfolding find_all_def by (rule find_from_sound)

end
