(* ===== verification/MigrationTooling.thy ===== *)
theory MigrationTooling
  imports TextPatterns
begin

text \<open>
  The gates over the SQL migrations: \<open>migration_schema_coverage.py\<close>, which demands a column for every
  field that \<open>postgres_repository.py\<close> writes, and \<open>migration_gate.py\<close>. The migrations directory is a
  list of names with texts.
\<close>

section \<open>The columns the repository writes\<close>

text \<open>The names of the fields of the persisted models, in their order (\<open>tuple(model_fields)\<close>).\<close>

definition DOCUMENT_COLUMNS :: "string list" where
  "DOCUMENT_COLUMNS =
     [''archive_request_id'', ''report_job_id'', ''report_request_id'', ''snapshot_id'', ''render_job_id'',
      ''render_attempt_id'', ''report_type'', ''portfolio_scope'', ''portfolio_id'', ''composite_id'',
      ''composite_report_identity'', ''client_reference'', ''as_of_date'', ''reporting_period_start'',
      ''reporting_period_end'', ''frequency'', ''template_id'', ''template_version'', ''render_service_version'',
      ''report_data_contract_version'', ''mime_type'', ''output_format'', ''classification'', ''region'', ''tenant_id'',
      ''retention_policy_id'', ''retention_start_date'', ''retain_until_date'', ''reviewed_advisory_narrative'',
      ''advisor_proposal_memo'', ''advisor_commentary'', ''idea_evidence_pack'', ''created_by_service'',
      ''created_by_actor'', ''document_reference'', ''declared_artifact_sha256'', ''render_runtime_engine'',
      ''render_runtime_engine_version'', ''template_digest'', ''template_publication'', ''report_revision_id'',
      ''document_id'', ''storage_provider'', ''storage_namespace'', ''storage_key'', ''checksum_algorithm'', ''checksum'',
      ''size_bytes'', ''purge_eligible_at'', ''purge_started_at'', ''purged_at'', ''purge_status'', ''legal_hold_status'',
      ''legal_hold_count'', ''supersedes_document_id'', ''superseded_by_document_id'', ''correction_of_document_id'',
      ''reissue_of_document_id'', ''created_at'', ''updated_at'']"

definition LEGAL_HOLD_COLUMNS :: "string list" where
  "LEGAL_HOLD_COLUMNS =
     [''legal_hold_id'', ''document_id'', ''hold_status'', ''hold_reason'', ''authority_reference'', ''requested_by'',
      ''requested_at'', ''released_by'', ''released_at'', ''release_reason'']"

definition LIFECYCLE_COLUMNS :: "string list" where
  "LIFECYCLE_COLUMNS =
     [''lifecycle_relationship_id'', ''source_document_id'', ''target_document_id'', ''transition_type'',
      ''transition_reason'', ''transition_reason_code'', ''requested_by'', ''requested_at'']"

definition AUDIT_COLUMNS :: "string list" where
  "AUDIT_COLUMNS =
     [''audit_event_id'', ''document_id'', ''event_type'', ''actor_type'', ''actor_id'', ''caller_service'',
      ''authorization_decision'', ''authorization_reason_code'', ''operation_reason_code'', ''correlation_id'', ''trace_id'',
      ''created_at'']"

record persisted_table =
  pt_table :: string
  pt_model_name :: string
  pt_fields :: "string list"

definition PERSISTED_TABLES :: "persisted_table list" where
  "PERSISTED_TABLES =
     [\<lparr>pt_table = ''archive_documents'', pt_model_name = ''ArchiveDocumentMetadata'', pt_fields = DOCUMENT_COLUMNS\<rparr>,
      \<lparr>pt_table = ''archive_legal_holds'', pt_model_name = ''LegalHoldRecord'', pt_fields = LEGAL_HOLD_COLUMNS\<rparr>,
      \<lparr>pt_table = ''archive_lifecycle_relationships'', pt_model_name = ''LifecycleRelationshipRecord'', pt_fields = LIFECYCLE_COLUMNS\<rparr>,
      \<lparr>pt_table = ''archive_access_audit'', pt_model_name = ''AccessAuditEvent'', pt_fields = AUDIT_COLUMNS\<rparr>]"

section \<open>Reading the migrations\<close>

text \<open>\<open>_LINE_COMMENT.sub("", text)\<close>; the flag says that a comment is being skipped.\<close>

fun strip_comments_from :: "bool \<Rightarrow> string \<Rightarrow> string" where
  "strip_comments_from skipping [] = []"
| "strip_comments_from True (c # cs) = (if c = CHR 0x0A then c # strip_comments_from False cs else strip_comments_from True cs)"
| "strip_comments_from False (c # cs) =
     (if c = CHR ''-'' \<and> startswith cs ''-'' then strip_comments_from True cs else c # strip_comments_from False cs)"

definition strip_comments :: "string \<Rightarrow> string" where
  "strip_comments text = strip_comments_from False text"

definition IF_NOT_EXISTS :: "item list" where
  "IF_NOT_EXISTS = literal ''IF'' @ [Some_spaces] @ literal ''NOT'' @ [Some_spaces] @ literal ''EXISTS'' @ [Some_spaces]"

definition CREATE_TABLE :: "item list" where
  "CREATE_TABLE = literal ''CREATE'' @ [Some_spaces] @ literal ''TABLE'' @ [Some_spaces, Perhaps IF_NOT_EXISTS, Word_group,
     Spaces, Letter CHR ''('', Lazy_group, Letter CHR '')'', Spaces, Letter CHR '';'']"

definition ALTER_TABLE :: "item list" where
  "ALTER_TABLE = literal ''ALTER'' @ [Some_spaces] @ literal ''TABLE'' @ [Some_spaces, Word_group, Lazy_group, Letter CHR '';'']"

definition ADD_COLUMN :: "item list" where
  "ADD_COLUMN = literal ''ADD'' @ [Some_spaces] @ literal ''COLUMN'' @ [Some_spaces, Perhaps IF_NOT_EXISTS, Word_group]"

definition NOT_A_COLUMN :: "string list" where
  "NOT_A_COLUMN = [''primary'', ''foreign'', ''unique'', ''check'', ''constraint'', ''exclude'', ''like'']"

fun split_from :: "int \<Rightarrow> string \<Rightarrow> string \<Rightarrow> string list" where
  "split_from depth current [] = [current]"
| "split_from depth current (c # cs) =
     (let depth' = (if c = CHR ''('' then depth + 1 else if c = CHR '')'' then depth - 1 else depth) in
      if c = CHR '','' \<and> depth' = 0 then current # split_from depth' [] cs
      else split_from depth' (current @ [c]) cs)"

definition split_top_level :: "string \<Rightarrow> string list" where
  "split_top_level body = split_from 0 [] body"

text \<open>The column one definition names, if it names one.\<close>

definition column_name :: "string \<Rightarrow> string option" where
  "column_name d =
     (let text = py_strip d; quote = (\<lambda>c. c = CHR 0x22);
          name = py_lower (rev (dropWhile quote (rev (dropWhile quote (takeWhile (\<lambda>c. \<not> is_space c) text))))) in
      if text = [] \<or> name \<in> set NOT_A_COLUMN then None else Some name)"

definition column_names :: "string \<Rightarrow> string set" where
  "column_names body = set (List.map_filter column_name (split_top_level body))"

definition added_columns :: "string \<Rightarrow> string set" where
  "added_columns statement = set (map py_lower (concat (find_all ADD_COLUMN statement)))"

declare first_of_def [code_unfold]

type_synonym tables = "(string, string set) dict"

definition add_columns :: "string \<Rightarrow> string set \<Rightarrow> tables \<Rightarrow> tables" where
  "add_columns table columns tables =
     dict_set (py_lower table) ((case dict_get tables (py_lower table) of Some cs \<Rightarrow> cs | None \<Rightarrow> {}) \<union> columns) tables"

text \<open>\<open>for table, body in pattern.findall(ddl)\<close>\<close>

fun add_created :: "string list \<Rightarrow> tables \<Rightarrow> tables" where
  "add_created [table, body] tables = add_columns table (column_names body) tables"
| "add_created _ tables = tables"

fun add_altered :: "string list \<Rightarrow> tables \<Rightarrow> tables" where
  "add_altered [table, statement] tables =
     (if added_columns statement = {} then tables else add_columns table (added_columns statement) tables)"
| "add_altered _ tables = tables"

definition add_migration :: "string \<Rightarrow> tables \<Rightarrow> tables" where
  "add_migration text tables =
     (let ddl = strip_comments text in fold add_altered (find_all ALTER_TABLE ddl) (fold add_created (find_all CREATE_TABLE ddl) tables))"

definition migration_texts :: "(string \<times> string) list \<Rightarrow> string list" where
  "migration_texts files = map snd (sort_key fst (filter (\<lambda>(name, _). endswith name ''.sql'') files))"

definition columns_by_table :: "(string \<times> string) list \<Rightarrow> tables" where
  "columns_by_table files = fold add_migration (migration_texts files) []"

section \<open>The verdict\<close>

definition table_failures :: "tables \<Rightarrow> persisted_table \<Rightarrow> string list" where
  "table_failures tables p =
     (case dict_get tables (pt_table p) of
        None \<Rightarrow> [pt_table p @ '': no migration creates this table'']
      | Some columns \<Rightarrow>
          (let missing = sort (filter (\<lambda>f. f \<notin> columns) (pt_fields p)) in
           if missing = [] then []
           else [pt_table p @ '': '' @ pt_model_name p @ '' persists fields with no column: '' @ py_join '', '' missing]))"

text \<open>The exit status with the lines printed, to the error output when it is 1.\<close>

definition schema_coverage_main :: "(string \<times> string) list \<Rightarrow> nat \<times> string list" where
  "schema_coverage_main files =
     (let failures = concat (map (table_failures (columns_by_table files)) PERSISTED_TABLES);
          covered = sum_list (map (length \<circ> pt_fields) PERSISTED_TABLES) in
      if failures \<noteq> []
      then (1, [''Migration schema coverage failed:''] @ map (\<lambda>f. ''  '' @ f) failures
              @ [[CHR 0x0A] @ ''Every field on a persisted model becomes a column in postgres_repository's INSERT. A field with no column ''
                 @ ''fails every write to that table, and the in-memory repository the suite uses has no schema to catch it.''])
      else (0, [''Migration schema coverage passed: '' @ decimal covered @ '' persisted fields across ''
                @ decimal (length PERSISTED_TABLES) @ '' tables, each backed by a column.'']))"

section \<open>What the coverage gate proves\<close>

text \<open>Splitting loses nothing, and no comma is left outside parentheses.\<close>

fun no_top_comma :: "int \<Rightarrow> string \<Rightarrow> bool" where
  "no_top_comma d [] \<longleftrightarrow> True"
| "no_top_comma d (c # cs) \<longleftrightarrow> \<not> (c = CHR '','' \<and> d = 0)
     \<and> no_top_comma (if c = CHR ''('' then d + 1 else if c = CHR '')'' then d - 1 else d) cs"

fun depth_after :: "int \<Rightarrow> string \<Rightarrow> int" where
  "depth_after d [] = d"
| "depth_after d (c # cs) = depth_after (if c = CHR ''('' then d + 1 else if c = CHR '')'' then d - 1 else d) cs"

lemma depth_after_append [simp]: "depth_after d (xs @ ys) = depth_after (depth_after d xs) ys"
  by (induction d xs rule: depth_after.induct) simp_all

lemma no_top_comma_append [simp]: "no_top_comma d (xs @ ys) \<longleftrightarrow> no_top_comma d xs \<and> no_top_comma (depth_after d xs) ys"
  by (induction d xs rule: no_top_comma.induct) auto

lemma split_from_nonempty: "split_from d current s \<noteq> []"
  by (induction d current s rule: split_from.induct) (simp_all add: Let_def)

lemma join_split_from: "py_join '','' (split_from d current s) = current @ s"
proof (induction d current s rule: split_from.induct)
  case (2 d current c cs)
  have "py_join '','' (w # split_from d' [] cs) = w @ '','' @ py_join '','' (split_from d' [] cs)" for w d'
    using split_from_nonempty [of d' "[]" cs] by (cases "split_from d' [] cs") simp_all
  then show ?case using 2 by (simp add: Let_def)
qed simp

lemma join_split_top_level: "py_join '','' (split_top_level body) = body"
  by (simp add: split_top_level_def join_split_from)

lemma split_from_parts:
  "no_top_comma 0 current \<Longrightarrow> depth_after 0 current = d \<Longrightarrow> part \<in> set (split_from d current s) \<Longrightarrow> no_top_comma 0 part"
  by (induction d current s rule: split_from.induct) (auto simp: Let_def split: if_splits)

lemma split_top_level_parts: "part \<in> set (split_top_level body) \<Longrightarrow> no_top_comma 0 part"
  unfolding split_top_level_def by (rule split_from_parts) simp_all

text \<open>A name in a comment is no column: no comment is left.\<close>

lemma strip_comments_from_free:
  "\<not> contains_sub ''--'' (strip_comments_from skipping text)
   \<and> (\<not> skipping \<longrightarrow> startswith (strip_comments_from False text) ''-'' \<longrightarrow> startswith text ''-'')"
  by (induction skipping "text" rule: strip_comments_from.induct)
     (auto simp: startswith_def take_Cons' split: if_splits)

lemma strip_comments_free: "\<not> contains_sub ''--'' (strip_comments text)"
  using strip_comments_from_free [of False] by (simp add: strip_comments_def)

text \<open>What a statement text declares, read off its matches.\<close>

definition declares :: "string \<Rightarrow> string \<Rightarrow> string \<Rightarrow> bool" where
  "declares ddl table column \<longleftrightarrow>
     (\<exists>name body. [name, body] \<in> set (find_all CREATE_TABLE ddl) \<and> py_lower name = table \<and> column \<in> column_names body)
   \<or> (\<exists>name statement. [name, statement] \<in> set (find_all ALTER_TABLE ddl) \<and> py_lower name = table
        \<and> column \<in> added_columns statement)"

definition table_has :: "tables \<Rightarrow> string \<Rightarrow> string \<Rightarrow> bool" where
  "table_has tables table column \<longleftrightarrow> (case dict_get tables table of Some cs \<Rightarrow> column \<in> cs | None \<Rightarrow> False)"

lemma table_has_add:
  "table_has (add_columns t cs tables) table column \<longleftrightarrow> table_has tables table column \<or> py_lower t = table \<and> column \<in> cs"
  by (auto simp: table_has_def add_columns_def split: option.splits)

lemma table_has_created:
  "table_has (fold add_created ms tables) table column \<longleftrightarrow> table_has tables table column
   \<or> (\<exists>name body. [name, body] \<in> set ms \<and> py_lower name = table \<and> column \<in> column_names body)"
proof (induction ms arbitrary: tables)
  case (Cons m ms)
  then show ?case by (cases "(m, tables)" rule: add_created.cases) (auto simp: table_has_add)
qed simp

lemma table_has_altered:
  "table_has (fold add_altered ms tables) table column \<longleftrightarrow> table_has tables table column
   \<or> (\<exists>name statement. [name, statement] \<in> set ms \<and> py_lower name = table \<and> column \<in> added_columns statement)"
proof (induction ms arbitrary: tables)
  case (Cons m ms)
  then show ?case by (cases "(m, tables)" rule: add_altered.cases) (auto simp: table_has_add)
qed simp

lemma table_has_migration:
  "table_has (add_migration text tables) table column \<longleftrightarrow> table_has tables table column \<or> declares (strip_comments text) table column"
  unfolding add_migration_def Let_def table_has_altered table_has_created declares_def by blast

lemma table_has_migrations:
  "table_has (fold add_migration texts tables) table column \<longleftrightarrow> table_has tables table column
   \<or> (\<exists>text \<in> set texts. declares (strip_comments text) table column)"
  by (induction texts arbitrary: tables) (auto simp: table_has_migration)

lemma columns_by_table:
  "table_has (columns_by_table files) table column
   \<longleftrightarrow> (\<exists>(name, text) \<in> set files. endswith name ''.sql'' \<and> declares (strip_comments text) table column)"
  unfolding columns_by_table_def table_has_migrations migration_texts_def
  by (auto simp: table_has_def)

lemma table_failures_empty:
  assumes "pt_fields p \<noteq> []"
  shows "table_failures tables p = [] \<longleftrightarrow> (\<forall>f \<in> set (pt_fields p). table_has tables (pt_table p) f)"
proof (cases "dict_get tables (pt_table p)")
  case None
  then show ?thesis using assms by (auto simp: table_failures_def table_has_def)
next
  case (Some columns)
  have "sort (filter (\<lambda>f. f \<notin> columns) (pt_fields p)) = [] \<longleftrightarrow> set (filter (\<lambda>f. f \<notin> columns) (pt_fields p)) = {}"
    by (metis set_empty set_sort)
  then show ?thesis using Some by (auto simp: table_failures_def table_has_def Let_def)
qed

lemma persisted_fields: "p \<in> set PERSISTED_TABLES \<Longrightarrow> pt_fields p \<noteq> []"
  by (auto simp: PERSISTED_TABLES_def DOCUMENT_COLUMNS_def LEGAL_HOLD_COLUMNS_def LIFECYCLE_COLUMNS_def AUDIT_COLUMNS_def)

text \<open>The gate passes exactly when every column the repository writes is declared by a migration.\<close>

lemma schema_coverage_passes:
  "fst (schema_coverage_main files) = 0 \<longleftrightarrow>
     (\<forall>p \<in> set PERSISTED_TABLES. \<forall>f \<in> set (pt_fields p).
        \<exists>(name, text) \<in> set files. endswith name ''.sql'' \<and> declares (strip_comments text) (pt_table p) f)"
proof -
  have "fst (schema_coverage_main files) = 0 \<longleftrightarrow> (\<forall>p \<in> set PERSISTED_TABLES. table_failures (columns_by_table files) p = [])"
    unfolding schema_coverage_main_def Let_def by simp
  also have "\<dots> \<longleftrightarrow> (\<forall>p \<in> set PERSISTED_TABLES. \<forall>f \<in> set (pt_fields p). table_has (columns_by_table files) (pt_table p) f)"
    by (intro ball_cong refl table_failures_empty persisted_fields)
  finally show ?thesis unfolding columns_by_table .
qed

section \<open>The structural gate\<close>

text \<open>\<open>str.count\<close>: occurrences that do not overlap; \<open>skip\<close> is what the last one took.\<close>

fun count_from :: "nat \<Rightarrow> string \<Rightarrow> string \<Rightarrow> nat" where
  "count_from n p [] = 0"
| "count_from (Suc n) p (c # cs) = count_from n p cs"
| "count_from 0 p (c # cs) =
     (if startswith (c # cs) p then Suc (count_from (length p - 1) p cs) else count_from 0 p cs)"

definition py_count :: "string \<Rightarrow> string \<Rightarrow> nat" where
  "py_count p s = count_from 0 p s"

text \<open>The checks in order, each with the message it ends the program with.\<close>

definition migration_gate_checks :: "(string \<rightharpoonup> string) \<Rightarrow> (bool \<times> string) list" where
  "migration_gate_checks files =
     (let exists = (\<lambda>name. files name \<noteq> None); text = (\<lambda>name. case files name of Some t \<Rightarrow> t | None \<Rightarrow> []);
          documents = ''001_create_archive_documents.sql'';
          narrative = ''004_add_reviewed_advisory_narrative_to_archive_documents.sql'';
          holds = ''002_create_archive_legal_holds.sql'';
          lifecycle = ''003_create_archive_lifecycle_relationships.sql'';
          audit = ''007_create_archive_access_audit.sql'';
          reference = ''REFERENCES archive_documents(document_id)'' in
      [(exists documents, ''initial archive document migration is missing''),
       (contains_sub ''archive_request_id TEXT NOT NULL UNIQUE'' (text documents), ''archive_request_id must be unique''),
       (contains_sub ''storage_key TEXT NOT NULL UNIQUE'' (text documents), ''storage_key must be unique''),
       (exists narrative, ''reviewed advisory narrative migration is missing''),
       (contains_sub ''reviewed_advisory_narrative JSONB'' (text narrative), ''reviewed_advisory_narrative must be stored as JSONB''),
       (contains_sub ''ADD COLUMN IF NOT EXISTS'' (text narrative), ''reviewed_advisory_narrative migration must be additive''),
       (exists holds, ''archive legal-hold migration is missing''),
       (contains_sub reference (text holds), ''legal holds must reference archive documents''),
       (exists lifecycle, ''archive lifecycle migration is missing''),
       (2 \<le> py_count reference (text lifecycle), ''lifecycle relationships must reference source and target documents''),
       (exists audit, ''archive access-audit migration is missing''),
       (contains_sub ''idx_archive_access_audit_document_created'' (text audit), ''access audit must index document and creation time'')])"

text \<open>\<open>SystemExit\<close> with its message, or the line printed.\<close>

definition migration_gate_main :: "(string \<rightharpoonup> string) \<Rightarrow> string + string" where
  "migration_gate_main files =
     (case filter (\<lambda>(ok, _). \<not> ok) (migration_gate_checks files) of
        (_, message) # _ \<Rightarrow> Inl (''Migration gate failed: '' @ message)
      | [] \<Rightarrow> Inr ''Migration gate passed'')"

lemma migration_gate_passes:
  "migration_gate_main files = Inr line \<Longrightarrow> \<exists>ddl. files ''001_create_archive_documents.sql'' = Some ddl
     \<and> contains_sub ''archive_request_id TEXT NOT NULL UNIQUE'' ddl \<and> contains_sub ''storage_key TEXT NOT NULL UNIQUE'' ddl"
  unfolding migration_gate_main_def migration_gate_checks_def Let_def
  by (auto simp del: contains_sub.simps split: if_splits list.splits)

end
