(* ===== verification/BranchPolicy.thy ===== *)
theory BranchPolicy
  imports ReleaseTooling
begin

text \<open>
  \<open>check_branch_protection_policy.py\<close>: the shape of the policy document, the repository it is for,
  and its comparison with the protection GitHub reports. Both documents are JSON as \<open>json.loads\<close>
  reads it, of any shape, so that looking into a value of the wrong kind raises as Python does. What
  the interpreter prints for a value and how it sorts lists that are not of strings are parameters.
\<close>

section \<open>JSON values\<close>

datatype json_value =
    V_null
  | V_bool bool
  | V_int int
  | V_float rat
  | V_text string
  | V_list "json_value list"
  | V_object "(string \<times> json_value) list"

text \<open>\<open>==\<close>: numbers and truth values compare as numbers, objects regardless of order.\<close>

fun number_of :: "json_value \<Rightarrow> rat option" where
  "number_of (V_bool b) = Some (if b then 1 else 0)"
| "number_of (V_int n) = Some (of_int n)"
| "number_of (V_float x) = Some x"
| "number_of _ = None"

function (sequential) py_eq :: "json_value \<Rightarrow> json_value \<Rightarrow> bool" where
  "py_eq (V_list xs) (V_list ys) \<longleftrightarrow> length xs = length ys \<and> (\<forall>(x, y) \<in> set (zip xs ys). py_eq x y)"
| "py_eq (V_object a) (V_object b) \<longleftrightarrow> length a = length b
     \<and> (\<forall>(k, v) \<in> set a. k \<in> fst ` set b \<and> (\<forall>(k', w) \<in> set b. k' = k \<longrightarrow> py_eq v w))"
| "py_eq V_null V_null \<longleftrightarrow> True"
| "py_eq (V_text s) (V_text t) \<longleftrightarrow> s = t"
| "py_eq x y \<longleftrightarrow> number_of x \<noteq> None \<and> number_of x = number_of y"
  by pat_completeness auto
termination
  by (relation "measure (\<lambda>(x, y). size x)")
     (auto dest!: set_zip_leftD simp: less_Suc_eq_le intro: size_list_estimation' size_list_estimation)

text \<open>
  \<open>x.get(k, d)\<close>, \<open>k in x\<close>, \<open>x[k]\<close>, the truth value, iteration: an \<open>AttributeError\<close> or a \<open>TypeError\<close>
  where the value has no such operation.
\<close>

definition attribute_error :: exc where
  "attribute_error = DriverError ''AttributeError''"

definition field :: "(string \<times> json_value) list \<Rightarrow> string \<Rightarrow> json_value \<Rightarrow> json_value" where
  "field kvs k d = (case map_of kvs k of Some v \<Rightarrow> v | None \<Rightarrow> d)"

fun get_or :: "json_value \<Rightarrow> string \<Rightarrow> json_value \<Rightarrow> exc + json_value" where
  "get_or (V_object kvs) k d = Inr (field kvs k d)"
| "get_or _ k d = Inl attribute_error"

fun has_key :: "string \<Rightarrow> json_value \<Rightarrow> exc + bool" where
  "has_key k (V_object kvs) = Inr (k \<in> fst ` set kvs)"
| "has_key k (V_list xs) = Inr (V_text k \<in> set xs)"
| "has_key k (V_text t) = Inr (contains_sub k t)"
| "has_key k _ = Inl type_error"

fun item_of :: "json_value \<Rightarrow> string \<Rightarrow> exc + json_value" where
  "item_of (V_object kvs) k = (case map_of kvs k of Some v \<Rightarrow> Inr v | None \<Rightarrow> Inl KeyError)"
| "item_of _ k = Inl type_error"

fun json_truthy :: "json_value \<Rightarrow> bool" where
  "json_truthy V_null \<longleftrightarrow> False"
| "json_truthy (V_bool b) \<longleftrightarrow> b"
| "json_truthy (V_int n) \<longleftrightarrow> n \<noteq> 0"
| "json_truthy (V_float x) \<longleftrightarrow> x \<noteq> 0"
| "json_truthy (V_text t) \<longleftrightarrow> t \<noteq> []"
| "json_truthy (V_list xs) \<longleftrightarrow> xs \<noteq> []"
| "json_truthy (V_object kvs) \<longleftrightarrow> kvs \<noteq> []"

fun elements :: "json_value \<Rightarrow> exc + json_value list" where
  "elements (V_list xs) = Inr xs"
| "elements (V_object kvs) = Inr (map (V_text \<circ> fst) kvs)"
| "elements (V_text t) = Inr (map (\<lambda>c. V_text [c]) t)"
| "elements _ = Inl type_error"

fun is_bool :: "json_value \<Rightarrow> bool" where
  "is_bool (V_bool b) = True" | "is_bool _ = False"

fun is_list :: "json_value \<Rightarrow> bool" where
  "is_list (V_list xs) = True" | "is_list _ = False"

fun is_string :: "json_value \<Rightarrow> bool" where
  "is_string (V_text t) = True" | "is_string _ = False"

fun text_in :: "json_value \<Rightarrow> string" where
  "text_in (V_text t) = t" | "text_in _ = []"

record json_runtime =
  jr_str :: "json_value \<Rightarrow> string"
  jr_repr :: "json_value \<Rightarrow> string"
  jr_sorted :: "json_value list \<Rightarrow> exc + json_value list"

definition text_of :: "json_runtime \<Rightarrow> json_value \<Rightarrow> string" where
  "text_of R v = (case v of V_text t \<Rightarrow> t | _ \<Rightarrow> jr_str R v)"

definition sorted_values :: "json_runtime \<Rightarrow> json_value list \<Rightarrow> exc + json_value list" where
  "sorted_values R xs = (if list_all is_string xs then Inr (map V_text (sort (map text_in xs))) else jr_sorted R xs)"

text \<open>Checks in order: their findings, or the first exception.\<close>

fun gather :: "(exc + string list) list \<Rightarrow> exc + string list" where
  "gather [] = Inr []"
| "gather (r # rs) = bind_result r (\<lambda>xs. bind_result (gather rs) (\<lambda>ys. Inr (xs @ ys)))"

fun map_result :: "('a \<Rightarrow> exc + 'b) \<Rightarrow> 'a list \<Rightarrow> exc + 'b list" where
  "map_result f [] = Inr []"
| "map_result f (x # xs) = bind_result (f x) (\<lambda>y. bind_result (map_result f xs) (\<lambda>ys. Inr (y # ys)))"

definition issue_when :: "bool \<Rightarrow> string \<Rightarrow> exc + string list" where
  "issue_when b message = Inr (if b then [message] else [])"

definition missing_keys :: "string list \<Rightarrow> json_value \<Rightarrow> (string \<Rightarrow> string) \<Rightarrow> exc + string list" where
  "missing_keys keys v message =
     gather (map (\<lambda>k. bind_result (has_key k v) (\<lambda>present. issue_when (\<not> present) (message k))) keys)"

definition not_boolean :: "string list \<Rightarrow> json_value \<Rightarrow> (string \<Rightarrow> string) \<Rightarrow> exc + string list" where
  "not_boolean keys v message =
     gather (map (\<lambda>k. bind_result (has_key k v) (\<lambda>present.
       if present then bind_result (item_of v k) (\<lambda>x. issue_when (\<not> is_bool x) (message k)) else Inr [])) keys)"

section \<open>The policy document\<close>

definition REQUIRED_EXCEPTION_KEYS :: "string list" where
  "REQUIRED_EXCEPTION_KEYS = [''field'', ''value'', ''reason'', ''compensating_controls'', ''retires_when'']"

definition BYPASS_CATEGORIES :: "string list" where
  "BYPASS_CATEGORIES = [''users'', ''teams'', ''apps'']"

definition REQUIRED_REVIEW_KEYS :: "string list" where
  "REQUIRED_REVIEW_KEYS = [''required_approving_review_count'', ''dismiss_stale_reviews'', ''require_code_owner_reviews'',
     ''require_last_push_approval'', ''bypass_pull_request_allowances'']"

definition BOOLEAN_REVIEW_KEYS :: "string list" where
  "BOOLEAN_REVIEW_KEYS = [''present'', ''dismiss_stale_reviews'', ''require_code_owner_reviews'', ''require_last_push_approval'']"

definition MERGEABILITY_EXPECTED_KEYS :: "string list" where
  "MERGEABILITY_EXPECTED_KEYS = [''lock_branch'', ''required_signatures'', ''block_creations'', ''allow_fork_syncing'']"

definition BOOLEAN_EXPECTED_KEYS :: "string list" where
  "BOOLEAN_EXPECTED_KEYS = [''enforce_admins'', ''required_linear_history'', ''allow_force_pushes'', ''allow_deletions'',
     ''required_conversation_resolution'', ''restrictions_present'', ''codeowners_present''] @ MERGEABILITY_EXPECTED_KEYS"

definition REQUIRED_EXPECTED_KEYS :: "string list" where
  "REQUIRED_EXPECTED_KEYS = [''enforce_admins'', ''required_linear_history'', ''allow_force_pushes'', ''allow_deletions'',
     ''required_conversation_resolution'', ''required_status_checks'', ''required_pull_request_reviews'',
     ''restrictions_present'', ''codeowners_present''] @ MERGEABILITY_EXPECTED_KEYS"

definition contexts_issues :: "json_value \<Rightarrow> exc + string list" where
  "contexts_issues contexts =
     (if \<not> is_list contexts \<or> \<not> (case contexts of V_list xs \<Rightarrow> list_all is_string xs | _ \<Rightarrow> True)
      then Inr [''expected.required_status_checks.contexts must be a list of strings: a bare string would be compared character by character'']
      else issue_when (\<not> json_truthy contexts)
        ''expected.required_status_checks.contexts is empty: nothing would be required'')"

definition checks_issues :: "json_value \<Rightarrow> exc + string list" where
  "checks_issues checks = gather
     [missing_keys [''strict'', ''contexts''] checks (\<lambda>k. ''expected.required_status_checks.'' @ k @ '' must be declared''),
      bind_result (get_or checks ''contexts'' V_null) (\<lambda>contexts. bind_result (has_key ''contexts'' checks) (\<lambda>present.
        if present then contexts_issues contexts else Inr [])),
      not_boolean [''strict''] checks (\<lambda>k. ''expected.required_status_checks.'' @ k @ '' must be a boolean'')]"

definition count_issues :: "json_value \<Rightarrow> exc + string list" where
  "count_issues declared = issue_when (case declared of V_null \<Rightarrow> False | V_int _ \<Rightarrow> False | _ \<Rightarrow> True)
     ''expected.required_pull_request_reviews.required_approving_review_count must be an integer''"

definition bypass_issues :: "json_value \<Rightarrow> exc + string list" where
  "bypass_issues bypass =
     (let name = (\<lambda>c. ''expected.required_pull_request_reviews.bypass_pull_request_allowances.'' @ c) in
      gather (map (\<lambda>c. bind_result (has_key c bypass) (\<lambda>present.
        if \<not> present then Inr [name c @ '' must be declared'']
        else bind_result (item_of bypass c) (\<lambda>v. issue_when (\<not> is_list v) (name c @ '' must be a list'')))) BYPASS_CATEGORIES))"

definition reviews_issues :: "json_value \<Rightarrow> exc + string list" where
  "reviews_issues reviews =
     (let name = (\<lambda>k. ''expected.required_pull_request_reviews.'' @ k) in
      bind_result (has_key ''present'' reviews) (\<lambda>declared.
        if \<not> declared then Inr [name ''present must be declared'']
        else bind_result (get_or reviews ''present'' V_null) (\<lambda>present.
          if \<not> json_truthy present then Inr []
          else gather
            [missing_keys REQUIRED_REVIEW_KEYS reviews (\<lambda>k. name k @ '' must be declared''),
             not_boolean BOOLEAN_REVIEW_KEYS reviews (\<lambda>k. name k @ '' must be a boolean''),
             bind_result (get_or reviews ''required_approving_review_count'' V_null) count_issues,
             bind_result (get_or reviews ''bypass_pull_request_allowances'' (V_object [])) bypass_issues])))"

text \<open>\<open>set(exception)\<close>, as far as the required names are asked for.\<close>

fun names_in :: "json_value \<Rightarrow> exc + string list" where
  "names_in (V_object kvs) = Inr (map fst kvs)"
| "names_in (V_list xs) = (if list_all (\<lambda>x. case x of V_list _ \<Rightarrow> False | V_object _ \<Rightarrow> False | _ \<Rightarrow> True) xs
     then Inr (map text_in (filter is_string xs)) else Inl type_error)"
| "names_in (V_text t) = Inr (map (\<lambda>c. [c]) t)"
| "names_in _ = Inl type_error"

definition exception_issues :: "json_value \<Rightarrow> exc + string list" where
  "exception_issues e =
     bind_result (names_in e) (\<lambda>names.
       let missing = sort (filter (\<lambda>k. k \<notin> set names) REQUIRED_EXCEPTION_KEYS) in
       issue_when (missing \<noteq> []) (''documented exception is missing keys: [''
         @ py_join '', '' (map (\<lambda>k. [CHR 0x27] @ k @ [CHR 0x27]) missing) @ '']''))"

fun documents_zero_approval :: "json_value list \<Rightarrow> exc + bool" where
  "documents_zero_approval [] = Inr False"
| "documents_zero_approval (e # es) =
     bind_result (get_or e ''field'' V_null) (\<lambda>f.
       if py_eq f (V_text ''required_pull_request_reviews.required_approving_review_count'') then Inr True
       else documents_zero_approval es)"

definition zero_approval_issues :: "json_value \<Rightarrow> json_value \<Rightarrow> exc + string list" where
  "zero_approval_issues reviews exceptions =
     bind_result (get_or reviews ''required_approving_review_count'' V_null) (\<lambda>approvals.
       if \<not> py_eq approvals (V_int 0) then Inr []
       else bind_result (elements exceptions) (\<lambda>es. bind_result (documents_zero_approval es) (\<lambda>documented.
         issue_when (\<not> documented) (''required_approving_review_count is 0 without a documented exception: ''
           @ ''either strengthen protection or document the deliberate deviation''))))"

definition validate_policy_document :: "json_runtime \<Rightarrow> (string \<times> json_value) list \<Rightarrow> exc + string list" where
  "validate_policy_document R policy =
     (let expected = field policy ''expected'' (V_object []);
          exceptions = field policy ''documented_exceptions'' (V_list []) in
      gather
       [issue_when (py_strip (text_of R (field policy ''repository'' (V_text []))) = [])
          (''policy declares no repository: the identity field is present but empty, so nothing can be compared against this checkout''),
        missing_keys [''repository'', ''protected_branch'', ''expected'', ''documented_exceptions''] (V_object policy)
          (\<lambda>k. ''policy is missing required key: '' @ k),
        gather (map (\<lambda>k. bind_result (get_or (field policy ''review_authority'' (V_object [])) k (V_text [])) (\<lambda>v.
          issue_when (py_strip (text_of R v) = []) (''review_authority.'' @ k @ '' must be documented'')))
          [''review_lead'', ''mergeable_meaning'', ''escalation'']),
        missing_keys REQUIRED_EXPECTED_KEYS expected (\<lambda>k. ''expected.'' @ k @ '' must be declared''),
        bind_result (get_or expected ''required_status_checks'' (V_object [])) checks_issues,
        not_boolean BOOLEAN_EXPECTED_KEYS expected (\<lambda>k. ''expected.'' @ k @ '' must be a boolean''),
        bind_result (get_or expected ''required_pull_request_reviews'' (V_object [])) (\<lambda>reviews. gather
          [reviews_issues reviews,
           bind_result (elements exceptions) (\<lambda>es. gather (map exception_issues es)),
           zero_approval_issues reviews exceptions])])"

section \<open>Which repository this is\<close>

text \<open>\<open>git remote get-url origin\<close>: its exit status and output, or \<open>None\<close> when git cannot be run.\<close>

definition removesuffix :: "string \<Rightarrow> string \<Rightarrow> string" where
  "removesuffix p s = (if endswith s p then take (length s - length p) s else s)"

definition repository_of_url :: "string \<Rightarrow> string option" where
  "repository_of_url url =
     (let url1 = removesuffix ''.git'' url;
          url2 = (if startswith url1 ''git@'' then drop 1 (dropWhile (\<lambda>c. c \<noteq> CHR '':'') url1) else url1);
          parts = filter (\<lambda>p. p \<noteq> []) (py_split CHR ''/'' (py_replace_char CHR 0x5C CHR ''/'' url2)) in
      if length parts < 2 then None else Some (parts ! (length parts - 2) @ ''/'' @ last parts))"

definition detect_repository :: "(string \<rightharpoonup> string) \<Rightarrow> (int \<times> string) option \<Rightarrow> string option" where
  "detect_repository env remote =
     (let from_env = py_strip (case env ''GITHUB_REPOSITORY'' of Some v \<Rightarrow> v | None \<Rightarrow> []) in
      if from_env \<noteq> [] then Some from_env
      else (case remote of
          None \<Rightarrow> None
        | Some (status, out) \<Rightarrow> if status \<noteq> 0 \<or> py_strip out = [] then None else repository_of_url (py_strip out)))"

definition effective_codeowners :: "(string \<Rightarrow> bool) \<Rightarrow> string option" where
  "effective_codeowners is_file =
     List.find is_file [''.github/CODEOWNERS'', ''CODEOWNERS'', ''docs/CODEOWNERS'']"

section \<open>Comparison with the live protection\<close>

fun enabled :: "json_value \<Rightarrow> json_value" where
  "enabled (V_object kvs) = field kvs ''enabled'' V_null"
| "enabled node = node"

definition live_controls :: "(string \<times> json_value) list \<Rightarrow> (string \<times> json_value) list" where
  "live_controls live =
     map (\<lambda>k. (k, enabled (field live k V_null)))
       [''enforce_admins'', ''required_linear_history'', ''allow_force_pushes'', ''allow_deletions'', ''required_conversation_resolution'']
     @ [(''restrictions_present'', V_bool (field live ''restrictions'' V_null \<noteq> V_null))]
     @ map (\<lambda>k. (k, enabled (field live k V_null))) MERGEABILITY_EXPECTED_KEYS"

definition differs :: "json_runtime \<Rightarrow> json_value \<Rightarrow> json_value \<Rightarrow> string \<Rightarrow> exc + string list" where
  "differs R actual wanted name =
     issue_when (\<not> py_eq actual wanted) (name @ '': live='' @ jr_repr R actual @ '' policy='' @ jr_repr R wanted)"

definition controls_issues :: "json_runtime \<Rightarrow> json_value \<Rightarrow> (string \<times> json_value) list \<Rightarrow> exc + string list" where
  "controls_issues R expected live =
     gather (map (\<lambda>(name, actual). bind_result (item_of expected name) (\<lambda>wanted. differs R actual wanted name)) (live_controls live))"

definition or_else :: "json_value \<Rightarrow> json_value \<Rightarrow> json_value" where
  "or_else v d = (if json_truthy v then v else d)"

definition checks_difference :: "json_runtime \<Rightarrow> json_value \<Rightarrow> (string \<times> json_value) list \<Rightarrow> exc + string list" where
  "checks_difference R expected live =
     (let checks = or_else (field live ''required_status_checks'' V_null) (V_object []) in
      gather
       [bind_result (get_or checks ''strict'' V_null) (\<lambda>strict.
        bind_result (item_of expected ''required_status_checks'') (\<lambda>wanted. bind_result (item_of wanted ''strict'') (\<lambda>w.
          issue_when (\<not> py_eq strict w) (''required_status_checks.strict: live='' @ jr_repr R strict)))),
        bind_result (get_or checks ''contexts'' V_null) (\<lambda>contexts.
        bind_result (bind_result (elements (or_else contexts (V_list []))) (sorted_values R)) (\<lambda>live_contexts.
        bind_result (item_of expected ''required_status_checks'') (\<lambda>wanted. bind_result (item_of wanted ''contexts'') (\<lambda>w.
        bind_result (bind_result (elements w) (sorted_values R)) (\<lambda>policy_contexts.
          issue_when (\<not> py_eq (V_list live_contexts) (V_list policy_contexts))
            (''required_status_checks.contexts differ: live='' @ jr_repr R (V_list live_contexts) @ '' policy=''
             @ jr_repr R (V_list policy_contexts)))))))])"

definition bypass_names :: "json_runtime \<Rightarrow> json_value \<Rightarrow> string \<times> string \<Rightarrow> exc + string \<times> json_value" where
  "bypass_names R bypass = (\<lambda>(category, key).
     bind_result (bind_result (get_or bypass category (V_list [])) elements) (\<lambda>members.
     bind_result (map_result (\<lambda>m. get_or m key (V_text [])) members) (\<lambda>names.
     bind_result (sorted_values R names) (\<lambda>ordered. Inr (category, V_list ordered)))))"

definition bypass_difference :: "json_runtime \<Rightarrow> json_value \<Rightarrow> json_value \<Rightarrow> exc + string list" where
  "bypass_difference R reviews expected_reviews =
     bind_result (get_or reviews ''bypass_pull_request_allowances'' V_null) (\<lambda>found.
     bind_result (item_of expected_reviews ''bypass_pull_request_allowances'') (\<lambda>wanted.
     bind_result (map_result (bypass_names R (or_else found (V_object [])))
       [(''users'', ''login''), (''teams'', ''slug''), (''apps'', ''slug'')]) (\<lambda>actual.
     bind_result (case wanted of
         V_object kvs \<Rightarrow> map_result (\<lambda>(k, v). bind_result (bind_result (elements v) (sorted_values R)) (\<lambda>vs. Inr (k, V_list vs))) kvs
       | _ \<Rightarrow> Inl attribute_error) (\<lambda>expected.
       issue_when (\<not> py_eq (V_object actual) (V_object expected))
         (''required_pull_request_reviews.bypass_pull_request_allowances: live='' @ jr_repr R (V_object actual)
          @ '' policy='' @ jr_repr R wanted)))))"

definition reviews_difference :: "json_runtime \<Rightarrow> json_value \<Rightarrow> (string \<times> json_value) list \<Rightarrow> exc + string list" where
  "reviews_difference R expected live =
     (let reviews = field live ''required_pull_request_reviews'' V_null;
          posture = (\<lambda>b. if b then ''present'' else ''ABSENT'') in
      bind_result (item_of expected ''required_pull_request_reviews'') (\<lambda>wanted.
      bind_result (item_of wanted ''present'') (\<lambda>present.
        if \<not> py_eq (V_bool (reviews \<noteq> V_null)) present
        then Inr [''required_pull_request_reviews block presence: live='' @ posture (reviews \<noteq> V_null)
                  @ '' policy='' @ posture (json_truthy present)]
        else if reviews = V_null then Inr []
        else gather
          (map (\<lambda>k. bind_result (get_or reviews k V_null) (\<lambda>actual. bind_result (item_of wanted k) (\<lambda>w.
             differs R actual w (''required_pull_request_reviews.'' @ k))))
             [''required_approving_review_count'', ''dismiss_stale_reviews'', ''require_code_owner_reviews'', ''require_last_push_approval'']
           @ [bypass_difference R reviews wanted]))))"

definition compare_live_to_policy ::
    "json_runtime \<Rightarrow> (string \<Rightarrow> bool) \<Rightarrow> (string \<times> json_value) list \<Rightarrow> (string \<times> json_value) list \<Rightarrow> exc + string list" where
  "compare_live_to_policy R is_file policy live =
     bind_result (item_of (V_object policy) ''expected'') (\<lambda>expected. gather
       [controls_issues R expected live, checks_difference R expected live, reviews_difference R expected live,
        bind_result (item_of expected ''codeowners_present'') (\<lambda>wanted.
          let codeowners = V_bool (effective_codeowners is_file \<noteq> None) in
          issue_when (\<not> py_eq codeowners wanted)
            (''CODEOWNERS presence: live='' @ text_of R codeowners @ '' policy='' @ text_of R wanted))])"

text \<open>
  The exit status with the issues printed. \<open>fetch\<close> is the protection that \<open>gh\<close> reports for a
  repository and a branch, or the failure of the call.
\<close>

definition identity_issues :: "json_runtime \<Rightarrow> string option \<Rightarrow> (string \<times> json_value) list \<Rightarrow> string list" where
  "identity_issues R actual policy =
     (let declared = py_strip (text_of R (field policy ''repository'' (V_text []))) in
      case actual of
        None \<Rightarrow> [''cannot determine which repository this checkout is (no GITHUB_REPOSITORY and no origin remote); ''
                 @ ''refusing rather than trusting the policy document's own repository field'']
      | Some a \<Rightarrow> if declared \<noteq> [] \<and> py_lower declared \<noteq> py_lower a
          then [''policy declares repository '' @ jr_repr R (V_text declared) @ '' but this checkout is '' @ jr_repr R (V_text a)
                @ '': a lifted policy table that keeps the source repository would validate the wrong repository and pass'']
          else [])"

definition branch_policy_main ::
    "json_runtime \<Rightarrow> bool \<Rightarrow> (string \<rightharpoonup> string) \<Rightarrow> (int \<times> string) option \<Rightarrow> (string \<Rightarrow> bool)
      \<Rightarrow> (json_value \<Rightarrow> json_value \<Rightarrow> exc + (string \<times> json_value) list) \<Rightarrow> (string \<times> json_value) list \<Rightarrow> exc + nat \<times> string list" where
  "branch_policy_main R offline env remote is_file fetch policy =
     bind_result (validate_policy_document R policy) (\<lambda>shape.
       let issues = shape @ identity_issues R (detect_repository env remote) policy in
       bind_result (if offline \<or> issues \<noteq> [] then Inr []
           else bind_result (item_of (V_object policy) ''repository'') (\<lambda>repository.
                bind_result (item_of (V_object policy) ''protected_branch'') (\<lambda>branch.
                bind_result (fetch repository branch) (compare_live_to_policy R is_file policy)))) (\<lambda>drift.
         if issues @ drift \<noteq> [] then Inr (1, issues @ drift) else Inr (0, [])))"

section \<open>What a passing gate means\<close>

lemma gather_none: "gather rs = Inr [] \<longleftrightarrow> (\<forall>r \<in> set rs. r = Inr [])"
  by (induction rs) (auto simp: bind_result_Inr)

lemma issue_when_none [simp]: "issue_when b m = Inr [] \<longleftrightarrow> \<not> b"
  by (simp add: issue_when_def)

lemma get_or_Inr: "get_or v k d = Inr x \<longleftrightarrow> (\<exists>kvs. v = V_object kvs \<and> x = field kvs k d)"
  by (cases v) auto

lemma missing_keys_none: "missing_keys ks (V_object kvs) m = Inr [] \<longleftrightarrow> set ks \<subseteq> fst ` set kvs"
  by (auto simp: missing_keys_def gather_none bind_result_def)

lemma not_boolean_none:
  assumes "not_boolean ks (V_object kvs) m = Inr []" "k \<in> set ks" "k \<in> fst ` set kvs"
  shows "\<exists>b. map_of kvs k = Some (V_bool b)"
proof -
  obtain v where v: "map_of kvs k = Some v"
    using assms(3) by (metis map_of_eq_None_iff option.exhaust)
  have "\<forall>k \<in> set ks. bind_result (has_key k (V_object kvs)) (\<lambda>present.
      if present then bind_result (item_of (V_object kvs) k) (\<lambda>x. issue_when (\<not> is_bool x) (m k)) else Inr []) = Inr []"
    using assms(1) unfolding not_boolean_def gather_none by simp
  from this [rule_format, OF assms(2)] have "is_bool v" using assms(3) v by (simp add: bind_result_def)
  then show ?thesis using v by (cases v) simp_all
qed

lemma field_present: "k \<in> fst ` set kvs \<Longrightarrow> item_of (V_object kvs) k = Inr (field kvs k d)"
  unfolding field_def by (cases "map_of kvs k") (auto simp: map_of_eq_None_iff)

text \<open>The parts of a policy that passes its own checks.\<close>

lemma valid_policy:
  assumes "validate_policy_document R policy = Inr []"
  obtains expected reviews where
    "py_strip (text_of R (field policy ''repository'' (V_text []))) \<noteq> []"
    "{''repository'', ''protected_branch'', ''expected'', ''documented_exceptions''} \<subseteq> fst ` set policy"
    "item_of (V_object policy) ''expected'' = Inr (V_object expected)" "set REQUIRED_EXPECTED_KEYS \<subseteq> fst ` set expected"
    "\<And>k. k \<in> set BOOLEAN_EXPECTED_KEYS \<Longrightarrow> \<exists>b. map_of expected k = Some (V_bool b)"
    "item_of (V_object expected) ''required_pull_request_reviews'' = Inr reviews"
    "zero_approval_issues reviews (field policy ''documented_exceptions'' (V_list [])) = Inr []"
proof -
  let ?expected = "field policy ''expected'' (V_object [])"
  note parts = assms [unfolded validate_policy_document_def Let_def gather_none]
  have repository: "py_strip (text_of R (field policy ''repository'' (V_text []))) \<noteq> []"
    and keys: "{''repository'', ''protected_branch'', ''expected'', ''documented_exceptions''} \<subseteq> fst ` set policy"
    using parts by (simp_all add: missing_keys_none)
  have checks: "bind_result (get_or ?expected ''required_status_checks'' (V_object [])) checks_issues = Inr []"
    and required: "missing_keys REQUIRED_EXPECTED_KEYS ?expected (\<lambda>k. ''expected.'' @ k @ '' must be declared'') = Inr []"
    and booleans: "not_boolean BOOLEAN_EXPECTED_KEYS ?expected (\<lambda>k. ''expected.'' @ k @ '' must be a boolean'') = Inr []"
    using parts by simp_all
  obtain expected where e: "?expected = V_object expected"
    using checks by (auto simp: bind_result_Inr get_or_Inr)
  have req: "set REQUIRED_EXPECTED_KEYS \<subseteq> fst ` set expected"
    using required unfolding e missing_keys_none .
  have subset: "set BOOLEAN_EXPECTED_KEYS \<subseteq> set REQUIRED_EXPECTED_KEYS"
    by (auto simp: BOOLEAN_EXPECTED_KEYS_def REQUIRED_EXPECTED_KEYS_def)
  have reviews: "item_of (V_object expected) ''required_pull_request_reviews''
      = Inr (field expected ''required_pull_request_reviews'' (V_object []))"
    using req by (intro field_present) (auto simp: REQUIRED_EXPECTED_KEYS_def)
  have zero: "zero_approval_issues (field expected ''required_pull_request_reviews'' (V_object []))
      (field policy ''documented_exceptions'' (V_list [])) = Inr []"
    using parts unfolding e by (auto simp: bind_result_Inr gather_none)
  show thesis
  proof (rule that [OF repository keys _ req _ reviews zero])
    show "item_of (V_object policy) ''expected'' = Inr (V_object expected)"
      using keys field_present [of "''expected''" policy "V_object []"] unfolding e by simp
  next
    fix k assume "k \<in> set BOOLEAN_EXPECTED_KEYS"
    then show "\<exists>b. map_of expected k = Some (V_bool b)"
      using booleans req subset unfolding e by (blast intro: not_boolean_none)
  qed
qed

text \<open>
  A passing live run: the document is this repository's, and each control it declares is a truth
  value that the live protection equals.
\<close>

lemma branch_policy_passes:
  assumes "branch_policy_main R False env remote is_file fetch policy = Inr (0, out)"
  obtains actual expected live branch repository where "detect_repository env remote = Some actual"
    "py_lower (py_strip (text_of R (field policy ''repository'' (V_text [])))) = py_lower actual"
    "item_of (V_object policy) ''expected'' = Inr (V_object expected)" "fetch repository branch = Inr live"
    "\<And>k v. (k, v) \<in> set (live_controls live) \<Longrightarrow> \<exists>b. map_of expected k = Some (V_bool b) \<and> py_eq v (V_bool b)"
proof -
  have valid: "validate_policy_document R policy = Inr []" and identity: "identity_issues R (detect_repository env remote) policy = []"
    using assms by (auto simp: branch_policy_main_def Let_def bind_result_Inr split: if_splits)
  obtain expected where repo: "py_strip (text_of R (field policy ''repository'' (V_text []))) \<noteq> []"
    and e: "item_of (V_object policy) ''expected'' = Inr (V_object expected)"
    and booleans: "\<And>k. k \<in> set BOOLEAN_EXPECTED_KEYS \<Longrightarrow> \<exists>b. map_of expected k = Some (V_bool b)"
    by (rule valid_policy [OF valid]) blast
  obtain actual where actual: "detect_repository env remote = Some actual"
    "py_lower (py_strip (text_of R (field policy ''repository'' (V_text [])))) = py_lower actual"
    using identity repo by (auto simp: identity_issues_def Let_def split: option.splits if_splits)
  obtain repository branch live where live: "fetch repository branch = Inr live" "compare_live_to_policy R is_file policy live = Inr []"
    using assms valid identity by (auto simp: branch_policy_main_def Let_def bind_result_Inr split: if_splits)
  have controls: "controls_issues R (V_object expected) live = Inr []"
    using live(2) unfolding compare_live_to_policy_def e bind_result_def sum.case gather_none by simp
  show thesis
  proof (rule that [OF actual e live(1)])
    fix k v assume kv: "(k, v) \<in> set (live_controls live)"
    then have "k \<in> set BOOLEAN_EXPECTED_KEYS"
      by (auto simp: live_controls_def BOOLEAN_EXPECTED_KEYS_def)
    then obtain b where b: "map_of expected k = Some (V_bool b)" using booleans by blast
    have "bind_result (item_of (V_object expected) k) (\<lambda>wanted. differs R v wanted k) = Inr []"
      using controls kv unfolding controls_issues_def gather_none by force
    then have "py_eq v (V_bool b)" using b by (simp add: bind_result_def differs_def)
    with b show "\<exists>b. map_of expected k = Some (V_bool b) \<and> py_eq v (V_bool b)" by blast
  qed
qed

text \<open>Requiring no approval at all is accepted only with the exception that documents it.\<close>

lemma py_eq_text: "py_eq v (V_text t) \<longleftrightarrow> v = V_text t"
  by (cases v) simp_all

lemma documents_zero_approval_True:
  "documents_zero_approval es = Inr True \<Longrightarrow> \<exists>kvs. V_object kvs \<in> set es
     \<and> field kvs ''field'' V_null = V_text ''required_pull_request_reviews.required_approving_review_count''"
proof (induction es)
  case (Cons e es)
  then obtain kvs where e: "e = V_object kvs" by (auto simp: bind_result_Inr get_or_Inr)
  show ?case
  proof (cases "field kvs ''field'' V_null = V_text ''required_pull_request_reviews.required_approving_review_count''")
    case False
    then have "documents_zero_approval es = Inr True"
      using Cons.prems unfolding e by (simp add: bind_result_def py_eq_text)
    then show ?thesis using Cons.IH by auto
  qed (use e in auto)
qed simp

lemma zero_approval_is_documented:
  assumes "validate_policy_document R policy = Inr []" "item_of (V_object policy) ''expected'' = Inr expected"
    and "item_of expected ''required_pull_request_reviews'' = Inr (V_object reviews)"
    and "map_of reviews ''required_approving_review_count'' = Some (V_int 0)"
  obtains es kvs where "elements (field policy ''documented_exceptions'' (V_list [])) = Inr es" "V_object kvs \<in> set es"
    "field kvs ''field'' V_null = V_text ''required_pull_request_reviews.required_approving_review_count''"
proof -
  have "zero_approval_issues (V_object reviews) (field policy ''documented_exceptions'' (V_list [])) = Inr []"
  proof (rule valid_policy [OF assms(1)])
    fix e r
    assume "item_of (V_object policy) ''expected'' = Inr (V_object e)" "item_of (V_object e) ''required_pull_request_reviews'' = Inr r"
      and "zero_approval_issues r (field policy ''documented_exceptions'' (V_list [])) = Inr []"
    with assms(2,3) show ?thesis by simp
  qed
  then obtain es where "elements (field policy ''documented_exceptions'' (V_list [])) = Inr es" "documents_zero_approval es = Inr True"
    using assms(4) by (auto simp: zero_approval_issues_def bind_result_Inr field_def)
  then show thesis using documents_zero_approval_True [of es] that by blast
qed

end
