(* ===== verification/Spec2Isabelle.thy ===== *)
theory Spec2Isabelle
  imports CompositeSamples HttpSamples DecisionCustody SettingsSamples FormatSamples FaultSamples ToolingSamples
    Application SourceGates MigrationTooling BranchPolicy
begin

text \<open>
  The custody core of lotus-archive, the document archive service under \<open>src/src/app\<close>.

  The program. A document arrives as metadata and base64 content (\<open>models.py\<close>, \<open>commands.py\<close>);
  its metadata is validated, for a composite report down to the pins of every source window
  (\<open>composite_*.py\<close>). \<open>ArchiveDocumentService\<close> (\<open>service.py\<close>) authorises the caller
  (\<open>authorization.py\<close>), hands the document to the writer (\<open>archive_writer.py\<close>), which checks the
  declared digest and format (\<open>checksum.py\<close>, \<open>artifact_format.py\<close>), puts the object in a store
  (\<open>storage.py\<close>, \<open>s3_storage.py\<close>) and then writes the row (\<open>repository.py\<close>,
  \<open>postgres_repository.py\<close>), deleting the object if the row fails. Later calls read, download,
  hold, release, evaluate for purge, purge (\<open>purge_transitions.py\<close>), link documents
  (\<open>lifecycle_transitions.py\<close>) and preflight access (\<open>access_preflight.py\<close>), each audited
  (\<open>audit.py\<close>) and measured (\<open>metrics.py\<close>). \<open>idea_lifecycle_decisions\<close> signs a statement of a
  document's posture, stores it under an idempotency key and publishes the keys that verify it.
  \<open>api.py\<close>, \<open>api_models.py\<close>, \<open>error_handlers.py\<close>, \<open>contracts/errors.py\<close> and
  \<open>middleware/correlation.py\<close> present this over HTTP; \<open>settings.py\<close>, \<open>runtime.py\<close>,
  \<open>service_profile.py\<close> and \<open>main.py\<close> compose it and report its readiness. \<open>src/scripts\<close> holds the gates
  of its build and release.

  The style. An operation is a state-passing function \<open>'w \<Rightarrow> (exc + 'b) \<times> 'w\<close> (\<open>io\<close> in Prelude): an
  exception is an \<open>Inl\<close> and keeps the state it was raised in. A service method runs in a \<open>world\<close>
  (World): repository, object store, audit trail, metrics, a clock, a supply of uuids and the
  day. Python's dictionaries are association lists, its integers \<open>int\<close> or \<open>nat\<close>, instants are
  microseconds, SHA-256 is on 32-bit words.

  The theories and what their lemmas show.

  \<^item> Prelude, Calendar: exceptions, the monad, string functions of the standard library, dates.
  \<^item> CompositeIdentity, CompositeCustody, CompositeWindows: the pins, selections and eight identity
    versions with their validators; accepted windows tile, products are blocks of the review.
  \<^item> Models, InputValidation, Lifecycle: records, enumerations and every validator; validation is
    idempotent; the transition preconditions.
  \<^item> RetentionSpec, RetentionSteps: the abstract custody state, its transitions as an inductive
    step relation, the archive invariant and the never-rewritten order \<open>archive_evolves\<close>.
  \<^item> Repository: the repository protocol as a record of operations and the locale
    \<open>document_repository\<close>, each method's promise on the abstract state. MemoryRepository,
    PostgresRepository and PostgresContract model the two implementations and interpret it; in
    the second every transaction may be refused or lose its answer, by a schedule of faults.
  \<^item> Checksum, ArtifactFormat, Storage, S3Storage: SHA-256, base64, workbook admission, and the
    locale \<open>object_storage\<close>, interpreted for the filesystem, and a theorem for S3 under the
    documented behaviour of the client (\<open>s3_client_ok\<close>, which \<open>bucket_client\<close> has).
  \<^item> AccessAudit, World, Authorization, Metrics: caller context, both audit repositories (locale
    \<open>audit_log\<close>), permissions, scope, masked preflight reasons, and the metric decorator.
  \<^item> SourceEvents, Writer, Purge, Service, ServiceCommands: the writer, purge decisions and every
    method of the service.
  \<^item> ServiceInvariant, Custody, CustodyPlatform, Ingest, ServiceCalls: a contract the whole service
    keeps, proved once for every method (\<open>service_invariant\<close>), and its instances: the audit trail
    grows; the bytes of every document not being destroyed are in the store and intact.
  \<^item> Access, Behaviour, PurgeDecisions, PurgeResumption, Histories, Platforms: refused callers, downloads,
    preflight; the walk to the current document; lawful purges and their resumption; and the same for histories from an
    empty archive on each platform.
  \<^item> CanonicalJson, LifecycleSigning, LifecycleDecisions, LifecycleGuarantees, DecisionCustody:
    canonical JSON and its injectivity, signatures, verification against the published bundle,
    issuing and replaying; what a decision states is true of the row and of the store.
  \<^item> HttpErrors, RequestCorrelation, HttpApi: the exception handlers and their status table, the
    identifiers of a request, and the routes with their request and response models.
  \<^item> RuntimeSettings, OperationsApi, Application: settings validation, composition, posture,
    supportability, the probe, the build document and metric contracts; the service composed at the
    first request and closed at shutdown, and the middleware with the line it logs.
  \<^item> ReleaseTooling, BranchPolicy, CodeHealthTooling, SourceGates, TextPatterns, MigrationTooling: the
    scripts of \<open>src/scripts\<close> that guard a release, the protected branch, the source tree and the SQL
    migrations; each with what a pass means. TextPatterns matches regular expressions in the order
    Python tries them, sound and complete for the texts a pattern describes.
  \<^item> Samples, CompositeSamples, FormatSamples, FaultSamples, DecisionSamples, HttpSamples, SettingsSamples,
    ToolingSamples: the concrete inputs of the witnesses.

  Termination and bounds. The walk to the current document is a loop that Python bounds by the
  identifiers it has seen; its model recurses on fuel, one more than the archive has documents,
  and C18 shows the fuel is never exhausted on a state that satisfies the invariant. Everything
  else is structural recursion or a \<open>termination\<close> proof. Sizes that the code bounds (a hundred
  identifiers, a page, 4096 parts, 128 MiB, the configured content limit) are the code's numbers.

  Parameters. Ed25519, ZIP and XML parsing, JSON parsing of the configuration, the S3 client, the
  driver's faults, uuids, the clock and the printed form of an instant are arguments; what is
  assumed of them is a named hypothesis: \<open>signer_ok\<close>, \<open>s3_client_ok\<close>, \<open>uuids_fresh\<close>, \<open>serves\<close>
  (no answer is lost, needed where an ambiguous commit would leave the writer's compensation
  deleting the bytes of a committed row), injectivity of the printed instant.

  Not modelled. Framework routing, OpenAPI metadata and body parsing; the inside of the connection
  pool; durations and the Prometheus client. Of the tooling: running \<open>gh\<close>, \<open>git\<close>, radon, vulture
  and pip-audit, the tables they print, and \<open>test_pyramid_gate.py\<close>, whose counts hang on the rounding
  of binary floating point. Threads: a service call runs whole, while each repository transaction
  stands under the locks the code takes, so that the contract of a transaction is what a concurrent
  caller may rely on.
\<close>

section \<open>Custody\<close>

text \<open>
  C1: On PostgreSQL metadata and a filesystem store, from empty tables, with a driver that may
  refuse any transaction but loses no answer, whatever sequence of service calls is made and
  however each ends: a document whose destruction has not begun has its bytes in the store under
  its key, and they hash to the recorded checksum and have the recorded size.
\<close>

theorem stored_documents_are_retrievable:
  assumes "uuids_fresh w" "pg_tables (w_repo w) = empty_tables" "serves (w_repo w)" "list_all valid_call cs"
    and "w' = run_calls (postgresql_service (filesystem_store ns) n rd) cs w"
    and "st_docs (pg_abs (w_repo w')) d = Some m" "purge_started_at m = None"
  shows "bytes_held fs_objects fs_addr (w_store w') m"
  using assms by (rule pg_bytes)

theorem stored_documents_are_retrievable_witness:
  "bytes_held fs_objects fs_addr (w_store (run_calls pg_sample sample_calls pg_start)) (untimed sample_document)"
  by (rule stored_documents_are_retrievable [OF pg_start_ok, of _ "''local''" 1024 no_workbooks "''doc_a''"])
    (simp_all add: pg_sample_def [symmetric] pg_sample_ingest pg_sample_row)

text \<open>
  C2: The same on S3, for any client whose calls do what S3 documents: an object is there once
  its put has returned, gone once its delete has returned, and untouched by calls on other keys.
\<close>

theorem objects_on_s3_are_retrievable:
  assumes "s3_client_ok client objs" "uuids_fresh w" "pg_tables (w_repo w) = empty_tables" "serves (w_repo w)"
    and "list_all valid_call cs" "w' = run_calls (s3_postgresql_service cfg client n rd) cs w"
    and "st_docs (pg_abs (w_repo w')) d = Some m" "purge_started_at m = None"
  shows "bytes_held (s3_objects cfg objs) (s3_addr cfg) (w_store w') m"
  using assms by (rule s3_bytes)

theorem objects_on_s3_are_retrievable_witness:
  "bytes_held (s3_objects sample_s3 bucket_contents) (s3_addr sample_s3) (w_store (run_calls s3_sample sample_calls s3_start))
     (untimed s3_document)"
  by (rule objects_on_s3_are_retrievable [OF bucket_client_ok s3_start_ok, of _ sample_s3 1024 no_workbooks "''doc_a''"])
    (simp_all add: s3_sample_def [symmetric] s3_sample_ingest s3_sample_row)


text \<open>
  C4: Whatever transactions the driver refuses and whatever answers it loses, every reachable
  state satisfies the archive invariant: hold summaries are recounts of the hold rows, no
  document whose destruction has begun carries an active hold, destruction is recorded with its
  intent and its time, lifecycle pointers agree in both directions and never form a cycle, and
  each relationship row was applied.
\<close>

theorem reachable_states_are_consistent:
  assumes "uuids_fresh w" "pg_tables (w_repo w) = empty_tables" "list_all valid_call cs"
    and "w' = run_calls (postgresql_service (filesystem_store ns) n rd) cs w"
  shows "archive_inv (pg_abs (w_repo w'))"
  using assms by (rule pg_history(1))

theorem reachable_states_are_consistent_witness:
  "archive_inv (pg_abs (reliable_database sample_tables))"
  using reachable_states_are_consistent [OF pg_start_ok(1,2,4), of _ "''local''" 1024 no_workbooks, OF refl]
  by (simp add: pg_sample_def [symmetric] pg_sample_ingest)

text \<open>
  C5: History is never rewritten: after any further calls, under any driver faults, a stored
  document is still stored, every field outside the mutable set is unchanged, a purge time or
  lifecycle pointer once set keeps its value, a released hold stays released, and relationship
  rows stay.
\<close>

theorem history_is_never_rewritten:
  assumes "uuids_fresh w" "pg_tables (w_repo w) = empty_tables" "list_all valid_call (as @ bs)"
    and "w1 = run_calls (postgresql_service (filesystem_store ns) n rd) as w"
    and "w2 = run_calls (postgresql_service (filesystem_store ns) n rd) bs w1"
  shows "archive_evolves (pg_abs (w_repo w1)) (pg_abs (w_repo w2))"
  using assms by (rule pg_later)

theorem history_is_never_rewritten_witness:
  "archive_evolves (pg_abs (reliable_database sample_tables))
     (pg_abs (w_repo (run_calls pg_sample [PurgeCall ''doc_a'' (sample_caller ''lotus-report'') ''t-2'' None]
       (run_calls pg_sample sample_calls pg_start))))"
proof -
  have "list_all valid_call (sample_calls @ [PurgeCall ''doc_a'' (sample_caller ''lotus-report'') ''t-2'' None])"
    using pg_start_ok(4) by simp
  from history_is_never_rewritten [OF pg_start_ok(1,2) this refl refl, of "''local''" 1024 no_workbooks]
  show ?thesis by (simp only: pg_sample_def [symmetric] pg_sample_ingest)
qed

text \<open>
  C6: A purge that returns has destroyed the document lawfully: the row says \<open>PURGED\<close>, a purge
  made by this call has removed the object, the archive invariant holds afterwards, and in the
  state the call started from the destruction had already begun, or no hold was active and the
  retention date was set and had come. Holds and retention are those of the stored rows,
  whatever the caller or a stale summary says.
\<close>

theorem a_purge_is_lawful:
  assumes "archive_inv s" "on_day = (case evaluated of Some t \<Rightarrow> t | None \<Rightarrow> day)" "repo_at pg_abs pg_wf s day w"
    and "purge_document (postgresql_service (filesystem_store ns) n rd) d caller trace evaluated w = (Inr r, w')"
  shows "purge_done pg_abs pg_wf fs_objects fs_addr d day r w' \<and> purge_lawful s d on_day"
  using assms by (rule pg_purge.purge_sound)

theorem a_purge_is_lawful_witness:
  "\<exists>m (w' :: (postgres, filesystem, access_audit_event list database) world).
     purge_done pg_abs pg_wf fs_objects fs_addr ''doc_a'' (Date 2026 4 1) (m, ''purged'') w'
     \<and> purge_lawful (pg_abs (w_repo (dw_archive proof_world))) ''doc_a'' (Date 2026 4 1)"
proof -
  obtain m w' where run: "purge_document (postgresql_service (filesystem_store ''local'') 1024 no_workbooks) ''doc_a''
      (sample_caller ''lotus-report'') ''t-9'' None (dw_archive proof_world) = (Inr (m, ''purged''), w')"
    using sample_purge unfolding pg_sample_def by blast
  have here: "repo_at pg_abs pg_wf (pg_abs (w_repo (dw_archive proof_world))) (Date 2026 4 1) (dw_archive proof_world)"
    by (simp add: repo_at_def proof_world_ok(2)) (simp add: proof_world_def sample_world_def)
  have "Date 2026 4 1 = (case None of Some t \<Rightarrow> t | None \<Rightarrow> Date 2026 4 1)" by simp
  from a_purge_is_lawful [OF proof_world_ok(1) this here run] show ?thesis by blast
qed

text \<open>
  C7: A destruction that was interrupted can be finished: once it has begun, an admitted caller of
  the tenant who purges again is answered, whatever the day or the holds, and leaves the row
  \<open>PURGED\<close> and the store as the delete leaves it, when the driver and the store answer.
\<close>

theorem an_interrupted_purge_can_be_finished:
  assumes "pg_wf (w_repo w)" "pg_faults (w_repo w) = []" "audit_free w"
    and "row_of document_id (archive_documents (pg_tables (w_repo w))) d = Some m"
    and "purge_started_at m \<noteq> None" "purge_status m \<noteq> PURGED"
    and "missing_scope caller = []" "decision_state (document_tenant_scope_decision m caller) = ALLOWED"
    and "caller_service caller \<in> set (allowed_callers_for default_policy EXECUTE_PURGE)"
    and "store_delete st (storage_key m) (w_store w) = (Inr (), s')"
  shows "\<exists>r w' m'. purge_document (postgresql_service st n rd) d caller trace evaluated w = (Inr r, w') \<and> snd r = ''purged''
    \<and> st_docs (pg_abs (w_repo w')) d = Some m' \<and> purge_status m' = PURGED \<and> w_store w' = s'"
  using assms by (rule purge_resumes_row)

theorem an_interrupted_purge_can_be_finished_witness:
  "\<exists>r w'. purge_document pg_sample ''doc_a'' (sample_caller ''lotus-report'') ''t-2'' None interrupted_world = (Inr r, w')
     \<and> snd r = ''purged'' \<and> w_store w' = emptied_store"
proof -
  note w = interrupted_world_ready
  have "purge_started_at begun_document \<noteq> None" "purge_status begun_document \<noteq> PURGED" "missing_scope (sample_caller ''lotus-report'') = []"
    "decision_state (document_tenant_scope_decision begun_document (sample_caller ''lotus-report'')) = ALLOWED"
    "caller_service (sample_caller ''lotus-report'') \<in> set (allowed_callers_for default_policy EXECUTE_PURGE)"
    by (simp_all add: begun_document_facts missing_scope_def sample_caller_def tenant_decision_allowed allowed_callers_for_def
        default_policy_def truthy_def)
  from an_interrupted_purge_can_be_finished [OF w(1-4) this w(5), of 1024 no_workbooks "''t-2''" None]
  show ?thesis unfolding pg_sample_def by blast
qed

text \<open>
  C8: The audit trail of the PostgreSQL service only grows, by any calls and under any driver
  faults.
\<close>

theorem the_audit_trail_grows:
  assumes "list_all valid_call cs" "w' = run_calls (postgresql_service st n rd) cs w"
  shows "\<exists>new. pg_tables (w_audit w') = pg_tables (w_audit w) @ new"
  using pg_trail.grows.calls_keep [where es = "pg_tables (w_audit w)" and w = w, OF _ assms(1)] assms(2)
  by (simp add: trail_extends_def)

theorem the_audit_trail_grows_witness:
  "\<exists>new. pg_tables (w_audit (run_calls pg_sample sample_calls pg_start)) = pg_tables (w_audit pg_start) @ new"
  unfolding pg_sample_def by (rule the_audit_trail_grows [OF pg_start_ok(4) refl])

section \<open>Access\<close>







text \<open>
  C12: A 200 preflight answer has one item for each requested identifier, stripped, in order and
  without repetition, at most a hundred of them, and only the four reasons a response may carry.
\<close>

theorem preflight_answers_in_order:
  assumes "http_preflight_document_access svc raw rq w = ((code, Inr r), w')"
  shows "map item_document_id (pf_items r) = map py_strip raw \<and> distinct (map item_document_id (pf_items r))
    \<and> pf_returned_count r = length raw \<and> length raw \<le> 100 \<and> (\<forall>i \<in> set (pf_items r). item_reason i \<in> RESPONSE_REASON_CODES)"
proof -
  obtain u ds where "request_caller_context rq = Inr u" and ds: "validate_preflight_request raw = Inr ds"
    and "bind_io (preflight_document_access svc ds u (request_trace_id rq)) (\<lambda>r. of_result (preflight_response_of r)) w = (Inr r, w')"
    and "code = 200"
    by (rule route_returns [OF assms [unfolded http_preflight_document_access_def]])
  then obtain res w1 where run: "preflight_document_access svc ds u (request_trace_id rq) w = (Inr res, w1)"
    and "of_result (preflight_response_of res) w1 = (Inr r, w')"
    unfolding bind_returns by blast
  then have r: "preflight_response_of res = Inr r" by (simp only: basic_returns)
  have "ds = map py_strip raw" using ds by (auto simp: validate_preflight_request_def Let_def split: if_splits)
  moreover have "pf_items r = preflight_items res" "pf_returned_count r = length (pf_items r)"
    using r by (auto simp: preflight_response_of_def split: if_splits)
  moreover have "map item_document_id (preflight_items res) = ds" by (rule response_items(1) [OF run])
  moreover from this have "length (preflight_items res) = length ds" by (metis length_map)
  ultimately show ?thesis
    using response_items(2) [OF run] accepted_preflight(2,3) [OF ds]
    by (simp only: MAX_PREFLIGHT_DOCUMENT_IDS_def length_map simp_thms)
qed

theorem preflight_answers_in_order_witness:
  "\<exists>r w'. http_preflight_document_access sample_service [''doc_a'', '' doc_z ''] reader_request sample_ingested = ((200, Inr r), w')
     \<and> map item_document_id (pf_items r) = [''doc_a'', ''doc_z'']"
proof -
  obtain r w' where run: "http_preflight_document_access sample_service [''doc_a'', '' doc_z ''] reader_request sample_ingested = ((200, Inr r), w')"
    using sample_preflight by blast
  have "map py_strip [''doc_a'', '' doc_z ''] = [''doc_a'', ''doc_z'']" by code_simp
  with preflight_answers_in_order [OF run] run show ?thesis by metis
qed

text \<open>
  C13: Without a caller identity every route that reads or changes documents answers 401 and
  leaves the service's state as it was, whatever the body or the query.
\<close>

theorem unidentified_requests_change_nothing:
  assumes "request_caller_context rq = Inl e"
  shows "turned_away (http_create_document svc create rq) \<and> turned_away (http_preflight_document_access svc ds rq)
    \<and> turned_away (http_get_document_by_request_id svc q rq) \<and> turned_away (http_get_document svc d rq)
    \<and> turned_away (http_get_current_document svc d rq) \<and> turned_away (http_list_document_source_events svc d limit offset rq)
    \<and> turned_away (http_download_document svc d rq) \<and> turned_away (http_list_access_events svc d limit offset rq)
    \<and> turned_away (http_get_retention svc d rq) \<and> turned_away (http_evaluate_purge svc d rq)
    \<and> turned_away (http_purge_document svc d rq) \<and> turned_away (http_set_legal_hold svc d hold rq)
    \<and> turned_away (http_release_legal_hold svc d hid reason rq) \<and> turned_away (http_supersede_document svc d lc rq)
    \<and> turned_away (http_correct_document svc d lc rq) \<and> turned_away (http_reissue_document svc d lc rq)
    \<and> turned_away (http_issue_idea_lifecycle_decision show_time ds_svc d decision key rq)"
  unfolding routes by (intro conjI route_turned_away [OF assms])

theorem unidentified_requests_change_nothing_witness:
  "turned_away (http_purge_document sample_service ''doc_a'' anonymous_request)"
  using unidentified_requests_change_nothing [OF anonymous, where svc = sample_service and d = "''doc_a''"] by blast

text \<open>
  C14: Every refusal of a route names the request's correlation identifier, has one of eight
  statuses, and carries a message of the fixed table, unless the service raised one of the two
  exceptions whose own text is sent.
\<close>

theorem refusals_are_support_safe:
  assumes "route ok rq input handler w = ((code, Inl d), w')"
  shows "err_correlation_id d = req_correlation_id (rq_ids rq) \<and> code \<in> {400, 401, 403, 404, 409, 422, 500, 503}
    \<and> (err_message d \<in> snd ` set SAFE_ERROR_MESSAGES
       \<or> (\<exists>u v e. request_caller_context rq = Inr u \<and> input = Inr v \<and> handler v u w = (Inl e, w') \<and> discloses_text e))"
  using assms by (rule route_refusal)

theorem refusals_are_support_safe_witness:
  "\<exists>d. http_purge_document sample_service ''doc_a'' anonymous_request sample_ingested = ((401, Inl d), sample_ingested)
     \<and> err_correlation_id d = ''c-1'' \<and> err_message d \<in> snd ` set SAFE_ERROR_MESSAGES"
proof -
  have "\<exists>d. http_purge_document sample_service ''doc_a'' anonymous_request sample_ingested = ((401, Inl d), sample_ingested)"
    unfolding http_purge_document_def by (rule anonymous_route)
  then obtain d where run: "http_purge_document sample_service ''doc_a'' anonymous_request sample_ingested = ((401, Inl d), sample_ingested)"
    by blast
  have "req_correlation_id (rq_ids anonymous_request) = ''c-1''" by (simp add: anonymous_request_def)
  with refusals_are_support_safe [OF run [unfolded http_purge_document_def]] anonymous run show ?thesis
    by (metis Inl_Inr_False)
qed



text \<open>
  C16: A request that sends back the identifying headers of an earlier response is handled under
  the same correlation and trace identifiers, for every trace identifier of the standard's form.
\<close>

theorem identifiers_propagate:
  assumes "uuid \<noteq> []" "hex \<noteq> []" "is_w3c_trace_id (req_trace_id (identify hs uuid hex))"
  shows "identify (response_headers service duration (identify hs uuid hex) rs) uuid' hex' = identify hs uuid hex"
  using assms by (rule correlation_propagates)

theorem identifiers_propagate_witness:
  "identify (response_headers ''lotus-archive'' ''1.0'' (identify [] ''u-1'' (replicate 32 CHR ''a'')) []) ''u-2'' ''h-2''
   = identify [] ''u-1'' (replicate 32 CHR ''a'')"
  by (rule identifiers_propagate)
    (simp_all add: identify_def resolve_trace_id_def get_header_def is_w3c_trace_id_def list_all_iff)



section \<open>Lifecycle and current documents\<close>



section \<open>Signed lifecycle decisions\<close>

text \<open>
  C19: A decision newly issued on PostgreSQL and a filesystem store states the stored row: its
  action and reason are those of the row after the call, its hold count is a recount, and the
  row is in the caller's tenant. If every document not being destroyed had its bytes in the
  store, and the decision does not report disposal, the document's bytes are in the store still.
\<close>

theorem a_fresh_decision_states_custody:
  assumes "issue show_time svc d req key caller trace asked w = (Inr dec, w')" "ledger_rows w key = None"
    and "ds_archive svc = postgresql_service (filesystem_store ns) n rd"
    and "pg_wf (w_repo (dw_archive w))" "archive_inv (pg_abs (w_repo (dw_archive w)))"
    and "\<And>m. st_docs (pg_abs (w_repo (dw_archive w))) d = Some m \<Longrightarrow> purge_started_at m = None
      \<Longrightarrow> bytes_held fs_objects fs_addr (w_store (dw_archive w)) m"
  shows "\<exists>m. st_docs (pg_abs (w_repo (dw_archive w'))) d = Some (untimed m)
    \<and> (ld_lifecycle_action dec, ld_decision_reason_code dec) = decision_action m
    \<and> ld_legal_hold_count dec = int (active_holds (pg_abs (w_repo (dw_archive w'))) d)
    \<and> caller_tenant_id caller = Some (tenant_id m)
    \<and> (ld_lifecycle_action dec \<noteq> DISPOSAL_EXECUTED \<longrightarrow> bytes_held fs_objects fs_addr (w_store (dw_archive w')) m)"
proof -
  obtain tenant m where tenant: "caller_tenant_id caller = Some tenant"
    and fresh: "freshly_issued show_time svc d req key (request_fingerprint d req tenant) caller tenant trace asked w m dec w'"
    using issue_returns [OF assms(1)] assms(2) by metis
  note facts = pg_current.fresh_states_row [OF fresh assms(3,4,5)]
  have "ld_lifecycle_action dec \<noteq> DISPOSAL_EXECUTED \<Longrightarrow> bytes_held fs_objects fs_addr (w_store (dw_archive w')) m"
    using pg_current.fresh_decision_bytes [OF fresh assms(3,4,5,6)] .
  then show ?thesis using facts(1-3) facts(5) [OF tenant] by blast
qed

theorem a_fresh_decision_states_custody_witness:
  "\<exists>dec w' m. issue print_int sample_decisions ''doc_a'' sample_request ''key-1'' (decision_caller ''tenant-1'') ''t-9'' (Some 5) proof_world
       = (Inr dec, w')
     \<and> (ld_lifecycle_action dec, ld_decision_reason_code dec) = decision_action m \<and> ''tenant-1'' = tenant_id m"
proof -
  obtain dec w' where run: "issue print_int sample_decisions ''doc_a'' sample_request ''key-1'' (decision_caller ''tenant-1'') ''t-9'' (Some 5)
      proof_world = (Inr dec, w')" using sample_issue by blast
  have "ledger_rows proof_world ''key-1'' = None" "ds_archive sample_decisions = postgresql_service (filesystem_store ''local'') 1024 no_workbooks"
    by (simp_all add: reliable_database_def dict_get_def pg_sample_def)
  moreover have "bytes_held fs_objects fs_addr (w_store (dw_archive proof_world)) m"
    if "st_docs (pg_abs (w_repo (dw_archive proof_world))) ''doc_a'' = Some m" for m
    using that proof_bytes unfolding proof_row by blast
  ultimately obtain m where "(ld_lifecycle_action dec, ld_decision_reason_code dec) = decision_action m"
    "caller_tenant_id (decision_caller ''tenant-1'') = Some (tenant_id m)"
    using a_fresh_decision_states_custody [OF run _ _ proof_world_ok(2,1)] by metis
  with run show ?thesis unfolding decision_caller_sel(1) option.inject by blast
qed

text \<open>
  C20: A decision newly issued is accepted by the consumer that reads the bundle the same service
  publishes, until it expires, when the signing key is managed, is not withdrawn, is not also
  listed as retained and had begun when the decision was issued.
\<close>

theorem a_fresh_decision_is_accepted:
  assumes "issue show_time svc d req key caller trace asked w = (Inr dec, w')" "ledger_rows w key = None"
    and "signer_ok verify (ds_signer svc)" "signer_key_id (ds_signer svc) \<notin> rk_key_id ` set (ds_retained svc)"
    and "\<not> startswith (signer_key_id (ds_signer svc)) ''ephemeral-local''"
    and "ds_not_before svc = Some t" "t \<le> ld_issued_at dec" "now < ld_issued_at dec + ds_ttl svc"
  shows "refuse_against_bundle show_time verify dec (verification_keys svc) now = Inr None"
proof -
  obtain tenant m where
    fresh: "freshly_issued show_time svc d req key (request_fingerprint d req tenant) caller tenant trace asked w m dec w'"
    and live: "signer_key_id (ds_signer svc) \<notin> set (ds_revoked svc)"
    using issue_returns [OF assms(1)] assms(2) by metis
  show ?thesis by (rule fresh_is_accepted [OF fresh assms(3,4) live assms(5-8)])
qed

theorem a_fresh_decision_is_accepted_witness:
  "\<exists>dec w'. issue print_int sample_decisions ''doc_a'' sample_request ''key-1'' (decision_caller ''tenant-1'') ''t-9'' (Some 5) proof_world
       = (Inr dec, w')
     \<and> refuse_against_bundle print_int sample_verify dec (verification_keys sample_decisions) (ld_issued_at dec) = Inr None"
proof -
  let ?svc = sample_decisions
  obtain dec w' where run: "issue print_int ?svc ''doc_a'' sample_request ''key-1'' (decision_caller ''tenant-1'') ''t-9'' (Some 5)
      proof_world = (Inr dec, w')" using sample_issue by blast
  have none: "ledger_rows proof_world ''key-1'' = None" by (simp add: reliable_database_def dict_get_def)
  then obtain tenant m where "freshly_issued print_int ?svc ''doc_a'' sample_request ''key-1''
      (request_fingerprint ''doc_a'' sample_request tenant) (decision_caller ''tenant-1'') tenant ''t-9'' (Some 5) proof_world m dec w'"
    using issue_returns [OF run] by metis
  then have issued: "ld_issued_at dec = 5" by (auto simp: freshly_issued_def decision_for_def)
  have s: "signer_ok sample_verify (ds_signer ?svc)" "signer_key_id (ds_signer ?svc) \<notin> rk_key_id ` set (ds_retained ?svc)"
    "\<not> startswith (signer_key_id (ds_signer ?svc)) ''ephemeral-local''" "ds_not_before ?svc = Some 0"
    "0 \<le> ld_issued_at dec" "ld_issued_at dec < ld_issued_at dec + ds_ttl ?svc"
    using sample_signer_ok issued by (simp_all add: startswith_def)
  from a_fresh_decision_is_accepted [OF run none s] run show ?thesis by blast
qed

text \<open>
  C21: An idempotency key names one decision: whatever calls the archive and the decision service
  answer in between, a later issue under the same key that returns, by anyone and for anything,
  returns the decision first issued.
\<close>

theorem one_key_one_decision_forever:
  assumes "issue show_time svc d req key caller trace asked w = (Inr dec, w1)"
    and "w2 = run_platform show_time svc cs w1"
    and "issue show_time svc d' req' key caller' trace' at' w2 = (Inr dec', w3)"
  shows "dec' = dec"
  using one_key_one_decision [OF assms(1) _ assms(3)] ledger_history [of w1 show_time svc cs] assms(2) by blast

theorem one_key_one_decision_forever_witness:
  "\<exists>dec w1 w3. issue print_int sample_decisions ''doc_a'' sample_request ''key-1'' (decision_caller ''tenant-1'') ''t-9'' (Some 5) proof_world
       = (Inr dec, w1)
     \<and> issue print_int sample_decisions ''doc_a'' sample_request ''key-1'' (decision_caller ''tenant-1'') ''t-10'' None
         (run_platform print_int sample_decisions [] w1) = (Inr dec, w3)"
proof -
  obtain dec w1 dec' w3 where first: "issue print_int sample_decisions ''doc_a'' sample_request ''key-1'' (decision_caller ''tenant-1'') ''t-9''
      (Some 5) proof_world = (Inr dec, w1)"
    and again: "issue print_int sample_decisions ''doc_a'' sample_request ''key-1'' (decision_caller ''tenant-1'') ''t-10'' None
      (run_platform print_int sample_decisions [] w1) = (Inr dec', w3)"
    using sample_replay unfolding run_platform.simps(1) by blast
  from one_key_one_decision_forever [OF first refl again] first again show ?thesis by blast
qed

text \<open>
  C22: Whatever the platform answers, every ledger row it wrote carries a payload digest and a
  signature made by its signer over that very decision, the identifier derived from the row's
  key and fingerprint, and a region code a consumer accepts.
\<close>

theorem the_ledger_is_genuine:
  assumes "pg_tables (dw_ledger w) = []"
  shows "ledger_genuine show_time (ds_signer svc) (dw_ledger (run_platform show_time svc cs w))"
  by (rule ledger_stays_genuine) (simp add: assms ledger_genuine_def dict_get_def)

theorem the_ledger_is_genuine_witness:
  "ledger_genuine print_int sample_signer (dw_ledger (run_platform print_int sample_decisions
     [Issue ''doc_a'' sample_request ''key-1'' (decision_caller ''tenant-1'') ''t-9'' (Some 5)] proof_world))"
proof -
  have "pg_tables (dw_ledger proof_world) = []" by (simp add: reliable_database_def)
  from the_ledger_is_genuine [OF this, of print_int sample_decisions] show ?thesis unfolding sample_parts(2) .
qed

text \<open>
  C23: The payload digest identifies the decision: two decisions that verification accepts and
  that carry one digest are the same in every signed field, or exhibit two byte strings with the
  same SHA-256.
\<close>

theorem a_digest_identifies_its_decision:
  assumes "verify_lifecycle_decision show_time verify d keys now" "verify_lifecycle_decision show_time verify d' keys' now'"
    and "ld_payload_digest d = ld_payload_digest d'" "inj show_time"
  shows "decision_body.truncate d = decision_body.truncate d' \<or> (\<exists>x y. x \<noteq> y \<and> sha256_hexdigest x = sha256_hexdigest y)"
  using assms by (rule one_digest_one_decision)

theorem a_digest_identifies_its_decision_witness:
  "\<exists>keys now. verify_lifecycle_decision print_int sample_verify withdrawn_decision keys now
     \<and> (decision_body.truncate withdrawn_decision = decision_body.truncate withdrawn_decision
        \<or> (\<exists>x y. x \<noteq> y \<and> sha256_hexdigest x = sha256_hexdigest y))"
  using a_digest_identifies_its_decision [OF withdrawn_verifies withdrawn_verifies refl inj_print_int] withdrawn_verifies
  by blast

text \<open>
  C24: A key published as revoked verifies nothing: a decision that names it is refused at every
  instant, inside the key's window or outside it, whatever its signature.
\<close>

theorem a_revoked_key_verifies_nothing:
  assumes "key \<in> set bundle" "vk_key_id key = ld_signing_key_id d" "vk_status key = KEY_STATUS_REVOKED"
  shows "refuse_against_bundle show_time verify d bundle now \<in> {Inr (Some KEY_REVOKED), Inr (Some KEY_ID_NOT_UNIQUE)}"
  using assms by (rule refused_revoked)

theorem a_revoked_key_verifies_nothing_witness:
  "refuse_against_bundle print_int sample_verify withdrawn_decision (verification_keys sample_decisions) (-4)
     \<in> {Inr (Some KEY_REVOKED), Inr (Some KEY_ID_NOT_UNIQUE)}"
  by (rule a_revoked_key_verifies_nothing [where key = "retained_entry sample_decisions sample_retained"])
    (simp_all add: verification_keys_def retained_entry_def status_for_def sample_decisions_def sample_retained_def withdrawn_key)

text \<open>
  C25: A replay does not look at the key that signed the row: a stored decision signed by a
  retained key that has been revoked since is returned to the caller, while the bundle the same
  service publishes makes a consumer refuse it.
\<close>

theorem a_replay_ignores_revocation:
  assumes "ledger_rows w key = Some (request_fingerprint d req tenant, dec)" "pg_faults (dw_ledger w) = []"
    and "caller_tenant_id caller = Some tenant"
    and "caller_service caller \<in> set (allowed_callers_for (svc_policy (ds_archive svc)) READ_IDEA_LIFECYCLE_DECISION)"
    and "signer_key_id (ds_signer svc) \<notin> set (ds_revoked svc)"
    and "k \<in> set (ds_retained svc)" "rk_key_id k = ld_signing_key_id dec" "ld_signing_key_id dec \<in> set (ds_revoked svc)"
  shows "fst (issue show_time svc d req key caller trace asked w) = Inr dec
    \<and> refuse_against_bundle show_time verify dec (verification_keys svc) now \<in> {Inr (Some KEY_REVOKED), Inr (Some KEY_ID_NOT_UNIQUE)}"
  using assms by (rule replay_ignores_revocation)

theorem a_replay_ignores_revocation_witness:
  "fst (issue print_int sample_decisions ''doc_a'' sample_request ''key-1'' (decision_caller ''tenant-1'') ''t-11'' None withdrawn_world)
     = Inr withdrawn_decision"
proof -
  have "ledger_rows withdrawn_world ''key-1'' = Some (request_fingerprint ''doc_a'' sample_request ''tenant-1'', withdrawn_decision)"
    "pg_faults (dw_ledger withdrawn_world) = []" "caller_tenant_id (decision_caller ''tenant-1'') = Some ''tenant-1''"
    "caller_service (decision_caller ''tenant-1'') \<in> set (allowed_callers_for (svc_policy (ds_archive sample_decisions)) READ_IDEA_LIFECYCLE_DECISION)"
    "signer_key_id (ds_signer sample_decisions) \<notin> set (ds_revoked sample_decisions)"
    "sample_retained \<in> set (ds_retained sample_decisions)" "rk_key_id sample_retained = ld_signing_key_id withdrawn_decision"
    "ld_signing_key_id withdrawn_decision \<in> set (ds_revoked sample_decisions)"
    using sample_authorized
    by (simp_all add: withdrawn_world_def reliable_database_def dict_get_def withdrawn_key sample_retained_def)
      (simp add: sample_decisions_def sample_retained_def)
  from a_replay_ignores_revocation [OF this, of print_int "''t-11''" None] show ?thesis by blast
qed


section \<open>Composite report identities\<close>

text \<open>
  C27: An accepted composite selection tiles its report period: every date of the period lies in
  exactly one of its windows.
\<close>

theorem composite_windows_tile:
  assumes "accepted (validate_selection s)" "windows_valid (sel_windows s)" "valid_date x"
    and "sel_period_start s \<le> x" "x \<le> sel_period_end s"
  shows "\<exists>!i. i < length (sel_windows s) \<and> covers (sel_windows s ! i) x"
proof -
  note ok = accepted_selection [OF assms(1)]
  have "win_period_start (hd (sel_windows s)) \<le> x" "x \<le> win_period_end (last (sel_windows s))"
    unfolding ok(5,6) by (fact assms)+
  from contiguous_covers [OF ok(1,2) assms(2,3) this]
  obtain w where "w \<in> set (sel_windows s)" "covers w x" by blast
  then obtain i where "i < length (sel_windows s)" "covers (sel_windows s ! i) x" unfolding in_set_conv_nth by blast
  moreover from this have "j = i" if "j < length (sel_windows s)" "covers (sel_windows s ! j) x" for j
    using chronological_unique [OF selection_chronological [OF assms(1)] that(1) _ that(2)] by blast
  ultimately show ?thesis by blast
qed

theorem composite_windows_tile_witness:
  "\<exists>!i. i < length (sel_windows (months_selection 1 12)) \<and> covers (sel_windows (months_selection 1 12) ! i) (Date 2026 2 28)"
proof (rule composite_windows_tile)
  show "accepted (validate_selection (months_selection 1 12))" by (simp add: sample_selection_ok [unfolded One_nat_def])
  show "windows_valid (sel_windows (months_selection 1 12))"
    by (simp add: windows_valid_def months_selection_def sample_months month_window_def days_in_month_def
        valid_date_def is_leap_year_def)
qed (simp_all add: valid_date_def is_leap_year_def days_in_month_def less_eq_date_def less_date_def)

text \<open>
  C28: Each source product of an accepted version-2 identity is cut from the review itself: its
  windows are an uninterrupted block of the review's.
\<close>

theorem products_are_blocks_of_the_review:
  assumes "accepted (validate_v2 i)" "p \<in> set (v2_source_products i)"
  shows "\<exists>us vs. sel_windows (v2_selection i) = us @ sel_windows (pin_selection (sp_pin p)) @ vs"
  using windows_within_block [OF selection_chronological [OF accepted_v2(2) [OF assms]]] unfolding accepted_v2(3) [OF assms] .

theorem products_are_blocks_of_the_review_witness:
  "\<exists>us vs. sel_windows (months_selection 1 12) = us @ sel_windows (months_selection 10 12) @ vs"
  using products_are_blocks_of_the_review [OF sample_v2_ok, of "v2_source_products sample_v2 ! 1"]
  by (simp add: sample_v2_def)

text \<open>
  C29: An accepted calendar product is its year, month by month: window i begins on the first and
  ends on the last day of month i + 1, February by the leap rule.
\<close>

theorem a_calendar_product_is_its_twelve_months:
  assumes "accepted (validate_pin (CalendarReturnPin key y s))" "i < 12"
  shows "win_period_start (sel_windows s ! i) = Date y (int i + 1) 1
    \<and> win_period_end (sel_windows s ! i) = Date y (int i + 1) (days_in_month y (int i + 1))"
proof -
  note c = accepted_calendar [OF assms(1)] and ok = accepted_selection [OF accepted_calendar(1) [OF assms(1)]]
  have "win_period_start (hd (sel_windows s)) = Date y 1 1" using ok(5) c(2) by simp
  from contiguous_months [OF ok(1) c(4) ok(2) this] c(3) assms(2) show ?thesis by (simp add: add.commute)
qed

theorem a_calendar_product_is_its_twelve_months_witness:
  "win_period_end (sel_windows (months_selection 1 12) ! 1) = Date 2026 2 28"
  using a_calendar_product_is_its_twelve_months [of "''calendar''" 2026 "months_selection 1 12" 1]
  unfolding accepted_Inr_unit sample_calendar_ok(1) by (simp add: days_in_month_def is_leap_year_def)

section \<open>Content, storage and composition\<close>

text \<open>
  C30: Validating ingest metadata is idempotent: what it returns, stripped and normalised, validates
  to itself.
\<close>

theorem validation_is_idempotent:
  assumes "validate_document_input raw = Inr v"
  shows "validate_document_input v = Inr v"
  using assms by (rule validate_document_input_idem)

theorem validation_is_idempotent_witness: "validate_document_input sample_input = Inr sample_input"
  by (rule validation_is_idempotent [OF sample_input_valid [unfolded input_valid_def]])

text \<open>
  C31: The content of an ingest, encoded in base64, is decoded to itself when it is within the
  configured bound.
\<close>

theorem base64_round_trip:
  assumes "\<forall>b \<in> set bs. b < 256" "length bs \<le> n"
  shows "decode_document_content (encode_bytes bs) n = Inr bs"
  using assms by (rule decode_encoded)

theorem base64_round_trip_witness: "decode_document_content (encode_bytes [97, 98, 99, 255]) 4 = Inr [97, 98, 99, 255]"
  by (rule base64_round_trip) simp_all

text \<open>
  C32: A workbook is admitted only when its package has at most 4096 parts with distinct names, at
  most 128 MiB expanded, and no part path that is absolute or climbs.
\<close>

theorem admitted_workbooks_are_bounded:
  assumes "validate_artifact_format rd ''xlsx'' XLSX_MIME c = Inr u"
  shows "\<exists>parts. open_zip rd c = Inr parts \<and> length parts \<le> 4096 \<and> distinct (map part_name parts)
    \<and> sum_list (map part_file_size parts) \<le> 128 * 1024 * 1024
    \<and> (\<forall>p \<in> set parts. \<not> startswith (part_name p) ''/'' \<and> ''..'' \<notin> set (py_split CHR ''/'' (part_name p)))"
  by (rule accepted_workbook_bounded [OF assms]) blast

theorem admitted_workbooks_are_bounded_witness:
  "\<exists>parts. open_zip sample_reader [80, 75] = Inr parts \<and> length parts \<le> 4096"
  using admitted_workbooks_are_bounded [OF sample_workbook] by blast

text \<open>
  C33: The source events of a document do not depend on the order in which the repository lists its
  relationships.
\<close>

theorem event_listing_order_is_immaterial:
  assumes "mset rs = mset rs'" "inj_on lifecycle_relationship_id (set rs)"
  shows "build_archive_document_source_events m c rs = build_archive_document_source_events m c rs'"
  using assms by (rule build_ignores_listing_order)

theorem event_listing_order_is_immaterial_witness:
  "build_archive_document_source_events sample_document ''doc_b'' [sample_relationship ''rel-2'', sample_relationship ''rel-1'']
   = build_archive_document_source_events sample_document ''doc_b'' [sample_relationship ''rel-1'', sample_relationship ''rel-2'']"
  by (rule event_listing_order_is_immaterial) (simp_all add: sample_relationship_def)

text \<open>
  C34: Both repositories refine the one contract the service is verified against: each method of the
  in-memory dictionaries and of the SQL tables does to the abstract archive what the contract
  says, and leaves it well formed.
\<close>

theorem the_repositories_refine_the_contract:
  "document_repository memory_ops mem_abs mem_wf \<and> document_repository postgres_ops pg_abs pg_wf"
  by (intro conjI mem.document_repository_axioms pg.document_repository_axioms)

text \<open>
  C35: Measuring an operation changes neither its result nor its error nor anything of the state but
  the metrics.
\<close>

theorem measuring_is_transparent:
  assumes "operation \<in> set IMPLEMENTED_ARCHIVE_OPERATIONS"
  shows "fst (archive_metric operation view f w) = fst (f w)
    \<and> unmeasured (snd (archive_metric operation view f w)) = unmeasured (snd (f w))"
  using archive_metric_transparent [OF assms] by blast

theorem measuring_is_transparent_witness:
  "fst (archive_metric ''metadata_lookup'' MetadataOut (ret sample_document) (sample_world (0 :: nat) (0 :: nat) (0 :: nat))) = Inr sample_document"
  using measuring_is_transparent [of "''metadata_lookup''" MetadataOut "ret sample_document" "sample_world (0 :: nat) (0 :: nat) (0 :: nat)"]
  by (simp add: IMPLEMENTED_ARCHIVE_OPERATIONS_def ret_def)

text \<open>
  C36: The checksum header of an S3 put decodes to the SHA-256 of the very body it accompanies.
\<close>

theorem the_put_header_carries_the_digest:
  assumes "calculate_checksum content algorithm = Inr actual"
  shows "b64decode (req_checksum_sha256 (put_request cfg k content actual algorithm)) = Some (sha256_digest content)"
  using assms by (rule put_request_digest)

theorem the_put_header_carries_the_digest_witness:
  "b64decode (req_checksum_sha256 (put_request sample_s3 ''k'' [97, 98, 99] abc_digest ''sha256'')) = Some (sha256_digest [97, 98, 99])"
  by (rule the_put_header_carries_the_digest) (simp add: calculate_checksum_def ascii_lower_def SUPPORTED_CHECKSUM_ALGORITHM_def)

text \<open>
  C37: Two documents never share a file: neither their objects nor the temporary files these are
  written through coincide, whatever their metadata.
\<close>

theorem documents_never_share_a_file:
  assumes "proper_token d" "proper_token d'" "d \<noteq> d'"
    and "fs_addr (storage_key_for m d) = Some p" "fs_addr (storage_key_for m' d') = Some q"
  shows "p \<noteq> q \<and> p \<noteq> temporary_path q \<and> temporary_path p \<noteq> temporary_path q"
  using fs_owner_key [OF assms(1,4)] fs_owner_key [OF assms(2,5)] assms(3) by metis

theorem documents_never_share_a_file_witness:
  "\<exists>p q. fs_addr (storage_key_for sample_input ''doc_a'') = Some p \<and> fs_addr (storage_key_for sample_input ''doc_b'') = Some q \<and> p \<noteq> q"
proof -
  have p: "fs_addr (storage_key_for sample_input ''doc_a'') = Some [''sg'', ''tenant-1'', ''portfolio_review'', ''doc_a.pdf'']"
    and q: "fs_addr (storage_key_for sample_input ''doc_b'') = Some [''sg'', ''tenant-1'', ''portfolio_review'', ''doc_b.pdf'']"
    by code_simp+
  have "proper_token ''doc_a''" "proper_token ''doc_b''" by (simp_all add: proper_token_def is_space_def)
  from documents_never_share_a_file [OF this _ p q] p q show ?thesis by simp
qed

section \<open>Runtime\<close>

text \<open>
  C38: Settings accepted outside local development report a durable ready posture and compose nothing
  but PostgreSQL with S3.
\<close>

theorem accepted_settings_are_durable:
  assumes "validate_settings P s = Inr u" "\<not> local_profile s"
  shows "posture_state (runtime_posture s) = ''ready''
    \<and> durable_metadata (runtime_posture s) \<and> durable_audit (runtime_posture s) \<and> durable_storage (runtime_posture s)
    \<and> (\<forall>svc. build_archive_service client rd s = Inr svc \<longrightarrow> (\<exists>svc'. svc = Postgres_s3 svc'))"
  using accepted_is_durable [OF assms] accepted_composition [OF assms, of client rd] by simp

theorem accepted_settings_are_durable_witness:
  "posture_state (runtime_posture sample_settings) = ''ready''"
  using accepted_settings_are_durable [OF sample_settings_ok, of bucket_client no_workbooks] by (simp add: sample_settings_fields)

text \<open>
  C39: The key bundle published under accepted settings has no identifier twice, shows every withdrawn
  key as revoked, gives each retained key a window that ends after it begins, and outside local
  development publishes every key as managed.
\<close>

theorem the_published_bundle_is_sound:
  assumes "validate_lifecycle_decision_keys P s = Inr u"
    and "retained_verification_keys P s = Inr (map raw_of_retained retained)" "revoked_key_ids P s = Inr revoked"
    and "keys = verification_keys (idea_lifecycle_decision_service key_pair retained revoked s svc)"
  shows "distinct (map vk_key_id keys)
    \<and> (\<forall>r \<in> set revoked. \<exists>k \<in> set keys. vk_key_id k = r \<and> vk_status k = KEY_STATUS_REVOKED)
    \<and> (\<forall>k \<in> set retained. rk_not_before k < rk_not_after k)
    \<and> (local_profile s \<or> (\<forall>k \<in> set keys. vk_provenance k = ''managed''))"
  using accepted_bundle [OF assms] by blast

theorem the_published_bundle_is_sound_witness:
  "\<exists>k \<in> set (verification_keys (idea_lifecycle_decision_service sample_key_pair [sample_retained] [''archive-v1''] sample_settings sample_service)).
     vk_key_id k = ''archive-v1'' \<and> vk_status k = KEY_STATUS_REVOKED"
  using the_published_bundle_is_sound [OF sample_keys_ok sample_lists refl, of sample_key_pair sample_service] by simp



end
